(* ===== verification/Prelude.thy ===== *)
theory Prelude
  imports Main "HOL-Library.Finite_Map" "HOL-Library.List_Lexorder" "HOL-Library.Char_ord"
begin

text \<open>
  What every component of the operator shares: Go's string maps, Go's errors, and the shape of a Go
  function that may change state, return an error, or not return at all.

  A function of type \<open>('s, 'a) go\<close> takes the state and gives \<open>None\<close> when it does not return, and
  otherwise the new state with either \<open>Inl e\<close> (the function returned the error \<open>e\<close>) or \<open>Inr x\<close>
  (it returned \<open>x\<close> and a nil error). Values that Go returns next to a non-nil error are not kept: no
  caller under src/ reads them.
\<close>

section \<open>String maps and errors\<close>

text \<open>Go's \<open>map[string]string\<close> and \<open>map[string][]byte\<close>; a nil map and an empty one read alike.\<close>

type_synonym smap = "(string, string) fmap"

text \<open>
  Errors are told apart only by \<open>errors.IsNotFound\<close>; everything else the program does with one
  is to read its text.
\<close>

datatype err = NotFound string | OtherErr string | Errorf string

fun err_text :: "err \<Rightarrow> string" where
  "err_text (NotFound m) = m"
| "err_text (OtherErr m) = m"
| "err_text (Errorf m) = m"

fun IsNotFound :: "err \<Rightarrow> bool" where
  "IsNotFound (NotFound m) = True"
| "IsNotFound (OtherErr m) = False"
| "IsNotFound (Errorf m) = False"

text \<open>\<open>fmt.Errorf("...: %w", err)\<close>: the wrapped error keeps its class, as \<open>errors.As\<close> sees through it.\<close>

fun wrapErr :: "string \<Rightarrow> err \<Rightarrow> err" where
  "wrapErr p (NotFound m) = NotFound (p @ m)"
| "wrapErr p (OtherErr m) = OtherErr (p @ m)"
| "wrapErr p (Errorf m) = Errorf (p @ m)"

lemma wrapErr_text [simp]: "err_text (wrapErr p e) = p @ err_text e"
  by (cases e) simp_all

lemma wrapErr_class [simp]: "IsNotFound (wrapErr p e) = IsNotFound e"
  by (cases e) simp_all

section \<open>Go functions with state and errors\<close>

type_synonym ('s, 'a) go = "'s \<Rightarrow> ((err + 'a) \<times> 's) option"

definition ret :: "'a \<Rightarrow> ('s, 'a) go" where
  "ret x = (\<lambda>s. Some (Inr x, s))"

definition fail :: "err \<Rightarrow> ('s, 'a) go" where
  "fail e = (\<lambda>s. Some (Inl e, s))"

definition pureE :: "err + 'a \<Rightarrow> ('s, 'a) go" where
  "pureE r = (\<lambda>s. Some (r, s))"

text \<open>\<open>bindE m f\<close>: \<open>x, err := m; if err != nil { return err }; f x\<close>.\<close>

definition bindE :: "('s, 'a) go \<Rightarrow> ('a \<Rightarrow> ('s, 'b) go) \<Rightarrow> ('s, 'b) go" where
  "bindE m f = (\<lambda>s. case m s of
      None \<Rightarrow> None
    | Some (Inl e, s') \<Rightarrow> Some (Inl e, s')
    | Some (Inr x, s') \<Rightarrow> f x s')"

text \<open>\<open>handleE m f\<close>: \<open>x, err := m\<close> with the error itself inspected by what follows.\<close>

definition handleE :: "('s, 'a) go \<Rightarrow> (err + 'a \<Rightarrow> ('s, 'b) go) \<Rightarrow> ('s, 'b) go" where
  "handleE m f = (\<lambda>s. case m s of None \<Rightarrow> None | Some (r, s') \<Rightarrow> f r s')"

text \<open>A conditional effect, and the loop \<open>for _, x := range xs\<close> whose body may return an error.\<close>

definition whenE :: "bool \<Rightarrow> ('s, unit) go \<Rightarrow> ('s, unit) go" where
  "whenE b m = (if b then m else ret ())"

fun forE :: "'a list \<Rightarrow> ('a \<Rightarrow> ('s, unit) go) \<Rightarrow> ('s, unit) go" where
  "forE [] f = ret ()"
| "forE (x # xs) f = bindE (f x) (\<lambda>_. forE xs f)"

text \<open>A function of the left half of the state, run on the whole state.\<close>

definition liftL :: "('w, 'a) go \<Rightarrow> ('w \<times> 't, 'a) go" where
  "liftL m = (\<lambda>(w, t). case m w of None \<Rightarrow> None | Some (r, w') \<Rightarrow> Some (r, (w', t)))"

definition getsR :: "('t \<Rightarrow> 'a) \<Rightarrow> ('w \<times> 't, 'a) go" where
  "getsR f = (\<lambda>(w, t). Some (Inr (f t), (w, t)))"

definition modifyR :: "('t \<Rightarrow> 't) \<Rightarrow> ('w \<times> 't, unit) go" where
  "modifyR f = (\<lambda>(w, t). Some (Inr (), (w, f t)))"

named_theorems run_simps
  \<open>how the combinators run from a given state\<close>

lemma ret_run [run_simps]: "ret x s = Some (Inr x, s)"
  by (simp add: ret_def)

lemma fail_run [run_simps]: "fail e s = Some (Inl e, s)"
  by (simp add: fail_def)

lemma pureE_run [run_simps]: "pureE r s = Some (r, s)"
  by (simp add: pureE_def)

lemma bindE_run [run_simps]:
  "bindE m f s = (case m s of None \<Rightarrow> None
    | Some (r, s') \<Rightarrow> (case r of Inl e \<Rightarrow> Some (Inl e, s') | Inr x \<Rightarrow> f x s'))"
  by (auto simp: bindE_def split: option.splits sum.splits)

lemma handleE_run [run_simps]:
  "handleE m f s = (case m s of None \<Rightarrow> None | Some (r, s') \<Rightarrow> f r s')"
  by (simp add: handleE_def)

lemma liftL_run [run_simps]:
  "liftL m (w, t) = (case m w of None \<Rightarrow> None | Some (r, w') \<Rightarrow> Some (r, (w', t)))"
  by (simp add: liftL_def)

lemma getsR_run [run_simps]: "getsR f (w, t) = Some (Inr (f t), (w, t))"
  by (simp add: getsR_def)

lemma modifyR_run [run_simps]: "modifyR f (w, t) = Some (Inr (), (w, f t))"
  by (simp add: modifyR_def)

lemma whenE_run [run_simps]: "whenE b m s = (if b then m s else Some (Inr (), s))"
  by (simp add: whenE_def ret_def)

lemma bindE_ret [simp]: "bindE (ret x) f = f x"
  by (simp add: bindE_def ret_def)

lemma bindE_fail [simp]: "bindE (fail e) f = fail e"
  by (simp add: bindE_def fail_def)

lemma bindE_assoc: "bindE (bindE m f) g = bindE m (\<lambda>x. bindE (f x) g)"
  by (rule ext) (simp add: bindE_run split: option.splits sum.splits)

section \<open>Partial correctness with two postconditions\<close>

text \<open>
  \<open>hoare P m Q E\<close>: from a state with \<open>P\<close>, if \<open>m\<close> returns a value then \<open>Q\<close> holds of it and the
  new state, and if it returns an error then \<open>E\<close> does.
\<close>

definition hoare ::
  "('s \<Rightarrow> bool) \<Rightarrow> ('s, 'a) go \<Rightarrow> ('a \<Rightarrow> 's \<Rightarrow> bool) \<Rightarrow> (err \<Rightarrow> 's \<Rightarrow> bool) \<Rightarrow> bool" where
  "hoare P m Q E \<longleftrightarrow> (\<forall>s r s'. P s \<longrightarrow> m s = Some (r, s') \<longrightarrow>
     (case r of Inl e \<Rightarrow> E e s' | Inr x \<Rightarrow> Q x s'))"

named_theorems hoare_intro
  \<open>introduction rules of the two-postcondition triples\<close>

lemma hoareI:
  assumes "\<And>s x s'. P s \<Longrightarrow> m s = Some (Inr x, s') \<Longrightarrow> Q x s'"
    and "\<And>s e s'. P s \<Longrightarrow> m s = Some (Inl e, s') \<Longrightarrow> E e s'"
  shows "hoare P m Q E"
  using assms unfolding hoare_def by (auto split: sum.splits)

lemma hoareD_ok: "hoare P m Q E \<Longrightarrow> P s \<Longrightarrow> m s = Some (Inr x, s') \<Longrightarrow> Q x s'"
  unfolding hoare_def by fastforce

lemma hoareD_err: "hoare P m Q E \<Longrightarrow> P s \<Longrightarrow> m s = Some (Inl e, s') \<Longrightarrow> E e s'"
  unfolding hoare_def by fastforce

lemma hoare_weaken:
  assumes "hoare P' m Q' E'"
    and "\<And>s. P s \<Longrightarrow> P' s" and "\<And>x s. Q' x s \<Longrightarrow> Q x s" and "\<And>e s. E' e s \<Longrightarrow> E e s"
  shows "hoare P m Q E"
  using assms unfolding hoare_def by (fastforce split: sum.splits)

lemma hoare_ret [hoare_intro]: "(\<And>s. P s \<Longrightarrow> Q x s) \<Longrightarrow> hoare P (ret x) Q E"
  by (simp add: hoare_def ret_def)

lemma hoare_fail [hoare_intro]: "(\<And>s. P s \<Longrightarrow> E e s) \<Longrightarrow> hoare P (fail e) Q E"
  by (simp add: hoare_def fail_def)

lemma hoare_bindE:
  assumes "hoare P m R E" and "\<And>x. hoare (R x) (f x) Q E"
  shows "hoare P (bindE m f) Q E"
proof (rule hoareI)
  fix s y s' assume P: "P s" and run: "bindE m f s = Some (Inr y, s')"
  then obtain x t where "m s = Some (Inr x, t)" and "f x t = Some (Inr y, s')"
    by (auto simp: bindE_run split: option.splits sum.splits)
  with assms P show "Q y s'" by (blast dest: hoareD_ok)
next
  fix s e s' assume P: "P s" and run: "bindE m f s = Some (Inl e, s')"
  then consider "m s = Some (Inl e, s')"
    | x t where "m s = Some (Inr x, t)" and "f x t = Some (Inl e, s')"
    by (auto simp: bindE_run split: option.splits sum.splits)
  then show "E e s'"
    by cases (use assms P in \<open>blast dest: hoareD_ok hoareD_err\<close>)+
qed

lemma hoare_handleE:
  assumes "hoare P m (\<lambda>x. R (Inr x)) (\<lambda>e. R (Inl e))" and "\<And>r. hoare (R r) (f r) Q E"
  shows "hoare P (handleE m f) Q E"
proof (rule hoareI)
  fix s y s' assume P: "P s" and run: "handleE m f s = Some (Inr y, s')"
  then obtain r t where mr: "m s = Some (r, t)" and fr: "f r t = Some (Inr y, s')"
    by (auto simp: handleE_run split: option.splits)
  have "R r t" using assms(1) P mr by (cases r) (auto dest: hoareD_ok hoareD_err)
  with assms(2) fr show "Q y s'" by (blast dest: hoareD_ok)
next
  fix s e s' assume P: "P s" and run: "handleE m f s = Some (Inl e, s')"
  then obtain r t where mr: "m s = Some (r, t)" and fr: "f r t = Some (Inl e, s')"
    by (auto simp: handleE_run split: option.splits)
  have "R r t" using assms(1) P mr by (cases r) (auto dest: hoareD_ok hoareD_err)
  with assms(2) fr show "E e s'" by (blast dest: hoareD_err)
qed

lemma hoare_if:
  assumes "b \<Longrightarrow> hoare P m Q E" and "\<not> b \<Longrightarrow> hoare P n Q E"
  shows "hoare P (if b then m else n) Q E"
  using assms by simp

lemma hoare_pre_conj:
  assumes "b \<Longrightarrow> hoare P m Q E"
  shows "hoare (\<lambda>s. b \<and> P s) m Q E"
  using assms unfolding hoare_def by blast

section \<open>State invariants\<close>

text \<open>\<open>keeps I m\<close>: however \<open>m\<close> returns, with a value or an error, it leaves \<open>I\<close> true.\<close>

definition keeps :: "('s \<Rightarrow> bool) \<Rightarrow> ('s, 'a) go \<Rightarrow> bool" where
  "keeps I m \<longleftrightarrow> (\<forall>s r s'. I s \<longrightarrow> m s = Some (r, s') \<longrightarrow> I s')"

named_theorems keeps_intro
  \<open>compositional rules for \<^const>\<open>keeps\<close>\<close>

lemma keepsD: "keeps I m \<Longrightarrow> m s = Some (r, s') \<Longrightarrow> I s \<Longrightarrow> I s'"
  unfolding keeps_def by blast

lemma keepsI: "(\<And>s r s'. I s \<Longrightarrow> m s = Some (r, s') \<Longrightarrow> I s') \<Longrightarrow> keeps I m"
  unfolding keeps_def by blast

lemma keeps_ret [keeps_intro]: "keeps I (ret x)"
  by (simp add: keeps_def ret_def)

lemma keeps_fail [keeps_intro]: "keeps I (fail e)"
  by (simp add: keeps_def fail_def)

lemma keeps_pureE [keeps_intro]: "keeps I (pureE r)"
  by (simp add: keeps_def pureE_def)

lemma keeps_bindE [keeps_intro]: "keeps I m \<Longrightarrow> (\<And>x. keeps I (f x)) \<Longrightarrow> keeps I (bindE m f)"
proof (rule keepsI)
  fix s r s'
  assume m: "keeps I m" and f: "\<And>x. keeps I (f x)" and "I s" and run: "bindE m f s = Some (r, s')"
  from run obtain q t where q: "m s = Some (q, t)"
    and r: "(case q of Inl e \<Rightarrow> Some (Inl e, t) | Inr x \<Rightarrow> f x t) = Some (r, s')"
    by (auto simp: bindE_run split: option.splits)
  have "I t" using m q \<open>I s\<close> by (rule keepsD)
  then show "I s'" using r keepsD [OF f] by (cases q) auto
qed

lemma keeps_handleE [keeps_intro]:
  "keeps I m \<Longrightarrow> (\<And>r. keeps I (f r)) \<Longrightarrow> keeps I (handleE m f)"
proof (rule keepsI)
  fix s r s'
  assume m: "keeps I m" and f: "\<And>q. keeps I (f q)" and "I s" and run: "handleE m f s = Some (r, s')"
  from run obtain q t where q: "m s = Some (q, t)" and r: "f q t = Some (r, s')"
    by (auto simp: handleE_run split: option.splits)
  have "I t" using m q \<open>I s\<close> by (rule keepsD)
  with f r show "I s'" by (rule keepsD)
qed

lemma keeps_whenE [keeps_intro]: "(b \<Longrightarrow> keeps I m) \<Longrightarrow> keeps I (whenE b m)"
  unfolding whenE_def by (simp add: keeps_ret)

lemma keeps_if [keeps_intro]:
  "(b \<Longrightarrow> keeps I m) \<Longrightarrow> (\<not> b \<Longrightarrow> keeps I n) \<Longrightarrow> keeps I (if b then m else n)"
  by simp

lemma keeps_option_case [keeps_intro]:
  "(x = None \<Longrightarrow> keeps I m) \<Longrightarrow> (\<And>y. x = Some y \<Longrightarrow> keeps I (f y))
    \<Longrightarrow> keeps I (case x of None \<Rightarrow> m | Some y \<Rightarrow> f y)"
  by (cases x) simp_all

lemma keeps_sum_case [keeps_intro]:
  "(\<And>e. x = Inl e \<Longrightarrow> keeps I (f e)) \<Longrightarrow> (\<And>y. x = Inr y \<Longrightarrow> keeps I (g y))
    \<Longrightarrow> keeps I (case x of Inl e \<Rightarrow> f e | Inr y \<Rightarrow> g y)"
  by (cases x) simp_all

lemma keeps_prod_case [keeps_intro]:
  "(\<And>a b. x = (a, b) \<Longrightarrow> keeps I (f a b)) \<Longrightarrow> keeps I (case x of (a, b) \<Rightarrow> f a b)"
  by (cases x) simp

lemma keeps_Let [keeps_intro]: "(\<And>y. y = x \<Longrightarrow> keeps I (f y)) \<Longrightarrow> keeps I (Let x f)"
  by simp

lemma keeps_forE [keeps_intro]: "(\<And>x. keeps I (f x)) \<Longrightarrow> keeps I (forE xs f)"
  by (induction xs) (auto intro: keeps_ret keeps_bindE)

lemma keeps_liftL: "keeps I m \<Longrightarrow> keeps (\<lambda>s. I (fst s)) (liftL m)"
  unfolding keeps_def liftL_def by (fastforce split: option.splits)

lemma keeps_liftL_right [keeps_intro]: "keeps (\<lambda>s. J (snd s)) (liftL m)"
  unfolding keeps_def liftL_def by (fastforce split: option.splits)

lemma keeps_getsR [keeps_intro]: "keeps I (getsR f)"
  unfolding keeps_def getsR_def by auto

lemma keeps_modifyR:
  "(\<And>w t. I (w, t) \<Longrightarrow> I (w, f t)) \<Longrightarrow> keeps I (modifyR f)"
  unfolding keeps_def modifyR_def by auto

section \<open>Returning at all\<close>

text \<open>\<open>returns m\<close>: \<open>m\<close> comes back from every state, with a value or with an error.\<close>

definition returns :: "('s, 'a) go \<Rightarrow> bool" where
  "returns m \<longleftrightarrow> (\<forall>s. m s \<noteq> None)"

named_theorems returns_intro
  \<open>compositional rules for \<^const>\<open>returns\<close>\<close>

lemma returns_ret [returns_intro]: "returns (ret x)"
  by (simp add: returns_def ret_def)

lemma returns_fail [returns_intro]: "returns (fail e)"
  by (simp add: returns_def fail_def)

lemma returns_pureE [returns_intro]: "returns (pureE r)"
  by (simp add: returns_def pureE_def)

lemma returns_bindE [returns_intro]: "returns m \<Longrightarrow> (\<And>x. returns (f x)) \<Longrightarrow> returns (bindE m f)"
  unfolding returns_def bindE_def by (auto split: option.splits sum.splits)

lemma returns_handleE [returns_intro]:
  "returns m \<Longrightarrow> (\<And>r. returns (f r)) \<Longrightarrow> returns (handleE m f)"
  unfolding returns_def handleE_def by (auto split: option.splits)

lemma returns_whenE [returns_intro]: "(b \<Longrightarrow> returns m) \<Longrightarrow> returns (whenE b m)"
  unfolding whenE_def by (simp add: returns_ret)

lemma returns_if [returns_intro]:
  "(b \<Longrightarrow> returns m) \<Longrightarrow> (\<not> b \<Longrightarrow> returns n) \<Longrightarrow> returns (if b then m else n)"
  by simp

lemma returns_option_case [returns_intro]:
  "(x = None \<Longrightarrow> returns m) \<Longrightarrow> (\<And>y. x = Some y \<Longrightarrow> returns (f y))
    \<Longrightarrow> returns (case x of None \<Rightarrow> m | Some y \<Rightarrow> f y)"
  by (cases x) simp_all

lemma returns_sum_case [returns_intro]:
  "(\<And>e. x = Inl e \<Longrightarrow> returns (f e)) \<Longrightarrow> (\<And>y. x = Inr y \<Longrightarrow> returns (g y))
    \<Longrightarrow> returns (case x of Inl e \<Rightarrow> f e | Inr y \<Rightarrow> g y)"
  by (cases x) simp_all

lemma returns_prod_case [returns_intro]:
  "(\<And>a b. x = (a, b) \<Longrightarrow> returns (f a b)) \<Longrightarrow> returns (case x of (a, b) \<Rightarrow> f a b)"
  by (cases x) simp

lemma returns_Let [returns_intro]: "(\<And>y. y = x \<Longrightarrow> returns (f y)) \<Longrightarrow> returns (Let x f)"
  by simp

lemma returns_forE [returns_intro]: "(\<And>x. returns (f x)) \<Longrightarrow> returns (forE xs f)"
  by (induction xs) (auto intro: returns_ret returns_bindE)

lemma returns_liftL [returns_intro]: "returns m \<Longrightarrow> returns (liftL m)"
  unfolding returns_def liftL_def by (auto split: option.splits)

lemma returns_getsR [returns_intro]: "returns (getsR f)"
  by (simp add: returns_def getsR_def split: prod.split)

lemma returns_modifyR [returns_intro]: "returns (modifyR f)"
  by (simp add: returns_def modifyR_def split: prod.split)

lemma hoare_keeps: "keeps I m \<Longrightarrow> hoare I m (\<lambda>_. I) (\<lambda>_. I)"
  by (rule hoareI) (auto dest: keepsD)

end
