(* ===== verification/GoStd.thy ===== *)
theory GoStd
  imports Prelude
begin

text \<open>
  The functions of Go's standard library that the operator calls on strings: \<open>strings\<close>,
  \<open>strconv\<close>, \<open>encoding/hex\<close>, \<open>encoding/base64\<close>, \<open>net/url\<close>, \<open>path\<close> and \<open>slices\<close>. A Go string
  is a sequence of bytes; here it is a \<^typ>\<open>char list\<close>, one \<^typ>\<open>char\<close> for each byte, and the order of
  strings is Go's bytewise order.
\<close>

named_theorems eval_simps
  \<open>equations that compute the standard-library functions on literals\<close>

section \<open>strings\<close>

definition TrimRight :: "string \<Rightarrow> char \<Rightarrow> string" where
  "TrimRight s c = rev (dropWhile (\<lambda>x. x = c) (rev s))"

abbreviation trimSlash :: "string \<Rightarrow> string" where
  "trimSlash s \<equiv> TrimRight s CHR ''/''"

fun hasPrefix :: "string \<Rightarrow> string \<Rightarrow> bool" where
  "hasPrefix s [] = True"
| "hasPrefix [] (p # ps) = False"
| "hasPrefix (c # s) (p # ps) = (c = p \<and> hasPrefix s ps)"

fun Contains :: "string \<Rightarrow> string \<Rightarrow> bool" where
  "Contains [] p = (p = [])"
| "Contains (c # s) p = (hasPrefix (c # s) p \<or> Contains s p)"

definition HasSuffix :: "string \<Rightarrow> string \<Rightarrow> bool" where
  "HasSuffix s p = hasPrefix (rev s) (rev p)"

text \<open>
  \<open>strings.ToLower\<close> on the ASCII letters. The program lower-cases a string only to search it for the
  word "already", and no rune outside ASCII has one of that word's letters as its lower case.
\<close>

definition lowerChar :: "char \<Rightarrow> char" where
  "lowerChar c = (if 65 \<le> (of_char c :: nat) \<and> (of_char c :: nat) \<le> 90
     then char_of ((of_char c :: nat) + 32) else c)"

definition ToLower :: "string \<Rightarrow> string" where
  "ToLower s = map lowerChar s"

fun intercalate :: "string \<Rightarrow> string list \<Rightarrow> string" where
  "intercalate sep [] = []"
| "intercalate sep [x] = x"
| "intercalate sep (x # y # xs) = x @ sep @ intercalate sep (y # xs)"

lemma TrimRight_Nil [simp]: "TrimRight [] c = []"
  by (simp add: TrimRight_def)

lemma TrimRight_snoc [eval_simps]:
  "TrimRight (s @ [x]) c = (if x = c then TrimRight s c else s @ [x])"
  by (simp add: TrimRight_def)

lemma TrimRight_no_trailing: "TrimRight s c = [] \<or> last (TrimRight s c) \<noteq> c"
  by (induction s rule: rev_induct) (auto simp: TrimRight_snoc)

lemma TrimRight_idem [simp]: "TrimRight (TrimRight s c) c = TrimRight s c"
  by (induction s rule: rev_induct) (auto simp: TrimRight_snoc)

lemma TrimRight_split: "\<exists>n. s = TrimRight s c @ replicate n c"
proof (induction s rule: rev_induct)
  case Nil
  show ?case by simp
next
  case (snoc x xs)
  then obtain n where n: "xs = TrimRight xs c @ replicate n c" by blast
  show ?case
  proof (cases "x = c")
    case True
    have "xs @ [x] = TrimRight xs c @ replicate (Suc n) c"
      using n True by (metis append.assoc replicate_Suc replicate_append_same)
    with True show ?thesis by (metis TrimRight_snoc)
  next
    case False
    then show ?thesis by (intro exI [of _ 0]) (simp add: TrimRight_snoc)
  qed
qed

lemma hasPrefix_iff: "hasPrefix s p \<longleftrightarrow> (\<exists>r. s = p @ r)"
  by (induction s p rule: hasPrefix.induct) auto

lemma hasPrefix_append [simp]: "hasPrefix (p @ r) p"
  by (auto simp: hasPrefix_iff)

lemma Contains_iff: "Contains s p \<longleftrightarrow> (\<exists>l r. s = l @ p @ r)"
proof (induction s)
  case Nil
  show ?case by auto
next
  case (Cons c s)
  have "(\<exists>l r. c # s = l @ p @ r) \<longleftrightarrow> (\<exists>r. c # s = p @ r) \<or> (\<exists>l r. s = l @ p @ r)"
    by (metis append_Cons append_Nil append_eq_Cons_conv)
  then show ?case using Cons by (simp add: hasPrefix_iff)
qed

section \<open>strconv and fmt\<close>

definition digitChar :: "nat \<Rightarrow> char" where
  "digitChar d = char_of (48 + d)"

fun natDec :: "nat \<Rightarrow> string" where
  "natDec n = (if n < 10 then [digitChar n] else natDec (n div 10) @ [digitChar (n mod 10)])"

declare natDec.simps [simp del]
declare natDec.simps [eval_simps]

lemma digitChar_eval [eval_simps]:
  "digitChar 0 = CHR ''0''" "digitChar (Suc 0) = CHR ''1''" "digitChar 1 = CHR ''1''"
  "digitChar 2 = CHR ''2''" "digitChar 3 = CHR ''3''" "digitChar 4 = CHR ''4''"
  "digitChar 5 = CHR ''5''" "digitChar 6 = CHR ''6''" "digitChar 7 = CHR ''7''"
  "digitChar 8 = CHR ''8''" "digitChar 9 = CHR ''9''"
  by (simp_all add: digitChar_def char_of_def bit_simps)

text \<open>The verb \<open>%d\<close> of \<open>fmt\<close>, and \<open>strconv.Itoa\<close>.\<close>

definition Itoa :: "int \<Rightarrow> string" where
  "Itoa i = (if i < 0 then ''-'' @ natDec (nat (- i)) else natDec (nat i))"

definition FormatBool :: "bool \<Rightarrow> string" where
  "FormatBool b = (if b then ''true'' else ''false'')"

lemma natDec_nonempty [simp]: "natDec n \<noteq> []"
  by (subst natDec.simps) simp

lemma natDec_chars: "c \<in> set (natDec n) \<Longrightarrow> \<exists>d < 10. c = digitChar d"
proof (induction n rule: natDec.induct)
  case (1 n)
  show ?case
  proof (cases "n < 10")
    case True
    then show ?thesis using 1 by (subst (asm) natDec.simps) auto
  next
    case False
    with "1.prems" have "c \<in> set (natDec (n div 10)) \<or> c = digitChar (n mod 10)"
      by (subst (asm) natDec.simps) auto
    then show ?thesis using "1.IH" [OF False] by (auto intro: exI [of _ "n mod 10"])
  qed
qed

section \<open>encoding/hex and encoding/base64\<close>

definition hexDigits :: string where
  "hexDigits = ''0123456789abcdef''"

definition upperHexDigits :: string where
  "upperHexDigits = ''0123456789ABCDEF''"

fun hexEncode :: "string \<Rightarrow> string" where
  "hexEncode [] = []"
| "hexEncode (c # s) = hexDigits ! (of_char c div 16) # hexDigits ! (of_char c mod 16) # hexEncode s"

lemma length_hexEncode [simp]: "length (hexEncode s) = 2 * length s"
  by (induction s) auto

lemma of_char_less_256: "(of_char c :: nat) < 256"
  by (metis char_of_char of_char_of mod_less_divisor zero_less_numeral)

lemma of_char_div_16: "(of_char c :: nat) div 16 < 16"
  using of_char_less_256 [of c] by (intro less_mult_imp_div_less) simp

lemma hexDigits_nth: "n < 16 \<Longrightarrow> hexDigits ! n \<in> set hexDigits"
  by (rule nth_mem) (simp add: hexDigits_def)

lemma set_hexEncode: "set (hexEncode s) \<subseteq> set hexDigits"
proof (induction s)
  case Nil
  show ?case by simp
next
  case (Cons c s)
  then show ?case using of_char_div_16 by (auto intro!: hexDigits_nth)
qed

definition base64Chars :: string where
  "base64Chars = ''ABCDEFGHIJKLMNOPQRSTUVWXYZabcdefghijklmnopqrstuvwxyz0123456789+/''"

fun base64Encode :: "string \<Rightarrow> string" where
  "base64Encode [] = []"
| "base64Encode [a] = (let n = of_char a * 16 in
     [base64Chars ! (n div 64), base64Chars ! (n mod 64), CHR ''='', CHR ''=''])"
| "base64Encode [a, b] = (let n = (of_char a * 256 + of_char b) * 4 in
     [base64Chars ! (n div 4096), base64Chars ! (n div 64 mod 64), base64Chars ! (n mod 64), CHR ''=''])"
| "base64Encode (a # b # c # s) = (let n = of_char a * 65536 + of_char b * 256 + of_char c in
     [base64Chars ! (n div 262144), base64Chars ! (n div 4096 mod 64),
      base64Chars ! (n div 64 mod 64), base64Chars ! (n mod 64)] @ base64Encode s)"

section \<open>net/url\<close>

definition isAlnum :: "char \<Rightarrow> bool" where
  "isAlnum c = (let n = of_char c :: nat in
     48 \<le> n \<and> n \<le> 57 \<or> 65 \<le> n \<and> n \<le> 90 \<or> 97 \<le> n \<and> n \<le> 122)"

text \<open>\<open>shouldEscape\<close> of \<open>net/url\<close> in its two modes: a path segment and a query component.\<close>

definition escapeInPath :: "char \<Rightarrow> bool" where
  "escapeInPath c = (\<not> isAlnum c \<and> c \<notin> set ''-_.~$&+:=@'')"

definition escapeInQuery :: "char \<Rightarrow> bool" where
  "escapeInQuery c = (\<not> isAlnum c \<and> c \<notin> set ''-_.~'')"

definition percent :: "char \<Rightarrow> string" where
  "percent c = [CHR ''%'', upperHexDigits ! (of_char c div 16), upperHexDigits ! (of_char c mod 16)]"

definition PathEscape :: "string \<Rightarrow> string" where
  "PathEscape s = concat (map (\<lambda>c. if escapeInPath c then percent c else [c]) s)"

definition QueryEscape :: "string \<Rightarrow> string" where
  "QueryEscape s = concat (map (\<lambda>c.
     if c = CHR '' '' then ''+'' else if escapeInQuery c then percent c else [c]) s)"

lemma hexDigits_plain:
  assumes "c \<in> set hexDigits"
  shows "\<not> escapeInPath c \<and> \<not> escapeInQuery c \<and> c \<noteq> CHR '' ''"
proof -
  have "list_all (\<lambda>c. \<not> escapeInPath c \<and> \<not> escapeInQuery c \<and> c \<noteq> CHR '' '') hexDigits"
    by code_simp
  with assms show ?thesis by (simp add: list_all_iff)
qed

lemma PathEscape_plain: "(\<And>c. c \<in> set s \<Longrightarrow> \<not> escapeInPath c) \<Longrightarrow> PathEscape s = s"
  by (induction s) (auto simp: PathEscape_def)

lemma PathEscape_hex: "set s \<subseteq> set hexDigits \<Longrightarrow> PathEscape s = s"
  using hexDigits_plain by (intro PathEscape_plain) blast

text \<open>Nothing that a query-escaped string holds can end the user-info part of a URL.\<close>

lemma upperHexDigits_nth: "n < 16 \<Longrightarrow> upperHexDigits ! n \<in> set upperHexDigits"
  by (rule nth_mem) (simp add: upperHexDigits_def)

lemma set_percent: "set (percent c) \<subseteq> insert CHR ''%'' (set upperHexDigits)"
  using of_char_div_16 by (auto simp: percent_def intro!: upperHexDigits_nth)

lemma QueryEscape_safe:
  assumes "c \<in> set (QueryEscape s)"
  shows "isAlnum c \<or> c \<in> set ''-_.~%+''"
proof -
  have "list_all isAlnum upperHexDigits" by code_simp
  then have up: "x \<in> set upperHexDigits \<Longrightarrow> isAlnum x" for x by (simp add: list_all_iff)
  from assms obtain x where "x \<in> set s"
    and "c \<in> set (if x = CHR '' '' then ''+'' else if escapeInQuery x then percent x else [x])"
    unfolding QueryEscape_def set_concat set_map by blast
  then show ?thesis using set_percent [of x] up
    by (auto simp: escapeInQuery_def split: if_splits)
qed

section \<open>path, slices and maps\<close>

text \<open>\<open>path.Base\<close>: the last element of a slash-separated path.\<close>

definition pathBase :: "string \<Rightarrow> string" where
  "pathBase p = (if p = [] then ''.'' else
     let q = trimSlash p in
     if q = [] then ''/'' else rev (takeWhile (\<lambda>c. c \<noteq> CHR ''/'') (rev q)))"

text \<open>\<open>slices.Sorted(maps.Keys(m))\<close>: the keys in increasing order.\<close>

definition sortedKeys :: "(string, 'v) fmap \<Rightarrow> string list" where
  "sortedKeys m = sorted_list_of_fset (fmdom m)"

lemma set_sortedKeys [simp]: "set (sortedKeys m) = fset (fmdom m)"
  by (simp add: sortedKeys_def)

lemma sorted_list_of_fset_set: "sorted_list_of_fset A = sorted_list_of_set (fset A)"
  by (simp add: sorted_list_of_fset.rep_eq)

lemma sorted_sortedKeys: "sorted (sortedKeys m) \<and> distinct (sortedKeys m)"
  by (simp add: sortedKeys_def sorted_list_of_fset_set)

lemma sortedKeys_unique:
  "sorted ks \<Longrightarrow> distinct ks \<Longrightarrow> set ks = fset (fmdom m) \<Longrightarrow> sortedKeys m = ks"
  using sorted_sortedKeys [of m] by (metis set_sortedKeys sorted_distinct_set_unique)

lemma sortedKeys_fmap_of_list [eval_simps]:
  "sortedKeys (fmap_of_list xs) = sort (remdups (map fst xs))"
  by (rule sortedKeys_unique) (simp_all add: fset_of_list.rep_eq)

text \<open>\<open>maps.Copy(dst, src)\<close>: every entry of \<open>src\<close> is set in \<open>dst\<close>.\<close>

definition mapsCopy :: "('k, 'v) fmap \<Rightarrow> ('k, 'v) fmap \<Rightarrow> ('k, 'v) fmap" where
  "mapsCopy dst src = dst ++\<^sub>f src"

lemma mapsCopy_lookup [simp]:
  "fmlookup (mapsCopy dst src) k = (case fmlookup src k of Some v \<Rightarrow> Some v | None \<Rightarrow> fmlookup dst k)"
  by (cases "fmlookup src k") (auto simp: mapsCopy_def fmlookup_dom_iff)

lemma mapsCopy_idem [simp]: "mapsCopy (mapsCopy m n) n = mapsCopy m n"
  by (rule fmap_ext) (simp split: option.splits)

end
