(* ===== verification/Json.thy ===== *)
theory Json
  imports GoStd
begin

text \<open>
  JSON documents as the operator builds them, and \<open>encoding/json.Marshal\<close>: the members of a Go map
  are written in the order of their keys, those of a struct in the order of its fields, and strings
  are escaped for HTML as \<open>Marshal\<close> does. Strings are taken to be valid UTF-8, which the Kubernetes
  API server guarantees for every string the operator marshals.
\<close>

datatype json =
    JNull
  | JBool bool
  | JInt int
  | JStr string
  | JArr "json list"
  | JMap "(string \<times> json) list"
  | JStruct "(string \<times> json) list"

definition jsonEscapeByte :: "char \<Rightarrow> string" where
  "jsonEscapeByte c = (let n = of_char c :: nat in
     if c = CHR 0x22 \<or> c = CHR 0x5C then [CHR 0x5C, c]
     else if n = 8 then [CHR 0x5C, CHR ''b'']
     else if n = 12 then [CHR 0x5C, CHR ''f'']
     else if n = 10 then [CHR 0x5C, CHR ''n'']
     else if n = 13 then [CHR 0x5C, CHR ''r'']
     else if n = 9 then [CHR 0x5C, CHR ''t'']
     else if n < 32 \<or> c \<in> set ''<>&''
       then CHR 0x5C # ''u00'' @ [hexDigits ! (n div 16), hexDigits ! (n mod 16)]
     else [c])"

text \<open>The line separators U+2028 and U+2029 are the byte sequences E2 80 A8 and E2 80 A9.\<close>

fun jsonEscape :: "string \<Rightarrow> string" where
  "jsonEscape [] = []"
| "jsonEscape [a] = jsonEscapeByte a"
| "jsonEscape [a, b] = jsonEscapeByte a @ jsonEscapeByte b"
| "jsonEscape (a # b # c # s) =
     (if a = CHR 0xE2 \<and> b = CHR 0x80 \<and> (c = CHR 0xA8 \<or> c = CHR 0xA9)
      then CHR 0x5C # ''u202'' @ (if c = CHR 0xA8 then ''8'' else ''9'') @ jsonEscape s
      else jsonEscapeByte a @ jsonEscape (b # c # s))"

definition jsonString :: "string \<Rightarrow> string" where
  "jsonString s = CHR 0x22 # jsonEscape s @ [CHR 0x22]"

definition jsonMembers :: "(string \<times> string) list \<Rightarrow> string" where
  "jsonMembers kvs = ''{'' @ intercalate '','' (map (\<lambda>(k, v). jsonString k @ '':'' @ v) kvs) @ ''}''"

primrec marshal :: "json \<Rightarrow> string" where
  "marshal JNull = ''null''"
| "marshal (JBool b) = FormatBool b"
| "marshal (JInt i) = Itoa i"
| "marshal (JStr s) = jsonString s"
| "marshal (JArr xs) = ''['' @ intercalate '','' (map marshal xs) @ '']''"
| "marshal (JMap kvs) = jsonMembers (sort_key fst (map (map_prod id marshal) kvs))"
| "marshal (JStruct kvs) = jsonMembers (map (map_prod id marshal) kvs)"

text \<open>Setting an entry of a \<open>map[string]any\<close>, and reading one.\<close>

fun jset :: "string \<Rightarrow> json \<Rightarrow> (string \<times> json) list \<Rightarrow> (string \<times> json) list" where
  "jset k v [] = [(k, v)]"
| "jset k v ((k', v') # kvs) = (if k' = k then (k, v) # kvs else (k', v') # jset k v kvs)"

fun jget :: "string \<Rightarrow> json \<Rightarrow> json option" where
  "jget k (JMap kvs) = map_of kvs k"
| "jget k (JStruct kvs) = map_of kvs k"
| "jget k j = None"

lemma map_of_jset [simp]: "map_of (jset k v kvs) = (map_of kvs)(k \<mapsto> v)"
  by (induction kvs) auto

lemma jget_jset [simp]:
  "jget k' (JMap (jset k v kvs)) = (if k' = k then Some v else jget k' (JMap kvs))"
  by simp

text \<open>
  The order in which a map literal lists its members does not reach the document: two literals with
  the same entries under distinct keys marshal to the same bytes.
\<close>

lemma sort_key_fst_perm:
  assumes "distinct (map fst xs)" and "distinct (map fst ys)" and "set xs = set ys"
  shows "sort_key fst xs = sort_key (fst :: string \<times> 'v \<Rightarrow> string) ys"
proof (rule map_sorted_distinct_set_unique [where f = fst])
  show "inj_on fst (set (sort_key fst xs) \<union> set (sort_key fst ys))"
    using assms by (simp add: distinct_map)
qed (use assms in \<open>simp_all add: distinct_map\<close>)

lemma marshal_JMap_order:
  assumes "distinct (map fst xs)" and "distinct (map fst ys)" and "set xs = set ys"
  shows "marshal (JMap xs) = marshal (JMap ys)"
proof -
  have keys: "map fst (map (map_prod id marshal) zs) = map fst zs" for zs :: "(string \<times> json) list"
    by simp
  have "sort_key fst (map (map_prod id marshal) xs) = sort_key fst (map (map_prod id marshal) ys)"
    using assms by (intro sort_key_fst_perm) (simp_all only: keys set_map)
  then show ?thesis by simp
qed

end
