(* ===== verification/KubeTypes.thy ===== *)
theory KubeTypes
  imports GoStd
begin

text \<open>
  The Kubernetes API objects (packages \<open>core/v1\<close>, \<open>apps/v1\<close>, \<open>batch/v1\<close> and \<open>meta/v1\<close>), with the
  fields that code under src/ reads or writes. A pointer field is an \<open>option\<close>, a slice a list, a map
  an \<^typ>\<open>smap\<close>. Fields no code under src/ mentions keep whatever they hold and are left out.
  No code does arithmetic on an \<open>int32\<close> or \<open>int64\<close> field, so these are \<^typ>\<open>int\<close>.
\<close>

section \<open>Metadata\<close>

text \<open>
  \<open>omOwners\<close> are the owner references, \<open>omCreated\<close> says that the creation timestamp is set, which the
  API server does when it stores the object, and \<open>omDeleting\<close> that the deletion timestamp is.
\<close>

record object_meta =
  omName :: string
  omNamespace :: string
  omLabels :: smap
  omOwners :: "string list"
  omCreated :: bool
  omDeleting :: bool

definition newMeta :: "string \<Rightarrow> string \<Rightarrow> object_meta" where
  "newMeta name ns = \<lparr>omName = name, omNamespace = ns, omLabels = fmempty, omOwners = [],
     omCreated = False, omDeleting = False\<rparr>"

lemma newMeta_sel [simp]:
  "omName (newMeta n ns) = n" "omNamespace (newMeta n ns) = ns" "omLabels (newMeta n ns) = fmempty"
  "omOwners (newMeta n ns) = []" "omCreated (newMeta n ns) = False" "omDeleting (newMeta n ns) = False"
  by (simp_all add: newMeta_def)

section \<open>Pods\<close>

record resource_requirements =
  rrLimits :: smap
  rrRequests :: smap

text \<open>The source of an environment variable: a Secret key, or one only users give.\<close>

datatype env_source = SecretKeyRef string string | OtherSource string

record env_var =
  evName :: string
  evValue :: string
  evFrom :: "env_source option"

definition envValue :: "string \<Rightarrow> string \<Rightarrow> env_var" where
  "envValue n v = \<lparr>evName = n, evValue = v, evFrom = None\<rparr>"

definition envSecret :: "string \<Rightarrow> string \<Rightarrow> string \<Rightarrow> env_var" where
  "envSecret n secret key = \<lparr>evName = n, evValue = [], evFrom = Some (SecretKeyRef secret key)\<rparr>"

lemma env_sel [simp]:
  "evName (envValue n v) = n" "evValue (envValue n v) = v" "evFrom (envValue n v) = None"
  "evName (envSecret n sc k) = n" "evValue (envSecret n sc k) = []"
  "evFrom (envSecret n sc k) = Some (SecretKeyRef sc k)"
  by (simp_all add: envValue_def envSecret_def)

record container_port =
  cpName :: string
  cpPort :: int

record volume_mount =
  vmName :: string
  vmPath :: string
  vmSubPath :: string
  vmReadOnly :: bool

definition mountAt :: "string \<Rightarrow> string \<Rightarrow> volume_mount" where
  "mountAt name p = \<lparr>vmName = name, vmPath = p, vmSubPath = [], vmReadOnly = False\<rparr>"

datatype probe_handler = HTTPGet string int | TCPSocket int

record probe =
  prHandler :: probe_handler
  prInitialDelay :: int
  prPeriod :: int

datatype volume_source = EmptyDir | ConfigMapVolume string | SecretVolume string

record volume =
  volName :: string
  volSource :: volume_source

record container_security =
  csAllowPrivilegeEscalation :: "bool option"
  csDrop :: "string list"
  csRunAsNonRoot :: "bool option"
  csRunAsUser :: "int option"
  csRunAsGroup :: "int option"

record pod_security =
  psRunAsNonRoot :: "bool option"
  psSeccompProfile :: string
  psRunAsUser :: "int option"
  psRunAsGroup :: "int option"
  psFSGroup :: "int option"
  psFSGroupChangePolicy :: "string option"

record container =
  ctName :: string
  ctImage :: string
  ctCommand :: "string list"
  ctArgs :: "string list"
  ctPorts :: "container_port list"
  ctEnv :: "env_var list"
  ctMounts :: "volume_mount list"
  ctReadiness :: "probe option"
  ctResources :: resource_requirements
  ctSecurity :: "container_security option"

definition noResources :: resource_requirements where
  "noResources = \<lparr>rrLimits = fmempty, rrRequests = fmempty\<rparr>"

text \<open>The zero \<open>Container{}\<close>, updated field by field where the code gives a literal.\<close>

definition zeroContainer :: container where
  "zeroContainer = \<lparr>ctName = [], ctImage = [], ctCommand = [], ctArgs = [], ctPorts = [],
     ctEnv = [], ctMounts = [], ctReadiness = None, ctResources = noResources, ctSecurity = None\<rparr>"

record pod_spec =
  podRestartPolicy :: string
  podSecurity :: "pod_security option"
  podInitContainers :: "container list"
  podContainers :: "container list"
  podVolumes :: "volume list"

definition zeroPodSpec :: pod_spec where
  "zeroPodSpec = \<lparr>podRestartPolicy = [], podSecurity = None, podInitContainers = [],
     podContainers = [], podVolumes = []\<rparr>"

record pod_template =
  ptLabels :: smap
  ptAnnotations :: smap
  ptSpec :: pod_spec

definition zeroPodTemplate :: pod_template where
  "zeroPodTemplate = \<lparr>ptLabels = fmempty, ptAnnotations = fmempty, ptSpec = zeroPodSpec\<rparr>"

section \<open>Workloads, services, configuration\<close>

record namespace_obj =
  nsMeta :: object_meta

record service_port =
  spName :: string
  spPort :: int
  spTargetPort :: int

record service =
  svcMeta :: object_meta
  svcType :: string
  svcSelector :: smap
  svcPorts :: "service_port list"

record secret =
  secMeta :: object_meta
  secType :: string
  secData :: smap

record config_map =
  cmMeta :: object_meta
  cmData :: smap

record deployment =
  depMeta :: object_meta
  depReplicas :: "int option"
  depSelector :: "smap option"
  depTemplate :: pod_template
  depReadyReplicas :: int

record volume_claim =
  vcName :: string
  vcAccessModes :: "string list"
  vcStorage :: string

record stateful_set =
  stsMeta :: object_meta
  stsReplicas :: "int option"
  stsSelector :: "smap option"
  stsServiceName :: string
  stsVolumeClaims :: "volume_claim list"
  stsTemplate :: pod_template
  stsReadyReplicas :: int

record job_condition =
  jcType :: string
  jcStatus :: string

record job =
  jobMeta :: object_meta
  jobBackoffLimit :: "int option"
  jobTemplate :: pod_template
  jobConditions :: "job_condition list"
  jobSucceededCount :: int

text \<open>Objects as the code first names them: a name and a namespace, all else zero.\<close>

definition newService :: "string \<Rightarrow> string \<Rightarrow> service" where
  "newService n ns = \<lparr>svcMeta = newMeta n ns, svcType = [], svcSelector = fmempty, svcPorts = []\<rparr>"

definition newSecret :: "string \<Rightarrow> string \<Rightarrow> secret" where
  "newSecret n ns = \<lparr>secMeta = newMeta n ns, secType = [], secData = fmempty\<rparr>"

definition newConfigMap :: "string \<Rightarrow> string \<Rightarrow> config_map" where
  "newConfigMap n ns = \<lparr>cmMeta = newMeta n ns, cmData = fmempty\<rparr>"

definition newDeployment :: "string \<Rightarrow> string \<Rightarrow> deployment" where
  "newDeployment n ns = \<lparr>depMeta = newMeta n ns, depReplicas = None, depSelector = None,
     depTemplate = zeroPodTemplate, depReadyReplicas = 0\<rparr>"

definition newStatefulSet :: "string \<Rightarrow> string \<Rightarrow> stateful_set" where
  "newStatefulSet n ns = \<lparr>stsMeta = newMeta n ns, stsReplicas = None, stsSelector = None,
     stsServiceName = [], stsVolumeClaims = [], stsTemplate = zeroPodTemplate, stsReadyReplicas = 0\<rparr>"

lemma new_sel [simp]:
  "svcMeta (newService n ns) = newMeta n ns" "secMeta (newSecret n ns) = newMeta n ns"
  "cmMeta (newConfigMap n ns) = newMeta n ns" "depMeta (newDeployment n ns) = newMeta n ns"
  "stsMeta (newStatefulSet n ns) = newMeta n ns"
  by (simp_all add: newService_def newSecret_def newConfigMap_def newDeployment_def newStatefulSet_def)

section \<open>Status conditions\<close>

datatype condition_status = ConditionTrue | ConditionFalse | ConditionUnknown

text \<open>\<open>metav1.Condition\<close>; its transition time is written by the library and read by nobody.\<close>

record condition =
  cdType :: string
  cdStatus :: condition_status
  cdReason :: string
  cdMessage :: string
  cdObservedGeneration :: int

end
