(* ===== verification/ApiTypes.thy ===== *)
theory ApiTypes
  imports KubeTypes
begin

text \<open>
  The \<open>DataPlatform\<close> resource (api/v1alpha1/dataplatform\_types.go) and the defaults that its methods
  resolve (api/v1alpha1/defaults.go). An optional pointer is an \<open>option\<close>, an optional string is empty
  when unset, and a method \<open>(s *T) M()\<close> is the function \<open>T_M\<close>. The resource is split where the
  controller treats its halves differently: \<open>dataplatform\<close> is the metadata and spec, which no code
  under src/ assigns, and \<open>dp_status\<close> is the status, which the reconcilers write as they go.
\<close>

section \<open>Constants\<close>

abbreviation ConditionReady :: string where "ConditionReady \<equiv> ''Ready''"
abbreviation ConditionPostgresReady :: string where "ConditionPostgresReady \<equiv> ''PostgresReady''"
abbreviation ConditionLakekeeperReady :: string where "ConditionLakekeeperReady \<equiv> ''LakekeeperReady''"
abbreviation ConditionWarehouseReady :: string where "ConditionWarehouseReady \<equiv> ''WarehouseReady''"
abbreviation ConditionTrinoReady :: string where "ConditionTrinoReady \<equiv> ''TrinoReady''"
abbreviation ConditionMinioReady :: string where "ConditionMinioReady \<equiv> ''MinioReady''"
abbreviation ConditionAuthReady :: string where "ConditionAuthReady \<equiv> ''AuthReady''"
abbreviation ConditionOpenFGAReady :: string where "ConditionOpenFGAReady \<equiv> ''OpenFGAReady''"

abbreviation DefaultLakekeeperNamespace :: string where "DefaultLakekeeperNamespace \<equiv> ''lakekeeper''"
abbreviation DefaultTrinoNamespace :: string where "DefaultTrinoNamespace \<equiv> ''trino''"
abbreviation DefaultMinioNamespace :: string where "DefaultMinioNamespace \<equiv> ''minio''"
abbreviation DefaultKeycloakNamespace :: string where "DefaultKeycloakNamespace \<equiv> ''keycloak''"
abbreviation DefaultOpenFGANamespace :: string where "DefaultOpenFGANamespace \<equiv> ''openfga''"
abbreviation DefaultLakekeeperImage :: string where
  "DefaultLakekeeperImage \<equiv> ''quay.io/lakekeeper/catalog:v0.13.3''"
abbreviation DefaultTrinoImage :: string where "DefaultTrinoImage \<equiv> ''trinodb/trino:476''"
abbreviation DefaultPostgresImage :: string where "DefaultPostgresImage \<equiv> ''postgres:17''"
abbreviation DefaultMinioImage :: string where
  "DefaultMinioImage \<equiv> ''minio/minio:RELEASE.2025-04-22T22-12-26Z''"
abbreviation DefaultMcImage :: string where
  "DefaultMcImage \<equiv> ''minio/mc:RELEASE.2025-04-16T18-13-26Z''"
abbreviation DefaultKeycloakImage :: string where
  "DefaultKeycloakImage \<equiv> ''quay.io/keycloak/keycloak:26.3.3''"
abbreviation DefaultOpenFGAImage :: string where "DefaultOpenFGAImage \<equiv> ''openfga/openfga:v1.8.12''"
abbreviation DefaultOPAImage :: string where "DefaultOPAImage \<equiv> ''openpolicyagent/opa:1.10.1''"
abbreviation DefaultOpenFGAStore :: string where "DefaultOpenFGAStore \<equiv> ''lakekeeper''"
abbreviation DefaultTrinoCatalog :: string where "DefaultTrinoCatalog \<equiv> ''lakekeeper''"
abbreviation DefaultRowFilterStore :: string where "DefaultRowFilterStore \<equiv> ''rowfilters''"
abbreviation DefaultRowFilterRelation :: string where "DefaultRowFilterRelation \<equiv> ''viewer''"
abbreviation DefaultColumnMask :: string where "DefaultColumnMask \<equiv> ''NULL''"
abbreviation DefaultWarehouseName :: string where "DefaultWarehouseName \<equiv> ''default''"
abbreviation DefaultPostgresStorage :: string where "DefaultPostgresStorage \<equiv> ''10Gi''"
abbreviation DefaultMinioStorage :: string where "DefaultMinioStorage \<equiv> ''20Gi''"
abbreviation DefaultMinioBucket :: string where "DefaultMinioBucket \<equiv> ''warehouse''"
abbreviation DefaultS3Flavor :: string where "DefaultS3Flavor \<equiv> ''aws''"
abbreviation DefaultS3CompatFlavor :: string where "DefaultS3CompatFlavor \<equiv> ''s3-compat''"
abbreviation DefaultS3CompatRegion :: string where "DefaultS3CompatRegion \<equiv> ''us-east-1''"
abbreviation DefaultOIDCRealm :: string where "DefaultOIDCRealm \<equiv> ''dataplatform''"
abbreviation DefaultOIDCAudience :: string where "DefaultOIDCAudience \<equiv> ''lakekeeper''"
abbreviation DefaultOIDCClientID :: string where "DefaultOIDCClientID \<equiv> ''lakekeeper''"
abbreviation DefaultOIDCTrinoClientID :: string where "DefaultOIDCTrinoClientID \<equiv> ''trino''"
abbreviation DefaultOIDCOpaClientID :: string where "DefaultOIDCOpaClientID \<equiv> ''opa''"
abbreviation DefaultOIDCOperatorClient :: string where "DefaultOIDCOperatorClient \<equiv> ''operator''"
abbreviation DefaultOIDCScope :: string where "DefaultOIDCScope \<equiv> ''lakekeeper''"
abbreviation DefaultOIDCAdminUser :: string where "DefaultOIDCAdminUser \<equiv> ''admin''"
abbreviation DefaultOIDCAdminUserID :: string where
  "DefaultOIDCAdminUserID \<equiv> ''00000000-0000-4000-8000-000000000001''"

section \<open>The spec\<close>

record keycloak_spec =
  kcNamespace :: string
  kcImage :: string
  kcRealm :: string
  kcPublicURL :: string
  kcResources :: resource_requirements

record oidc_credentials_ref =
  ocName :: string
  ocNamespace :: string
  ocClientSecretKey :: string
  ocClientIDKey :: string
  ocTrinoClientIDKey :: string
  ocTrinoClientSecretKey :: string

record oidc_spec =
  oiIssuer :: string
  oiAudience :: string
  oiClientID :: string
  oiTokenEndpoint :: string
  oiScope :: string
  oiCredentialsSecretRef :: "oidc_credentials_ref option"

record auth_spec =
  auEnabled :: "bool option"
  auEmbedded :: "bool option"
  auKeycloak :: keycloak_spec
  auOIDC :: "oidc_spec option"

record column_access_subject =
  casType :: string
  casRelation :: string
  casObject :: string

record column_access_spec =
  caCatalog :: string
  caSchema :: string
  caTable :: string
  caColumn :: string
  caMask :: string
  caOpenFGA :: column_access_subject

record row_filter_subject =
  rfsType :: string
  rfsRelation :: string

record row_filter_spec =
  rfCatalog :: string
  rfSchema :: string
  rfTable :: string
  rfColumn :: string
  rfOpenFGA :: row_filter_subject
  rfNumeric :: "bool option"

record postgres_credentials_ref =
  pcName :: string
  pcNamespace :: string
  pcUsernameKey :: string
  pcPasswordKey :: string

record postgres_spec =
  pgEmbedded :: "bool option"
  pgImage :: string
  pgStorageSize :: string
  pgHost :: string
  pgPort :: int
  pgDatabase :: string
  pgSSLMode :: string
  pgCredentialsSecretRef :: "postgres_credentials_ref option"

record openfga_spec =
  ofNamespace :: string
  ofImage :: string
  ofOPAImage :: string
  ofStore :: string
  ofRowFilterStore :: string
  ofPostgres :: postgres_spec
  ofResources :: resource_requirements

record authz_spec =
  azEnabled :: "bool option"
  azEmbedded :: "bool option"
  azOpenFGA :: openfga_spec
  azRowFilters :: "row_filter_spec list"
  azColumnAccess :: "column_access_spec list"

record minio_spec =
  miNamespace :: string
  miImage :: string
  miMcImage :: string
  miStorageSize :: string
  miBucket :: string
  miResources :: resource_requirements

record s3_credentials_ref =
  scName :: string
  scNamespace :: string
  scAccessKeyIDKey :: string
  scSecretAccessKeyKey :: string

record s3_spec =
  s3Bucket :: string
  s3Region :: string
  s3Endpoint :: string
  s3PathStyleAccess :: bool
  s3Flavor :: string
  s3STSEnabled :: bool
  s3STSRoleARN :: string
  s3CredentialsSecretRef :: "s3_credentials_ref option"

record storage_spec =
  stEmbedded :: "bool option"
  stMinio :: minio_spec
  stS3 :: "s3_spec option"

record warehouse_spec =
  whName :: string
  whKeyPrefix :: string

record lakekeeper_spec =
  lkEnabled :: "bool option"
  lkNamespace :: string
  lkImage :: string
  lkReplicas :: "int option"
  lkResources :: resource_requirements
  lkExtraEnv :: "env_var list"
  lkPublicURL :: string
  lkPostgres :: postgres_spec
  lkWarehouse :: warehouse_spec

record trino_coordinator_spec =
  tcResources :: resource_requirements

record service_spec =
  seType :: string

record trino_spec =
  trEnabled :: "bool option"
  trNamespace :: string
  trImage :: string
  trWorkers :: "int option"
  trCoordinator :: trino_coordinator_spec
  trExtraConfig :: smap
  trExtraCatalogs :: smap
  trExtraEnv :: "env_var list"
  trPublicURL :: string
  trResources :: resource_requirements
  trService :: service_spec

record dataplatform_spec =
  spStorage :: storage_spec
  spAuth :: auth_spec
  spAuthz :: authz_spec
  spLakekeeper :: lakekeeper_spec
  spTrino :: trino_spec

section \<open>The resource and its status\<close>

record dataplatform =
  dpName :: string
  dpGeneration :: int
  dpSpec :: dataplatform_spec

record dp_status =
  dsConditions :: "condition list"
  dsMinioEndpoint :: string
  dsLakekeeperEndpoint :: string
  dsTrinoEndpoint :: string
  dsKeycloakEndpoint :: string
  dsOpenFGAEndpoint :: string
  dsRowFilterStoreID :: string

section \<open>Defaults\<close>

definition boolDefaultTrue :: "bool option \<Rightarrow> bool" where
  "boolDefaultTrue v = (case v of None \<Rightarrow> True | Some b \<Rightarrow> b)"

definition int32OrDefault :: "int option \<Rightarrow> int \<Rightarrow> int" where
  "int32OrDefault v def = (case v of None \<Rightarrow> def | Some i \<Rightarrow> i)"

definition stringOrDefault :: "string \<Rightarrow> string \<Rightarrow> string" where
  "stringOrDefault v def = (if v = [] then def else v)"

definition LakekeeperSpec_IsEnabled :: "lakekeeper_spec \<Rightarrow> bool" where
  "LakekeeperSpec_IsEnabled s = boolDefaultTrue (lkEnabled s)"

definition LakekeeperSpec_NamespaceOrDefault :: "lakekeeper_spec \<Rightarrow> string" where
  "LakekeeperSpec_NamespaceOrDefault s = stringOrDefault (lkNamespace s) DefaultLakekeeperNamespace"

definition LakekeeperSpec_ImageOrDefault :: "lakekeeper_spec \<Rightarrow> string" where
  "LakekeeperSpec_ImageOrDefault s = stringOrDefault (lkImage s) DefaultLakekeeperImage"

definition LakekeeperSpec_ReplicasOrDefault :: "lakekeeper_spec \<Rightarrow> int" where
  "LakekeeperSpec_ReplicasOrDefault s = int32OrDefault (lkReplicas s) 1"

definition PostgresSpec_IsEmbedded :: "postgres_spec \<Rightarrow> bool" where
  "PostgresSpec_IsEmbedded s = boolDefaultTrue (pgEmbedded s)"

definition PostgresSpec_ImageOrDefault :: "postgres_spec \<Rightarrow> string" where
  "PostgresSpec_ImageOrDefault s = stringOrDefault (pgImage s) DefaultPostgresImage"

definition PostgresSpec_StorageSizeOrDefault :: "postgres_spec \<Rightarrow> string" where
  "PostgresSpec_StorageSizeOrDefault s = stringOrDefault (pgStorageSize s) DefaultPostgresStorage"

definition PostgresSpec_PortOrDefault :: "postgres_spec \<Rightarrow> int" where
  "PostgresSpec_PortOrDefault s = (if pgPort s = 0 then 5432 else pgPort s)"

definition PostgresSpec_DatabaseOrDefault :: "postgres_spec \<Rightarrow> string" where
  "PostgresSpec_DatabaseOrDefault s = stringOrDefault (pgDatabase s) ''postgres''"

definition WarehouseSpec_NameOrDefault :: "warehouse_spec \<Rightarrow> string" where
  "WarehouseSpec_NameOrDefault s = stringOrDefault (whName s) DefaultWarehouseName"

definition TrinoSpec_IsEnabled :: "trino_spec \<Rightarrow> bool" where
  "TrinoSpec_IsEnabled s = boolDefaultTrue (trEnabled s)"

definition TrinoSpec_NamespaceOrDefault :: "trino_spec \<Rightarrow> string" where
  "TrinoSpec_NamespaceOrDefault s = stringOrDefault (trNamespace s) DefaultTrinoNamespace"

definition TrinoSpec_ImageOrDefault :: "trino_spec \<Rightarrow> string" where
  "TrinoSpec_ImageOrDefault s = stringOrDefault (trImage s) DefaultTrinoImage"

definition TrinoSpec_WorkersOrDefault :: "trino_spec \<Rightarrow> int" where
  "TrinoSpec_WorkersOrDefault s = int32OrDefault (trWorkers s) 0"

definition ServiceSpec_TypeOrDefault :: "service_spec \<Rightarrow> string" where
  "ServiceSpec_TypeOrDefault s = (if seType s = [] then ''ClusterIP'' else seType s)"

definition StorageSpec_IsEmbedded :: "storage_spec \<Rightarrow> bool" where
  "StorageSpec_IsEmbedded s = boolDefaultTrue (stEmbedded s)"

definition MinioSpec_NamespaceOrDefault :: "minio_spec \<Rightarrow> string" where
  "MinioSpec_NamespaceOrDefault s = stringOrDefault (miNamespace s) DefaultMinioNamespace"

definition MinioSpec_ImageOrDefault :: "minio_spec \<Rightarrow> string" where
  "MinioSpec_ImageOrDefault s = stringOrDefault (miImage s) DefaultMinioImage"

definition MinioSpec_McImageOrDefault :: "minio_spec \<Rightarrow> string" where
  "MinioSpec_McImageOrDefault s = stringOrDefault (miMcImage s) DefaultMcImage"

definition MinioSpec_StorageSizeOrDefault :: "minio_spec \<Rightarrow> string" where
  "MinioSpec_StorageSizeOrDefault s = stringOrDefault (miStorageSize s) DefaultMinioStorage"

definition MinioSpec_BucketOrDefault :: "minio_spec \<Rightarrow> string" where
  "MinioSpec_BucketOrDefault s = stringOrDefault (miBucket s) DefaultMinioBucket"

definition S3Spec_FlavorOrDefault :: "s3_spec \<Rightarrow> string" where
  "S3Spec_FlavorOrDefault s = stringOrDefault (s3Flavor s) DefaultS3Flavor"

definition S3CredentialsSecretRef_AccessKeyIDKeyOrDefault :: "s3_credentials_ref \<Rightarrow> string" where
  "S3CredentialsSecretRef_AccessKeyIDKeyOrDefault s =
     stringOrDefault (scAccessKeyIDKey s) ''AWS_ACCESS_KEY_ID''"

definition S3CredentialsSecretRef_SecretAccessKeyKeyOrDefault :: "s3_credentials_ref \<Rightarrow> string" where
  "S3CredentialsSecretRef_SecretAccessKeyKeyOrDefault s =
     stringOrDefault (scSecretAccessKeyKey s) ''AWS_SECRET_ACCESS_KEY''"

definition AuthSpec_IsEnabled :: "auth_spec \<Rightarrow> bool" where
  "AuthSpec_IsEnabled s = boolDefaultTrue (auEnabled s)"

definition AuthSpec_IsEmbedded :: "auth_spec \<Rightarrow> bool" where
  "AuthSpec_IsEmbedded s = boolDefaultTrue (auEmbedded s)"

definition KeycloakSpec_NamespaceOrDefault :: "keycloak_spec \<Rightarrow> string" where
  "KeycloakSpec_NamespaceOrDefault s = stringOrDefault (kcNamespace s) DefaultKeycloakNamespace"

definition KeycloakSpec_ImageOrDefault :: "keycloak_spec \<Rightarrow> string" where
  "KeycloakSpec_ImageOrDefault s = stringOrDefault (kcImage s) DefaultKeycloakImage"

definition KeycloakSpec_RealmOrDefault :: "keycloak_spec \<Rightarrow> string" where
  "KeycloakSpec_RealmOrDefault s = stringOrDefault (kcRealm s) DefaultOIDCRealm"

definition AuthzSpec_IsEnabled :: "authz_spec \<Rightarrow> bool" where
  "AuthzSpec_IsEnabled s = boolDefaultTrue (azEnabled s)"

definition AuthzSpec_IsEmbedded :: "authz_spec \<Rightarrow> bool" where
  "AuthzSpec_IsEmbedded s = boolDefaultTrue (azEmbedded s)"

definition OpenFGASpec_NamespaceOrDefault :: "openfga_spec \<Rightarrow> string" where
  "OpenFGASpec_NamespaceOrDefault s = stringOrDefault (ofNamespace s) DefaultOpenFGANamespace"

definition OpenFGASpec_ImageOrDefault :: "openfga_spec \<Rightarrow> string" where
  "OpenFGASpec_ImageOrDefault s = stringOrDefault (ofImage s) DefaultOpenFGAImage"

definition OpenFGASpec_OPAImageOrDefault :: "openfga_spec \<Rightarrow> string" where
  "OpenFGASpec_OPAImageOrDefault s = stringOrDefault (ofOPAImage s) DefaultOPAImage"

definition OpenFGASpec_StoreOrDefault :: "openfga_spec \<Rightarrow> string" where
  "OpenFGASpec_StoreOrDefault s = stringOrDefault (ofStore s) DefaultOpenFGAStore"

definition OpenFGASpec_RowFilterStoreOrDefault :: "openfga_spec \<Rightarrow> string" where
  "OpenFGASpec_RowFilterStoreOrDefault s = stringOrDefault (ofRowFilterStore s) DefaultRowFilterStore"

definition AuthzSpec_HasRowFilters :: "authz_spec \<Rightarrow> bool" where
  "AuthzSpec_HasRowFilters s = (AuthzSpec_IsEnabled s \<and> length (azRowFilters s) > 0)"

definition AuthzSpec_HasColumnAccess :: "authz_spec \<Rightarrow> bool" where
  "AuthzSpec_HasColumnAccess s = (AuthzSpec_IsEnabled s \<and> length (azColumnAccess s) > 0)"

definition AuthzSpec_HasAccessPolicies :: "authz_spec \<Rightarrow> bool" where
  "AuthzSpec_HasAccessPolicies s = (AuthzSpec_HasRowFilters s \<or> AuthzSpec_HasColumnAccess s)"

definition RowFilterSpec_CatalogOrDefault :: "row_filter_spec \<Rightarrow> string" where
  "RowFilterSpec_CatalogOrDefault s = stringOrDefault (rfCatalog s) DefaultTrinoCatalog"

definition RowFilterSpec_IsNumeric :: "row_filter_spec \<Rightarrow> bool" where
  "RowFilterSpec_IsNumeric s = (case rfNumeric s of None \<Rightarrow> False | Some b \<Rightarrow> b)"

definition RowFilterSubjectSpec_RelationOrDefault :: "row_filter_subject \<Rightarrow> string" where
  "RowFilterSubjectSpec_RelationOrDefault s = stringOrDefault (rfsRelation s) DefaultRowFilterRelation"

definition ColumnAccessSpec_CatalogOrDefault :: "column_access_spec \<Rightarrow> string" where
  "ColumnAccessSpec_CatalogOrDefault s = stringOrDefault (caCatalog s) DefaultTrinoCatalog"

definition ColumnAccessSpec_MaskOrDefault :: "column_access_spec \<Rightarrow> string" where
  "ColumnAccessSpec_MaskOrDefault s = stringOrDefault (caMask s) DefaultColumnMask"

definition ColumnAccessSubjectSpec_RelationOrDefault :: "column_access_subject \<Rightarrow> string" where
  "ColumnAccessSubjectSpec_RelationOrDefault s = stringOrDefault (casRelation s) DefaultRowFilterRelation"

definition ColumnAccessSpec_ObjectOrDefault :: "column_access_spec \<Rightarrow> string" where
  "ColumnAccessSpec_ObjectOrDefault s =
     (if casObject (caOpenFGA s) \<noteq> [] then casObject (caOpenFGA s)
      else ColumnAccessSpec_CatalogOrDefault s @ ''.'' @ caSchema s @ ''.'' @ caTable s @ ''.'' @ caColumn s)"

definition OIDCSpec_AudienceOrDefault :: "oidc_spec \<Rightarrow> string" where
  "OIDCSpec_AudienceOrDefault s = stringOrDefault (oiAudience s) DefaultOIDCAudience"

definition OIDCSpec_ClientIDOrDefault :: "oidc_spec \<Rightarrow> string" where
  "OIDCSpec_ClientIDOrDefault s = stringOrDefault (oiClientID s) DefaultOIDCClientID"

definition OIDCSpec_ScopeOrDefault :: "oidc_spec \<Rightarrow> string" where
  "OIDCSpec_ScopeOrDefault s = stringOrDefault (oiScope s) DefaultOIDCScope"

definition OIDCSpec_TokenEndpointOrDefault :: "oidc_spec \<Rightarrow> string" where
  "OIDCSpec_TokenEndpointOrDefault s =
     (if oiTokenEndpoint s \<noteq> [] then oiTokenEndpoint s
      else trimSlash (oiIssuer s) @ ''/protocol/openid-connect/token'')"

definition OIDCCredentialsSecretRef_ClientSecretKeyOrDefault :: "oidc_credentials_ref \<Rightarrow> string" where
  "OIDCCredentialsSecretRef_ClientSecretKeyOrDefault s = stringOrDefault (ocClientSecretKey s) ''clientSecret''"

definition PostgresCredentialsSecretRef_UsernameKeyOrDefault :: "postgres_credentials_ref \<Rightarrow> string" where
  "PostgresCredentialsSecretRef_UsernameKeyOrDefault s = stringOrDefault (pcUsernameKey s) ''username''"

definition PostgresCredentialsSecretRef_PasswordKeyOrDefault :: "postgres_credentials_ref \<Rightarrow> string" where
  "PostgresCredentialsSecretRef_PasswordKeyOrDefault s = stringOrDefault (pcPasswordKey s) ''password''"

section \<open>What the defaults guarantee\<close>

lemma stringOrDefault_nonempty: "def \<noteq> [] \<Longrightarrow> stringOrDefault v def \<noteq> []"
  by (simp add: stringOrDefault_def)

lemma HasAccessPolicies_iff:
  "AuthzSpec_HasAccessPolicies s \<longleftrightarrow>
     boolDefaultTrue (azEnabled s) \<and> (azRowFilters s \<noteq> [] \<or> azColumnAccess s \<noteq> [])"
  by (auto simp: AuthzSpec_HasAccessPolicies_def AuthzSpec_HasRowFilters_def
      AuthzSpec_HasColumnAccess_def AuthzSpec_IsEnabled_def)

lemmas enabled_defs = boolDefaultTrue_def LakekeeperSpec_IsEnabled_def TrinoSpec_IsEnabled_def
  AuthSpec_IsEnabled_def AuthSpec_IsEmbedded_def AuthzSpec_IsEnabled_def AuthzSpec_IsEmbedded_def
  StorageSpec_IsEmbedded_def PostgresSpec_IsEmbedded_def

lemmas namespace_defs = stringOrDefault_def LakekeeperSpec_NamespaceOrDefault_def
  TrinoSpec_NamespaceOrDefault_def MinioSpec_NamespaceOrDefault_def
  KeycloakSpec_NamespaceOrDefault_def OpenFGASpec_NamespaceOrDefault_def

end
