(* ===== verification/Client.thy ===== *)
theory Client
  imports ApiTypes Json
begin

text \<open>
  What the operator calls but does not define. The Kubernetes client, the API machinery's helpers,
  the cryptographic library and the UUID library are not under src/: each is a field of a record that
  the reconcilers take as an argument. A call that can change or depend on the outside world is a
  function of an opaque world \<open>'w\<close>; nothing is assumed of one unless a theorem says so, by the
  contracts at the end of this theory, which state what the libraries document.

  The \<open>CatalogClient\<close> interface (internal/controller/catalog.go) is a record too, as it is in Go: the
  reconcilers see only its six operations. The theory Catalog has its implementation.
\<close>

section \<open>The Kubernetes client\<close>

text \<open>
  \<open>client.Client\<close> and \<open>controllerutil.CreateOrUpdate\<close>, at the object kinds the operator uses them at.
  Names come before namespaces. \<open>kCou...\<close> takes the object as first named and the mutation, which
  \<open>CreateOrUpdate\<close> runs on the stored object, or on the given one when none is stored.
\<close>

record 'w kube_client =
  kGetNamespace :: "string \<Rightarrow> ('w, namespace_obj) go"
  kGetSecret :: "string \<Rightarrow> string \<Rightarrow> ('w, secret) go"
  kGetDeployment :: "string \<Rightarrow> string \<Rightarrow> ('w, deployment) go"
  kGetStatefulSet :: "string \<Rightarrow> string \<Rightarrow> ('w, stateful_set) go"
  kGetJob :: "string \<Rightarrow> string \<Rightarrow> ('w, job) go"
  kGetDataPlatform :: "string \<Rightarrow> ('w, dataplatform \<times> dp_status) go"
  kCreateNamespace :: "namespace_obj \<Rightarrow> ('w, unit) go"
  kCreateSecret :: "secret \<Rightarrow> ('w, unit) go"
  kUpdateSecret :: "secret \<Rightarrow> ('w, unit) go"
  kDeleteConfigMap :: "string \<Rightarrow> string \<Rightarrow> ('w, unit) go"
  kDeleteDeployment :: "string \<Rightarrow> string \<Rightarrow> ('w, unit) go"
  kDeleteJob :: "string \<Rightarrow> string \<Rightarrow> ('w, unit) go"
  kCouService :: "service \<Rightarrow> (service \<Rightarrow> err + service) \<Rightarrow> ('w, unit) go"
  kCouSecret :: "secret \<Rightarrow> (secret \<Rightarrow> err + secret) \<Rightarrow> ('w, unit) go"
  kCouConfigMap :: "config_map \<Rightarrow> (config_map \<Rightarrow> err + config_map) \<Rightarrow> ('w, unit) go"
  kCouDeployment :: "deployment \<Rightarrow> (deployment \<Rightarrow> err + deployment) \<Rightarrow> ('w, unit) go"
  kCouStatefulSet :: "stateful_set \<Rightarrow> (stateful_set \<Rightarrow> err + stateful_set) \<Rightarrow> ('w, unit) go"
  kCouJob :: "job \<Rightarrow> (job \<Rightarrow> err + job) \<Rightarrow> ('w, unit) go"
  kUpdateStatus :: "dataplatform \<times> dp_status \<Rightarrow> ('w, unit) go"

section \<open>The catalog client interface\<close>

text \<open>The payloads of catalog.go, and \<open>url.Values\<close> with its \<open>Encode\<close>.\<close>

record authz_type =
  atName :: string
  atRelations :: "string list"

record authz_store_request =
  asStore :: string
  asTypes :: "authz_type list"

record catalog_principal =
  cpSubject :: string
  cpPrincipalName :: string
  cpEmail :: string
  cpType :: string
  cpServerRelation :: string
  cpProjectRelation :: string

record warehouse_request =
  wrName :: string
  wrBucket :: string
  wrRegion :: string
  wrKeyPrefix :: string
  wrEndpoint :: string
  wrPathStyleAccess :: bool
  wrFlavor :: string
  wrSTSEnabled :: bool
  wrSTSRoleARN :: string
  wrAccessKeyID :: string
  wrSecretAccessKey :: string

type_synonym url_values = "(string, string list) fmap"

definition Values_Encode :: "url_values \<Rightarrow> string" where
  "Values_Encode v = intercalate ''&'' (concat (map (\<lambda>k.
     map (\<lambda>x. QueryEscape k @ ''='' @ QueryEscape x) (the (fmlookup v k))) (sortedKeys v)))"

record 'w catalog_client =
  cBootstrap :: "string \<Rightarrow> string \<Rightarrow> int \<Rightarrow> string \<Rightarrow> ('w, unit) go"
  cEnsureGrants :: "string \<Rightarrow> string \<Rightarrow> int \<Rightarrow> string \<Rightarrow> catalog_principal list \<Rightarrow> ('w, unit) go"
  cEnsureWarehouse :: "string \<Rightarrow> string \<Rightarrow> int \<Rightarrow> string \<Rightarrow> warehouse_request \<Rightarrow> ('w, unit) go"
  cEnsureAuthzStore ::
    "string \<Rightarrow> string \<Rightarrow> int \<Rightarrow> string \<Rightarrow> authz_store_request \<Rightarrow> ('w, string) go"
  cFormPost :: "string \<Rightarrow> string \<Rightarrow> int \<Rightarrow> string \<Rightarrow> url_values \<Rightarrow> ('w, int \<times> string) go"
  cFetchToken :: "string \<Rightarrow> url_values \<Rightarrow> ('w, int \<times> string) go"

section \<open>Libraries\<close>

text \<open>
  Pure library functions: \<open>controllerutil.SetControllerReference\<close>, \<open>meta.SetStatusCondition\<close> and
  \<open>meta.IsStatusConditionTrue\<close>, \<open>resource.ParseQuantity\<close>, SHA-256, \<open>uuid.NewSHA1\<close> in the URL name
  space, decoding the \<open>access_token\<close> of a token response, and the embedded policy files
  (the entries of a directory walk, each with whether it is a directory, and a file's contents).
\<close>

record lib =
  lSetControllerReference :: "dataplatform \<Rightarrow> object_meta \<Rightarrow> err + object_meta"
  lSetStatusCondition :: "condition \<Rightarrow> condition list \<Rightarrow> condition list"
  lIsStatusConditionTrue :: "condition list \<Rightarrow> string \<Rightarrow> bool"
  lParseQuantity :: "string \<Rightarrow> err + string"
  lSha256 :: "string \<Rightarrow> string"
  lUuidSHA1URL :: "string \<Rightarrow> string"
  lUnmarshalToken :: "string \<Rightarrow> err + string"
  lPolicyWalk :: "string \<Rightarrow> err + (string \<times> bool) list"
  lPolicyFile :: "string \<Rightarrow> err + string"

text \<open>
  The fields of an \<open>x509.Certificate\<close> template that the operator sets, with times in seconds, and the
  randomness, clock and cryptography of the host. \<open>sMapOrder\<close> is the order in which the Go runtime
  ranges over a map with the given keys, which it picks afresh for every loop.
\<close>

record cert_template =
  ctmSerial :: int
  ctmCommonName :: string
  ctmNotBefore :: int
  ctmNotAfter :: int
  ctmKeyUsage :: "string list"
  ctmIsCA :: bool

record 'w sys =
  sMapOrder :: "string list \<Rightarrow> 'w \<Rightarrow> string list \<times> 'w"
  sRandRead :: "nat \<Rightarrow> ('w, string) go"
  sRsaGenerateKey :: "nat \<Rightarrow> ('w, string) go"
  sMarshalPKCS8 :: "string \<Rightarrow> err + string"
  sRandInt :: "int \<Rightarrow> ('w, int) go"
  sNow :: "('w, int) go"
  sAddYears :: "int \<Rightarrow> int \<Rightarrow> int"
  sCreateCertificate :: "cert_template \<Rightarrow> string \<Rightarrow> ('w, string) go"

text \<open>
  \<open>DataPlatformReconciler\<close> (internal/controller/dataplatform\_controller.go), with the libraries it is
  linked to. Its \<open>Scheme\<close> only goes to \<open>SetControllerReference\<close>.
\<close>

record 'w reconciler =
  rClient :: "'w kube_client"
  rCatalog :: "'w catalog_client option"
  rLib :: lib
  rSys :: "'w sys"

text \<open>The state of a reconcile: the world, and the status of the \<open>DataPlatform\<close> being built up.\<close>

type_synonym 'w st = "'w \<times> dp_status"

section \<open>Contracts of the libraries\<close>

text \<open>
  Conditions form a map keyed by type. \<open>SetStatusCondition\<close> makes the given condition the one of its
  type and leaves the others; \<open>IsStatusConditionTrue\<close> reads the status of the one of that type.
\<close>

definition findCondition :: "string \<Rightarrow> condition list \<Rightarrow> condition option" where
  "findCondition t cs = find (\<lambda>c. cdType c = t) cs"

definition conditions_ok :: "lib \<Rightarrow> bool" where
  "conditions_ok l \<longleftrightarrow>
     (\<forall>c cs t. findCondition t (lSetStatusCondition l c cs) =
        (if t = cdType c then Some c else findCondition t cs)) \<and>
     (\<forall>cs t. lIsStatusConditionTrue l cs t \<longleftrightarrow>
        (\<exists>c. findCondition t cs = Some c \<and> cdStatus c = ConditionTrue))"

lemma conditions_ok_find:
  "conditions_ok l \<Longrightarrow> findCondition t (lSetStatusCondition l c cs) =
     (if t = cdType c then Some c else findCondition t cs)"
  by (simp add: conditions_ok_def)

lemma conditions_ok_true:
  "conditions_ok l \<Longrightarrow> lIsStatusConditionTrue l cs t =
     (case findCondition t cs of None \<Rightarrow> False | Some c \<Rightarrow> cdStatus c = ConditionTrue)"
  by (auto simp: conditions_ok_def split: option.splits)

text \<open>
  The stored objects of the kinds the theorems speak about, as a view of the world: namespaces by name,
  the others by name and namespace.
\<close>

record cluster =
  clNamespaces :: "string \<Rightarrow> namespace_obj option"
  clSecrets :: "string \<Rightarrow> string \<Rightarrow> secret option"
  clServices :: "string \<Rightarrow> string \<Rightarrow> service option"
  clConfigMaps :: "string \<Rightarrow> string \<Rightarrow> config_map option"
  clDeployments :: "string \<Rightarrow> string \<Rightarrow> deployment option"
  clStatefulSets :: "string \<Rightarrow> string \<Rightarrow> stateful_set option"
  clJobs :: "string \<Rightarrow> string \<Rightarrow> job option"

definition put2 :: "string \<Rightarrow> string \<Rightarrow> 'o option \<Rightarrow> (string \<Rightarrow> string \<Rightarrow> 'o option) \<Rightarrow> string \<Rightarrow> string \<Rightarrow> 'o option" where
  "put2 n ns x f = (\<lambda>n' ns'. if n' = n \<and> ns' = ns then x else f n' ns')"

text \<open>
  What the API server documents of one kind's operations, over the view: a read leaves the cluster alone
  and returns the stored object, or \<open>NotFound\<close> if there is none; a create fails if the object exists;
  a failed write changes nothing; \<open>CreateOrUpdate\<close> stores the mutation of the stored object, or of the
  given one. A stored object has its creation timestamp set.
\<close>

definition reads_ok ::
  "('w \<Rightarrow> cluster) \<Rightarrow> (cluster \<Rightarrow> 'o option) \<Rightarrow> ('w, 'o) go \<Rightarrow> bool" where
  "reads_ok view look m \<longleftrightarrow> (\<forall>w r w'. m w = Some (r, w') \<longrightarrow> view w' = view w \<and>
     (case r of Inr x \<Rightarrow> look (view w) = Some x
      | Inl e \<Rightarrow> IsNotFound e \<longleftrightarrow> look (view w) = None))"

definition create_secret_ok :: "('w \<Rightarrow> cluster) \<Rightarrow> 'w kube_client \<Rightarrow> bool" where
  "create_secret_ok view kc \<longleftrightarrow> (\<forall>x w r w'. kCreateSecret kc x w = Some (r, w') \<longrightarrow>
     (case r of Inl e \<Rightarrow> view w' = view w
      | Inr _ \<Rightarrow> clSecrets (view w) (omName (secMeta x)) (omNamespace (secMeta x)) = None \<and>
          view w' = (view w)\<lparr>clSecrets := put2 (omName (secMeta x)) (omNamespace (secMeta x))
            (Some (x\<lparr>secMeta := (secMeta x)\<lparr>omCreated := True\<rparr>\<rparr>)) (clSecrets (view w))\<rparr>))"

definition cou_secret_ok :: "('w \<Rightarrow> cluster) \<Rightarrow> 'w kube_client \<Rightarrow> bool" where
  "cou_secret_ok view kc \<longleftrightarrow> (\<forall>x f w r w'. kCouSecret kc x f w = Some (r, w') \<longrightarrow>
     (let n = omName (secMeta x); ns = omNamespace (secMeta x); old = clSecrets (view w) n ns
      in case r of Inl e \<Rightarrow> view w' = view w
      | Inr _ \<Rightarrow> (\<exists>y. f (case old of None \<Rightarrow> x | Some o' \<Rightarrow> o') = Inr y \<and>
          view w' = (view w)\<lparr>clSecrets := put2 n ns
            (Some (y\<lparr>secMeta := (secMeta y)\<lparr>omCreated := True\<rparr>\<rparr>)) (clSecrets (view w))\<rparr>)))"

definition get_secret_ok :: "('w \<Rightarrow> cluster) \<Rightarrow> 'w kube_client \<Rightarrow> bool" where
  "get_secret_ok view kc \<longleftrightarrow> (\<forall>n ns. reads_ok view (\<lambda>c. clSecrets c n ns) (kGetSecret kc n ns))"

lemma get_secret_view:
  "get_secret_ok view kc \<Longrightarrow> kGetSecret kc n ns w = Some (r, w') \<Longrightarrow> view w' = view w"
  unfolding get_secret_ok_def reads_ok_def by blast

lemma get_secret_some:
  "get_secret_ok view kc \<Longrightarrow> kGetSecret kc n ns w = Some (Inr x, w') \<Longrightarrow> clSecrets (view w) n ns = Some x"
  unfolding get_secret_ok_def reads_ok_def by fastforce

lemma get_secret_none:
  "get_secret_ok view kc \<Longrightarrow> kGetSecret kc n ns w = Some (Inl e, w') \<Longrightarrow>
     IsNotFound e \<longleftrightarrow> clSecrets (view w) n ns = None"
  unfolding get_secret_ok_def reads_ok_def by fastforce

lemma put2_same [simp]: "put2 n ns x f n ns = x"
  by (simp add: put2_def)

lemma put2_other: "n' \<noteq> n \<or> ns' \<noteq> ns \<Longrightarrow> put2 n ns x f n' ns' = f n' ns'"
  by (auto simp: put2_def)

end
