(* ===== verification/Apply.thy ===== *)
theory Apply
  imports Client
begin

text \<open>
  The helpers every component is built from (internal/controller/apply.go and namespace.go): names,
  labels, hashes, status conditions, generated secrets and security contexts. \<open>stage\<close> is the statement
  the component reconcilers repeat: on an error, record it in the component's condition and return it.
\<close>

section \<open>Constants\<close>

abbreviation managedBy :: string where "managedBy \<equiv> ''data-platform-operator''"
abbreviation labelAppName :: string where "labelAppName \<equiv> ''app.kubernetes.io/name''"
abbreviation labelAppInstance :: string where "labelAppInstance \<equiv> ''app.kubernetes.io/instance''"
abbreviation labelAppComponent :: string where "labelAppComponent \<equiv> ''app.kubernetes.io/component''"
abbreviation labelAppManagedBy :: string where "labelAppManagedBy \<equiv> ''app.kubernetes.io/managed-by''"
abbreviation labelPlatform :: string where "labelPlatform \<equiv> ''dataplatform.opsarray.io/name''"
abbreviation annotationConfigHash :: string where "annotationConfigHash \<equiv> ''dataplatform.opsarray.io/config-hash''"
abbreviation componentMinio :: string where "componentMinio \<equiv> ''minio''"
abbreviation componentPostgres :: string where "componentPostgres \<equiv> ''postgres''"
abbreviation componentLakekeeper :: string where "componentLakekeeper \<equiv> ''lakekeeper''"
abbreviation componentTrinoCoordinator :: string where "componentTrinoCoordinator \<equiv> ''trino-coordinator''"
abbreviation componentTrinoWorker :: string where "componentTrinoWorker \<equiv> ''trino-worker''"
abbreviation componentKeycloak :: string where "componentKeycloak \<equiv> ''keycloak''"
abbreviation componentOpenFGA :: string where "componentOpenFGA \<equiv> ''openfga''"
abbreviation componentOpenFGAPostgres :: string where "componentOpenFGAPostgres \<equiv> ''openfga-postgres''"
abbreviation componentOPA :: string where "componentOPA \<equiv> ''opa''"
abbreviation nameMinio :: string where "nameMinio \<equiv> ''minio''"
abbreviation nameMinioBucketJob :: string where "nameMinioBucketJob \<equiv> ''minio-create-bucket''"
abbreviation namePostgres :: string where "namePostgres \<equiv> ''postgres''"
abbreviation nameLakekeeper :: string where "nameLakekeeper \<equiv> ''lakekeeper''"
abbreviation nameTrino :: string where "nameTrino \<equiv> ''trino''"
abbreviation nameTrinoWorker :: string where "nameTrinoWorker \<equiv> ''trino-worker''"
abbreviation nameKeycloak :: string where "nameKeycloak \<equiv> ''keycloak''"
abbreviation nameOpenFGA :: string where "nameOpenFGA \<equiv> ''openfga''"
abbreviation nameOPA :: string where "nameOPA \<equiv> ''opa''"
abbreviation secretMinio :: string where "secretMinio \<equiv> ''minio''"
abbreviation secretMinioMC :: string where "secretMinioMC \<equiv> ''minio-mc''"
abbreviation secretPostgres :: string where "secretPostgres \<equiv> ''postgres''"
abbreviation secretEncryption :: string where "secretEncryption \<equiv> ''lakekeeper-encryption''"
abbreviation secretTrinoCatalog :: string where "secretTrinoCatalog \<equiv> ''trino-catalog-lakekeeper''"
abbreviation secretTrinoConfig :: string where "secretTrinoConfig \<equiv> ''trino-config''"
abbreviation secretTrinoInternal :: string where "secretTrinoInternal \<equiv> ''trino-internal''"
abbreviation secretKeycloakAdmin :: string where "secretKeycloakAdmin \<equiv> ''keycloak-admin''"
abbreviation secretOIDC :: string where "secretOIDC \<equiv> ''oidc''"
abbreviation secretOpenFGA :: string where "secretOpenFGA \<equiv> ''openfga''"
abbreviation configMapKeycloakRealm :: string where "configMapKeycloakRealm \<equiv> ''keycloak-realm''"
abbreviation secretKeycloakRealmKey :: string where "secretKeycloakRealmKey \<equiv> ''keycloak-realm-key''"
abbreviation keyRealmPrivateKey :: string where "keyRealmPrivateKey \<equiv> ''privateKey''"
abbreviation keyRealmCertificate :: string where "keyRealmCertificate \<equiv> ''certificate''"
abbreviation keycloakAdminEmail :: string where "keycloakAdminEmail \<equiv> ''admin@local''"
abbreviation oidcSubjectPrefix :: string where "oidcSubjectPrefix \<equiv> ''oidc~''"
abbreviation configMapOPAPolicies :: string where "configMapOPAPolicies \<equiv> ''opa-policies''"
abbreviation keyEncryption :: string where "keyEncryption \<equiv> ''LAKEKEEPER__PG_ENCRYPTION_KEY''"
abbreviation keyS3Access :: string where "keyS3Access \<equiv> ''AWS_ACCESS_KEY_ID''"
abbreviation keyS3Secret :: string where "keyS3Secret \<equiv> ''AWS_SECRET_ACCESS_KEY''"
abbreviation keyMCHost :: string where "keyMCHost \<equiv> ''MC_HOST_local''"
abbreviation keyPostgresUsername :: string where "keyPostgresUsername \<equiv> ''username''"
abbreviation keyPostgresPassword :: string where "keyPostgresPassword \<equiv> ''password''"
abbreviation keyPostgresDatabase :: string where "keyPostgresDatabase \<equiv> ''database''"
abbreviation keyOIDCClientID :: string where "keyOIDCClientID \<equiv> ''clientID''"
abbreviation keyOIDCClientSecret :: string where "keyOIDCClientSecret \<equiv> ''clientSecret''"
abbreviation keyOIDCTrinoClientID :: string where "keyOIDCTrinoClientID \<equiv> ''trinoClientID''"
abbreviation keyOIDCTrinoClientSecret :: string where "keyOIDCTrinoClientSecret \<equiv> ''trinoClientSecret''"
abbreviation keyOIDCOperatorClientID :: string where "keyOIDCOperatorClientID \<equiv> ''operatorClientID''"
abbreviation keyOIDCOperatorSecret :: string where "keyOIDCOperatorSecret \<equiv> ''operatorClientSecret''"
abbreviation keyOIDCOpaClientID :: string where "keyOIDCOpaClientID \<equiv> ''opaClientID''"
abbreviation keyOIDCOpaClientSecret :: string where "keyOIDCOpaClientSecret \<equiv> ''opaClientSecret''"
abbreviation keyKeycloakAdminUser :: string where "keyKeycloakAdminUser \<equiv> ''username''"
abbreviation keyKeycloakAdminPassword :: string where "keyKeycloakAdminPassword \<equiv> ''password''"
abbreviation keyTrinoSharedSecret :: string where "keyTrinoSharedSecret \<equiv> ''sharedSecret''"
abbreviation keyOpenFGAAPIKey :: string where "keyOpenFGAAPIKey \<equiv> ''apiKey''"
abbreviation keyRealmJSON :: string where "keyRealmJSON \<equiv> ''realm.json''"
abbreviation portNameHTTP :: string where "portNameHTTP \<equiv> ''http''"
abbreviation sslModeDisable :: string where "sslModeDisable \<equiv> ''disable''"
abbreviation volumeData :: string where "volumeData \<equiv> ''data''"
abbreviation volumeTmp :: string where "volumeTmp \<equiv> ''tmp''"
abbreviation volumeRealm :: string where "volumeRealm \<equiv> ''realm''"
abbreviation volumeConfig :: string where "volumeConfig \<equiv> ''config''"
abbreviation keyHome :: string where "keyHome \<equiv> ''HOME''"
abbreviation keyMcConfigDir :: string where "keyMcConfigDir \<equiv> ''MC_CONFIG_DIR''"
abbreviation mcHomePath :: string where "mcHomePath \<equiv> ''/tmp''"
abbreviation mcConfigPath :: string where "mcConfigPath \<equiv> ''/tmp/.mc''"
abbreviation keyPGDATA :: string where "keyPGDATA \<equiv> ''PGDATA''"
abbreviation pgDataMountPath :: string where "pgDataMountPath \<equiv> ''/var/lib/postgresql/data''"
abbreviation pgDataPath :: string where "pgDataPath \<equiv> ''/var/lib/postgresql/data/pgdata''"
abbreviation minioAPIPort :: int where "minioAPIPort \<equiv> 9000"
abbreviation minioConsolePort :: int where "minioConsolePort \<equiv> 9001"
abbreviation postgresPort :: int where "postgresPort \<equiv> 5432"
abbreviation lakekeeperPort :: int where "lakekeeperPort \<equiv> 8181"
abbreviation trinoPort :: int where "trinoPort \<equiv> 8080"
abbreviation keycloakPort :: int where "keycloakPort \<equiv> 8080"
abbreviation openfgaGRPCPort :: int where "openfgaGRPCPort \<equiv> 8081"
abbreviation openfgaHTTPPort :: int where "openfgaHTTPPort \<equiv> 8080"
abbreviation opaPort :: int where "opaPort \<equiv> 8181"
abbreviation uidMinio :: int where "uidMinio \<equiv> 1000"
abbreviation gidMinio :: int where "gidMinio \<equiv> 1000"
abbreviation uidPostgres :: int where "uidPostgres \<equiv> 999"
abbreviation gidPostgres :: int where "gidPostgres \<equiv> 999"
abbreviation uidLakekeeper :: int where "uidLakekeeper \<equiv> 65532"
abbreviation gidLakekeeper :: int where "gidLakekeeper \<equiv> 65534"
abbreviation uidTrino :: int where "uidTrino \<equiv> 1000"
abbreviation gidTrino :: int where "gidTrino \<equiv> 1000"
abbreviation uidKeycloak :: int where "uidKeycloak \<equiv> 1000"
abbreviation gidKeycloak :: int where "gidKeycloak \<equiv> 1000"
abbreviation uidOpenFGA :: int where "uidOpenFGA \<equiv> 65532"
abbreviation gidOpenFGA :: int where "gidOpenFGA \<equiv> 65532"
abbreviation uidOPA :: int where "uidOPA \<equiv> 1000"
abbreviation gidOPA :: int where "gidOPA \<equiv> 1000"
abbreviation reasonReconciling :: string where "reasonReconciling \<equiv> ''Reconciling''"
abbreviation reasonReady :: string where "reasonReady \<equiv> ''Ready''"
abbreviation reasonNotReady :: string where "reasonNotReady \<equiv> ''NotReady''"
abbreviation reasonError :: string where "reasonError \<equiv> ''Error''"
abbreviation reasonDisabled :: string where "reasonDisabled \<equiv> ''Disabled''"
abbreviation reasonMissing :: string where "reasonMissing \<equiv> ''Missing''"

text \<open>\<open>corev1.SecretTypeOpaque\<close>.\<close>

abbreviation SecretTypeOpaque :: string where "SecretTypeOpaque \<equiv> ''Opaque''"

section \<open>Labels, names and hashes\<close>

definition labelsFor :: "dataplatform \<Rightarrow> string \<Rightarrow> smap" where
  "labelsFor dp component =
     (let name = (if component = componentTrinoCoordinator \<or> component = componentTrinoWorker then nameTrino
        else if component = componentOpenFGAPostgres then namePostgres
        else component)
      in fmap_of_list [
        (labelAppName, name),
        (labelAppInstance, dpName dp),
        (labelAppComponent, component),
        (labelAppManagedBy, managedBy),
        (labelPlatform, dpName dp)])"

definition ensureLabels :: "smap \<Rightarrow> object_meta \<Rightarrow> object_meta" where
  "ensureLabels labels obj = obj\<lparr>omLabels := mapsCopy (omLabels obj) labels\<rparr>"

definition clusterServiceURL :: "string \<Rightarrow> string \<Rightarrow> int \<Rightarrow> string" where
  "clusterServiceURL name namespace port =
     ''http://'' @ name @ ''.'' @ namespace @ ''.svc:'' @ Itoa port"

text \<open>The bytes that \<open>hashData\<close> writes to the hash, and its result.\<close>

definition hashInput :: "string list \<Rightarrow> string" where
  "hashInput parts = concat (map (\<lambda>p. p @ [CHR 0x00]) parts)"

definition hashData :: "lib \<Rightarrow> string list \<Rightarrow> string" where
  "hashData l parts = hexEncode (take 8 (lSha256 l (hashInput parts)))"

definition randomHex :: "'w reconciler \<Rightarrow> nat \<Rightarrow> ('w st, string) go" where
  "randomHex r n = bindE (liftL (sRandRead (rSys r) n)) (\<lambda>buf. ret (hexEncode buf))"

section \<open>Conditions\<close>

definition setCondition ::
  "'w reconciler \<Rightarrow> dataplatform \<Rightarrow> string \<Rightarrow> condition_status \<Rightarrow> string \<Rightarrow> string \<Rightarrow> ('w st, unit) go" where
  "setCondition r dp condType status reason message =
     modifyR (\<lambda>st. st\<lparr>dsConditions := lSetStatusCondition (rLib r)
       \<lparr>cdType = condType, cdStatus = status, cdReason = reason, cdMessage = message,
         cdObservedGeneration = dpGeneration dp\<rparr> (dsConditions st)\<rparr>)"

definition conditionTrue :: "'w reconciler \<Rightarrow> string \<Rightarrow> dp_status \<Rightarrow> bool" where
  "conditionTrue r condType st = lIsStatusConditionTrue (rLib r) (dsConditions st) condType"

text \<open>
  \<open>x, err := m; if err != nil { setCondition(dp, c, False, reason, err.Error()); return err }\<close>,
  followed by \<open>f x\<close>.
\<close>

definition stage ::
  "'w reconciler \<Rightarrow> dataplatform \<Rightarrow> string \<Rightarrow> ('w st, 'a) go \<Rightarrow> ('a \<Rightarrow> ('w st, 'b) go) \<Rightarrow> ('w st, 'b) go" where
  "stage r dp c m f = handleE m (\<lambda>q. case q of
      Inl e \<Rightarrow> bindE (setCondition r dp c ConditionFalse reasonError (err_text e)) (\<lambda>_. fail e)
    | Inr x \<Rightarrow> f x)"

text \<open>\<open>err := e; setCondition(dp, c, False, Missing, err.Error()); return err\<close>.\<close>

definition missing :: "'w reconciler \<Rightarrow> dataplatform \<Rightarrow> string \<Rightarrow> err \<Rightarrow> ('w st, 'a) go" where
  "missing r dp c e = bindE (setCondition r dp c ConditionFalse reasonMissing (err_text e)) (\<lambda>_. fail e)"

section \<open>Applying objects\<close>

text \<open>
  \<open>apply_obj\<close> is \<open>apply\<close> at one kind of object, given by its \<open>CreateOrUpdate\<close> and by how its metadata
  is read and written; the abbreviations name the kinds.
\<close>

definition withController ::
  "'w reconciler \<Rightarrow> dataplatform \<Rightarrow> ('o \<Rightarrow> object_meta) \<Rightarrow> (object_meta \<Rightarrow> 'o \<Rightarrow> 'o) \<Rightarrow> ('o \<Rightarrow> err + 'o) \<Rightarrow> 'o \<Rightarrow> err + 'o" where
  "withController r dp meta setMeta mutate obj = (case mutate obj of
      Inl e \<Rightarrow> Inl e
    | Inr obj' \<Rightarrow> (case lSetControllerReference (rLib r) dp (meta obj') of
        Inl e \<Rightarrow> Inl e
      | Inr m \<Rightarrow> Inr (setMeta m obj')))"

definition apply_obj ::
  "('o \<Rightarrow> ('o \<Rightarrow> err + 'o) \<Rightarrow> ('w, unit) go) \<Rightarrow> ('o \<Rightarrow> object_meta) \<Rightarrow> (object_meta \<Rightarrow> 'o \<Rightarrow> 'o) \<Rightarrow>
   'w reconciler \<Rightarrow> dataplatform \<Rightarrow> 'o \<Rightarrow> ('o \<Rightarrow> err + 'o) \<Rightarrow> ('w st, unit) go" where
  "apply_obj createOrUpdate meta setMeta r dp obj mutate =
     liftL (createOrUpdate obj (withController r dp meta setMeta mutate))"

abbreviation applyService :: "'w reconciler \<Rightarrow> dataplatform \<Rightarrow> service \<Rightarrow> (service \<Rightarrow> err + service) \<Rightarrow> ('w st, unit) go" where
  "applyService r \<equiv> apply_obj (kCouService (rClient r)) svcMeta (\<lambda>m o'. o'\<lparr>svcMeta := m\<rparr>) r"

abbreviation applySecret :: "'w reconciler \<Rightarrow> dataplatform \<Rightarrow> secret \<Rightarrow> (secret \<Rightarrow> err + secret) \<Rightarrow> ('w st, unit) go" where
  "applySecret r \<equiv> apply_obj (kCouSecret (rClient r)) secMeta (\<lambda>m o'. o'\<lparr>secMeta := m\<rparr>) r"

abbreviation applyConfigMap :: "'w reconciler \<Rightarrow> dataplatform \<Rightarrow> config_map \<Rightarrow> (config_map \<Rightarrow> err + config_map) \<Rightarrow> ('w st, unit) go" where
  "applyConfigMap r \<equiv> apply_obj (kCouConfigMap (rClient r)) cmMeta (\<lambda>m o'. o'\<lparr>cmMeta := m\<rparr>) r"

abbreviation applyDeployment :: "'w reconciler \<Rightarrow> dataplatform \<Rightarrow> deployment \<Rightarrow> (deployment \<Rightarrow> err + deployment) \<Rightarrow> ('w st, unit) go" where
  "applyDeployment r \<equiv> apply_obj (kCouDeployment (rClient r)) depMeta (\<lambda>m o'. o'\<lparr>depMeta := m\<rparr>) r"

abbreviation applyStatefulSet :: "'w reconciler \<Rightarrow> dataplatform \<Rightarrow> stateful_set \<Rightarrow> (stateful_set \<Rightarrow> err + stateful_set) \<Rightarrow> ('w st, unit) go" where
  "applyStatefulSet r \<equiv> apply_obj (kCouStatefulSet (rClient r)) stsMeta (\<lambda>m o'. o'\<lparr>stsMeta := m\<rparr>) r"

abbreviation applyJob :: "'w reconciler \<Rightarrow> dataplatform \<Rightarrow> job \<Rightarrow> (job \<Rightarrow> err + job) \<Rightarrow> ('w st, unit) go" where
  "applyJob r \<equiv> apply_obj (kCouJob (rClient r)) jobMeta (\<lambda>m o'. o'\<lparr>jobMeta := m\<rparr>) r"

section \<open>Secrets and namespaces\<close>

definition ensureGeneratedSecret ::
  "'w reconciler \<Rightarrow> dataplatform \<Rightarrow> string \<Rightarrow> string \<Rightarrow> string \<Rightarrow> smap \<Rightarrow> ('w st, unit) go" where
  "ensureGeneratedSecret r dp name namespace component data =
     handleE (liftL (kGetSecret (rClient r) name namespace)) (\<lambda>q. case q of
       Inr _ \<Rightarrow> ret ()
     | Inl e \<Rightarrow>
         if \<not> IsNotFound e then fail e
         else bindE (pureE (lSetControllerReference (rLib r) dp
             ((newMeta name namespace)\<lparr>omLabels := labelsFor dp component\<rparr>))) (\<lambda>m.
           liftL (kCreateSecret (rClient r) \<lparr>secMeta = m, secType = SecretTypeOpaque, secData = data\<rparr>)))"

definition getSecretData :: "'w reconciler \<Rightarrow> string \<Rightarrow> string \<Rightarrow> string \<Rightarrow> ('w st, string) go" where
  "getSecretData r name namespace key =
     bindE (liftL (kGetSecret (rClient r) name namespace)) (\<lambda>secret.
       case fmlookup (secData secret) key of
         None \<Rightarrow> fail (Errorf (''secret '' @ namespace @ ''/'' @ name @ '' is missing key '' @ key))
       | Some val \<Rightarrow> ret val)"

definition ensureNamespace :: "'w reconciler \<Rightarrow> dataplatform \<Rightarrow> string \<Rightarrow> string \<Rightarrow> ('w st, unit) go" where
  "ensureNamespace r dp name component =
     handleE (liftL (kGetNamespace (rClient r) name)) (\<lambda>q. case q of
       Inr _ \<Rightarrow> ret ()
     | Inl e \<Rightarrow>
         if \<not> IsNotFound e then fail e
         else bindE (pureE (lSetControllerReference (rLib r) dp
             ((newMeta name [])\<lparr>omLabels := labelsFor dp component\<rparr>))) (\<lambda>m.
           liftL (kCreateNamespace (rClient r) \<lparr>nsMeta = m\<rparr>)))"

section \<open>Security contexts\<close>

definition restrictedPodSecurity :: "int \<Rightarrow> int \<Rightarrow> pod_security" where
  "restrictedPodSecurity uid gid =
     \<lparr>psRunAsNonRoot = Some True, psSeccompProfile = ''RuntimeDefault'',
      psRunAsUser = (if uid > 0 then Some uid else None),
      psRunAsGroup = (if gid > 0 then Some gid else None),
      psFSGroup = (if gid > 0 then Some gid else None),
      psFSGroupChangePolicy = (if gid > 0 then Some ''OnRootMismatch'' else None)\<rparr>"

definition restrictedContainerSecurity :: "int \<Rightarrow> int \<Rightarrow> container_security" where
  "restrictedContainerSecurity uid gid =
     \<lparr>csAllowPrivilegeEscalation = Some False, csDrop = [''ALL''], csRunAsNonRoot = Some True,
      csRunAsUser = (if uid > 0 then Some uid else None),
      csRunAsGroup = (if gid > 0 then Some gid else None)\<rparr>"

section \<open>Writing the status\<close>

definition patchStatus :: "'w reconciler \<Rightarrow> dataplatform \<Rightarrow> ('w st, unit) go" where
  "patchStatus r dp =
     bindE (liftL (kGetDataPlatform (rClient r) (dpName dp))) (\<lambda>(latest, _).
     bindE (getsR (\<lambda>st. st)) (\<lambda>st.
     liftL (kUpdateStatus (rClient r) (latest, st))))"

section \<open>Labels tell components and platforms apart\<close>

text \<open>How Kubernetes matches a selector: every pair of it is a label of the object.\<close>

definition selects :: "smap \<Rightarrow> smap \<Rightarrow> bool" where
  "selects sel labels \<longleftrightarrow> (\<forall>k v. fmlookup sel k = Some v \<longrightarrow> fmlookup labels k = Some v)"

lemma labelsFor_lookup:
  "fmlookup (labelsFor dp c) labelAppComponent = Some c"
  "fmlookup (labelsFor dp c) labelPlatform = Some (dpName dp)"
  by (simp_all add: labelsFor_def Let_def fmlookup_of_list)

lemma labelsFor_cong: "dpName dp = dpName dp' \<Longrightarrow> labelsFor dp c = labelsFor dp' c"
  by (simp add: labelsFor_def)

lemma labelsFor_selects:
  "selects (labelsFor dp c) (labelsFor dp' c') \<longleftrightarrow> dpName dp = dpName dp' \<and> c = c'"
proof
  assume s: "selects (labelsFor dp c) (labelsFor dp' c')"
  show "dpName dp = dpName dp' \<and> c = c'"
    using s [unfolded selects_def, rule_format, OF labelsFor_lookup(1)]
      s [unfolded selects_def, rule_format, OF labelsFor_lookup(2)]
    by (simp add: labelsFor_lookup)
next
  assume "dpName dp = dpName dp' \<and> c = c'"
  then have "labelsFor dp c = labelsFor dp' c'" using labelsFor_cong by blast
  then show "selects (labelsFor dp c) (labelsFor dp' c')" by (simp add: selects_def)
qed

text \<open>
  C23. The labels of a component select exactly its own pods: a selector built by \<open>labelsFor\<close> matches
  labels built by \<open>labelsFor\<close> only for the same component of the same platform. No Service or workload
  of one component, or of another platform, picks up the pods of another.
\<close>

theorem labelsFor_selects_iff:
  "selects (labelsFor dp c) (labelsFor dp' c') \<longleftrightarrow> dpName dp = dpName dp' \<and> c = c'"
  by (rule labelsFor_selects)

text \<open>
  Labelling an object adds the operator's labels and keeps every label of a user that does not
  clash with one of them.
\<close>

lemma ensureLabels_keeps_others:
  "fmlookup (omLabels (ensureLabels labels m)) k =
     (case fmlookup labels k of Some v \<Rightarrow> Some v | None \<Rightarrow> fmlookup (omLabels m) k)"
  by (simp add: ensureLabels_def split: option.split)

section \<open>Hashes and random strings\<close>

lemma append_nul_inj:
  assumes "CHR 0x00 \<notin> set p" and "CHR 0x00 \<notin> set q" and "p @ CHR 0x00 # xs = q @ CHR 0x00 # ys"
  shows "p = q \<and> xs = ys"
  using assms
proof (induction p arbitrary: q)
  case Nil
  then show ?case by (cases q) auto
next
  case (Cons a p)
  then show ?case by (cases q) auto
qed

text \<open>
  C37. \<open>hashData\<close> tells its inputs apart before hashing: two lists of parts without NUL bytes that
  write the same bytes to the hash are the same list, so moving text from one part to the next
  changes what is hashed.
\<close>

theorem hashInput_injective:
  assumes "\<forall>p \<in> set ps. CHR 0x00 \<notin> set p" and "\<forall>q \<in> set qs. CHR 0x00 \<notin> set q"
    and "hashInput ps = hashInput qs"
  shows "ps = qs"
  using assms
proof (induction ps arbitrary: qs)
  case Nil
  then show ?case by (cases qs) (auto simp: hashInput_def)
next
  case (Cons p ps)
  then obtain q qs' where qs: "qs = q # qs'" by (cases qs) (auto simp: hashInput_def)
  have "p @ CHR 0x00 # hashInput ps = q @ CHR 0x00 # hashInput qs'"
    using Cons.prems(3) qs by (simp add: hashInput_def)
  then have eq: "p = q \<and> hashInput ps = hashInput qs'"
    using Cons.prems(1,2) qs by (intro append_nul_inj) simp_all
  have "ps = qs'"
    by (rule Cons.IH) (use Cons.prems(1,2) qs eq in simp_all)
  then show ?case using eq qs by simp
qed

text \<open>
  A generated password is plain: \<open>randomHex n\<close> gives \<open>2 * n\<close> characters, all hexadecimal digits,
  whenever the random source fills the \<open>n\<close> bytes it is asked for.
\<close>

lemma randomHex_plain:
  assumes "\<And>w b w'. sRandRead (rSys r) n w = Some (Inr b, w') \<Longrightarrow> length b = n"
  shows "hoare (\<lambda>_. True) (randomHex r n) (\<lambda>x _. length x = 2 * n \<and> set x \<subseteq> set hexDigits) (\<lambda>_ _. True)"
  using assms set_hexEncode
  by (intro hoareI) (auto simp: randomHex_def run_simps split: option.splits sum.splits, blast)

text \<open>
  Reading a key of a Secret gives the stored value or an error that names the Secret and the key; a
  missing key is never read as an empty value.
\<close>

lemma getSecretData_cases:
  assumes "kGetSecret (rClient r) name ns w = Some (Inr s, w')"
  shows "getSecretData r name ns key (w, st) =
     Some (case fmlookup (secData s) key of
         Some v \<Rightarrow> Inr v
       | None \<Rightarrow> Inl (Errorf (''secret '' @ ns @ ''/'' @ name @ '' is missing key '' @ key)), (w', st))"
  using assms by (simp add: getSecretData_def run_simps split: option.split)

end
