(* ===== verification/Component.thy ===== *)
theory Component
  imports Apply
begin

text \<open>
  How a component of the platform reports: the contract every component reconciler keeps, as a locale
  that the reconcile loop relies on and each component interprets, and the contract of the mutations
  that \<open>apply\<close> is given. The lemmas before the locales are the rules by which the components prove
  their contracts, one for each statement of apply.go.
\<close>

section \<open>Reading the status\<close>

definition condition_of :: "string \<Rightarrow> dp_status \<Rightarrow> condition option" where
  "condition_of t st = findCondition t (dsConditions st)"

text \<open>The condition \<open>t\<close> says, for this generation, that the error \<open>e\<close> occurred.\<close>

definition reported :: "dataplatform \<Rightarrow> string \<Rightarrow> err \<Rightarrow> dp_status \<Rightarrow> bool" where
  "reported dp t e st \<longleftrightarrow> (\<exists>reason \<in> {reasonError, reasonMissing}. condition_of t st =
     Some \<lparr>cdType = t, cdStatus = ConditionFalse, cdReason = reason, cdMessage = err_text e,
       cdObservedGeneration = dpGeneration dp\<rparr>)"

text \<open>The condition \<open>t\<close> has been decided, True or False, for this generation.\<close>

definition settled :: "dataplatform \<Rightarrow> string \<Rightarrow> dp_status \<Rightarrow> bool" where
  "settled dp t st \<longleftrightarrow> (case condition_of t st of None \<Rightarrow> False
     | Some c \<Rightarrow> cdObservedGeneration c = dpGeneration dp \<and> cdStatus c \<noteq> ConditionUnknown)"

lemma condition_of_cong: "dsConditions a = dsConditions b \<Longrightarrow> condition_of t a = condition_of t b"
  by (simp add: condition_of_def)

lemma condition_of_updates [simp]:
  "condition_of t (st\<lparr>dsMinioEndpoint := a\<rparr>) = condition_of t st"
  "condition_of t (st\<lparr>dsLakekeeperEndpoint := a\<rparr>) = condition_of t st"
  "condition_of t (st\<lparr>dsTrinoEndpoint := a\<rparr>) = condition_of t st"
  "condition_of t (st\<lparr>dsKeycloakEndpoint := a\<rparr>) = condition_of t st"
  "condition_of t (st\<lparr>dsOpenFGAEndpoint := a\<rparr>) = condition_of t st"
  "condition_of t (st\<lparr>dsRowFilterStoreID := a\<rparr>) = condition_of t st"
  by (simp_all add: condition_of_def)

lemma condition_of_set:
  assumes "conditions_ok (rLib r)"
  shows "condition_of t (st\<lparr>dsConditions := lSetStatusCondition (rLib r) c (dsConditions st)\<rparr>) =
     (if t = cdType c then Some c else condition_of t st)"
  using assms by (simp add: condition_of_def conditions_ok_find)

lemma conditionTrue_iff:
  assumes "conditions_ok (rLib r)"
  shows "conditionTrue r t st \<longleftrightarrow>
     (case condition_of t st of None \<Rightarrow> False | Some c \<Rightarrow> cdStatus c = ConditionTrue)"
  using assms by (simp add: conditionTrue_def condition_of_def conditions_ok_true)

lemma conditionTrue_eqI:
  "conditions_ok (rLib r) \<Longrightarrow> condition_of t a = condition_of t b \<Longrightarrow>
     conditionTrue r t a = conditionTrue r t b"
  by (simp add: conditionTrue_iff)

lemma reported_not_true: "conditions_ok (rLib r) \<Longrightarrow> reported dp t e st \<Longrightarrow> \<not> conditionTrue r t st"
  by (auto simp: conditionTrue_iff reported_def)

lemma reported_settled: "reported dp t e st \<Longrightarrow> settled dp t st"
  by (auto simp: reported_def settled_def)

section \<open>Rules for the statements of apply.go\<close>

lemma setCondition_run [run_simps]:
  "setCondition r dp c b reason msg (w, st) = Some (Inr (), (w, st\<lparr>dsConditions :=
     lSetStatusCondition (rLib r) \<lparr>cdType = c, cdStatus = b, cdReason = reason, cdMessage = msg,
       cdObservedGeneration = dpGeneration dp\<rparr> (dsConditions st)\<rparr>))"
  by (simp add: setCondition_def modifyR_run)

subsection \<open>The condition of another component is left alone\<close>

abbreviation frame :: "string \<Rightarrow> condition option \<Rightarrow> ('w st, 'a) go \<Rightarrow> bool" where
  "frame t v m \<equiv> keeps (\<lambda>s. condition_of t (snd s) = v) m"

named_theorems frame_intro
  \<open>rules that a function leaves a condition alone\<close>

lemma frame_setCondition [frame_intro]:
  "conditions_ok (rLib r) \<Longrightarrow> t \<noteq> c \<Longrightarrow> frame t v (setCondition r dp c b reason msg)"
  unfolding setCondition_def by (rule keeps_modifyR) (simp add: condition_of_set)

lemma frame_modify [frame_intro]:
  "(\<And>st. condition_of t (g st) = condition_of t st) \<Longrightarrow> frame t v (modifyR g)"
  by (rule keeps_modifyR) simp

lemma frame_liftL [frame_intro]: "frame t v (liftL m)"
  by (rule keeps_liftL_right)

lemma frame_apply_obj [frame_intro]: "frame t v (apply_obj cou m sm r dp obj f)"
  unfolding apply_obj_def by (rule frame_liftL)

lemma frame_stage [frame_intro]:
  "conditions_ok (rLib r) \<Longrightarrow> t \<noteq> c \<Longrightarrow> frame t v m \<Longrightarrow> (\<And>x. frame t v (f x)) \<Longrightarrow>
     frame t v (stage r dp c m f)"
  unfolding stage_def by (auto intro!: keeps_intro frame_setCondition)

lemma frame_missing [frame_intro]:
  "conditions_ok (rLib r) \<Longrightarrow> t \<noteq> c \<Longrightarrow> frame t v (missing r dp c e)"
  unfolding missing_def by (auto intro!: keeps_intro frame_setCondition)

lemma frame_randomHex [frame_intro]: "frame t v (randomHex r n)"
  unfolding randomHex_def by (auto intro!: keeps_intro frame_intro)

lemma frame_ensureGeneratedSecret [frame_intro]: "frame t v (ensureGeneratedSecret r dp n ns c d)"
  unfolding ensureGeneratedSecret_def by (intro keeps_intro frame_intro)

lemma frame_getSecretData [frame_intro]: "frame t v (getSecretData r n ns k)"
  unfolding getSecretData_def by (intro keeps_intro frame_intro)

lemma frame_ensureNamespace [frame_intro]: "frame t v (ensureNamespace r dp n c)"
  unfolding ensureNamespace_def by (intro keeps_intro frame_intro)

subsection \<open>An error is recorded before it is returned\<close>

named_theorems report_intro
  \<open>rules for what holds of a component's condition when its reconciler returns\<close>

abbreviation reports ::
  "dataplatform \<Rightarrow> string \<Rightarrow> ('w st, 'a) go \<Rightarrow> ('a \<Rightarrow> 'w st \<Rightarrow> bool) \<Rightarrow> bool" where
  "reports dp c m Q \<equiv> hoare (\<lambda>_. True) m Q (\<lambda>e s. reported dp c e (snd s))"

lemma setCondition_then:
  assumes "\<And>w st. condition_of c st = Some \<lparr>cdType = c, cdStatus = b, cdReason = reason,
      cdMessage = msg, cdObservedGeneration = dpGeneration dp\<rparr> \<Longrightarrow>
      hoare (\<lambda>s. s = (w, st)) n Q E"
    and "conditions_ok (rLib r)"
  shows "hoare (\<lambda>_. True) (bindE (setCondition r dp c b reason msg) (\<lambda>_. n)) Q E"
proof (rule hoareI)
  fix s x s'
  assume run: "bindE (setCondition r dp c b reason msg) (\<lambda>_. n) s = Some (Inr x, s')"
  obtain w st where s: "s = (w, st)" by (cases s)
  let ?c = "\<lparr>cdType = c, cdStatus = b, cdReason = reason, cdMessage = msg,
    cdObservedGeneration = dpGeneration dp\<rparr>"
  let ?st = "st\<lparr>dsConditions := lSetStatusCondition (rLib r) ?c (dsConditions st)\<rparr>"
  have "hoare (\<lambda>t. t = (w, ?st)) n Q E" using assms by (simp add: condition_of_set)
  then show "Q x s'" using run s by (auto simp: bindE_run setCondition_run dest: hoareD_ok)
next
  fix s e s'
  assume run: "bindE (setCondition r dp c b reason msg) (\<lambda>_. n) s = Some (Inl e, s')"
  obtain w st where s: "s = (w, st)" by (cases s)
  let ?c = "\<lparr>cdType = c, cdStatus = b, cdReason = reason, cdMessage = msg,
    cdObservedGeneration = dpGeneration dp\<rparr>"
  let ?st = "st\<lparr>dsConditions := lSetStatusCondition (rLib r) ?c (dsConditions st)\<rparr>"
  have "hoare (\<lambda>t. t = (w, ?st)) n Q E" using assms by (simp add: condition_of_set)
  then show "E e s'" using run s by (auto simp: bindE_run setCondition_run dest: hoareD_err)
qed

lemma reports_stage [report_intro]:
  assumes "conditions_ok (rLib r)" and "\<And>x. reports dp c (f x) Q"
  shows "reports dp c (stage r dp c m f) Q"
  unfolding stage_def
proof (rule hoare_handleE [where R = "\<lambda>_ _. True"])
  show "hoare (\<lambda>_. True) m (\<lambda>_ _. True) (\<lambda>_ _. True)" by (rule hoareI) simp_all
  fix q
  show "reports dp c (case q of
      Inl e \<Rightarrow> bindE (setCondition r dp c ConditionFalse reasonError (err_text e)) (\<lambda>_. fail e)
    | Inr x \<Rightarrow> f x) Q"
    using assms
    by (cases q) (auto intro!: setCondition_then hoare_fail simp: reported_def)
qed

lemma reports_missing [report_intro]:
  "conditions_ok (rLib r) \<Longrightarrow> reports dp c (missing r dp c e) Q"
  unfolding missing_def by (auto intro!: setCondition_then hoare_fail simp: reported_def)

lemma reports_finish:
  assumes "conditions_ok (rLib r)"
    and "\<And>w st. condition_of c st = Some \<lparr>cdType = c, cdStatus = b, cdReason = reason,
      cdMessage = msg, cdObservedGeneration = dpGeneration dp\<rparr> \<Longrightarrow> Q x (w, st)"
  shows "reports dp c (bindE (setCondition r dp c b reason msg) (\<lambda>_. ret x)) Q"
  using assms by (intro setCondition_then hoare_ret) auto

lemma reports_if [report_intro]:
  "(b \<Longrightarrow> reports dp c m Q) \<Longrightarrow> (\<not> b \<Longrightarrow> reports dp c n Q) \<Longrightarrow>
     reports dp c (if b then m else n) Q"
  by simp

lemma reports_option_case [report_intro]:
  "(x = None \<Longrightarrow> reports dp c m Q) \<Longrightarrow> (\<And>y. x = Some y \<Longrightarrow> reports dp c (f y) Q)
    \<Longrightarrow> reports dp c (case x of None \<Rightarrow> m | Some y \<Rightarrow> f y) Q"
  by (cases x) simp_all

lemma reports_Let [report_intro]: "(\<And>y. y = x \<Longrightarrow> reports dp c (f y) Q) \<Longrightarrow> reports dp c (Let x f) Q"
  by simp

lemma reports_modify [report_intro]:
  "reports dp c n Q \<Longrightarrow> reports dp c (bindE (modifyR g) (\<lambda>_. n)) Q"
  by (rule hoare_bindE [where R = "\<lambda>_ _. True"]) (auto intro!: hoareI simp: modifyR_def)

lemma reports_getsR [report_intro]:
  "(\<And>x. reports dp c (f x) Q) \<Longrightarrow> reports dp c (bindE (getsR g) f) Q"
  by (rule hoare_bindE [where R = "\<lambda>_ _. True"]) (auto intro!: hoareI simp: getsR_def)

text \<open>A call that itself reports to the same condition.\<close>

lemma reports_bindE:
  assumes "reports dp c m (\<lambda>_ _. True)" and "\<And>x. reports dp c (f x) Q"
  shows "reports dp c (bindE m f) Q"
  using assms by (rule hoare_bindE [where R = "\<lambda>_ _. True"])

text \<open>
  What holds of a component's condition when its reconciler succeeds: it is settled, and the result is
  ready exactly when the condition is True.
\<close>

definition ready_post ::
  "'w reconciler \<Rightarrow> dataplatform \<Rightarrow> string \<Rightarrow> ('a \<Rightarrow> bool) \<Rightarrow> 'a \<Rightarrow> 'w st \<Rightarrow> bool" where
  "ready_post r dp c is_ready x s \<longleftrightarrow>
     settled dp c (snd s) \<and> (is_ready x \<longleftrightarrow> conditionTrue r c (snd s))"

lemma reports_ready [report_intro]:
  assumes "conditions_ok (rLib r)" and "b \<noteq> ConditionUnknown" and "is_ready x \<longleftrightarrow> b = ConditionTrue"
  shows "reports dp c (bindE (setCondition r dp c b reason msg) (\<lambda>_. ret x)) (ready_post r dp c is_ready)"
  using assms by (intro reports_finish) (auto simp: ready_post_def settled_def conditionTrue_iff)

lemma reports_settled [report_intro]:
  assumes "conditions_ok (rLib r)" and "b \<noteq> ConditionUnknown"
  shows "reports dp c (bindE (setCondition r dp c b reason msg) (\<lambda>_. ret x)) (\<lambda>_ s. settled dp c (snd s))"
  using assms by (intro reports_finish) (auto simp: settled_def)

section \<open>The contract of a component\<close>

text \<open>
  What the reconcile loop relies on in each component reconciler: it returns an error only after
  recording it in its own condition, on success it has decided its condition for this generation, and
  it never touches the condition of another component.
\<close>

locale component =
  fixes run :: "'w reconciler \<Rightarrow> dataplatform \<Rightarrow> ('w st, 'a) go" and ctype :: string
  assumes reports_error:
      "conditions_ok (rLib r) \<Longrightarrow> run r dp s = Some (Inl e, s') \<Longrightarrow> reported dp ctype e (snd s')"
    and settles:
      "conditions_ok (rLib r) \<Longrightarrow> run r dp s = Some (Inr x, s') \<Longrightarrow> settled dp ctype (snd s')"
    and leaves_others:
      "conditions_ok (rLib r) \<Longrightarrow> t \<noteq> ctype \<Longrightarrow> frame t v (run r dp)"
begin

lemma always_settled:
  assumes "conditions_ok (rLib r)" and "run r dp s = Some (q, s')"
  shows "settled dp ctype (snd s')"
  using assms by (cases q) (auto dest: reports_error reported_settled settles)

lemma error_not_true:
  "conditions_ok (rLib r) \<Longrightarrow> run r dp s = Some (Inl e, s') \<Longrightarrow> \<not> conditionTrue r ctype (snd s')"
  by (rule reported_not_true) (auto dest: reports_error)

lemma keeps_true:
  assumes "conditions_ok (rLib r)" and "t \<noteq> ctype" and "run r dp s = Some (q, s')"
  shows "conditionTrue r t (snd s') = conditionTrue r t (snd s)"
  using keepsD [OF leaves_others [OF assms(1,2)] assms(3)]
  by (intro conditionTrue_eqI [OF assms(1)]) simp

end

text \<open>A component whose result says whether it is ready: exactly when its condition is True.\<close>

locale gated_component = component run ctype
  for run :: "'w reconciler \<Rightarrow> dataplatform \<Rightarrow> ('w st, 'a) go" and ctype :: string +
  fixes is_ready :: "'a \<Rightarrow> bool"
  assumes ready_iff:
    "conditions_ok (rLib r) \<Longrightarrow> run r dp s = Some (Inr x, s') \<Longrightarrow>
       is_ready x \<longleftrightarrow> conditionTrue r ctype (snd s')"

text \<open>How a component proves its contract from the rules above.\<close>

lemma componentI:
  assumes "\<And>r dp. conditions_ok (rLib r) \<Longrightarrow> reports dp c (run r dp) (\<lambda>_ s. settled dp c (snd s))"
    and "\<And>r dp t v. conditions_ok (rLib r) \<Longrightarrow> t \<noteq> c \<Longrightarrow> frame t v (run r dp)"
  shows "component run c"
  using assms by unfold_locales (blast dest: hoareD_ok hoareD_err)+

lemma gated_componentI:
  assumes "\<And>r dp. conditions_ok (rLib r) \<Longrightarrow> reports dp c (run r dp) (ready_post r dp c is_ready)"
    and "\<And>r dp t v. conditions_ok (rLib r) \<Longrightarrow> t \<noteq> c \<Longrightarrow> frame t v (run r dp)"
  shows "gated_component run c is_ready"
proof -
  have "component run c"
  proof (rule componentI)
    fix r :: "'a reconciler" and dp assume ok: "conditions_ok (rLib r)"
    show "reports dp c (run r dp) (\<lambda>_ s. settled dp c (snd s))"
      by (rule hoare_weaken [OF assms(1) [OF ok]]) (simp_all add: ready_post_def)
  qed (rule assms(2))
  then show ?thesis
  proof (rule gated_component.intro, intro gated_component_axioms.intro)
    fix r :: "'a reconciler" and dp s x s'
    assume ok: "conditions_ok (rLib r)" and run: "run r dp s = Some (Inr x, s')"
    show "is_ready x \<longleftrightarrow> conditionTrue r c (snd s')"
      using hoareD_ok [OF assms(1) [OF ok] TrueI run] by (simp add: ready_post_def)
  qed
qed

section \<open>The contract of a mutation\<close>

text \<open>
  A mutation given to \<open>apply\<close> describes the desired state of an object: run again on its own result it
  changes nothing, so an object in its desired state is not written again.
\<close>

locale mutation =
  fixes mutate :: "'o \<Rightarrow> 'o"
  assumes idempotent: "mutate (mutate x) = mutate x"
begin

lemma stable: "(mutate ^^ Suc n) x = mutate x"
  by (induction n) (simp_all add: idempotent)

lemma fixpoint_iff: "mutate x = x \<longleftrightarrow> (\<exists>y. x = mutate y)"
  by (metis idempotent)

end

end
