(* ===== verification/Catalog.thy ===== *)
theory Catalog
  imports Apply
begin

text \<open>
  The catalog client (internal/controller/catalog.go): HTTP requests to LakeKeeper, OpenFGA and Keycloak
  through cluster DNS, a port-forward or the API server's service proxy.

  \<open>proxy\<close> holds what the client calls: the file system, the typed Kubernetes client, client-go's
  port-forwarding, the HTTP client, and JSON decoding into the anonymous structs of catalog.go and
  authzstore.go. A running port-forward is known by the handle of its stop channel.
\<close>

section \<open>What the client calls\<close>

datatype http_method = MethodGet | MethodPost

record http_request =
  rqMethod :: http_method
  rqURL :: string
  rqHeader :: smap
  rqBody :: "string option"

record http_response =
  rsStatusCode :: int
  rsBody :: nat

record pod_condition =
  pcondType :: string
  pcondStatus :: string

record pod =
  podName :: string
  podPhase :: string
  podConditions :: "pod_condition list"

text \<open>
  Which case of the \<open>select\<close> in \<open>portForward\<close> is taken. \<open>ForwardPorts\<close> gives a nil error only after
  its stop channel is closed, which does not happen before the \<open>select\<close>, so \<open>ErrCh\<close> carries an error.
\<close>

datatype forward_event = ReadyCh | ErrCh err | CtxDone err

record authz_reference =
  arType :: string
  arRelation :: string

record authz_type_metadata =
  tmRelations :: "(string, authz_reference list) fmap"

record authz_type_definition =
  tdType :: string
  tdRelations :: "(string, (string \<times> json) list) fmap"
  tdMetadata :: "authz_type_metadata option"

record authz_model =
  amSchemaVersion :: string
  amTypeDefinitions :: "authz_type_definition list"
  amConditions :: "(string \<times> json) list"

record listed_store =
  lsID :: string
  lsName :: string
  lsDeletedAt :: string

record 'w proxy =
  pxStat :: "string \<Rightarrow> ('w, unit) go"
  pxGetService :: "string \<Rightarrow> string \<Rightarrow> ('w, service) go"
  pxListPods :: "string \<Rightarrow> string \<Rightarrow> ('w, pod list) go"
  pxLabelsString :: "smap \<Rightarrow> string"
  pxRoundTripperFor :: "('w, unit) go"
  pxNewForwarder :: "string \<Rightarrow> string \<Rightarrow> int \<Rightarrow> ('w, nat) go"
  pxSelect :: "nat \<Rightarrow> ('w, forward_event) go"
  pxGetPorts :: "nat \<Rightarrow> ('w, int list) go"
  pxCloseStop :: "nat \<Rightarrow> ('w, unit) go"
  pxNewRequest :: "http_method \<Rightarrow> string \<Rightarrow> string option \<Rightarrow> err + http_request"
  pxHttpDo :: "http_request \<Rightarrow> ('w, http_response) go"
  pxDefaultDo :: "http_request \<Rightarrow> ('w, http_response) go"
  pxReadAll :: "nat \<Rightarrow> ('w, string) go"
  pxBodyClose :: "nat \<Rightarrow> ('w, unit) go"
  pxRestPost :: "string \<Rightarrow> string \<Rightarrow> string \<Rightarrow> string \<Rightarrow> ('w, int \<times> string option \<times> err option) go"
  pxUnmarshalWarehouses :: "string \<Rightarrow> err + (string \<times> string) list"
  pxUnmarshalStores :: "string \<Rightarrow> err + (listed_store list \<times> string)"
  pxUnmarshalID :: "string \<Rightarrow> err + string"
  pxUnmarshalModels :: "string \<Rightarrow> err + authz_model list"

section \<open>Reading answers\<close>

definition isSuccess :: "int \<Rightarrow> bool" where
  "isSuccess code = (code \<ge> 200 \<and> code < 300)"

definition isAlreadyDone :: "int \<Rightarrow> string \<Rightarrow> bool" where
  "isAlreadyDone code body =
     (if code = 409 then True
      else Contains (ToLower body) ''already'' \<and> (code = 400 \<or> code = 422))"

definition truncate_body :: "string \<Rightarrow> string" where
  "truncate_body b = (if length b \<le> 512 then b else take 512 b @ ''...'')"

definition warehouseListed :: "'w proxy \<Rightarrow> string \<Rightarrow> string \<Rightarrow> bool" where
  "warehouseListed c body name = (case pxUnmarshalWarehouses c body of
      Inl _ \<Rightarrow> Contains body (CHR 0x22 # name @ [CHR 0x22])
    | Inr ws \<Rightarrow> (\<exists>w \<in> set ws. fst w = name \<or> snd w = name))"

definition podReady :: "pod \<Rightarrow> bool" where
  "podReady p = (if podPhase p \<noteq> ''Running'' then False
     else \<exists>c \<in> set (podConditions p). pcondType c = ''Ready'' \<and> pcondStatus c = ''True'')"

section \<open>Requests\<close>

text \<open>\<open>if b { m[k] = v }\<close>.\<close>

definition jsetIf :: "bool \<Rightarrow> string \<Rightarrow> json \<Rightarrow> (string \<times> json) list \<Rightarrow> (string \<times> json) list" where
  "jsetIf b k v kvs = (if b then jset k v kvs else kvs)"

lemma map_of_jsetIf: "map_of (jsetIf b k v kvs) k' = (if b \<and> k' = k then Some v else map_of kvs k')"
  by (simp add: jsetIf_def)

definition warehouseProfile :: "warehouse_request \<Rightarrow> (string \<times> json) list" where
  "warehouseProfile req =
     jsetIf (wrSTSRoleARN req \<noteq> []) ''sts-role-arn'' (JStr (wrSTSRoleARN req))
     (jsetIf (wrPathStyleAccess req) ''path-style-access'' (JBool True)
     (jsetIf (wrEndpoint req \<noteq> []) ''endpoint'' (JStr (wrEndpoint req))
     (jsetIf (wrKeyPrefix req \<noteq> []) ''key-prefix'' (JStr (wrKeyPrefix req))
       [(''type'', JStr ''s3''), (''bucket'', JStr (wrBucket req)), (''region'', JStr (wrRegion req)),
        (''flavor'', JStr (wrFlavor req)), (''sts-enabled'', JBool (wrSTSEnabled req))])))"

definition warehouseCreateJSON :: "warehouse_request \<Rightarrow> json" where
  "warehouseCreateJSON req = JMap [
     (''warehouse-name'', JStr (wrName req)),
     (''storage-profile'', JMap (warehouseProfile req)),
     (''storage-credential'', JMap [
       (''type'', JStr ''s3''),
       (''credential-type'', JStr ''access-key''),
       (''aws-access-key-id'', JStr (wrAccessKeyID req)),
       (''aws-secret-access-key'', JStr (wrSecretAccessKey req))])]"

definition runningInCluster :: "'w proxy \<Rightarrow> ('w, bool) go" where
  "runningInCluster c =
     handleE (pxStat c ''/var/run/secrets/kubernetes.io/serviceaccount/token'') (\<lambda>q. case q of
       Inl _ \<Rightarrow> ret False | Inr _ \<Rightarrow> ret True)"

definition readyPodForService :: "'w proxy \<Rightarrow> string \<Rightarrow> string \<Rightarrow> ('w, string) go" where
  "readyPodForService c namespace service =
     bindE (pxGetService c namespace service) (\<lambda>svc.
     if svcSelector svc = fmempty then
       fail (Errorf (''service '' @ namespace @ ''/'' @ service @ '' has no selector''))
     else
       bindE (pxListPods c namespace (pxLabelsString c (svcSelector svc))) (\<lambda>pods.
       case find podReady pods of
         Some p \<Rightarrow> ret (podName p)
       | None \<Rightarrow> fail (Errorf (''no ready Pod for Service '' @ namespace @ ''/'' @ service))))"

text \<open>
  The local port and the cleanup that closes the stop channel. \<open>localPort\<close> is \<open>portForward\<close> from
  \<open>fw.GetPorts\<close> on and \<open>awaitForward\<close> from its \<open>select\<close> on.
\<close>

definition localPort :: "'w proxy \<Rightarrow> nat \<Rightarrow> string \<Rightarrow> string \<Rightarrow> ('w, int \<times> ('w, unit) go) go" where
  "localPort c fw namespace pod =
     handleE (pxGetPorts c fw) (\<lambda>q. case q of
       Inl e \<Rightarrow> bindE (pxCloseStop c fw) (\<lambda>_. fail e)
     | Inr ports \<Rightarrow> (case ports of
         [] \<Rightarrow> bindE (pxCloseStop c fw) (\<lambda>_.
           fail (Errorf (''port-forward to Pod '' @ namespace @ ''/'' @ pod @ '' produced no ports'')))
       | local # _ \<Rightarrow> ret (local, pxCloseStop c fw)))"

definition awaitForward :: "'w proxy \<Rightarrow> nat \<Rightarrow> string \<Rightarrow> string \<Rightarrow> ('w, int \<times> ('w, unit) go) go" where
  "awaitForward c fw namespace pod =
     bindE (pxSelect c fw) (\<lambda>ev. case ev of
       ErrCh e \<Rightarrow> fail e
     | CtxDone e \<Rightarrow> bindE (pxCloseStop c fw) (\<lambda>_. fail e)
     | ReadyCh \<Rightarrow> localPort c fw namespace pod)"

definition portForward ::
  "'w proxy \<Rightarrow> string \<Rightarrow> string \<Rightarrow> int \<Rightarrow> ('w, int \<times> ('w, unit) go) go" where
  "portForward c namespace pod port =
     bindE (pxRoundTripperFor c) (\<lambda>_.
     bindE (pxNewForwarder c namespace pod port) (\<lambda>fw.
     awaitForward c fw namespace pod))"

definition serviceBaseURL ::
  "'w proxy \<Rightarrow> string \<Rightarrow> string \<Rightarrow> int \<Rightarrow> ('w, string \<times> ('w, unit) go) go" where
  "serviceBaseURL c namespace service port =
     bindE (runningInCluster c) (\<lambda>inCluster.
     if inCluster then
       ret (''http://'' @ service @ ''.'' @ namespace @ ''.svc:'' @ Itoa port, ret ())
     else
       bindE (readyPodForService c namespace service) (\<lambda>pod.
       bindE (portForward c namespace pod port) (\<lambda>(local, stop).
       ret (''http://127.0.0.1:'' @ Itoa local, stop))))"

text \<open>\<open>defer cleanup()\<close>: run \<open>m\<close>, then \<open>d\<close> whatever \<open>m\<close> returned, and return what \<open>m\<close> returned.\<close>

definition deferE :: "('s, unit) go \<Rightarrow> ('s, 'a) go \<Rightarrow> ('s, 'a) go" where
  "deferE d m = handleE m (\<lambda>q. handleE d (\<lambda>_. pureE q))"

text \<open>\<open>io.ReadAll(io.LimitReader(resp.Body, 1<<20))\<close>.\<close>

definition readBody :: "'w proxy \<Rightarrow> http_response \<Rightarrow> ('w, int \<times> string) go" where
  "readBody c resp = deferE (pxBodyClose c (rsBody resp))
     (bindE (pxReadAll c (rsBody resp)) (\<lambda>raw. ret (rsStatusCode resp, take (2 ^ 20) raw)))"

text \<open>\<open>sendRequest\<close> is \<open>do\<close> from its \<open>defer cleanup()\<close> on.\<close>

definition sendRequest ::
  "'w proxy \<Rightarrow> http_method \<Rightarrow> string \<Rightarrow> string \<Rightarrow> string \<Rightarrow> json option \<Rightarrow> ('w, int \<times> string) go" where
  "sendRequest c method base path bearer payload =
     (let body = map_option marshal payload
      in bindE (pureE (pxNewRequest c method (trimSlash base @ ''/'' @ path) body)) (\<lambda>req.
         let h = fmupd ''Content-Type'' ''application/json'' (rqHeader req);
             h' = (if bearer \<noteq> [] then fmupd ''Authorization'' (''Bearer '' @ bearer) h else h)
         in bindE (pxHttpDo c (req\<lparr>rqHeader := h'\<rparr>)) (\<lambda>resp. readBody c resp)))"

definition do_request ::
  "'w proxy \<Rightarrow> http_method \<Rightarrow> string \<Rightarrow> string \<Rightarrow> int \<Rightarrow> string \<Rightarrow> string \<Rightarrow> json option \<Rightarrow>
   ('w, int \<times> string) go" where
  "do_request c method namespace service port path bearer payload =
     bindE (serviceBaseURL c namespace service port) (\<lambda>(base, cleanup).
     deferE cleanup (sendRequest c method base path bearer payload))"

definition postChecked ::
  "'w proxy \<Rightarrow> string \<Rightarrow> string \<Rightarrow> int \<Rightarrow> string \<Rightarrow> string \<Rightarrow> json \<Rightarrow> string \<Rightarrow> ('w, unit) go" where
  "postChecked c namespace service port path bearer payload what =
     bindE (do_request c MethodPost namespace service port path bearer (Some payload)) (\<lambda>(status, body).
     if isSuccess status \<or> isAlreadyDone status body then ret ()
     else fail (Errorf (what @ '' returned '' @ Itoa status @ '': '' @ truncate_body body)))"

definition Bootstrap :: "'w proxy \<Rightarrow> string \<Rightarrow> string \<Rightarrow> int \<Rightarrow> string \<Rightarrow> ('w, unit) go" where
  "Bootstrap c namespace service port bearer =
     bindE (do_request c MethodPost namespace service port ''management/v1/bootstrap'' bearer
       (Some (JMap [(''accept-terms-of-use'', JBool True), (''is-operator'', JBool True)]))) (\<lambda>(status, body).
     if isSuccess status \<or> isAlreadyDone status body then ret ()
     else fail (Errorf (''bootstrap returned '' @ Itoa status @ '': '' @ truncate_body body)))"

definition grantJSON :: "string \<Rightarrow> string \<Rightarrow> json" where
  "grantJSON relation subject =
     JMap [(''writes'', JArr [JMap [(''type'', JStr relation), (''user'', JStr subject)]])]"

definition ensurePrincipal ::
  "'w proxy \<Rightarrow> string \<Rightarrow> string \<Rightarrow> int \<Rightarrow> string \<Rightarrow> catalog_principal \<Rightarrow> ('w, unit) go" where
  "ensurePrincipal c namespace service port bearer p =
     (let user0 = [(''id'', JStr (cpSubject p)), (''name'', JStr (cpPrincipalName p)),
            (''user-type'', JStr (cpType p)), (''update-if-exists'', JBool True)];
          user = (if cpEmail p \<noteq> [] then jset ''email'' (JStr (cpEmail p)) user0 else user0)
      in bindE (postChecked c namespace service port ''management/v1/user'' bearer (JMap user)
           (''provision user '' @ cpPrincipalName p)) (\<lambda>_.
         bindE (whenE (cpServerRelation p \<noteq> []) (postChecked c namespace service port
           ''management/v1/permissions/server/assignments'' bearer
           (grantJSON (cpServerRelation p) (cpSubject p))
           (''grant server '' @ cpServerRelation p @ '' to '' @ cpPrincipalName p))) (\<lambda>_.
         whenE (cpProjectRelation p \<noteq> []) (postChecked c namespace service port
           ''management/v1/permissions/project/assignments'' bearer
           (grantJSON (cpProjectRelation p) (cpSubject p))
           (''grant project '' @ cpProjectRelation p @ '' to '' @ cpPrincipalName p)))))"

definition EnsureGrants ::
  "'w proxy \<Rightarrow> string \<Rightarrow> string \<Rightarrow> int \<Rightarrow> string \<Rightarrow> catalog_principal list \<Rightarrow> ('w, unit) go" where
  "EnsureGrants c namespace service port bearer principals =
     forE principals (ensurePrincipal c namespace service port bearer)"

definition EnsureWarehouse ::
  "'w proxy \<Rightarrow> string \<Rightarrow> string \<Rightarrow> int \<Rightarrow> string \<Rightarrow> warehouse_request \<Rightarrow> ('w, unit) go" where
  "EnsureWarehouse c namespace service port bearer req =
     bindE (do_request c MethodGet namespace service port ''management/v1/warehouse'' bearer None) (\<lambda>(status, body).
     if isSuccess status \<and> warehouseListed c body (wrName req) then ret ()
     else
       bindE (do_request c MethodPost namespace service port ''management/v1/warehouse'' bearer
         (Some (warehouseCreateJSON req))) (\<lambda>(status, body).
       if isSuccess status \<or> isAlreadyDone status body then ret ()
       else fail (Errorf (''create warehouse returned '' @ Itoa status @ '': '' @ truncate_body body))))"

definition FormPost ::
  "'w proxy \<Rightarrow> string \<Rightarrow> string \<Rightarrow> int \<Rightarrow> string \<Rightarrow> url_values \<Rightarrow> ('w, int \<times> string) go" where
  "FormPost c namespace service port path form =
     bindE (pxRestPost c namespace (service @ '':'' @ Itoa port) path (Values_Encode form))
       (\<lambda>(statusCode, raw, err).
         case err of
           Some e \<Rightarrow>
             if statusCode = 0 then fail e
             else (case raw of None \<Rightarrow> ret (statusCode, err_text e) | Some b \<Rightarrow> ret (statusCode, b))
         | None \<Rightarrow> ret (statusCode, case raw of None \<Rightarrow> [] | Some b \<Rightarrow> b))"

definition FetchToken :: "'w proxy \<Rightarrow> string \<Rightarrow> url_values \<Rightarrow> ('w, int \<times> string) go" where
  "FetchToken c tokenURL form =
     bindE (pureE (pxNewRequest c MethodPost tokenURL (Some (Values_Encode form)))) (\<lambda>req.
     bindE (pxDefaultDo c (req\<lparr>rqHeader :=
       fmupd ''Content-Type'' ''application/x-www-form-urlencoded'' (rqHeader req)\<rparr>)) (\<lambda>resp.
     readBody c resp))"

section \<open>Answers\<close>

lemma truncate_body_bound: "length (truncate_body b) \<le> 515"
  by (simp add: truncate_body_def)

lemma truncate_body_prefix: "take 512 (truncate_body b) = take 512 b"
  by (simp add: truncate_body_def)

lemma isAlreadyDone_iff:
  "isAlreadyDone code body \<longleftrightarrow>
     code = 409 \<or> (code \<in> {400, 422} \<and> (\<exists>l r. ToLower body = l @ ''already'' @ r))"
  by (auto simp: isAlreadyDone_def Contains_iff)

lemma readyPodForService_ready:
  "hoare (\<lambda>_. True) (readyPodForService c ns svc)
     (\<lambda>n _. \<exists>p. podReady p \<and> podName p = n) (\<lambda>_ _. True)"
  unfolding readyPodForService_def
  by (rule hoareI) (fastforce simp: run_simps find_Some_iff split: option.splits sum.splits if_splits)+

section \<open>No port-forward is left open\<close>

text \<open>
  \<open>fwds\<close> is a view of the running port-forwards. What client-go documents: the forward runs from the
  moment it is ready until its stop channel is closed; a forward that failed is not running; each new
  forward has a stop channel of its own; no other call starts or stops one.
\<close>

definition forwards_ok :: "('w \<Rightarrow> nat set) \<Rightarrow> 'w proxy \<Rightarrow> bool" where
  "forwards_ok fwds c \<longleftrightarrow>
     (\<forall>v p. keeps (\<lambda>w. fwds w = v) (pxStat c p)) \<and>
     (\<forall>v ns n. keeps (\<lambda>w. fwds w = v) (pxGetService c ns n)) \<and>
     (\<forall>v ns sel. keeps (\<lambda>w. fwds w = v) (pxListPods c ns sel)) \<and>
     (\<forall>v. keeps (\<lambda>w. fwds w = v) (pxRoundTripperFor c)) \<and>
     (\<forall>v ns p port. hoare (\<lambda>w. fwds w = v) (pxNewForwarder c ns p port)
        (\<lambda>fw w. fwds w = v \<and> fw \<notin> v) (\<lambda>_ w. fwds w = v)) \<and>
     (\<forall>v fw. hoare (\<lambda>w. fwds w = v \<and> fw \<notin> v) (pxSelect c fw)
        (\<lambda>ev w. fw \<notin> v \<and> (case ev of ReadyCh \<Rightarrow> fwds w = insert fw v | ErrCh _ \<Rightarrow> fwds w = v
           | CtxDone _ \<Rightarrow> fwds w = v \<or> fwds w = insert fw v)) (\<lambda>_ w. fwds w = v)) \<and>
     (\<forall>v fw. keeps (\<lambda>w. fwds w = v) (pxGetPorts c fw)) \<and>
     (\<forall>fw w q w'. pxCloseStop c fw w = Some (q, w') \<longrightarrow> fwds w' = fwds w - {fw}) \<and>
     (\<forall>v rq. keeps (\<lambda>w. fwds w = v) (pxHttpDo c rq)) \<and>
     (\<forall>v b. keeps (\<lambda>w. fwds w = v) (pxReadAll c b)) \<and>
     (\<forall>v b. keeps (\<lambda>w. fwds w = v) (pxBodyClose c b))"

lemma keeps_deferE [keeps_intro]: "keeps I d \<Longrightarrow> keeps I m \<Longrightarrow> keeps I (deferE d m)"
  unfolding deferE_def by (intro keeps_intro)

lemma hoare_deferE:
  assumes "hoare P m (\<lambda>x s. R s) (\<lambda>e s. R s)"
    and "\<And>s q s'. R s \<Longrightarrow> d s = Some (q, s') \<Longrightarrow> Q s'"
  shows "hoare P (deferE d m) (\<lambda>_. Q) (\<lambda>_. Q)"
proof (rule hoareI)
  fix s x s' assume P: "P s" and run: "deferE d m s = Some (Inr x, s')"
  then obtain q t r where "m s = Some (q, t)" and "d t = Some (r, s')"
    by (auto simp: deferE_def run_simps split: option.splits)
  with assms P show "Q s'" by (cases q) (blast dest: hoareD_ok hoareD_err)+
next
  fix s e s' assume P: "P s" and run: "deferE d m s = Some (Inl e, s')"
  then obtain q t r where "m s = Some (q, t)" and "d t = Some (r, s')"
    by (auto simp: deferE_def run_simps split: option.splits)
  with assms P show "Q s'" by (cases q) (blast dest: hoareD_ok hoareD_err)+
qed

text \<open>What a cleanup function undoes.\<close>

definition cleans :: "('w \<Rightarrow> nat set) \<Rightarrow> nat set \<Rightarrow> ('w, unit) go \<Rightarrow> 'w \<Rightarrow> bool" where
  "cleans fwds v d w \<longleftrightarrow> (\<forall>w1 q w2. fwds w1 = fwds w \<longrightarrow> d w1 = Some (q, w2) \<longrightarrow> fwds w2 = v)"

lemma cleansD: "cleans fwds v d w \<Longrightarrow> d w = Some (q, w') \<Longrightarrow> fwds w' = v"
  unfolding cleans_def by blast

lemma cleans_nothing: "fwds w = v \<Longrightarrow> cleans fwds v (ret ()) w"
  by (simp add: cleans_def ret_def)

lemma forwards_ok_keeps:
  assumes "forwards_ok fwds c"
  shows "keeps (\<lambda>w. fwds w = v) (pxStat c p)" "keeps (\<lambda>w. fwds w = v) (pxGetService c ns n)"
    "keeps (\<lambda>w. fwds w = v) (pxListPods c ns sel)" "keeps (\<lambda>w. fwds w = v) (pxRoundTripperFor c)"
    "keeps (\<lambda>w. fwds w = v) (pxGetPorts c fw)" "keeps (\<lambda>w. fwds w = v) (pxHttpDo c rq)"
    "keeps (\<lambda>w. fwds w = v) (pxReadAll c b)" "keeps (\<lambda>w. fwds w = v) (pxBodyClose c b)"
  using assms by (simp_all add: forwards_ok_def)

lemma forwards_ok_close:
  "forwards_ok fwds c \<Longrightarrow> pxCloseStop c fw w = Some (q, w') \<Longrightarrow> fwds w' = fwds w - {fw}"
  by (simp add: forwards_ok_def)

lemma cleans_close:
  "forwards_ok fwds c \<Longrightarrow> fw \<notin> v \<Longrightarrow> fwds w = insert fw v \<Longrightarrow> cleans fwds v (pxCloseStop c fw) w"
  by (auto simp: cleans_def forwards_ok_close)

text \<open>Closing the stop channel before returning an error.\<close>

lemma close_then_fail:
  assumes "forwards_ok fwds c" and "fw \<notin> v"
  shows "hoare (\<lambda>w. fwds w = v \<or> fwds w = insert fw v) (bindE (pxCloseStop c fw) (\<lambda>_. fail e))
     Q (\<lambda>_ w. fwds w = v)"
  using assms by (intro hoareI)
    (auto simp: run_simps forwards_ok_close split: option.splits sum.splits)

lemma localPort_forwards:
  assumes ok: "forwards_ok fwds c" and fw: "fw \<notin> v"
  shows "hoare (\<lambda>w. fwds w = insert fw v) (localPort c fw ns pod)
     (\<lambda>(_, stop) w. cleans fwds v stop w) (\<lambda>_ w. fwds w = v)"
  unfolding localPort_def
proof (rule hoare_handleE)
  show "hoare (\<lambda>w. fwds w = insert fw v) (pxGetPorts c fw)
      (\<lambda>_ w. fwds w = insert fw v) (\<lambda>_ w. fwds w = insert fw v)"
    using ok by (intro hoare_keeps forwards_ok_keeps)
  fix q
  show "hoare (\<lambda>w. fwds w = insert fw v) (case q of
       Inl e \<Rightarrow> bindE (pxCloseStop c fw) (\<lambda>_. fail e)
     | Inr ports \<Rightarrow> (case ports of
         [] \<Rightarrow> bindE (pxCloseStop c fw) (\<lambda>_.
           fail (Errorf (''port-forward to Pod '' @ ns @ ''/'' @ pod @ '' produced no ports'')))
       | local # _ \<Rightarrow> ret (local, pxCloseStop c fw)))
      (\<lambda>(_, stop) w. cleans fwds v stop w) (\<lambda>_ w. fwds w = v)"
    by (cases q) (auto split: list.split intro!: hoare_ret cleans_close [OF ok fw]
        hoare_weaken [OF close_then_fail [OF ok fw]])
qed

lemma awaitForward_forwards:
  assumes ok: "forwards_ok fwds c"
  shows "hoare (\<lambda>w. fwds w = v \<and> fw \<notin> v) (awaitForward c fw ns pod)
     (\<lambda>(_, stop) w. cleans fwds v stop w) (\<lambda>_ w. fwds w = v)"
  unfolding awaitForward_def
proof (rule hoare_bindE)
  show "hoare (\<lambda>w. fwds w = v \<and> fw \<notin> v) (pxSelect c fw)
      (\<lambda>ev w. fw \<notin> v \<and> (case ev of ReadyCh \<Rightarrow> fwds w = insert fw v | ErrCh _ \<Rightarrow> fwds w = v
         | CtxDone _ \<Rightarrow> fwds w = v \<or> fwds w = insert fw v)) (\<lambda>_ w. fwds w = v)"
    using ok by (simp add: forwards_ok_def)
  fix ev
  show "hoare (\<lambda>w. fw \<notin> v \<and> (case ev of ReadyCh \<Rightarrow> fwds w = insert fw v | ErrCh _ \<Rightarrow> fwds w = v
         | CtxDone _ \<Rightarrow> fwds w = v \<or> fwds w = insert fw v))
      (case ev of ErrCh e \<Rightarrow> fail e | CtxDone e \<Rightarrow> bindE (pxCloseStop c fw) (\<lambda>_. fail e)
         | ReadyCh \<Rightarrow> localPort c fw ns pod)
      (\<lambda>(_, stop) w. cleans fwds v stop w) (\<lambda>_ w. fwds w = v)"
    using close_then_fail [OF ok] localPort_forwards [OF ok]
    by (intro hoare_pre_conj) (cases ev, auto intro: hoare_fail)
qed

lemma portForward_forwards:
  assumes ok: "forwards_ok fwds c"
  shows "hoare (\<lambda>w. fwds w = v) (portForward c ns pod port)
     (\<lambda>(_, stop) w. cleans fwds v stop w) (\<lambda>_ w. fwds w = v)"
  unfolding portForward_def
proof (rule hoare_bindE, rule hoare_keeps)
  show "keeps (\<lambda>w. fwds w = v) (pxRoundTripperFor c)" using ok by (rule forwards_ok_keeps)
  show "hoare (\<lambda>w. fwds w = v) (bindE (pxNewForwarder c ns pod port) (\<lambda>fw. awaitForward c fw ns pod))
      (\<lambda>(_, stop) w. cleans fwds v stop w) (\<lambda>_ w. fwds w = v)"
  proof (rule hoare_bindE)
    show "hoare (\<lambda>w. fwds w = v) (pxNewForwarder c ns pod port)
        (\<lambda>fw w. fwds w = v \<and> fw \<notin> v) (\<lambda>_ w. fwds w = v)"
      using ok by (simp add: forwards_ok_def)
  qed (rule awaitForward_forwards [OF ok])
qed

lemma serviceBaseURL_forwards:
  assumes ok: "forwards_ok fwds c"
  shows "hoare (\<lambda>w. fwds w = v) (serviceBaseURL c ns svc port)
     (\<lambda>(_, stop) w. cleans fwds v stop w) (\<lambda>_ w. fwds w = v)"
  unfolding serviceBaseURL_def
proof (rule hoare_bindE, rule hoare_keeps)
  show "keeps (\<lambda>w. fwds w = v) (runningInCluster c)"
    unfolding runningInCluster_def by (intro keeps_intro forwards_ok_keeps [OF ok])
  have pod: "keeps (\<lambda>w. fwds w = v) (readyPodForService c ns svc)"
    unfolding readyPodForService_def by (intro keeps_intro forwards_ok_keeps [OF ok])
  fix inCluster
  show "hoare (\<lambda>w. fwds w = v) (if inCluster
        then ret (''http://'' @ svc @ ''.'' @ ns @ ''.svc:'' @ Itoa port, ret ())
        else bindE (readyPodForService c ns svc) (\<lambda>pod. bindE (portForward c ns pod port)
          (\<lambda>(local, stop). ret (''http://127.0.0.1:'' @ Itoa local, stop))))
      (\<lambda>(_, stop) w. cleans fwds v stop w) (\<lambda>_ w. fwds w = v)"
    by (auto intro!: hoare_if hoare_ret hoare_bindE [OF hoare_keeps [OF pod]]
        hoare_bindE [OF portForward_forwards [OF ok]] cleans_nothing)
qed

lemma readBody_forwards: "forwards_ok fwds c \<Longrightarrow> keeps (\<lambda>w. fwds w = v) (readBody c resp)"
  unfolding readBody_def by (intro keeps_intro forwards_ok_keeps)

lemma sendRequest_forwards:
  "forwards_ok fwds c \<Longrightarrow> keeps (\<lambda>w. fwds w = v) (sendRequest c method base path bearer payload)"
  unfolding sendRequest_def by (intro keeps_intro forwards_ok_keeps readBody_forwards)

lemma sendRequest_cleans:
  "forwards_ok fwds c \<Longrightarrow> keeps (cleans fwds v stop) (sendRequest c method base path bearer payload)"
  using sendRequest_forwards [of fwds c] unfolding keeps_def cleans_def by metis

text \<open>
  C11. A request leaves no port-forward behind: however \<open>do\<close> returns, with an answer or with an error
  of any of its steps, exactly the port-forwards that ran before it run after it: on every path that starts
  one, its stop channel is closed, by the deferred cleanup or before an error is returned.
\<close>

theorem do_request_no_forward_left:
  assumes ok: "forwards_ok fwds c"
    and run: "do_request c method ns svc port path bearer payload w = Some (q, w')"
  shows "fwds w' = fwds w"
proof -
  let ?v = "fwds w"
  have send: "hoare (cleans fwds ?v stop) (deferE stop (sendRequest c method base path bearer payload))
      (\<lambda>_ w. fwds w = ?v) (\<lambda>_ w. fwds w = ?v)" for stop base
    by (rule hoare_deferE [OF hoare_keeps [OF sendRequest_cleans [OF ok]]]) (erule (1) cleansD)
  have "hoare (\<lambda>w. fwds w = ?v) (do_request c method ns svc port path bearer payload)
      (\<lambda>_ w. fwds w = ?v) (\<lambda>_ w. fwds w = ?v)"
    unfolding do_request_def
    by (rule hoare_bindE [OF serviceBaseURL_forwards [OF ok]]) (auto split: prod.split intro: send)
  then show ?thesis
    using run by (cases q) (auto dest: hoareD_ok hoareD_err)
qed

section \<open>Grants\<close>

text \<open>The requests that provision a principal, as a list: path, payload and what they are called.\<close>

definition principalRequests :: "catalog_principal \<Rightarrow> (string \<times> json \<times> string) list" where
  "principalRequests p =
     [(''management/v1/user'',
       JMap ([(''id'', JStr (cpSubject p)), (''name'', JStr (cpPrincipalName p)),
         (''user-type'', JStr (cpType p)), (''update-if-exists'', JBool True)]
         @ (if cpEmail p = [] then [] else [(''email'', JStr (cpEmail p))])),
       ''provision user '' @ cpPrincipalName p)]
     @ (if cpServerRelation p = [] then [] else
       [(''management/v1/permissions/server/assignments'', grantJSON (cpServerRelation p) (cpSubject p),
         ''grant server '' @ cpServerRelation p @ '' to '' @ cpPrincipalName p)])
     @ (if cpProjectRelation p = [] then [] else
       [(''management/v1/permissions/project/assignments'', grantJSON (cpProjectRelation p) (cpSubject p),
         ''grant project '' @ cpProjectRelation p @ '' to '' @ cpPrincipalName p)])"

lemma forE_append: "forE (xs @ ys) f = bindE (forE xs f) (\<lambda>_. forE ys f)"
  by (induction xs) (simp_all add: bindE_assoc)

lemma bindE_ret_right [simp]: "bindE m ret = m"
  by (rule ext) (auto simp: bindE_run ret_run split: option.splits sum.splits)

lemma ensurePrincipal_requests:
  "ensurePrincipal c ns svc port bearer p =
     forE (principalRequests p) (\<lambda>(path, payload, what). postChecked c ns svc port path bearer payload what)"
  unfolding ensurePrincipal_def principalRequests_def
  by (simp add: whenE_def Let_def bindE_assoc)

text \<open>
  C15. Granting is one pass over a fixed list of requests: \<open>EnsureGrants\<close> posts, principal by principal
  in the order given, first the user and then its server and project grants where these are set, and
  stops with the error of the first request that fails.
\<close>

theorem EnsureGrants_is_request_sequence:
  "EnsureGrants c ns svc port bearer ps =
     forE (concat (map principalRequests ps))
       (\<lambda>(path, payload, what). postChecked c ns svc port path bearer payload what)"
  unfolding EnsureGrants_def
  by (induction ps) (simp_all add: forE_append ensurePrincipal_requests)

section \<open>Warehouses\<close>


text \<open>
  The create-warehouse payload has exactly the optional members that are set: an empty key prefix,
  endpoint or role and a false path-style flag leave their member out, anything else is passed on.
\<close>

lemma warehouseCreateJSON_members:
  "\<exists>profile. jget ''storage-profile'' (warehouseCreateJSON req) = Some profile \<and>
     jget ''key-prefix'' profile = (if wrKeyPrefix req = [] then None else Some (JStr (wrKeyPrefix req))) \<and>
     jget ''endpoint'' profile = (if wrEndpoint req = [] then None else Some (JStr (wrEndpoint req))) \<and>
     jget ''path-style-access'' profile = (if wrPathStyleAccess req then Some (JBool True) else None) \<and>
     jget ''sts-role-arn'' profile = (if wrSTSRoleARN req = [] then None else Some (JStr (wrSTSRoleARN req))) \<and>
     jget ''bucket'' profile = Some (JStr (wrBucket req)) \<and>
     jget ''region'' profile = Some (JStr (wrRegion req)) \<and>
     jget ''sts-enabled'' profile = Some (JBool (wrSTSEnabled req))"
  by (simp add: warehouseCreateJSON_def warehouseProfile_def map_of_jsetIf)

text \<open>
  C38. The service proxy's status is not lost: \<open>FormPost\<close> returns an error only when there was no
  HTTP answer at all (status 0); with a status, a missing body is replaced by the error's text.
\<close>

theorem FormPost_status:
  assumes "pxRestPost c ns (svc @ '':'' @ Itoa port) path (Values_Encode form) w
     = Some (Inr (status, raw, err), w')"
  shows "FormPost c ns svc port path form w =
     (case err of
        Some e \<Rightarrow> if status = 0 then Some (Inl e, w')
          else Some (Inr (status, case raw of None \<Rightarrow> err_text e | Some b \<Rightarrow> b), w')
      | None \<Rightarrow> Some (Inr (status, case raw of None \<Rightarrow> [] | Some b \<Rightarrow> b), w'))"
  using assms by (simp add: FormPost_def run_simps split: option.splits)

end
