(* ===== verification/AuthzStore.thy ===== *)
theory AuthzStore
  imports Catalog
begin

text \<open>
  OpenFGA stores (internal/controller/authzstore.go): finding a store through the pages of the store
  listing, creating it, and writing an authorization model only when the current one differs. The
  search over pages is a loop that ends only if the server's pages do; \<open>findAuthzStoreFrom\<close> is \<open>None\<close>
  when it does not.
\<close>

section \<open>Authorization models\<close>

definition authzTypeJSON :: "string \<Rightarrow> string list \<Rightarrow> authz_reference list \<Rightarrow> authz_type_definition" where
  "authzTypeJSON name relations assignable =
     (if relations = [] then \<lparr>tdType = name, tdRelations = fmempty, tdMetadata = None\<rparr>
      else \<lparr>tdType = name,
        tdRelations = fold (\<lambda>relation m. fmupd relation [] m) relations fmempty,
        tdMetadata = Some \<lparr>tmRelations =
          fold (\<lambda>relation m. fmupd relation assignable m) relations fmempty\<rparr>\<rparr>)"

definition authzModelJSON :: "authz_type list \<Rightarrow> authz_model" where
  "authzModelJSON types =
     (let assignable = [\<lparr>arType = ''user'', arRelation = []\<rparr>,
            \<lparr>arType = ''group'', arRelation = ''member''\<rparr>]
      in \<lparr>amSchemaVersion = ''1.1'',
          amTypeDefinitions =
            [\<lparr>tdType = ''user'', tdRelations = fmempty, tdMetadata = None\<rparr>,
             authzTypeJSON ''group'' [''member''] [\<lparr>arType = ''user'', arRelation = []\<rparr>]]
            @ map (\<lambda>t. authzTypeJSON (atName t) (atRelations t) assignable) types,
          amConditions = []\<rparr>)"

text \<open>How a model is written, by the tags of its struct fields.\<close>

definition referenceJSON :: "authz_reference \<Rightarrow> json" where
  "referenceJSON x = JStruct ((''type'', JStr (arType x)) #
     (if arRelation x = [] then [] else [(''relation'', JStr (arRelation x))]))"

definition typeDefinitionJSON :: "authz_type_definition \<Rightarrow> json" where
  "typeDefinitionJSON d = JStruct ((''type'', JStr (tdType d)) #
     (if tdRelations d = fmempty then [] else
       [(''relations'', JMap (map (\<lambda>k. (k, JStruct [(''this'', JMap (the (fmlookup (tdRelations d) k)))]))
         (sortedKeys (tdRelations d))))]) @
     (case tdMetadata d of None \<Rightarrow> [] | Some m \<Rightarrow>
       [(''metadata'', JStruct [(''relations'', JMap (map (\<lambda>k. (k, JStruct
         [(''directly_related_user_types'', JArr (map referenceJSON (the (fmlookup (tmRelations m) k))))]))
         (sortedKeys (tmRelations m))))])]))"

definition modelJSON :: "authz_model \<Rightarrow> json" where
  "modelJSON m = JStruct [
     (''schema_version'', JStr (amSchemaVersion m)),
     (''type_definitions'', JArr (map typeDefinitionJSON (amTypeDefinitions m))),
     (''conditions'', JMap (amConditions m))]"

definition authzModelShape :: "authz_model \<Rightarrow> (string, string list) fmap" where
  "authzModelShape model =
     fold (\<lambda>d shape. fmupd (tdType d) (sortedKeys (tdRelations d)) shape) (amTypeDefinitions model) fmempty"

definition authzModelMatches :: "authz_model option \<Rightarrow> authz_model \<Rightarrow> bool" where
  "authzModelMatches current desired = (case current of
      None \<Rightarrow> False
    | Some m \<Rightarrow> authzModelShape m = authzModelShape desired)"

section \<open>Stores\<close>

definition storesQuery :: "string \<Rightarrow> string" where
  "storesQuery token =
     (let query = fmap_of_list [(''page_size'', [''100''])];
          query' = (if token \<noteq> [] then fmupd ''continuation_token'' [token] query else query)
      in ''stores?'' @ Values_Encode query')"

text \<open>One page of the store listing.\<close>

definition storesPage ::
  "'w proxy \<Rightarrow> string \<Rightarrow> string \<Rightarrow> int \<Rightarrow> string \<Rightarrow> string \<Rightarrow> ('w, listed_store list \<times> string) go" where
  "storesPage c namespace service port bearer token =
     bindE (do_request c MethodGet namespace service port (storesQuery token) bearer None) (\<lambda>(status, body).
     if \<not> isSuccess status then
       fail (Errorf (''list authz stores returned '' @ Itoa status @ '': '' @ truncate_body body))
     else case pxUnmarshalStores c body of
       Inl e \<Rightarrow> fail (wrapErr ''parse authz store list: '' e)
     | Inr parsed \<Rightarrow> ret parsed)"

definition liveStore :: "string \<Rightarrow> listed_store \<Rightarrow> bool" where
  "liveStore name store = (lsName store = name \<and> lsDeletedAt store = [])"

partial_function (option) findAuthzStoreFrom ::
  "'w proxy \<Rightarrow> string \<Rightarrow> string \<Rightarrow> int \<Rightarrow> string \<Rightarrow> string \<Rightarrow> string \<Rightarrow> 'w \<Rightarrow> ((err + string) \<times> 'w) option" where
  "findAuthzStoreFrom c namespace service port bearer name token w =
     (case storesPage c namespace service port bearer token w of
        None \<Rightarrow> None
      | Some (r, w') \<Rightarrow> (case r of
          Inl e \<Rightarrow> Some (Inl e, w')
        | Inr (stores, next) \<Rightarrow> (case find (liveStore name) stores of
            Some store \<Rightarrow> Some (Inr (lsID store), w')
          | None \<Rightarrow>
              if next = [] then Some (Inr [], w')
              else findAuthzStoreFrom c namespace service port bearer name next w')))"

definition findAuthzStore ::
  "'w proxy \<Rightarrow> string \<Rightarrow> string \<Rightarrow> int \<Rightarrow> string \<Rightarrow> string \<Rightarrow> ('w, string) go" where
  "findAuthzStore c namespace service port bearer name =
     findAuthzStoreFrom c namespace service port bearer name []"

text \<open>
  Go's \<open>%q\<close>: quotes, backslashes and control characters are escaped. Bytes from 128 on belong to
  characters of a store name, which are taken to be printable.
\<close>

definition quoteByte :: "char \<Rightarrow> string" where
  "quoteByte c = (let n = of_char c :: nat in
     if c = CHR 0x22 \<or> c = CHR 0x5C then [CHR 0x5C, c]
     else if n = 7 then [CHR 0x5C, CHR ''a'']
     else if n = 8 then [CHR 0x5C, CHR ''b'']
     else if n = 9 then [CHR 0x5C, CHR ''t'']
     else if n = 10 then [CHR 0x5C, CHR ''n'']
     else if n = 11 then [CHR 0x5C, CHR ''v'']
     else if n = 12 then [CHR 0x5C, CHR ''f'']
     else if n = 13 then [CHR 0x5C, CHR ''r'']
     else if n < 32 \<or> n = 127 then [CHR 0x5C, CHR ''x'', hexDigits ! (n div 16), hexDigits ! (n mod 16)]
     else [c])"

definition quoted :: "string \<Rightarrow> string" where
  "quoted s = CHR 0x22 # concat (map quoteByte s) @ [CHR 0x22]"

definition createAuthzStore ::
  "'w proxy \<Rightarrow> string \<Rightarrow> string \<Rightarrow> int \<Rightarrow> string \<Rightarrow> string \<Rightarrow> ('w, string) go" where
  "createAuthzStore c namespace service port bearer name =
     bindE (do_request c MethodPost namespace service port ''stores'' bearer
       (Some (JStruct [(''name'', JStr name)]))) (\<lambda>(status, body).
     if \<not> isSuccess status then
       fail (Errorf (''create authz store returned '' @ Itoa status @ '': '' @ truncate_body body))
     else case pxUnmarshalID c body of
       Inl e \<Rightarrow> fail (wrapErr ''parse created authz store: '' e)
     | Inr i \<Rightarrow>
         if i = [] then fail (Errorf (''created authz store '' @ quoted name @ '' has no id''))
         else ret i)"

definition latestAuthzModel ::
  "'w proxy \<Rightarrow> string \<Rightarrow> string \<Rightarrow> int \<Rightarrow> string \<Rightarrow> string \<Rightarrow> ('w, authz_model option) go" where
  "latestAuthzModel c namespace service port bearer storeID =
     bindE (do_request c MethodGet namespace service port
       (''stores/'' @ storeID @ ''/authorization-models?page_size=1'') bearer None) (\<lambda>(status, body).
     if status = 404 then ret None
     else if \<not> isSuccess status then
       fail (Errorf (''list authorization models returned '' @ Itoa status @ '': '' @ truncate_body body))
     else case pxUnmarshalModels c body of
       Inl e \<Rightarrow> fail (wrapErr ''parse authorization models: '' e)
     | Inr models \<Rightarrow> (case models of [] \<Rightarrow> ret None | m # _ \<Rightarrow> ret (Some m)))"

text \<open>\<open>writeAuthzModel\<close> is \<open>EnsureAuthzStore\<close> once the store's id is known.\<close>

definition writeAuthzModel ::
  "'w proxy \<Rightarrow> string \<Rightarrow> string \<Rightarrow> int \<Rightarrow> string \<Rightarrow> authz_type list \<Rightarrow> string \<Rightarrow> ('w, string) go" where
  "writeAuthzModel c namespace service port bearer types storeID =
     (let desired = authzModelJSON types
      in bindE (latestAuthzModel c namespace service port bearer storeID) (\<lambda>current.
         if authzModelMatches current desired then ret storeID
         else
           bindE (do_request c MethodPost namespace service port
             (''stores/'' @ storeID @ ''/authorization-models'') bearer (Some (modelJSON desired))) (\<lambda>(status, body).
           if \<not> isSuccess status then
             fail (Errorf (''write authorization model returned '' @ Itoa status @ '': '' @ truncate_body body))
           else ret storeID)))"

definition EnsureAuthzStore ::
  "'w proxy \<Rightarrow> string \<Rightarrow> string \<Rightarrow> int \<Rightarrow> string \<Rightarrow> authz_store_request \<Rightarrow> ('w, string) go" where
  "EnsureAuthzStore c namespace service port bearer req =
     bindE (findAuthzStore c namespace service port bearer (asStore req)) (\<lambda>found.
     bindE (if found = [] then createAuthzStore c namespace service port bearer (asStore req) else ret found)
       (\<lambda>storeID. writeAuthzModel c namespace service port bearer (asTypes req) storeID))"

text \<open>\<open>NewProxyCatalogClient\<close>: the interface's operations over one \<open>proxy\<close>.\<close>

definition proxyCatalogClient :: "'w proxy \<Rightarrow> 'w catalog_client" where
  "proxyCatalogClient c = \<lparr>cBootstrap = Bootstrap c, cEnsureGrants = EnsureGrants c,
     cEnsureWarehouse = EnsureWarehouse c, cEnsureAuthzStore = EnsureAuthzStore c,
     cFormPost = FormPost c, cFetchToken = FetchToken c\<rparr>"

section \<open>When two models match\<close>

lemma fmdom_fold_fmupd: "fmdom (fold (\<lambda>x m. fmupd x v m) xs m) = fset_of_list xs |\<union>| fmdom m"
  by (induction xs arbitrary: m) auto

lemma sortedKeys_set:
  "fset (fmdom m) = A \<Longrightarrow> sortedKeys m = sorted_list_of_set A"
  by (auto simp: sortedKeys_def sorted_list_of_fset_set)

lemma authzTypeJSON_name [simp]: "tdType (authzTypeJSON n rs a) = n"
  by (simp add: authzTypeJSON_def)

lemma authzTypeJSON_relations [simp]:
  "sortedKeys (tdRelations (authzTypeJSON n rs a)) = sorted_list_of_set (set rs)"
  by (rule sortedKeys_set) (auto simp: authzTypeJSON_def fmdom_fold_fmupd fset_of_list.rep_eq)

lemma lookup_fold_fmupd:
  "fmlookup (fold (\<lambda>d m. fmupd (f d) (g d) m) ds m) n =
     (case map_of (rev (map (\<lambda>d. (f d, g d)) ds)) n of None \<Rightarrow> fmlookup m n | Some v \<Rightarrow> Some v)"
  by (induction ds arbitrary: m) (auto simp: map_add_def split: option.splits)

lemma lookup_authzModelShape:
  "fmlookup (authzModelShape m) n =
     map_of (rev (map (\<lambda>d. (tdType d, sortedKeys (tdRelations d))) (amTypeDefinitions m))) n"
  by (simp add: authzModelShape_def lookup_fold_fmupd split: option.splits)

text \<open>The relations that a list of types gives a name, if it mentions it.\<close>

definition relationsOf :: "authz_type list \<Rightarrow> string \<Rightarrow> string set option" where
  "relationsOf types n = map_of (rev (map (\<lambda>t. (atName t, set (atRelations t))) types)) n"

lemma shape_authzModelJSON:
  "fmlookup (authzModelShape (authzModelJSON types)) n =
     (case relationsOf types n of
        Some rs \<Rightarrow> Some (sorted_list_of_set rs)
      | None \<Rightarrow> if n = ''group'' then Some [''member''] else if n = ''user'' then Some [] else None)"
proof -
  have *: "map_of (map (\<lambda>t. (atName t, sorted_list_of_set (set (atRelations t)))) ts) n
      = map_option sorted_list_of_set (map_of (map (\<lambda>t. (atName t, set (atRelations t))) ts) n)" for ts
    by (induction ts) auto
  have "sortedKeys (fmempty :: (string, (string \<times> json) list) fmap) = []"
    by (subst sortedKeys_set [where A = "{}"]) simp_all
  then show ?thesis
    by (simp add: lookup_authzModelShape authzModelJSON_def Let_def comp_def relationsOf_def map_add_def
        rev_map * split: option.splits)
qed

lemma sorted_list_of_set_inj:
  "finite A \<Longrightarrow> finite B \<Longrightarrow> sorted_list_of_set A = sorted_list_of_set B \<Longrightarrow> A = B"
  by (metis set_sorted_list_of_set)

lemma relationsOf_finite: "relationsOf types n = Some A \<Longrightarrow> finite A"
  by (auto simp: relationsOf_def dest!: map_of_SomeD)

lemma relationsOf_perm:
  assumes "distinct (map atName types)" and "distinct (map atName types')"
    and "(\<lambda>t. (atName t, set (atRelations t))) ` set types = (\<lambda>t. (atName t, set (atRelations t))) ` set types'"
  shows "relationsOf types = relationsOf types'"
  unfolding relationsOf_def using assms
  by (subst map_of_inject_set) (simp_all add: rev_map [symmetric] comp_def)


section \<open>Finding a store\<close>

text \<open>
  The server's pages from a continuation token on, each with the token it gives for the next one; the
  last gives none.
\<close>

fun pagesFrom ::
  "'w proxy \<Rightarrow> string \<Rightarrow> string \<Rightarrow> int \<Rightarrow> string \<Rightarrow> string \<Rightarrow> (listed_store list \<times> string) list \<Rightarrow> 'w \<Rightarrow> bool" where
  "pagesFrom c ns svc port bearer token [] w = False"
| "pagesFrom c ns svc port bearer token ((stores, next) # ps) w =
     (case storesPage c ns svc port bearer token w of
        Some (Inr page, w') \<Rightarrow> page = (stores, next) \<and>
          (if ps = [] then next = [] else next \<noteq> [] \<and> pagesFrom c ns svc port bearer next ps w')
      | _ \<Rightarrow> False)"

lemma search_pages:
  assumes "pagesFrom c ns svc port bearer [] pages w"
  shows "\<exists>w'. findAuthzStore c ns svc port bearer name w =
     Some (Inr (case find (liveStore name) (concat (map fst pages)) of
       None \<Rightarrow> [] | Some store \<Rightarrow> lsID store), w')"
proof -
  have app: "find P (xs @ ys) = (case find P xs of None \<Rightarrow> find P ys | Some x \<Rightarrow> Some x)" for P and xs ys :: "listed_store list"
    by (induction xs) auto
  have "pagesFrom c ns svc port bearer token pages w \<Longrightarrow>
     \<exists>w'. findAuthzStoreFrom c ns svc port bearer name token w =
       Some (Inr (case find (liveStore name) (concat (map fst pages)) of
         None \<Rightarrow> [] | Some store \<Rightarrow> lsID store), w')" for token
    by (induction c ns svc port bearer token pages w rule: pagesFrom.induct)
      (subst findAuthzStoreFrom.simps,
        fastforce simp: app split: option.splits sum.splits prod.splits if_splits)+
  with assms show ?thesis unfolding findAuthzStore_def by blast
qed

text \<open>
  C14. The search for a store ends when the server's pages do, and then finds what a search of all the
  pages together would: the id of the first store with that name that is not deleted, or the empty id
  when no page has one.
\<close>

theorem findAuthzStore_finds:
  assumes "pagesFrom c ns svc port bearer [] pages w"
  shows "\<exists>w'. findAuthzStore c ns svc port bearer name w =
     Some (Inr (case find (liveStore name) (concat (map fst pages)) of
       None \<Rightarrow> [] | Some store \<Rightarrow> lsID store), w')"
  using assms by (rule search_pages)

text \<open>
  C40. A server that answers every page with the token of that same page and no match keeps the search
  going for ever: nothing in the loop bounds the number of pages.
\<close>

theorem findAuthzStore_may_not_return:
  assumes page: "\<And>w. storesPage c ns svc port bearer [] w = Some (Inr (stores, token), w)"
    "\<And>w. storesPage c ns svc port bearer token w = Some (Inr (stores, token), w)"
    and "token \<noteq> []" and miss: "find (liveStore name) stores = None"
  shows "findAuthzStore c ns svc port bearer name w = None"
proof -
  have stuck: "\<not> (c' = c \<and> ns' = ns \<and> svc' = svc \<and> port' = port \<and> bearer' = bearer \<and> name' = name
      \<and> tok = token)"
    if "findAuthzStoreFrom c' ns' svc' port' bearer' name' tok w = Some y" for c' ns' svc' port' bearer' name' tok w y
  proof (rule findAuthzStoreFrom.raw_induct [where P = "\<lambda>c' ns' svc' port' bearer' name' tok w y.
      \<not> (c' = c \<and> ns' = ns \<and> svc' = svc \<and> port' = port \<and> bearer' = bearer \<and> name' = name \<and> tok = token)",
      rotated, OF that], goal_cases)
    case 1
    then show ?case using page(2) miss \<open>token \<noteq> []\<close> by (auto, metis prod.exhaust)
  qed
  have "findAuthzStoreFrom c ns svc port bearer name token w = None" for w
  proof (cases "findAuthzStoreFrom c ns svc port bearer name token w")
    case (Some y)
    with stuck [OF this] show ?thesis by simp
  qed
  then show ?thesis
    unfolding findAuthzStore_def
    using page(1) miss \<open>token \<noteq> []\<close> by (subst findAuthzStoreFrom.simps) simp
qed

section \<open>Ensuring a store\<close>

lemma createAuthzStore_id:
  "createAuthzStore c ns svc port bearer name w = Some (Inr i, w') \<Longrightarrow> i \<noteq> []"
  by (auto simp: createAuthzStore_def run_simps split: option.splits sum.splits if_splits)

lemma writeAuthzModel_id:
  "writeAuthzModel c ns svc port bearer types storeID w = Some (Inr i, w') \<Longrightarrow> i = storeID"
  by (auto simp: writeAuthzModel_def Let_def run_simps split: option.splits sum.splits if_splits)

lemma EnsureAuthzStore_id:
  "EnsureAuthzStore c ns svc port bearer req w = Some (Inr i, w') \<Longrightarrow> i \<noteq> []"
  by (fastforce simp: EnsureAuthzStore_def run_simps dest: writeAuthzModel_id createAuthzStore_id
      split: option.splits sum.splits if_splits)

text \<open>
  Ensuring a store whose latest model already has the desired shape only reads: when the store is
  found and its latest model was written for a policy with the same types and relations, the result
  is the store's id in the state the two reads leave, with no model written.
\<close>

theorem EnsureAuthzStore_unchanged:
  assumes "findAuthzStore c ns svc port bearer (asStore req) w = Some (Inr i, w1)" and "i \<noteq> []"
    and "latestAuthzModel c ns svc port bearer i w1 = Some (Inr (Some (authzModelJSON types)), w2)"
    and "distinct (map atName types)" and "distinct (map atName (asTypes req))"
    and "(\<lambda>t. (atName t, set (atRelations t))) ` set types
       = (\<lambda>t. (atName t, set (atRelations t))) ` set (asTypes req)"
  shows "EnsureAuthzStore c ns svc port bearer req w = Some (Inr i, w2)"
proof -
  have "relationsOf types = relationsOf (asTypes req)"
    using assms(4-6) by (rule relationsOf_perm)
  then have "authzModelMatches (Some (authzModelJSON types)) (authzModelJSON (asTypes req))"
    by (simp add: authzModelMatches_def fmap_ext shape_authzModelJSON)
  with assms(1-3) show ?thesis
    by (simp add: EnsureAuthzStore_def writeAuthzModel_def Let_def run_simps)
qed

section \<open>The interface's contract\<close>

text \<open>
  What the reconcilers rely on in a \<open>CatalogClient\<close>: an ensured store has an id, and granting is done
  principal by principal. The model of catalog.go keeps it.
\<close>

locale catalog_contract =
  fixes cat :: "'w catalog_client"
  assumes store_id: "cEnsureAuthzStore cat ns svc port bearer req w = Some (Inr i, w') \<Longrightarrow> i \<noteq> []"
    and grants_append: "cEnsureGrants cat ns svc port bearer (ps @ qs) =
       bindE (cEnsureGrants cat ns svc port bearer ps) (\<lambda>_. cEnsureGrants cat ns svc port bearer qs)"
    and grants_none: "cEnsureGrants cat ns svc port bearer [] = ret ()"
begin

lemma grants_cons:
  "cEnsureGrants cat ns svc port bearer (p # ps) =
     bindE (cEnsureGrants cat ns svc port bearer [p]) (\<lambda>_. cEnsureGrants cat ns svc port bearer ps)"
  using grants_append [of ns svc port bearer "[p]" ps] by simp

lemma grants_forE:
  "cEnsureGrants cat ns svc port bearer ps = forE ps (\<lambda>p. cEnsureGrants cat ns svc port bearer [p])"
  by (induction ps) (simp add: grants_none, subst grants_cons, simp)

end

interpretation proxy: catalog_contract "proxyCatalogClient c" for c
  by unfold_locales
    (auto simp: proxyCatalogClient_def EnsureGrants_def forE_append dest: EnsureAuthzStore_id)

end
