(* ===== verification/Postgres.thy ===== *)
theory Postgres
  imports Component
begin

text \<open>
  The LakeKeeper Postgres (internal/controller/postgres.go): embedded as a StatefulSet with a generated
  Secret, or external with credentials from a user's Secret. Each \<open>mutate...\<close> is the closure that the
  \<open>apply...\<close> function next to it passes to \<open>apply\<close>.
\<close>

section \<open>Reconciling Postgres\<close>

record postgres_conn =
  pnHost :: string
  pnPort :: int
  pnDatabase :: string
  pnUsername :: string
  pnPassword :: string
  pnSSLMode :: string

definition statefulSetReady :: "'w reconciler \<Rightarrow> string \<Rightarrow> string \<Rightarrow> ('w st, bool) go" where
  "statefulSetReady r ns name =
     bindE (liftL (kGetStatefulSet (rClient r) name ns)) (\<lambda>sts. ret (stsReadyReplicas sts \<ge> 1))"

text \<open>The same of a Deployment (internal/controller/lakekeeper.go).\<close>

definition deploymentReady :: "'w reconciler \<Rightarrow> string \<Rightarrow> string \<Rightarrow> ('w st, bool) go" where
  "deploymentReady r ns name =
     bindE (liftL (kGetDeployment (rClient r) name ns)) (\<lambda>d. ret (depReadyReplicas d \<ge> 1))"

definition ensurePostgresSecret :: "'w reconciler \<Rightarrow> dataplatform \<Rightarrow> string \<Rightarrow> ('w st, unit) go" where
  "ensurePostgresSecret r dp ns =
     handleE (liftL (kGetSecret (rClient r) secretPostgres ns)) (\<lambda>q. case q of
       Inr _ \<Rightarrow> ret ()
     | Inl _ \<Rightarrow>
         bindE (randomHex r 16) (\<lambda>password.
         let db = PostgresSpec_DatabaseOrDefault (lkPostgres (spLakekeeper (dpSpec dp)))
         in ensureGeneratedSecret r dp secretPostgres ns componentPostgres (fmap_of_list [
              (keyPostgresUsername, namePostgres),
              (keyPostgresPassword, password),
              (keyPostgresDatabase, db)])))"

definition mutatePostgresService :: "dataplatform \<Rightarrow> service \<Rightarrow> service" where
  "mutatePostgresService dp svc =
     (let labels = labelsFor dp componentPostgres
      in svc\<lparr>svcMeta := ensureLabels labels (svcMeta svc), svcSelector := labels,
           svcPorts := [\<lparr>spName = namePostgres, spPort = postgresPort, spTargetPort = postgresPort\<rparr>]\<rparr>)"

definition applyPostgresService :: "'w reconciler \<Rightarrow> dataplatform \<Rightarrow> string \<Rightarrow> ('w st, unit) go" where
  "applyPostgresService r dp ns =
     applyService r dp (newService namePostgres ns) (\<lambda>svc. Inr (mutatePostgresService dp svc))"

text \<open>The first-time part of a StatefulSet mutation: fields Kubernetes does not let change later.\<close>

definition initStatefulSet :: "smap \<Rightarrow> string \<Rightarrow> string \<Rightarrow> stateful_set \<Rightarrow> stateful_set" where
  "initStatefulSet labels serviceName qty sts =
     (if omCreated (stsMeta sts) then sts
      else sts\<lparr>stsSelector := Some labels, stsServiceName := serviceName,
             stsVolumeClaims := [\<lparr>vcName = volumeData, vcAccessModes = [''ReadWriteOnce''], vcStorage = qty\<rparr>]\<rparr>)"

text \<open>The same of a Deployment: only the selector is immutable.\<close>

definition initDeployment :: "smap \<Rightarrow> deployment \<Rightarrow> deployment" where
  "initDeployment labels d =
     (if omCreated (depMeta d) then d else d\<lparr>depSelector := Some labels\<rparr>)"

definition postgresContainer :: "postgres_spec \<Rightarrow> container" where
  "postgresContainer spec = zeroContainer\<lparr>
     ctName := namePostgres,
     ctImage := PostgresSpec_ImageOrDefault spec,
     ctPorts := [\<lparr>cpName = namePostgres, cpPort = postgresPort\<rparr>],
     ctEnv := [
       envValue ''POSTGRES_USER'' namePostgres,
       envSecret ''POSTGRES_PASSWORD'' secretPostgres keyPostgresPassword,
       envValue ''POSTGRES_DB'' (PostgresSpec_DatabaseOrDefault spec),
       envValue keyPGDATA pgDataPath],
     ctMounts := [mountAt volumeData pgDataMountPath],
     ctReadiness := Some \<lparr>prHandler = TCPSocket postgresPort, prInitialDelay = 0, prPeriod = 5\<rparr>,
     ctSecurity := Some (restrictedContainerSecurity uidPostgres gidPostgres)\<rparr>"

definition mutatePostgresStatefulSet ::
  "dataplatform \<Rightarrow> postgres_spec \<Rightarrow> string \<Rightarrow> stateful_set \<Rightarrow> stateful_set" where
  "mutatePostgresStatefulSet dp spec qty sts0 =
     (let labels = labelsFor dp componentPostgres;
          sts = initStatefulSet labels namePostgres qty
                  (sts0\<lparr>stsMeta := ensureLabels labels (stsMeta sts0)\<rparr>);
          pod = ptSpec (stsTemplate sts)
      in sts\<lparr>stsReplicas := Some 1,
           stsTemplate := (stsTemplate sts)\<lparr>ptLabels := labels,
             ptSpec := pod\<lparr>podSecurity := Some (restrictedPodSecurity uidPostgres gidPostgres),
               podContainers := [postgresContainer spec]\<rparr>\<rparr>\<rparr>)"

definition applyPostgresStatefulSet ::
  "'w reconciler \<Rightarrow> dataplatform \<Rightarrow> string \<Rightarrow> postgres_spec \<Rightarrow> ('w st, unit) go" where
  "applyPostgresStatefulSet r dp ns spec =
     (case lParseQuantity (rLib r) (PostgresSpec_StorageSizeOrDefault spec) of
        Inl e \<Rightarrow> fail (wrapErr ''invalid postgres storageSize: '' e)
      | Inr qty \<Rightarrow> applyStatefulSet r dp (newStatefulSet namePostgres ns)
          (\<lambda>sts. Inr (mutatePostgresStatefulSet dp spec qty sts)))"

definition externalPostgres :: "'w reconciler \<Rightarrow> dataplatform \<Rightarrow> postgres_spec \<Rightarrow> ('w st, postgres_conn) go" where
  "externalPostgres r dp spec =
     (if pgHost spec = [] then
        missing r dp ConditionPostgresReady
          (Errorf ''lakekeeper.postgres.host is required when embedded is false'')
      else case pgCredentialsSecretRef spec of
        None \<Rightarrow> missing r dp ConditionPostgresReady
          (Errorf ''lakekeeper.postgres.credentialsSecretRef is required when embedded is false'')
      | Some ref \<Rightarrow>
          if pcName ref = [] then missing r dp ConditionPostgresReady
            (Errorf ''lakekeeper.postgres.credentialsSecretRef is required when embedded is false'')
          else
            let secretNS = (if pcNamespace ref = []
                  then LakekeeperSpec_NamespaceOrDefault (spLakekeeper (dpSpec dp)) else pcNamespace ref)
            in stage r dp ConditionPostgresReady
                 (getSecretData r (pcName ref) secretNS (PostgresCredentialsSecretRef_UsernameKeyOrDefault ref)) (\<lambda>user.
               stage r dp ConditionPostgresReady
                 (getSecretData r (pcName ref) secretNS (PostgresCredentialsSecretRef_PasswordKeyOrDefault ref)) (\<lambda>pass.
               bindE (setCondition r dp ConditionPostgresReady ConditionTrue reasonReady ''Using external Postgres'') (\<lambda>_.
               ret \<lparr>pnHost = pgHost spec, pnPort = PostgresSpec_PortOrDefault spec,
                    pnDatabase = PostgresSpec_DatabaseOrDefault spec, pnUsername = user,
                    pnPassword = pass, pnSSLMode = pgSSLMode spec\<rparr>))))"

definition reconcilePostgres :: "'w reconciler \<Rightarrow> dataplatform \<Rightarrow> ('w st, postgres_conn) go" where
  "reconcilePostgres r dp =
     (let ns = LakekeeperSpec_NamespaceOrDefault (spLakekeeper (dpSpec dp));
          spec = lkPostgres (spLakekeeper (dpSpec dp));
          c = ConditionPostgresReady;
          conn = \<lparr>pnHost = namePostgres, pnPort = postgresPort,
            pnDatabase = PostgresSpec_DatabaseOrDefault spec, pnUsername = namePostgres,
            pnPassword = [], pnSSLMode = sslModeDisable\<rparr>
      in if \<not> PostgresSpec_IsEmbedded spec then externalPostgres r dp spec
         else
           stage r dp c (ensurePostgresSecret r dp ns) (\<lambda>_.
           stage r dp c (applyPostgresService r dp ns) (\<lambda>_.
           stage r dp c (applyPostgresStatefulSet r dp ns spec) (\<lambda>_.
           stage r dp c (statefulSetReady r ns namePostgres) (\<lambda>ready.
           if \<not> ready then
             bindE (setCondition r dp c ConditionFalse reasonNotReady ''Postgres StatefulSet is not ready'') (\<lambda>_.
             ret conn)
           else
             bindE (setCondition r dp c ConditionTrue reasonReady ''Postgres is ready'') (\<lambda>_.
             ret conn))))))"

section \<open>Its contracts\<close>

lemma frame_statefulSetReady [frame_intro]: "frame t v (statefulSetReady r ns n)"
  unfolding statefulSetReady_def by (intro keeps_intro frame_intro)

lemma frame_deploymentReady [frame_intro]: "frame t v (deploymentReady r ns n)"
  unfolding deploymentReady_def by (intro keeps_intro frame_intro)

lemma frame_reconcilePostgres:
  assumes "conditions_ok (rLib r)" and "t \<noteq> ConditionPostgresReady"
  shows "frame t v (reconcilePostgres r dp)"
  using assms unfolding reconcilePostgres_def externalPostgres_def ensurePostgresSecret_def
    applyPostgresService_def applyPostgresStatefulSet_def
  by (auto intro!: keeps_intro frame_intro)

lemma reports_reconcilePostgres:
  assumes "conditions_ok (rLib r)"
  shows "reports dp ConditionPostgresReady (reconcilePostgres r dp)
     (\<lambda>_ s. settled dp ConditionPostgresReady (snd s))"
  using assms unfolding reconcilePostgres_def externalPostgres_def
  by (auto intro!: report_intro)

interpretation postgres: component reconcilePostgres ConditionPostgresReady
  by (rule componentI) (auto intro: reports_reconcilePostgres frame_reconcilePostgres)

lemma initStatefulSet_idem [simp]:
  "initStatefulSet l n q (initStatefulSet l n q sts) = initStatefulSet l n q sts"
  by (simp add: initStatefulSet_def)

lemma initDeployment_idem [simp]: "initDeployment l (initDeployment l d) = initDeployment l d"
  by (simp add: initDeployment_def)

interpretation postgres_service: mutation "mutatePostgresService dp" for dp
  by unfold_locales (simp add: mutatePostgresService_def Let_def ensureLabels_def)

interpretation postgres_statefulset: mutation "mutatePostgresStatefulSet dp spec qty" for dp spec qty
  by unfold_locales
    (simp add: mutatePostgresStatefulSet_def initStatefulSet_def Let_def ensureLabels_def)

end
