(* ===== verification/Minio.thy ===== *)
theory Minio
  imports Postgres
begin

text \<open>
  The object store (internal/controller/minio.go): an external S3 store, or an embedded MinIO with a
  generated Secret, a StatefulSet and a Job that creates the warehouse bucket.
\<close>

section \<open>The external store\<close>

record object_store =
  osBucket :: string
  osRegion :: string
  osEndpoint :: string
  osPathStyleAccess :: bool
  osFlavor :: string
  osSTSEnabled :: bool
  osSTSRoleARN :: string
  osAccessKeyID :: string
  osSecretAccessKey :: string

definition externalObjectStore :: "'w reconciler \<Rightarrow> dataplatform \<Rightarrow> ('w st, object_store) go" where
  "externalObjectStore r dp =
     (case stS3 (spStorage (dpSpec dp)) of
        None \<Rightarrow> missing r dp ConditionMinioReady
          (Errorf ''spec.storage.s3 is required when storage.embedded is false'')
      | Some s3 \<Rightarrow> (case s3CredentialsSecretRef s3 of
          None \<Rightarrow> missing r dp ConditionMinioReady
            (Errorf ''spec.storage.s3.credentialsSecretRef is required when storage.embedded is false'')
        | Some ref \<Rightarrow>
            if scName ref = [] then missing r dp ConditionMinioReady
              (Errorf ''spec.storage.s3.credentialsSecretRef is required when storage.embedded is false'')
            else
              stage r dp ConditionMinioReady (getSecretData r (scName ref) (scNamespace ref)
                (S3CredentialsSecretRef_AccessKeyIDKeyOrDefault ref)) (\<lambda>accessKey.
              stage r dp ConditionMinioReady (getSecretData r (scName ref) (scNamespace ref)
                (S3CredentialsSecretRef_SecretAccessKeyKeyOrDefault ref)) (\<lambda>secretKey.
              ret \<lparr>osBucket = s3Bucket s3, osRegion = s3Region s3, osEndpoint = s3Endpoint s3,
                osPathStyleAccess = s3PathStyleAccess s3, osFlavor = S3Spec_FlavorOrDefault s3,
                osSTSEnabled = s3STSEnabled s3, osSTSRoleARN = s3STSRoleARN s3,
                osAccessKeyID = accessKey, osSecretAccessKey = secretKey\<rparr>))))"

section \<open>The bucket job\<close>

definition jobSucceeded :: "job \<Rightarrow> bool" where
  "jobSucceeded job =
     ((\<exists>c \<in> set (jobConditions job). jcType c = ''Complete'' \<and> jcStatus c = ''True'')
      \<or> jobSucceededCount job > 0)"

definition jobFailed :: "job \<Rightarrow> bool" where
  "jobFailed job = (\<exists>c \<in> set (jobConditions job). jcType c = ''Failed'' \<and> jcStatus c = ''True'')"

definition mcJobWritableConfig :: "job \<Rightarrow> bool" where
  "mcJobWritableConfig job = (case podContainers (ptSpec (jobTemplate job)) of
     [] \<Rightarrow> False
   | c # _ \<Rightarrow> \<exists>env \<in> set (ctEnv c). evName env = keyHome \<and> evValue env = mcHomePath)"

definition mcHost :: "string \<Rightarrow> string \<Rightarrow> string \<Rightarrow> string" where
  "mcHost accessKey secretKey ns =
     ''http://'' @ PathEscape accessKey @ '':'' @ PathEscape secretKey @ ''@'' @ nameMinio @ ''.'' @ ns
       @ ''.svc:'' @ Itoa minioAPIPort"

definition mutateMCSecret :: "dataplatform \<Rightarrow> string \<Rightarrow> secret \<Rightarrow> secret" where
  "mutateMCSecret dp host mcSecret =
     mcSecret\<lparr>secMeta := ensureLabels (labelsFor dp componentMinio) (secMeta mcSecret),
       secType := SecretTypeOpaque, secData := fmap_of_list [(keyMCHost, host)]\<rparr>"

definition minioBucketJob :: "dataplatform \<Rightarrow> string \<Rightarrow> minio_spec \<Rightarrow> job" where
  "minioBucketJob dp ns spec =
     (let bucket = MinioSpec_BucketOrDefault spec; labels = labelsFor dp componentMinio
      in \<lparr>jobMeta = (newMeta nameMinioBucketJob ns)\<lparr>omLabels := labels\<rparr>,
          jobBackoffLimit = Some 6,
          jobTemplate = zeroPodTemplate\<lparr>ptLabels := labels,
            ptSpec := \<lparr>podRestartPolicy = ''OnFailure'',
              podSecurity = Some (restrictedPodSecurity uidMinio gidMinio),
              podInitContainers = [],
              podContainers = [zeroContainer\<lparr>
                ctName := ''mc'',
                ctImage := MinioSpec_McImageOrDefault spec,
                ctArgs := [''mb'', ''--ignore-existing'', ''local/'' @ bucket],
                ctEnv := [
                  envValue keyHome mcHomePath,
                  envValue keyMcConfigDir mcConfigPath,
                  envSecret keyMCHost secretMinioMC keyMCHost],
                ctMounts := [mountAt volumeTmp mcHomePath],
                ctSecurity := Some (restrictedContainerSecurity uidMinio gidMinio)\<rparr>],
              podVolumes = [\<lparr>volName = volumeTmp, volSource = EmptyDir\<rparr>]\<rparr>\<rparr>,
          jobConditions = [],
          jobSucceededCount = 0\<rparr>)"

definition ensureMinioBucket ::
  "'w reconciler \<Rightarrow> dataplatform \<Rightarrow> string \<Rightarrow> minio_spec \<Rightarrow> string \<Rightarrow> string \<Rightarrow> ('w st, bool) go" where
  "ensureMinioBucket r dp ns spec accessKey secretKey =
     bindE (applySecret r dp (newSecret secretMinioMC ns)
       (\<lambda>mcSecret. Inr (mutateMCSecret dp (mcHost accessKey secretKey ns) mcSecret))) (\<lambda>_.
     handleE (liftL (kGetJob (rClient r) nameMinioBucketJob ns)) (\<lambda>q. case q of
       Inr job \<Rightarrow>
         if omDeleting (jobMeta job) then ret False
         else if jobSucceeded job then ret True
         else if jobFailed job \<or> \<not> mcJobWritableConfig job then
           bindE (liftL (kDeleteJob (rClient r) (omName (jobMeta job)) (omNamespace (jobMeta job)))) (\<lambda>_.
           ret False)
         else ret False
     | Inl e \<Rightarrow>
         if \<not> IsNotFound e then fail e
         else bindE (applyJob r dp (minioBucketJob dp ns spec) Inr) (\<lambda>_. ret False)))"

section \<open>Embedded MinIO\<close>

definition ensureMinioSecret :: "'w reconciler \<Rightarrow> dataplatform \<Rightarrow> string \<Rightarrow> ('w st, unit) go" where
  "ensureMinioSecret r dp ns =
     handleE (liftL (kGetSecret (rClient r) secretMinio ns)) (\<lambda>q. case q of
       Inr _ \<Rightarrow> ret ()
     | Inl _ \<Rightarrow>
         bindE (randomHex r 8) (\<lambda>access.
         bindE (randomHex r 16) (\<lambda>secretKey.
         ensureGeneratedSecret r dp secretMinio ns componentMinio (fmap_of_list [
           (keyS3Access, access),
           (keyS3Secret, secretKey)]))))"

definition mutateMinioService :: "dataplatform \<Rightarrow> service \<Rightarrow> service" where
  "mutateMinioService dp svc =
     (let labels = labelsFor dp componentMinio
      in svc\<lparr>svcMeta := ensureLabels labels (svcMeta svc), svcSelector := labels,
           svcPorts := [
             \<lparr>spName = ''api'', spPort = minioAPIPort, spTargetPort = minioAPIPort\<rparr>,
             \<lparr>spName = ''console'', spPort = minioConsolePort, spTargetPort = minioConsolePort\<rparr>]\<rparr>)"

definition applyMinioService :: "'w reconciler \<Rightarrow> dataplatform \<Rightarrow> string \<Rightarrow> ('w st, unit) go" where
  "applyMinioService r dp ns =
     applyService r dp (newService nameMinio ns) (\<lambda>svc. Inr (mutateMinioService dp svc))"

definition minioContainer :: "minio_spec \<Rightarrow> container" where
  "minioContainer spec = zeroContainer\<lparr>
     ctName := nameMinio,
     ctImage := MinioSpec_ImageOrDefault spec,
     ctArgs := [''server'', ''/data'', ''--console-address'', '':'' @ Itoa minioConsolePort],
     ctPorts := [
       \<lparr>cpName = ''api'', cpPort = minioAPIPort\<rparr>,
       \<lparr>cpName = ''console'', cpPort = minioConsolePort\<rparr>],
     ctEnv := [
       envSecret ''MINIO_ROOT_USER'' secretMinio keyS3Access,
       envSecret ''MINIO_ROOT_PASSWORD'' secretMinio keyS3Secret],
     ctMounts := [mountAt volumeData ''/data''],
     ctReadiness := Some \<lparr>prHandler = HTTPGet ''/minio/health/ready'' minioAPIPort, prInitialDelay = 0,
       prPeriod = 5\<rparr>,
     ctResources := miResources spec,
     ctSecurity := Some (restrictedContainerSecurity uidMinio gidMinio)\<rparr>"

definition mutateMinioStatefulSet ::
  "dataplatform \<Rightarrow> minio_spec \<Rightarrow> string \<Rightarrow> stateful_set \<Rightarrow> stateful_set" where
  "mutateMinioStatefulSet dp spec qty sts0 =
     (let labels = labelsFor dp componentMinio;
          sts = initStatefulSet labels nameMinio qty
                  (sts0\<lparr>stsMeta := ensureLabels labels (stsMeta sts0)\<rparr>);
          pod = ptSpec (stsTemplate sts)
      in sts\<lparr>stsReplicas := Some 1,
           stsTemplate := (stsTemplate sts)\<lparr>ptLabels := labels,
             ptSpec := pod\<lparr>podSecurity := Some (restrictedPodSecurity uidMinio gidMinio),
               podContainers := [minioContainer spec]\<rparr>\<rparr>\<rparr>)"

definition applyMinioStatefulSet ::
  "'w reconciler \<Rightarrow> dataplatform \<Rightarrow> string \<Rightarrow> minio_spec \<Rightarrow> ('w st, unit) go" where
  "applyMinioStatefulSet r dp ns spec =
     (case lParseQuantity (rLib r) (MinioSpec_StorageSizeOrDefault spec) of
        Inl e \<Rightarrow> fail (wrapErr ''invalid minio storageSize: '' e)
      | Inr qty \<Rightarrow> applyStatefulSet r dp (newStatefulSet nameMinio ns)
          (\<lambda>sts. Inr (mutateMinioStatefulSet dp spec qty sts)))"

definition reconcileMinio :: "'w reconciler \<Rightarrow> dataplatform \<Rightarrow> ('w st, object_store \<times> bool) go" where
  "reconcileMinio r dp =
     (let spec = stMinio (spStorage (dpSpec dp));
          ns = MinioSpec_NamespaceOrDefault spec;
          c = ConditionMinioReady
      in bindE (modifyR (\<lambda>st. st\<lparr>dsMinioEndpoint := clusterServiceURL nameMinio ns minioAPIPort\<rparr>)) (\<lambda>_.
         stage r dp c (ensureNamespace r dp ns componentMinio) (\<lambda>_.
         stage r dp c (ensureMinioSecret r dp ns) (\<lambda>_.
         stage r dp c (applyMinioService r dp ns) (\<lambda>_.
         stage r dp c (applyMinioStatefulSet r dp ns spec) (\<lambda>_.
         stage r dp c (getSecretData r secretMinio ns keyS3Access) (\<lambda>accessKey.
         stage r dp c (getSecretData r secretMinio ns keyS3Secret) (\<lambda>secretKey.
         bindE (getsR dsMinioEndpoint) (\<lambda>endpoint.
         let store = \<lparr>osBucket = MinioSpec_BucketOrDefault spec, osRegion = DefaultS3CompatRegion,
               osEndpoint = endpoint, osPathStyleAccess = True, osFlavor = DefaultS3CompatFlavor,
               osSTSEnabled = False, osSTSRoleARN = [],
               osAccessKeyID = accessKey, osSecretAccessKey = secretKey\<rparr>
         in stage r dp c (statefulSetReady r ns nameMinio) (\<lambda>ready.
            if \<not> ready then
              bindE (setCondition r dp c ConditionFalse reasonNotReady ''MinIO StatefulSet is not ready'') (\<lambda>_.
              ret (store, False))
            else
            stage r dp c (ensureMinioBucket r dp ns spec accessKey secretKey) (\<lambda>bucketReady.
            if \<not> bucketReady then
              bindE (setCondition r dp c ConditionFalse reasonNotReady
                ''Waiting for MinIO bucket to be created'') (\<lambda>_.
              ret (store, False))
            else
              bindE (setCondition r dp c ConditionTrue reasonReady ''MinIO is ready'') (\<lambda>_.
              ret (store, True)))))))))))))"

definition reconcileObjectStore :: "'w reconciler \<Rightarrow> dataplatform \<Rightarrow> ('w st, object_store \<times> bool) go" where
  "reconcileObjectStore r dp =
     (if \<not> StorageSpec_IsEmbedded (spStorage (dpSpec dp)) then
        bindE (externalObjectStore r dp) (\<lambda>store.
        bindE (setCondition r dp ConditionMinioReady ConditionTrue reasonDisabled
          ''Using external object store'') (\<lambda>_.
        ret (store, True)))
      else bindE (reconcileMinio r dp) (\<lambda>(store, ready). ret (store, ready)))"

section \<open>Its contracts\<close>

lemma frame_externalObjectStore [frame_intro]:
  "conditions_ok (rLib r) \<Longrightarrow> t \<noteq> ConditionMinioReady \<Longrightarrow> frame t v (externalObjectStore r dp)"
  unfolding externalObjectStore_def by (auto intro!: keeps_intro frame_intro)

lemma frame_ensureMinioBucket [frame_intro]: "frame t v (ensureMinioBucket r dp ns spec a s)"
  unfolding ensureMinioBucket_def by (intro keeps_intro frame_intro)

lemma frame_ensureMinioSecret [frame_intro]: "frame t v (ensureMinioSecret r dp ns)"
  unfolding ensureMinioSecret_def by (intro keeps_intro frame_intro)

lemma frame_applyMinio [frame_intro]:
  "frame t v (applyMinioService r dp ns)" "frame t v (applyMinioStatefulSet r dp ns spec)"
  unfolding applyMinioService_def applyMinioStatefulSet_def by (intro keeps_intro frame_intro)+

lemma frame_reconcileMinio [frame_intro]:
  "conditions_ok (rLib r) \<Longrightarrow> t \<noteq> ConditionMinioReady \<Longrightarrow> frame t v (reconcileMinio r dp)"
  unfolding reconcileMinio_def by (auto intro!: keeps_intro frame_intro)

lemma frame_reconcileObjectStore:
  "conditions_ok (rLib r) \<Longrightarrow> t \<noteq> ConditionMinioReady \<Longrightarrow> frame t v (reconcileObjectStore r dp)"
  unfolding reconcileObjectStore_def by (auto intro!: keeps_intro frame_intro)

lemma reports_reconcileMinio:
  assumes "conditions_ok (rLib r)"
  shows "reports dp ConditionMinioReady (reconcileMinio r dp)
     (ready_post r dp ConditionMinioReady snd)"
  using assms unfolding reconcileMinio_def by (auto intro!: report_intro)

lemma reports_externalObjectStore:
  assumes "conditions_ok (rLib r)"
  shows "reports dp ConditionMinioReady (externalObjectStore r dp) (\<lambda>_ _. True)"
  using assms unfolding externalObjectStore_def by (auto intro!: report_intro hoare_ret)

lemma reports_reconcileObjectStore:
  assumes "conditions_ok (rLib r)"
  shows "reports dp ConditionMinioReady (reconcileObjectStore r dp)
     (ready_post r dp ConditionMinioReady snd)"
  unfolding reconcileObjectStore_def
proof (rule reports_if)
  show "reports dp ConditionMinioReady (bindE (externalObjectStore r dp) (\<lambda>store.
      bindE (setCondition r dp ConditionMinioReady ConditionTrue reasonDisabled
        ''Using external object store'') (\<lambda>_. ret (store, True))))
      (ready_post r dp ConditionMinioReady snd)"
    using assms by (intro reports_bindE reports_externalObjectStore reports_ready) auto
  show "reports dp ConditionMinioReady (bindE (reconcileMinio r dp) (\<lambda>(store, ready). ret (store, ready)))
      (ready_post r dp ConditionMinioReady snd)"
    by (rule hoare_bindE [OF reports_reconcileMinio [OF assms]]) (auto intro: hoare_ret)
qed

interpretation object_store: gated_component reconcileObjectStore ConditionMinioReady snd
  by (rule gated_componentI) (auto intro: reports_reconcileObjectStore frame_reconcileObjectStore)

interpretation minio_service: mutation "mutateMinioService dp" for dp
  by unfold_locales (simp add: mutateMinioService_def Let_def ensureLabels_def)

interpretation minio_statefulset: mutation "mutateMinioStatefulSet dp spec qty" for dp spec qty
  by unfold_locales
    (simp add: mutateMinioStatefulSet_def initStatefulSet_def Let_def ensureLabels_def)

interpretation mc_secret: mutation "mutateMCSecret dp host" for dp host
  by unfold_locales (simp add: mutateMCSecret_def Let_def ensureLabels_def)

section \<open>The bucket\<close>

text \<open>What the API server documents of reading a Job, over the view of the cluster.\<close>

definition get_job_ok :: "('w \<Rightarrow> cluster) \<Rightarrow> 'w kube_client \<Rightarrow> bool" where
  "get_job_ok view kc \<longleftrightarrow> (\<forall>n ns. reads_ok view (\<lambda>c. clJobs c n ns) (kGetJob kc n ns))"

lemma applySecret_jobs:
  assumes "cou_secret_ok view (rClient r)"
  shows "keeps (\<lambda>s. clJobs (view (fst s)) n ns = x) (applySecret r dp obj f)"
proof (rule keepsI)
  fix s q s' assume J: "clJobs (view (fst s)) n ns = x" and run: "applySecret r dp obj f s = Some (q, s')"
  obtain w st where s: "s = (w, st)" by (cases s)
  from run obtain w' where cou: "kCouSecret (rClient r) obj
      (withController r dp secMeta (\<lambda>m o'. o'\<lparr>secMeta := m\<rparr>) f) w = Some (q, w')" and s': "s' = (w', st)"
    by (auto simp: apply_obj_def s run_simps split: option.splits)
  show "clJobs (view (fst s')) n ns = x"
    using assms [unfolded cou_secret_ok_def, rule_format, OF cou] J s s'
    by (auto simp: Let_def split: sum.splits)
qed

text \<open>
  C17. The bucket counts as created only once its Job has succeeded: whatever Job is stored when
  \<open>ensureMinioBucket\<close> is called, its answer is yes exactly when that Job exists, is not being deleted
  and has succeeded. A missing, running, failed or disappearing Job never makes the store ready.
\<close>

theorem ensureMinioBucket_ready_iff:
  assumes "get_job_ok view (rClient r)" and "cou_secret_ok view (rClient r)"
  shows "hoare (\<lambda>s. clJobs (view (fst s)) nameMinioBucketJob ns = stored)
     (ensureMinioBucket r dp ns spec accessKey secretKey)
     (\<lambda>ready _. ready \<longleftrightarrow> (\<exists>job. stored = Some job \<and> \<not> omDeleting (jobMeta job) \<and> jobSucceeded job))
     (\<lambda>_ _. True)"
  unfolding ensureMinioBucket_def
proof (rule hoare_bindE)
  show "hoare (\<lambda>s. clJobs (view (fst s)) nameMinioBucketJob ns = stored)
      (applySecret r dp (newSecret secretMinioMC ns)
        (\<lambda>mcSecret. Inr (mutateMCSecret dp (mcHost accessKey secretKey ns) mcSecret)))
      (\<lambda>_ s. clJobs (view (fst s)) nameMinioBucketJob ns = stored) (\<lambda>_ _. True)"
    by (rule hoare_weaken [OF hoare_keeps [OF applySecret_jobs [OF assms(2)]]]) auto
next
  have get: "kGetJob (rClient r) nameMinioBucketJob ns w = Some (q, w') \<Longrightarrow>
      (case q of Inr x \<Rightarrow> clJobs (view w) nameMinioBucketJob ns = Some x
       | Inl e \<Rightarrow> IsNotFound e \<longleftrightarrow> clJobs (view w) nameMinioBucketJob ns = None)" for w q w'
    using assms(1) unfolding get_job_ok_def reads_ok_def by blast
  show "hoare (\<lambda>s. clJobs (view (fst s)) nameMinioBucketJob ns = stored)
      (handleE (liftL (kGetJob (rClient r) nameMinioBucketJob ns)) (\<lambda>q. case q of
         Inr job \<Rightarrow>
           if omDeleting (jobMeta job) then ret False
           else if jobSucceeded job then ret True
           else if jobFailed job \<or> \<not> mcJobWritableConfig job then
             bindE (liftL (kDeleteJob (rClient r) (omName (jobMeta job)) (omNamespace (jobMeta job)))) (\<lambda>_.
             ret False)
           else ret False
       | Inl e \<Rightarrow>
           if \<not> IsNotFound e then fail e
           else bindE (applyJob r dp (minioBucketJob dp ns spec) Inr) (\<lambda>_. ret False)))
      (\<lambda>ready _. ready \<longleftrightarrow> (\<exists>job. stored = Some job \<and> \<not> omDeleting (jobMeta job) \<and> jobSucceeded job))
      (\<lambda>_ _. True)"
    by (rule hoareI) (auto simp: run_simps dest!: get split: option.splits sum.splits if_splits)
qed

text \<open>
  The credentials the operator generates reach the MinIO client as they are: hexadecimal access and
  secret keys appear unescaped in the connection string that the bucket Job gets.
\<close>

lemma mcHost_generated:
  assumes "set a \<subseteq> set hexDigits" and "set s \<subseteq> set hexDigits"
  shows "mcHost a s ns = ''http://'' @ a @ '':'' @ s @ ''@minio.'' @ ns @ ''.svc:9000''"
  using assms by (simp add: mcHost_def PathEscape_hex Itoa_def eval_simps)

end
