(* ===== verification/Oidc.thy ===== *)
theory Oidc
  imports Component Catalog
begin

text \<open>
  OIDC (internal/controller/oidc.go): what the platform knows of its issuer, how an external issuer is
  configured, and the operator's own access token. Embedded Keycloak is the theory Keycloak.
\<close>

section \<open>The configuration\<close>

record oidc_config =
  ocEnabled :: bool
  ocIssuer :: string
  ocPublicIssuer :: string
  ocAudience :: string
  ocScope :: string
  ocUIClientID :: string
  ocTrinoClientID :: string
  ocTrinoSecret :: string
  ocOpaClientID :: string
  ocOpaSecret :: string
  ocOperatorClientID :: string
  ocOperatorSecret :: string
  ocAdminSubject :: string
  ocAdminName :: string
  ocAdminEmail :: string
  ocOpaSubject :: string
  ocTokenURL :: string
  ocProxyNamespace :: string
  ocProxyService :: string
  ocProxyPort :: int
  ocProxyTokenPath :: string

text \<open>\<open>oidcConfig{}\<close>.\<close>

definition zeroOIDC :: oidc_config where
  "zeroOIDC = \<lparr>ocEnabled = False, ocIssuer = [], ocPublicIssuer = [], ocAudience = [], ocScope = [],
     ocUIClientID = [], ocTrinoClientID = [], ocTrinoSecret = [], ocOpaClientID = [], ocOpaSecret = [],
     ocOperatorClientID = [], ocOperatorSecret = [], ocAdminSubject = [], ocAdminName = [],
     ocAdminEmail = [], ocOpaSubject = [], ocTokenURL = [], ocProxyNamespace = [], ocProxyService = [],
     ocProxyPort = 0, ocProxyTokenPath = []\<rparr>"

definition oidcIssuer :: "string \<Rightarrow> string \<Rightarrow> string" where
  "oidcIssuer base realm = trimSlash base @ ''/realms/'' @ realm"

definition oidcTokenPath :: "string \<Rightarrow> string" where
  "oidcTokenPath realm = ''realms/'' @ realm @ ''/protocol/openid-connect/token''"

definition oidcTokenURL :: "string \<Rightarrow> string" where
  "oidcTokenURL issuer = trimSlash issuer @ ''/protocol/openid-connect/token''"

definition oidcAuthURL :: "string \<Rightarrow> string" where
  "oidcAuthURL issuer = trimSlash issuer @ ''/protocol/openid-connect/auth''"

definition oidcJWKSURL :: "string \<Rightarrow> string" where
  "oidcJWKSURL issuer = trimSlash issuer @ ''/protocol/openid-connect/certs''"

section \<open>An external issuer\<close>

text \<open>\<open>if key != "" { v, err = getSecretData(...) }\<close>, with \<open>def\<close> when the key is empty.\<close>

definition optionalKey :: "'w reconciler \<Rightarrow> dataplatform \<Rightarrow> oidc_credentials_ref \<Rightarrow> string \<Rightarrow> string \<Rightarrow>
   (string \<Rightarrow> ('w st, 'a) go) \<Rightarrow> ('w st, 'a) go" where
  "optionalKey r dp ref key def f =
     (if key \<noteq> [] then stage r dp ConditionAuthReady (getSecretData r (ocName ref) (ocNamespace ref) key) f
      else f def)"

definition externalConfig ::
  "'w reconciler \<Rightarrow> dataplatform \<Rightarrow> oidc_spec \<Rightarrow> oidc_credentials_ref \<Rightarrow> ('w st, oidc_config) go" where
  "externalConfig r dp spec ref =
     optionalKey r dp ref (ocClientIDKey ref) (OIDCSpec_ClientIDOrDefault spec) (\<lambda>clientID.
     stage r dp ConditionAuthReady (getSecretData r (ocName ref) (ocNamespace ref)
       (OIDCCredentialsSecretRef_ClientSecretKeyOrDefault ref)) (\<lambda>clientSecret.
     optionalKey r dp ref (ocTrinoClientIDKey ref) clientID (\<lambda>trinoID.
     optionalKey r dp ref (ocTrinoClientSecretKey ref) clientSecret (\<lambda>trinoSecret.
     let issuer = trimSlash (oiIssuer spec)
     in ret (zeroOIDC\<lparr>
          ocEnabled := True,
          ocIssuer := issuer,
          ocAudience := OIDCSpec_AudienceOrDefault spec,
          ocScope := OIDCSpec_ScopeOrDefault spec,
          ocUIClientID := clientID,
          ocTrinoClientID := trinoID,
          ocTrinoSecret := trinoSecret,
          ocOpaClientID := trinoID,
          ocOpaSecret := trinoSecret,
          ocOperatorClientID := clientID,
          ocOperatorSecret := clientSecret,
          ocTokenURL := OIDCSpec_TokenEndpointOrDefault spec\<rparr>)))))"

definition externalOIDC :: "'w reconciler \<Rightarrow> dataplatform \<Rightarrow> ('w st, oidc_config) go" where
  "externalOIDC r dp =
     (let noIssuer = Errorf ''spec.auth.oidc.issuer is required when auth.embedded is false'';
          noRef = Errorf ''spec.auth.oidc.credentialsSecretRef is required when auth.embedded is false''
      in case auOIDC (spAuth (dpSpec dp)) of
        None \<Rightarrow> missing r dp ConditionAuthReady noIssuer
      | Some spec \<Rightarrow>
          if oiIssuer spec = [] then missing r dp ConditionAuthReady noIssuer
          else (case oiCredentialsSecretRef spec of
            None \<Rightarrow> missing r dp ConditionAuthReady noRef
          | Some ref \<Rightarrow>
              if ocName ref = [] then missing r dp ConditionAuthReady noRef
              else externalConfig r dp spec ref))"

section \<open>The operator's access token\<close>

definition parseAccessToken :: "'w reconciler \<Rightarrow> string \<Rightarrow> err + string" where
  "parseAccessToken r body = (case lUnmarshalToken (rLib r) body of
      Inl e \<Rightarrow> Inl (wrapErr ''decode token response: '' e)
    | Inr t \<Rightarrow> if t = [] then Inl (Errorf ''token response missing access_token'') else Inr t)"

definition tokenForm :: "oidc_config \<Rightarrow> url_values" where
  "tokenForm cfg =
     (let form = fmap_of_list [
            (''grant_type'', [''client_credentials'']),
            (''client_id'', [ocOperatorClientID cfg]),
            (''client_secret'', [ocOperatorSecret cfg])]
      in if ocScope cfg \<noteq> [] then fmupd ''scope'' [ocScope cfg] form else form)"

definition tokenAnswer :: "'w reconciler \<Rightarrow> int \<times> string \<Rightarrow> err + string" where
  "tokenAnswer r q = (case q of (status, body) \<Rightarrow>
     if status < 200 \<or> status \<ge> 300 then
       Inl (Errorf (''token endpoint returned '' @ Itoa status @ '': '' @ truncate_body body))
     else parseAccessToken r body)"

definition oidcAccessToken :: "'w reconciler \<Rightarrow> oidc_config \<Rightarrow> ('w st, string) go" where
  "oidcAccessToken r cfg =
     (if \<not> ocEnabled cfg then ret []
      else case rCatalog r of
        None \<Rightarrow> fail (Errorf ''catalog client is not configured'')
      | Some cat \<Rightarrow>
          bindE (if ocProxyService cfg \<noteq> [] then
              liftL (cFormPost cat (ocProxyNamespace cfg) (ocProxyService cfg) (ocProxyPort cfg)
                (ocProxyTokenPath cfg) (tokenForm cfg))
            else liftL (cFetchToken cat (ocTokenURL cfg) (tokenForm cfg))) (\<lambda>q.
          pureE (tokenAnswer r q)))"

section \<open>Lemmas\<close>

lemma frame_optionalKey [frame_intro]:
  "conditions_ok (rLib r) \<Longrightarrow> t \<noteq> ConditionAuthReady \<Longrightarrow> (\<And>x. frame t v (f x)) \<Longrightarrow>
     frame t v (optionalKey r dp ref key d f)"
  unfolding optionalKey_def by (auto intro!: keeps_intro frame_intro)

lemma reports_optionalKey [report_intro]:
  "conditions_ok (rLib r) \<Longrightarrow> (\<And>x. reports dp ConditionAuthReady (f x) Q) \<Longrightarrow>
     reports dp ConditionAuthReady (optionalKey r dp ref key d f) Q"
  unfolding optionalKey_def by (auto intro!: report_intro)

lemma frame_externalOIDC [frame_intro]:
  "conditions_ok (rLib r) \<Longrightarrow> t \<noteq> ConditionAuthReady \<Longrightarrow> frame t v (externalOIDC r dp)"
  unfolding externalOIDC_def externalConfig_def Let_def by (auto intro!: keeps_intro frame_intro)

lemma reports_externalOIDC:
  "conditions_ok (rLib r) \<Longrightarrow> reports dp ConditionAuthReady (externalOIDC r dp) (\<lambda>_ _. True)"
  unfolding externalOIDC_def externalConfig_def Let_def by (auto intro!: report_intro hoare_ret)

lemma frame_oidcAccessToken [frame_intro]: "frame t v (oidcAccessToken r cfg)"
  unfolding oidcAccessToken_def by (intro keeps_intro frame_intro)

lemma parseAccessToken_nonempty [simp]: "parseAccessToken r body \<noteq> Inr []"
  by (auto simp: parseAccessToken_def split: sum.splits if_splits)

text \<open>
  With authentication on, the operator never calls an API with an empty bearer token: whatever
  the token endpoint answers, a token it obtains is not empty; with authentication off the token is empty
  and obtaining it does not fail.
\<close>

theorem oidcAccessToken_nonempty:
  "hoare (\<lambda>_. True) (oidcAccessToken r cfg) (\<lambda>t _. t = [] \<longleftrightarrow> \<not> ocEnabled cfg) (\<lambda>_ _. ocEnabled cfg)"
  unfolding oidcAccessToken_def
  by (rule hoareI)
    (auto simp: run_simps tokenAnswer_def split: option.splits sum.splits if_splits)

section \<open>Endpoints\<close>

text \<open>
  The two ways to the token endpoint agree: the URL derived from the issuer is the base URL followed
  by the path that the API server's proxy is given, for every realm whose name does not end in a slash,
  and the issuer itself never ends in one.
\<close>

lemma oidc_token_endpoint:
  assumes "realm \<noteq> []" and "last realm \<noteq> CHR ''/''"
  shows "oidcTokenURL (oidcIssuer base realm) = trimSlash base @ ''/'' @ oidcTokenPath realm \<and>
     last (oidcIssuer base realm) \<noteq> CHR ''/''"
proof -
  have "trimSlash (xs @ realm) = xs @ realm" for xs
    using assms by (cases realm rule: rev_cases) (simp_all add: TrimRight_def)
  from this [of "trimSlash base @ ''/realms/''"] show ?thesis
    using assms by (simp add: oidcTokenURL_def oidcIssuer_def oidcTokenPath_def)
qed

end
