(* ===== verification/OpenFGA.thy ===== *)
theory OpenFGA
  imports Postgres AuthzStore
begin

text \<open>
  OpenFGA (internal/controller/openfga.go): its Secrets, its own Postgres, its Service and Deployment,
  and the store that backs row filters and column masks.
\<close>

section \<open>Access policies as object types\<close>

record openfga_config =
  fgEnabled :: bool
  fgEndpoint :: string
  fgStore :: string
  fgApiKey :: string
  fgOpaURL :: string
  fgHttpEndpoint :: string
  fgRowFilterStoreID :: string

definition zeroOpenFGA :: openfga_config where
  "zeroOpenFGA = \<lparr>fgEnabled = False, fgEndpoint = [], fgStore = [], fgApiKey = [], fgOpaURL = [],
     fgHttpEndpoint = [], fgRowFilterStoreID = []\<rparr>"

text \<open>\<open>relations[name]\<close>, where an absent key reads as the nil slice, and the closure \<open>add\<close>.\<close>

definition relationsIn :: "(string, string list) fmap \<Rightarrow> string \<Rightarrow> string list" where
  "relationsIn m name = (case fmlookup m name of None \<Rightarrow> [] | Some rs \<Rightarrow> rs)"

definition addRelation :: "string \<times> string \<Rightarrow> (string, string list) fmap \<Rightarrow> (string, string list) fmap" where
  "addRelation nr relations = (case nr of (name, relation) \<Rightarrow>
     if relation \<in> set (relationsIn relations name) then relations
     else fmupd name (relationsIn relations name @ [relation]) relations)"

definition accessPairs :: "authz_spec \<Rightarrow> (string \<times> string) list" where
  "accessPairs spec =
     map (\<lambda>f. (rfsType (rfOpenFGA f), RowFilterSubjectSpec_RelationOrDefault (rfOpenFGA f))) (azRowFilters spec)
     @ map (\<lambda>a. (casType (caOpenFGA a), ColumnAccessSubjectSpec_RelationOrDefault (caOpenFGA a)))
         (azColumnAccess spec)"

definition accessAuthzTypes :: "authz_spec \<Rightarrow> authz_type list" where
  "accessAuthzTypes spec =
     (let relations = fold addRelation (accessPairs spec) fmempty
      in map (\<lambda>name. \<lparr>atName = name, atRelations = sort (the (fmlookup relations name))\<rparr>)
           (sortedKeys relations))"

section \<open>Secrets and objects\<close>

definition ensureOpenFGASecrets :: "'w reconciler \<Rightarrow> dataplatform \<Rightarrow> string \<Rightarrow> ('w st, unit) go" where
  "ensureOpenFGASecrets r dp ns =
     bindE (randomHex r 32) (\<lambda>apiKey.
     bindE (ensureGeneratedSecret r dp secretOpenFGA ns componentOpenFGA
       (fmap_of_list [(keyOpenFGAAPIKey, apiKey)])) (\<lambda>_.
     bindE (randomHex r 16) (\<lambda>password.
     ensureGeneratedSecret r dp secretPostgres ns componentOpenFGAPostgres (fmap_of_list [
       (keyPostgresUsername, namePostgres),
       (keyPostgresPassword, password),
       (keyPostgresDatabase, ''postgres'')]))))"

definition mutateOpenFGAPostgresService :: "dataplatform \<Rightarrow> service \<Rightarrow> service" where
  "mutateOpenFGAPostgresService dp svc =
     (let labels = labelsFor dp componentOpenFGAPostgres
      in svc\<lparr>svcMeta := ensureLabels labels (svcMeta svc), svcSelector := labels,
           svcPorts := [\<lparr>spName = namePostgres, spPort = postgresPort, spTargetPort = postgresPort\<rparr>]\<rparr>)"

definition openfgaPostgresContainer :: "postgres_spec \<Rightarrow> container" where
  "openfgaPostgresContainer spec = zeroContainer\<lparr>
     ctName := namePostgres,
     ctImage := PostgresSpec_ImageOrDefault spec,
     ctPorts := [\<lparr>cpName = namePostgres, cpPort = postgresPort\<rparr>],
     ctEnv := [
       envValue ''POSTGRES_USER'' namePostgres,
       envSecret ''POSTGRES_PASSWORD'' secretPostgres keyPostgresPassword,
       envValue ''POSTGRES_DB'' ''postgres'',
       envValue keyPGDATA pgDataPath],
     ctMounts := [mountAt volumeData pgDataMountPath],
     ctReadiness := Some \<lparr>prHandler = TCPSocket postgresPort, prInitialDelay = 0, prPeriod = 5\<rparr>,
     ctSecurity := Some (restrictedContainerSecurity uidPostgres gidPostgres)\<rparr>"

definition mutateOpenFGAPostgresStatefulSet ::
  "dataplatform \<Rightarrow> postgres_spec \<Rightarrow> string \<Rightarrow> stateful_set \<Rightarrow> stateful_set" where
  "mutateOpenFGAPostgresStatefulSet dp spec qty sts0 =
     (let labels = labelsFor dp componentOpenFGAPostgres;
          sts = initStatefulSet labels namePostgres qty
                  (sts0\<lparr>stsMeta := ensureLabels labels (stsMeta sts0)\<rparr>);
          pod = ptSpec (stsTemplate sts)
      in sts\<lparr>stsReplicas := Some 1,
           stsTemplate := (stsTemplate sts)\<lparr>ptLabels := labels,
             ptSpec := pod\<lparr>podSecurity := Some (restrictedPodSecurity uidPostgres gidPostgres),
               podContainers := [openfgaPostgresContainer spec]\<rparr>\<rparr>\<rparr>)"

definition applyOpenFGAPostgres ::
  "'w reconciler \<Rightarrow> dataplatform \<Rightarrow> string \<Rightarrow> postgres_spec \<Rightarrow> ('w st, unit) go" where
  "applyOpenFGAPostgres r dp ns spec =
     (case lParseQuantity (rLib r) (PostgresSpec_StorageSizeOrDefault spec) of
        Inl e \<Rightarrow> fail (wrapErr ''invalid openfga postgres storageSize: '' e)
      | Inr qty \<Rightarrow>
          bindE (applyService r dp (newService namePostgres ns)
            (\<lambda>svc. Inr (mutateOpenFGAPostgresService dp svc))) (\<lambda>_.
          applyStatefulSet r dp (newStatefulSet namePostgres ns)
            (\<lambda>sts. Inr (mutateOpenFGAPostgresStatefulSet dp spec qty sts))))"

definition mutateOpenFGAService :: "dataplatform \<Rightarrow> service \<Rightarrow> service" where
  "mutateOpenFGAService dp svc =
     (let labels = labelsFor dp componentOpenFGA
      in svc\<lparr>svcMeta := ensureLabels labels (svcMeta svc), svcSelector := labels,
           svcPorts := [
             \<lparr>spName = ''grpc'', spPort = openfgaGRPCPort, spTargetPort = openfgaGRPCPort\<rparr>,
             \<lparr>spName = portNameHTTP, spPort = openfgaHTTPPort, spTargetPort = openfgaHTTPPort\<rparr>]\<rparr>)"

definition applyOpenFGAService :: "'w reconciler \<Rightarrow> dataplatform \<Rightarrow> string \<Rightarrow> ('w st, unit) go" where
  "applyOpenFGAService r dp ns =
     applyService r dp (newService nameOpenFGA ns) (\<lambda>svc. Inr (mutateOpenFGAService dp svc))"

definition datastoreURI :: "string \<Rightarrow> string" where
  "datastoreURI password =
     ''postgres://'' @ namePostgres @ '':'' @ QueryEscape password @ ''@'' @ namePostgres @ '':''
       @ Itoa postgresPort @ ''/postgres?sslmode=disable''"

definition openfgaEnv :: "string \<Rightarrow> env_var list" where
  "openfgaEnv uri = [
     envValue ''OPENFGA_DATASTORE_ENGINE'' ''postgres'',
     envValue ''OPENFGA_DATASTORE_URI'' uri,
     envValue ''OPENFGA_PLAYGROUND_ENABLED'' ''false'',
     envValue ''OPENFGA_AUTHN_METHOD'' ''preshared'',
     envSecret ''OPENFGA_AUTHN_PRESHARED_KEYS'' secretOpenFGA keyOpenFGAAPIKey]"

definition openfgaMigrate :: "openfga_spec \<Rightarrow> env_var list \<Rightarrow> container" where
  "openfgaMigrate spec env = zeroContainer\<lparr>
     ctName := ''migrate'',
     ctImage := OpenFGASpec_ImageOrDefault spec,
     ctArgs := [''migrate''],
     ctEnv := env,
     ctSecurity := Some (restrictedContainerSecurity uidOpenFGA gidOpenFGA)\<rparr>"

definition openfgaContainer :: "openfga_spec \<Rightarrow> env_var list \<Rightarrow> container" where
  "openfgaContainer spec env = zeroContainer\<lparr>
     ctName := nameOpenFGA,
     ctImage := OpenFGASpec_ImageOrDefault spec,
     ctArgs := [''run''],
     ctEnv := env,
     ctPorts := [
       \<lparr>cpName = ''grpc'', cpPort = openfgaGRPCPort\<rparr>,
       \<lparr>cpName = portNameHTTP, cpPort = openfgaHTTPPort\<rparr>],
     ctReadiness := Some \<lparr>prHandler = TCPSocket openfgaGRPCPort, prInitialDelay = 0, prPeriod = 5\<rparr>,
     ctResources := ofResources spec,
     ctSecurity := Some (restrictedContainerSecurity uidOpenFGA gidOpenFGA)\<rparr>"

definition mutateOpenFGADeployment ::
  "dataplatform \<Rightarrow> openfga_spec \<Rightarrow> env_var list \<Rightarrow> deployment \<Rightarrow> deployment" where
  "mutateOpenFGADeployment dp spec env deploy0 =
     (let labels = labelsFor dp componentOpenFGA;
          deploy = initDeployment labels (deploy0\<lparr>depMeta := ensureLabels labels (depMeta deploy0)\<rparr>);
          template = depTemplate deploy
      in deploy\<lparr>depReplicas := Some 1,
           depTemplate := template\<lparr>
             ptLabels := labels,
             ptSpec := (ptSpec template)\<lparr>
               podSecurity := Some (restrictedPodSecurity uidOpenFGA gidOpenFGA),
               podInitContainers := [openfgaMigrate spec env],
               podContainers := [openfgaContainer spec env]\<rparr>\<rparr>\<rparr>)"

definition applyOpenFGADeployment ::
  "'w reconciler \<Rightarrow> dataplatform \<Rightarrow> string \<Rightarrow> openfga_spec \<Rightarrow> ('w st, unit) go" where
  "applyOpenFGADeployment r dp ns spec =
     bindE (getSecretData r secretPostgres ns keyPostgresPassword) (\<lambda>password.
     applyDeployment r dp (newDeployment nameOpenFGA ns)
       (\<lambda>d. Inr (mutateOpenFGADeployment dp spec (openfgaEnv (datastoreURI password)) d)))"

section \<open>Reconciling\<close>

definition reconcileAccessStore ::
  "'w reconciler \<Rightarrow> dataplatform \<Rightarrow> string \<Rightarrow> string \<Rightarrow> ('w st, string) go" where
  "reconcileAccessStore r dp ns apiKey =
     (if \<not> AuthzSpec_HasAccessPolicies (spAuthz (dpSpec dp)) \<or> \<not> TrinoSpec_IsEnabled (spTrino (dpSpec dp)) then
        bindE (modifyR (\<lambda>st. st\<lparr>dsRowFilterStoreID := []\<rparr>)) (\<lambda>_. ret [])
      else case rCatalog r of
        None \<Rightarrow> fail (Errorf ''catalog client is not configured'')
      | Some cat \<Rightarrow>
          bindE (liftL (cEnsureAuthzStore cat ns nameOpenFGA openfgaHTTPPort apiKey
            \<lparr>asStore = OpenFGASpec_RowFilterStoreOrDefault (azOpenFGA (spAuthz (dpSpec dp))),
             asTypes = accessAuthzTypes (spAuthz (dpSpec dp))\<rparr>)) (\<lambda>storeID.
          bindE (modifyR (\<lambda>st. st\<lparr>dsRowFilterStoreID := storeID\<rparr>)) (\<lambda>_.
          ret storeID)))"

definition reconcileOpenFGA :: "'w reconciler \<Rightarrow> dataplatform \<Rightarrow> ('w st, openfga_config \<times> bool) go" where
  "reconcileOpenFGA r dp =
     (let spec = azOpenFGA (spAuthz (dpSpec dp));
          ns = OpenFGASpec_NamespaceOrDefault spec;
          c = ConditionOpenFGAReady
      in bindE (modifyR (\<lambda>st. st\<lparr>dsOpenFGAEndpoint := clusterServiceURL nameOpenFGA ns openfgaGRPCPort\<rparr>)) (\<lambda>_.
         stage r dp c (ensureNamespace r dp ns componentOpenFGA) (\<lambda>_.
         stage r dp c (ensureOpenFGASecrets r dp ns) (\<lambda>_.
         stage r dp c (applyOpenFGAPostgres r dp ns (ofPostgres spec)) (\<lambda>_.
         stage r dp c (applyOpenFGAService r dp ns) (\<lambda>_.
         stage r dp c (statefulSetReady r ns namePostgres) (\<lambda>pgReady.
         bindE (getsR dsOpenFGAEndpoint) (\<lambda>endpoint.
         if \<not> pgReady then
           bindE (setCondition r dp c ConditionFalse reasonNotReady ''OpenFGA Postgres is not ready'') (\<lambda>_.
           ret (zeroOpenFGA\<lparr>fgEnabled := True, fgEndpoint := endpoint, fgStore := OpenFGASpec_StoreOrDefault spec\<rparr>,
             False))
         else
         stage r dp c (applyOpenFGADeployment r dp ns spec) (\<lambda>_.
         stage r dp c (getSecretData r secretOpenFGA ns keyOpenFGAAPIKey) (\<lambda>apiKey.
         let cfg = \<lparr>fgEnabled = True, fgEndpoint = endpoint, fgStore = OpenFGASpec_StoreOrDefault spec,
               fgApiKey = apiKey, fgOpaURL = clusterServiceURL nameOPA ns opaPort,
               fgHttpEndpoint = clusterServiceURL nameOpenFGA ns openfgaHTTPPort, fgRowFilterStoreID = []\<rparr>
         in stage r dp c (deploymentReady r ns nameOpenFGA) (\<lambda>ready.
            if \<not> ready then
              bindE (setCondition r dp c ConditionFalse reasonNotReady ''OpenFGA Deployment is not ready'') (\<lambda>_.
              ret (cfg, False))
            else
            stage r dp c (reconcileAccessStore r dp ns apiKey) (\<lambda>storeID.
            bindE (setCondition r dp c ConditionTrue reasonReady ''OpenFGA is ready'') (\<lambda>_.
            ret (cfg\<lparr>fgRowFilterStoreID := storeID\<rparr>, True))))))))))))))"

definition reconcileAuthz :: "'w reconciler \<Rightarrow> dataplatform \<Rightarrow> ('w st, openfga_config \<times> bool) go" where
  "reconcileAuthz r dp =
     (if \<not> AuthzSpec_IsEnabled (spAuthz (dpSpec dp)) then
        bindE (setCondition r dp ConditionOpenFGAReady ConditionTrue reasonDisabled ''Authorization is disabled'') (\<lambda>_.
        ret (zeroOpenFGA, True))
      else if \<not> AuthzSpec_IsEmbedded (spAuthz (dpSpec dp)) then
        missing r dp ConditionOpenFGAReady
          (Errorf ''external OpenFGA is not supported yet; set spec.authz.embedded=true'')
      else reconcileOpenFGA r dp)"

section \<open>Contracts\<close>

lemma frame_openfga_objects [frame_intro]:
  "frame t v (ensureOpenFGASecrets r dp ns)" "frame t v (applyOpenFGAPostgres r dp ns ps)"
  "frame t v (applyOpenFGAService r dp ns)" "frame t v (applyOpenFGADeployment r dp ns spec)"
  unfolding ensureOpenFGASecrets_def applyOpenFGAPostgres_def applyOpenFGAService_def
    applyOpenFGADeployment_def
  by (intro keeps_intro frame_intro)+

lemma frame_reconcileAccessStore [frame_intro]: "frame t v (reconcileAccessStore r dp ns k)"
  unfolding reconcileAccessStore_def by (auto intro!: keeps_intro frame_intro)

lemma frame_reconcileAuthz:
  "conditions_ok (rLib r) \<Longrightarrow> t \<noteq> ConditionOpenFGAReady \<Longrightarrow> frame t v (reconcileAuthz r dp)"
  unfolding reconcileAuthz_def reconcileOpenFGA_def Let_def by (auto intro!: keeps_intro frame_intro)

lemma reports_reconcileAuthz:
  "conditions_ok (rLib r) \<Longrightarrow>
     reports dp ConditionOpenFGAReady (reconcileAuthz r dp) (ready_post r dp ConditionOpenFGAReady snd)"
  unfolding reconcileAuthz_def reconcileOpenFGA_def Let_def by (auto intro!: report_intro)

interpretation authz: gated_component reconcileAuthz ConditionOpenFGAReady snd
  by (rule gated_componentI) (auto intro: reports_reconcileAuthz frame_reconcileAuthz)

interpretation openfga_postgres_service: mutation "mutateOpenFGAPostgresService dp" for dp
  by unfold_locales (simp add: mutateOpenFGAPostgresService_def Let_def ensureLabels_def)

interpretation openfga_postgres_statefulset: mutation "mutateOpenFGAPostgresStatefulSet dp spec qty" for dp spec qty
  by unfold_locales
    (simp add: mutateOpenFGAPostgresStatefulSet_def initStatefulSet_def Let_def ensureLabels_def)

interpretation openfga_service: mutation "mutateOpenFGAService dp" for dp
  by unfold_locales (simp add: mutateOpenFGAService_def Let_def ensureLabels_def)

interpretation openfga_deployment: mutation "mutateOpenFGADeployment dp spec env" for dp spec env
  by unfold_locales (simp add: mutateOpenFGADeployment_def initDeployment_def Let_def ensureLabels_def)

section \<open>The types an access policy needs\<close>

text \<open>What \<open>add\<close> has collected of the pairs seen so far.\<close>

definition collected :: "(string, string list) fmap \<Rightarrow> (string \<times> string) set \<Rightarrow> bool" where
  "collected m P \<longleftrightarrow> (\<forall>n. distinct (relationsIn m n) \<and> set (relationsIn m n) = {r. (n, r) \<in> P} \<and>
     fmlookup m n \<noteq> Some [])"

lemma relationsIn_add:
  "relationsIn (addRelation (a, r) m) n =
     (if n = a \<and> r \<notin> set (relationsIn m a) then relationsIn m a @ [r] else relationsIn m n)"
  by (simp add: addRelation_def relationsIn_def)

lemma addRelation_nonempty: "fmlookup m n \<noteq> Some [] \<Longrightarrow> fmlookup (addRelation nr m) n \<noteq> Some []"
  by (simp add: addRelation_def split: prod.split)

lemma collected_addRelation: "collected m P \<Longrightarrow> collected (addRelation nr m) (insert nr P)"
  by (cases nr) (auto simp: collected_def relationsIn_add addRelation_nonempty)

lemma collected_fold: "collected m P \<Longrightarrow> collected (fold addRelation nrs m) (set nrs \<union> P)"
proof (induction nrs arbitrary: m P)
  case (Cons nr nrs)
  from Cons.IH [OF collected_addRelation [OF Cons.prems], of nr] show ?case by simp
qed simp

lemma collected_access: "collected (fold addRelation (accessPairs spec) fmempty) (set (accessPairs spec))"
  using collected_fold [of fmempty "{}" "accessPairs spec"] by (simp add: collected_def relationsIn_def)

lemma accessAuthzTypes_eq:
  "accessAuthzTypes spec = map (\<lambda>n. \<lparr>atName = n,
     atRelations = sorted_list_of_set {r. (n, r) \<in> set (accessPairs spec)}\<rparr>)
   (sorted_list_of_set (fst ` set (accessPairs spec)))"
proof -
  let ?m = "fold addRelation (accessPairs spec) fmempty"
  have c: "distinct (relationsIn ?m n)" "set (relationsIn ?m n) = {r. (n, r) \<in> set (accessPairs spec)}"
    "fmlookup ?m n \<noteq> Some []" for n
    using collected_access by (simp_all add: collected_def)
  have "n \<in> fset (fmdom ?m) \<longleftrightarrow> relationsIn ?m n \<noteq> []" for n
    using c(3) [of n] by (auto simp: fmlookup_dom_iff relationsIn_def split: option.split)
  moreover have "relationsIn ?m n \<noteq> [] \<longleftrightarrow> (\<exists>r. (n, r) \<in> set (accessPairs spec))" for n
    using c(2) [of n] by (cases "relationsIn ?m n") auto
  ultimately have "fset (fmdom ?m) = {n. \<exists>r. (n, r) \<in> set (accessPairs spec)}" by blast
  moreover have "{n. \<exists>r. (n, r) \<in> set (accessPairs spec)} = fst ` set (accessPairs spec)" by force
  ultimately have dom: "sortedKeys ?m = sorted_list_of_set (fst ` set (accessPairs spec))"
    by (intro sortedKeys_set) simp
  have rel: "sort (the (fmlookup ?m n)) = sorted_list_of_set {r. (n, r) \<in> set (accessPairs spec)}"
    if "n \<in> set (sortedKeys ?m)" for n
  proof -
    have "the (fmlookup ?m n) = relationsIn ?m n"
      using that by (auto simp: relationsIn_def fmlookup_dom_iff)
    then show ?thesis
      using c(1,2) [of n] by (metis sorted_list_of_set_sort_remdups distinct_remdups_id)
  qed
  show ?thesis
    unfolding accessAuthzTypes_def Let_def dom [symmetric]
    by (rule map_cong [OF refl]) (simp add: rel)
qed

lemma finite_relations: "finite {r. (n, r) \<in> set (accessPairs spec)}"
  by (rule finite_subset [of _ "snd ` set (accessPairs spec)"]) force+

text \<open>
  C16. The types the operator defines in OpenFGA are exactly those that the row filters and column
  restrictions name, each once and in order, and each has exactly the relations they use with it. The
  list depends only on which pairs of a type and a relation the policy uses, not on how often or in
  what order it lists them.
\<close>

theorem accessAuthzTypes_exact:
  "sorted (map atName (accessAuthzTypes spec)) \<and> distinct (map atName (accessAuthzTypes spec)) \<and>
   (\<forall>n r. (\<exists>t. t \<in> set (accessAuthzTypes spec) \<and> atName t = n \<and> r \<in> set (atRelations t))
      \<longleftrightarrow> (n, r) \<in> set (accessPairs spec)) \<and>
   (set (accessPairs spec) = set (accessPairs spec') \<longrightarrow> accessAuthzTypes spec = accessAuthzTypes spec')"
proof (intro conjI allI impI)
  show "sorted (map atName (accessAuthzTypes spec))" by (simp add: accessAuthzTypes_eq comp_def)
  show "distinct (map atName (accessAuthzTypes spec))" by (simp add: accessAuthzTypes_eq comp_def)
  show "(\<exists>t. t \<in> set (accessAuthzTypes spec) \<and> atName t = n \<and> r \<in> set (atRelations t))
      \<longleftrightarrow> (n, r) \<in> set (accessPairs spec)" for n r
    by (force simp: accessAuthzTypes_eq finite_relations)
  assume "set (accessPairs spec) = set (accessPairs spec')"
  then show "accessAuthzTypes spec = accessAuthzTypes spec'" by (simp only: accessAuthzTypes_eq)
qed

text \<open>
  A database password cannot break out of the connection string: whatever its characters, the part
  of OpenFGA's datastore URI up to the first at-sign is the user and the escaped password, and what
  follows it is the fixed host and database.
\<close>

theorem datastoreURI_userinfo:
  "takeWhile (\<lambda>c. c \<noteq> CHR ''@'') (datastoreURI p) = ''postgres://postgres:'' @ QueryEscape p \<and>
   dropWhile (\<lambda>c. c \<noteq> CHR ''@'') (datastoreURI p) = ''@postgres:5432/postgres?sslmode=disable''"
proof -
  have safe: "CHR ''@'' \<notin> set (QueryEscape p)"
    using QueryEscape_safe [of "CHR ''@''" p] by (auto simp: isAlnum_def)
  have port: "Itoa 5432 = ''5432''" by (simp add: Itoa_def eval_simps)
  have "datastoreURI p = (''postgres://postgres:'' @ QueryEscape p) @ ''@postgres:5432/postgres?sslmode=disable''"
    by (simp add: datastoreURI_def port)
  then show ?thesis using safe by (simp add: takeWhile_append dropWhile_append)
qed

section \<open>The store of the access policies\<close>

context catalog_contract
begin

lemma access_store:
  assumes "rCatalog r = Some cat"
  shows "hoare (\<lambda>_. True) (reconcileAccessStore r dp ns k)
     (\<lambda>i s. dsRowFilterStoreID (snd s) = i \<and> (i = [] \<longleftrightarrow>
        \<not> AuthzSpec_HasAccessPolicies (spAuthz (dpSpec dp)) \<or> \<not> TrinoSpec_IsEnabled (spTrino (dpSpec dp))))
     (\<lambda>_ _. AuthzSpec_HasAccessPolicies (spAuthz (dpSpec dp)) \<and> TrinoSpec_IsEnabled (spTrino (dpSpec dp)))"
  using assms
  by (intro hoareI) (auto simp: reconcileAccessStore_def run_simps dest: store_id
      split: option.splits sum.splits if_splits)

end

text \<open>
  C27. OPA is never sent to a store without a name: with the catalog client of catalog.go, the id that
  \<open>reconcileAccessStore\<close> returns and records in the status is the empty string exactly when there is no
  access policy to serve or no Trino to serve it to; in any other case it is the id OpenFGA gave, or the
  call fails.
\<close>

theorem access_store_recorded:
  assumes "rCatalog r = Some (proxyCatalogClient c)"
  shows "hoare (\<lambda>_. True) (reconcileAccessStore r dp ns k)
     (\<lambda>i s. dsRowFilterStoreID (snd s) = i \<and> (i = [] \<longleftrightarrow>
        \<not> AuthzSpec_HasAccessPolicies (spAuthz (dpSpec dp)) \<or> \<not> TrinoSpec_IsEnabled (spTrino (dpSpec dp))))
     (\<lambda>_ _. AuthzSpec_HasAccessPolicies (spAuthz (dpSpec dp)) \<and> TrinoSpec_IsEnabled (spTrino (dpSpec dp)))"
  by (rule proxy.access_store [OF assms])

text \<open>
  C26. While OpenFGA's database is not ready, Trino is given no OPA to ask: of the configurations
  \<open>reconcileOpenFGA\<close> returns, the one without an OPA URL is exactly the one returned while the
  condition says that OpenFGA's Postgres is not ready. (The loop goes on to reconcile Trino with it.)
\<close>

theorem openfga_without_opa:
  assumes "conditions_ok (rLib r)"
  shows "reports dp ConditionOpenFGAReady (reconcileOpenFGA r dp) (\<lambda>(cfg, ready) s.
     fgEnabled cfg \<and> (fgOpaURL cfg = [] \<longleftrightarrow> (\<exists>c. condition_of ConditionOpenFGAReady (snd s) = Some c \<and>
       cdMessage c = ''OpenFGA Postgres is not ready'')))"
  unfolding reconcileOpenFGA_def Let_def
  using assms
  by (intro report_intro reports_finish) (auto simp: zeroOpenFGA_def clusterServiceURL_def)

end
