(* ===== verification/Keycloak.thy ===== *)
theory Keycloak
  imports Oidc Postgres
begin

text \<open>
  Embedded Keycloak (internal/controller/keycloak.go): its generated Secrets and signing key, the realm
  document it imports, its Service and Deployment, and the OIDC configuration that follows; then
  \<open>reconcileAuth\<close> (oidc.go), which chooses between it and an external issuer.
\<close>

section \<open>The realm document\<close>

record realm_options =
  roSpec :: keycloak_spec
  roAdminPassword :: string
  roTrinoSecret :: string
  roOperatorSecret :: string
  roOpaSecret :: string
  roSigningKey :: string
  roSigningCertificate :: string
  roLakekeeperNamespace :: string
  roLakekeeperPublicURL :: string
  roTrinoPublicURL :: string

abbreviation jstrs :: "string list \<Rightarrow> json" where
  "jstrs xs \<equiv> JArr (map JStr xs)"

definition keycloakUUID :: "lib \<Rightarrow> string \<Rightarrow> string \<Rightarrow> string" where
  "keycloakUUID l kind name = lUuidSHA1URL l (''https://dataplatform.opsarray.io/keycloak/'' @ kind @ ''/'' @ name)"

definition serviceAccountUser :: "lib \<Rightarrow> string \<Rightarrow> json" where
  "serviceAccountUser l clientID = JMap [
     (''id'', JStr (keycloakUUID l ''service-account'' clientID)),
     (''username'', JStr (''service-account-'' @ clientID)),
     (''enabled'', JBool True),
     (''serviceAccountClientId'', JStr clientID)]"

definition realmKeyComponents :: "string \<Rightarrow> string \<Rightarrow> json" where
  "realmKeyComponents signingKey certificate = JMap [
     (''org.keycloak.keys.KeyProvider'', JArr [
       JMap [
         (''name'', JStr ''operator-rsa''),
         (''providerId'', JStr ''rsa''),
         (''config'', JMap [
           (''privateKey'', jstrs [signingKey]),
           (''certificate'', jstrs [certificate]),
           (''algorithm'', jstrs [''RS256'']),
           (''priority'', jstrs [''200'']),
           (''active'', jstrs [''true'']),
           (''enabled'', jstrs [''true''])])],
       JMap [
         (''name'', JStr ''hmac-generated''),
         (''providerId'', JStr ''hmac-generated''),
         (''config'', JMap [(''algorithm'', jstrs [''HS512'']), (''priority'', jstrs [''100''])])],
       JMap [
         (''name'', JStr ''aes-generated''),
         (''providerId'', JStr ''aes-generated''),
         (''config'', JMap [(''priority'', jstrs [''100''])])],
       JMap [
         (''name'', JStr ''rsa-enc-generated''),
         (''providerId'', JStr ''rsa-enc-generated''),
         (''config'', JMap [(''algorithm'', jstrs [''RSA-OAEP'']), (''priority'', jstrs [''100''])])]])]"

definition audienceMapper :: "string \<Rightarrow> json" where
  "audienceMapper clientID = JMap [
     (''name'', JStr (''audience-'' @ clientID)),
     (''protocol'', JStr ''openid-connect''),
     (''protocolMapper'', JStr ''oidc-audience-mapper''),
     (''config'', JMap [
       (''included.client.audience'', JStr clientID),
       (''id.token.claim'', JStr ''false''),
       (''access.token.claim'', JStr ''true''),
       (''introspection.token.claim'', JStr ''true'')])]"

definition userPropertyMapper :: "string \<Rightarrow> string \<Rightarrow> json" where
  "userPropertyMapper property claim = JMap [
     (''name'', JStr claim),
     (''protocol'', JStr ''openid-connect''),
     (''protocolMapper'', JStr ''oidc-usermodel-property-mapper''),
     (''config'', JMap [
       (''user.attribute'', JStr property),
       (''claim.name'', JStr claim),
       (''jsonType.label'', JStr ''String''),
       (''id.token.claim'', JStr ''true''),
       (''access.token.claim'', JStr ''true''),
       (''userinfo.token.claim'', JStr ''true'')])]"

definition defaultOIDCClientScopes :: "string list" where
  "defaultOIDCClientScopes = [''basic'', ''profile'', ''email'', DefaultOIDCScope]"

definition scopeAttributes :: "string \<Rightarrow> json" where
  "scopeAttributes inToken = JMap [
     (''include.in.token.scope'', JStr inToken),
     (''display.on.consent.screen'', JStr ''false'')]"

definition clientScope :: "string \<Rightarrow> string \<Rightarrow> string \<Rightarrow> json list \<Rightarrow> json" where
  "clientScope name description inToken mappers = JMap [
     (''name'', JStr name),
     (''description'', JStr description),
     (''protocol'', JStr ''openid-connect''),
     (''attributes'', scopeAttributes inToken),
     (''protocolMappers'', JArr mappers)]"

definition oidcClientScopes :: "json list" where
  "oidcClientScopes = [
     clientScope ''basic'' ''OpenID Connect scope for add all basic claims to the token'' ''false'' [
       JMap [
         (''name'', JStr ''sub''),
         (''protocol'', JStr ''openid-connect''),
         (''protocolMapper'', JStr ''oidc-sub-mapper''),
         (''config'', JMap [
           (''access.token.claim'', JStr ''true''),
           (''introspection.token.claim'', JStr ''true'')])]],
     clientScope ''profile'' ''OpenID Connect built-in scope: profile'' ''true'' [
       userPropertyMapper ''username'' ''preferred_username'',
       userPropertyMapper ''firstName'' ''given_name'',
       userPropertyMapper ''lastName'' ''family_name''],
     clientScope ''email'' ''OpenID Connect built-in scope: email'' ''true'' [
       userPropertyMapper ''email'' ''email''],
     clientScope DefaultOIDCScope ''Audience for LakeKeeper'' ''true'' [
       JMap [
         (''name'', JStr ''audience-lakekeeper''),
         (''protocol'', JStr ''openid-connect''),
         (''protocolMapper'', JStr ''oidc-audience-mapper''),
         (''config'', JMap [
           (''included.client.audience'', JStr DefaultOIDCAudience),
           (''id.token.claim'', JStr ''false''),
           (''access.token.claim'', JStr ''true''),
           (''introspection.token.claim'', JStr ''true'')])]]]"

definition usernameMapper :: json where
  "usernameMapper = JMap [
     (''name'', JStr ''username''),
     (''protocol'', JStr ''openid-connect''),
     (''protocolMapper'', JStr ''oidc-usermodel-property-mapper''),
     (''config'', JMap [
       (''user.attribute'', JStr ''username''),
       (''claim.name'', JStr ''preferred_username''),
       (''jsonType.label'', JStr ''String''),
       (''id.token.claim'', JStr ''true''),
       (''access.token.claim'', JStr ''true''),
       (''userinfo.token.claim'', JStr ''true'')])]"

definition confidentialClient :: "lib \<Rightarrow> string \<Rightarrow> string \<Rightarrow> string \<Rightarrow> string list \<Rightarrow> json" where
  "confidentialClient l cid name secret redirectURIs =
     (let mappers = [audienceMapper cid];
          client = [
            (''id'', JStr (keycloakUUID l ''client'' cid)),
            (''clientId'', JStr cid),
            (''name'', JStr name),
            (''enabled'', JBool True),
            (''protocol'', JStr ''openid-connect''),
            (''publicClient'', JBool False),
            (''secret'', JStr secret),
            (''serviceAccountsEnabled'', JBool True),
            (''standardFlowEnabled'', JBool False),
            (''directAccessGrantsEnabled'', JBool False),
            (''defaultClientScopes'', jstrs defaultOIDCClientScopes),
            (''optionalClientScopes'', jstrs []),
            (''protocolMappers'', JArr mappers)]
      in if redirectURIs \<noteq> [] then
           JMap (jset ''protocolMappers''
             (JArr (mappers @ [usernameMapper]))
             (jset ''webOrigins'' (jstrs [''+''])
             (jset ''redirectUris'' (jstrs redirectURIs)
             (jset ''standardFlowEnabled'' (JBool True) client))))
         else JMap client)"

definition lakekeeperClient :: "string list \<Rightarrow> json" where
  "lakekeeperClient redirects = JMap [
     (''clientId'', JStr DefaultOIDCClientID),
     (''name'', JStr ''LakeKeeper''),
     (''enabled'', JBool True),
     (''protocol'', JStr ''openid-connect''),
     (''publicClient'', JBool True),
     (''standardFlowEnabled'', JBool True),
     (''directAccessGrantsEnabled'', JBool True),
     (''serviceAccountsEnabled'', JBool False),
     (''redirectUris'', jstrs redirects),
     (''webOrigins'', jstrs [''+'']),
     (''defaultClientScopes'', jstrs defaultOIDCClientScopes),
     (''optionalClientScopes'', jstrs []),
     (''attributes'', JMap [
       (''oauth2.device.authorization.grant.enabled'', JStr ''true''),
       (''pkce.code.challenge.method'', JStr ''S256'')])]"

definition adminUser :: "string \<Rightarrow> json" where
  "adminUser password = JMap [
     (''id'', JStr DefaultOIDCAdminUserID),
     (''username'', JStr DefaultOIDCAdminUser),
     (''enabled'', JBool True),
     (''emailVerified'', JBool True),
     (''email'', JStr keycloakAdminEmail),
     (''firstName'', JStr ''Admin''),
     (''lastName'', JStr ''Local''),
     (''credentials'', JArr [JMap [
       (''type'', JStr ''password''),
       (''value'', JStr password),
       (''temporary'', JBool False)]])]"

definition lakekeeperRedirects :: "string \<Rightarrow> string \<Rightarrow> string list" where
  "lakekeeperRedirects namespace publicURL =
     (let u = trimSlash publicURL
      in [clusterServiceURL nameLakekeeper namespace lakekeeperPort @ ''/ui/callback'',
          ''http://localhost:8181/ui/callback'',
          ''http://127.0.0.1:8181/ui/callback'',
          ''*'']
         @ (if u \<noteq> [] then [u @ ''/ui/callback'', u @ ''/*''] else []))"

definition trinoRedirects :: "string \<Rightarrow> string list" where
  "trinoRedirects publicURL =
     (let u = trimSlash publicURL in if u \<noteq> [] then [u @ ''/oauth2/callback''] else [])"

definition realmDoc :: "lib \<Rightarrow> realm_options \<Rightarrow> json" where
  "realmDoc l opts =
     (let realm = KeycloakSpec_RealmOrDefault (roSpec opts)
      in JMap [
        (''realm'', JStr realm),
        (''enabled'', JBool True),
        (''sslRequired'', JStr ''NONE''),
        (''accessTokenLifespan'', JInt 43200),
        (''roles'', JMap [
          (''realm'', JArr [JMap [(''name'', JStr (''default-roles-'' @ realm)), (''composite'', JBool True)]])]),
        (''clientScopes'', JArr oidcClientScopes),
        (''defaultDefaultClientScopes'', jstrs defaultOIDCClientScopes),
        (''components'', realmKeyComponents (roSigningKey opts) (roSigningCertificate opts)),
        (''clients'', JArr [
          lakekeeperClient (lakekeeperRedirects (roLakekeeperNamespace opts) (roLakekeeperPublicURL opts)),
          confidentialClient l DefaultOIDCTrinoClientID ''Trino'' (roTrinoSecret opts)
            (trinoRedirects (roTrinoPublicURL opts)),
          confidentialClient l DefaultOIDCOpaClientID ''OPA'' (roOpaSecret opts) [],
          confidentialClient l DefaultOIDCOperatorClient ''Data Platform Operator'' (roOperatorSecret opts) []]),
        (''users'', JArr [
          adminUser (roAdminPassword opts),
          serviceAccountUser l DefaultOIDCTrinoClientID,
          serviceAccountUser l DefaultOIDCOpaClientID,
          serviceAccountUser l DefaultOIDCOperatorClient])])"

text \<open>\<open>json.Marshal\<close> does not fail on a document of strings, booleans, integers, lists and maps.\<close>

definition keycloakRealmJSON :: "lib \<Rightarrow> realm_options \<Rightarrow> string" where
  "keycloakRealmJSON l opts = marshal (realmDoc l opts)"

section \<open>Secrets\<close>

definition generateRealmSigningKey :: "'w reconciler \<Rightarrow> string \<Rightarrow> ('w st, string \<times> string) go" where
  "generateRealmSigningKey r realm =
     bindE (liftL (sRsaGenerateKey (rSys r) 2048)) (\<lambda>key.
     bindE (pureE (sMarshalPKCS8 (rSys r) key)) (\<lambda>der.
     bindE (liftL (sRandInt (rSys r) (2 ^ 128))) (\<lambda>serial.
     bindE (liftL (sNow (rSys r))) (\<lambda>now1.
     bindE (liftL (sNow (rSys r))) (\<lambda>now2.
     let template = \<lparr>ctmSerial = serial, ctmCommonName = realm, ctmNotBefore = now1 - 3600,
           ctmNotAfter = sAddYears (rSys r) now2 10,
           ctmKeyUsage = [''DigitalSignature'', ''CertSign''], ctmIsCA = True\<rparr>
     in bindE (liftL (sCreateCertificate (rSys r) template key)) (\<lambda>certificate.
        ret (base64Encode der, base64Encode certificate)))))))"

definition ensureKeycloakRealmKey :: "'w reconciler \<Rightarrow> dataplatform \<Rightarrow> string \<Rightarrow> ('w st, unit) go" where
  "ensureKeycloakRealmKey r dp ns =
     handleE (liftL (kGetSecret (rClient r) secretKeycloakRealmKey ns)) (\<lambda>q. case q of
       Inr _ \<Rightarrow> ret ()
     | Inl e \<Rightarrow>
         if \<not> IsNotFound e then fail e
         else bindE (generateRealmSigningKey r (KeycloakSpec_RealmOrDefault (auKeycloak (spAuth (dpSpec dp)))))
           (\<lambda>(privateKey, certificate).
             ensureGeneratedSecret r dp secretKeycloakRealmKey ns componentKeycloak (fmap_of_list [
               (keyRealmPrivateKey, privateKey),
               (keyRealmCertificate, certificate)])))"

definition ensureOIDCSecretKeys :: "'w reconciler \<Rightarrow> secret \<Rightarrow> ('w st, unit) go" where
  "ensureOIDCSecretKeys r oidc =
     (let noID = fmlookup (secData oidc) keyOIDCOpaClientID = None;
          data1 = (if noID then fmupd keyOIDCOpaClientID DefaultOIDCOpaClientID (secData oidc)
            else secData oidc)
      in if fmlookup data1 keyOIDCOpaClientSecret = None then
           bindE (randomHex r 16) (\<lambda>s.
           liftL (kUpdateSecret (rClient r) (oidc\<lparr>secData := fmupd keyOIDCOpaClientSecret s data1\<rparr>)))
         else if \<not> noID then ret ()
         else liftL (kUpdateSecret (rClient r) (oidc\<lparr>secData := data1\<rparr>)))"

text \<open>The two halves of \<open>ensureKeycloakSecrets\<close> after the realm key: the admin Secret and the clients'.\<close>

definition ensureAdminSecret :: "'w reconciler \<Rightarrow> dataplatform \<Rightarrow> string \<Rightarrow> ('w st, unit) go" where
  "ensureAdminSecret r dp ns =
     handleE (liftL (kGetSecret (rClient r) secretKeycloakAdmin ns)) (\<lambda>q. case q of
       Inr _ \<Rightarrow> ret ()
     | Inl e \<Rightarrow>
         if IsNotFound e then
           bindE (randomHex r 16) (\<lambda>password.
           ensureGeneratedSecret r dp secretKeycloakAdmin ns componentKeycloak (fmap_of_list [
             (keyKeycloakAdminUser, DefaultOIDCAdminUser),
             (keyKeycloakAdminPassword, password)]))
         else fail e)"

definition ensureOIDCSecret :: "'w reconciler \<Rightarrow> dataplatform \<Rightarrow> string \<Rightarrow> ('w st, unit) go" where
  "ensureOIDCSecret r dp ns =
     handleE (liftL (kGetSecret (rClient r) secretOIDC ns)) (\<lambda>q. case q of
       Inr oidc \<Rightarrow> ensureOIDCSecretKeys r oidc
     | Inl e \<Rightarrow>
         if IsNotFound e then
           bindE (randomHex r 16) (\<lambda>trinoSecret.
           bindE (randomHex r 16) (\<lambda>operatorSecret.
           bindE (randomHex r 16) (\<lambda>opaSecret.
           ensureGeneratedSecret r dp secretOIDC ns componentKeycloak (fmap_of_list [
             (keyOIDCClientID, DefaultOIDCClientID),
             (keyOIDCTrinoClientID, DefaultOIDCTrinoClientID),
             (keyOIDCTrinoClientSecret, trinoSecret),
             (keyOIDCOperatorClientID, DefaultOIDCOperatorClient),
             (keyOIDCOperatorSecret, operatorSecret),
             (keyOIDCOpaClientID, DefaultOIDCOpaClientID),
             (keyOIDCOpaClientSecret, opaSecret)]))))
         else fail e)"

definition ensureKeycloakSecrets :: "'w reconciler \<Rightarrow> dataplatform \<Rightarrow> string \<Rightarrow> ('w st, unit) go" where
  "ensureKeycloakSecrets r dp ns =
     bindE (ensureKeycloakRealmKey r dp ns) (\<lambda>_.
     bindE (ensureAdminSecret r dp ns) (\<lambda>_.
     ensureOIDCSecret r dp ns))"

section \<open>Objects\<close>

definition mutateKeycloakRealm :: "dataplatform \<Rightarrow> string \<Rightarrow> config_map \<Rightarrow> config_map" where
  "mutateKeycloakRealm dp raw cm =
     cm\<lparr>cmMeta := ensureLabels (labelsFor dp componentKeycloak) (cmMeta cm),
       cmData := fmupd keyRealmJSON raw (cmData cm)\<rparr>"

definition applyKeycloakRealm :: "'w reconciler \<Rightarrow> dataplatform \<Rightarrow> string \<Rightarrow> keycloak_spec \<Rightarrow> ('w st, string) go" where
  "applyKeycloakRealm r dp ns spec =
     bindE (getSecretData r secretKeycloakAdmin ns keyKeycloakAdminPassword) (\<lambda>adminPass.
     bindE (getSecretData r secretOIDC ns keyOIDCTrinoClientSecret) (\<lambda>trinoSecret.
     bindE (getSecretData r secretOIDC ns keyOIDCOperatorSecret) (\<lambda>operatorSecret.
     bindE (getSecretData r secretOIDC ns keyOIDCOpaClientSecret) (\<lambda>opaSecret.
     bindE (getSecretData r secretKeycloakRealmKey ns keyRealmPrivateKey) (\<lambda>signingKey.
     bindE (getSecretData r secretKeycloakRealmKey ns keyRealmCertificate) (\<lambda>signingCert.
     let raw = keycloakRealmJSON (rLib r) \<lparr>roSpec = spec, roAdminPassword = adminPass,
           roTrinoSecret = trinoSecret, roOperatorSecret = operatorSecret, roOpaSecret = opaSecret,
           roSigningKey = signingKey, roSigningCertificate = signingCert,
           roLakekeeperNamespace = LakekeeperSpec_NamespaceOrDefault (spLakekeeper (dpSpec dp)),
           roLakekeeperPublicURL = lkPublicURL (spLakekeeper (dpSpec dp)),
           roTrinoPublicURL = trPublicURL (spTrino (dpSpec dp))\<rparr>
     in bindE (applyConfigMap r dp (newConfigMap configMapKeycloakRealm ns)
          (\<lambda>cm. Inr (mutateKeycloakRealm dp raw cm))) (\<lambda>_.
        ret (hashData (rLib r) [raw]))))))))"

definition mutateKeycloakService :: "dataplatform \<Rightarrow> service \<Rightarrow> service" where
  "mutateKeycloakService dp svc =
     (let labels = labelsFor dp componentKeycloak
      in svc\<lparr>svcMeta := ensureLabels labels (svcMeta svc), svcSelector := labels,
           svcPorts := [\<lparr>spName = portNameHTTP, spPort = keycloakPort, spTargetPort = keycloakPort\<rparr>]\<rparr>)"

definition applyKeycloakService :: "'w reconciler \<Rightarrow> dataplatform \<Rightarrow> string \<Rightarrow> ('w st, unit) go" where
  "applyKeycloakService r dp ns =
     applyService r dp (newService nameKeycloak ns) (\<lambda>svc. Inr (mutateKeycloakService dp svc))"

definition keycloakHostnameEnv :: "string \<Rightarrow> keycloak_spec \<Rightarrow> env_var list" where
  "keycloakHostnameEnv ns spec =
     (let trimmed = trimSlash (kcPublicURL spec);
          hostname = (if trimmed = []
            then ''http://'' @ nameKeycloak @ ''.'' @ ns @ ''.svc:'' @ Itoa keycloakPort else trimmed);
          env = [
            envValue ''KC_HTTP_ENABLED'' ''true'',
            envValue ''KC_HOSTNAME_STRICT'' ''false'',
            envValue ''KC_HOSTNAME'' hostname,
            envValue ''KC_PROXY_HEADERS'' ''xforwarded'',
            envValue ''KC_HEALTH_ENABLED'' ''true'']
      in if kcPublicURL spec \<noteq> [] then env @ [envValue ''KC_HOSTNAME_BACKCHANNEL_DYNAMIC'' ''true''] else env)"

definition keycloakContainer :: "string \<Rightarrow> keycloak_spec \<Rightarrow> container" where
  "keycloakContainer ns spec = zeroContainer\<lparr>
     ctName := nameKeycloak,
     ctImage := KeycloakSpec_ImageOrDefault spec,
     ctArgs := [''start-dev'', ''--import-realm'', ''--http-port='' @ Itoa keycloakPort],
     ctPorts := [\<lparr>cpName = portNameHTTP, cpPort = keycloakPort\<rparr>],
     ctEnv := [
       envSecret ''KC_BOOTSTRAP_ADMIN_USERNAME'' secretKeycloakAdmin keyKeycloakAdminUser,
       envSecret ''KC_BOOTSTRAP_ADMIN_PASSWORD'' secretKeycloakAdmin keyKeycloakAdminPassword]
       @ keycloakHostnameEnv ns spec,
     ctMounts := [mountAt volumeData ''/opt/keycloak/data'', mountAt volumeRealm ''/opt/keycloak/data/import''],
     ctReadiness := Some \<lparr>prHandler = HTTPGet (''/realms/'' @ KeycloakSpec_RealmOrDefault spec) keycloakPort,
       prInitialDelay = 40, prPeriod = 10\<rparr>,
     ctResources := kcResources spec,
     ctSecurity := Some (restrictedContainerSecurity uidKeycloak gidKeycloak)\<rparr>"

definition mutateKeycloakDeployment ::
  "dataplatform \<Rightarrow> string \<Rightarrow> keycloak_spec \<Rightarrow> string \<Rightarrow> deployment \<Rightarrow> deployment" where
  "mutateKeycloakDeployment dp ns spec realmHash deploy0 =
     (let labels = labelsFor dp componentKeycloak;
          deploy = initDeployment labels (deploy0\<lparr>depMeta := ensureLabels labels (depMeta deploy0)\<rparr>);
          template = depTemplate deploy
      in deploy\<lparr>depReplicas := Some 1,
           depTemplate := template\<lparr>
             ptAnnotations := fmupd annotationConfigHash realmHash (ptAnnotations template),
             ptLabels := labels,
             ptSpec := (ptSpec template)\<lparr>
               podSecurity := Some (restrictedPodSecurity uidKeycloak gidKeycloak),
               podContainers := [keycloakContainer ns spec],
               podVolumes := [
                 \<lparr>volName = volumeData, volSource = EmptyDir\<rparr>,
                 \<lparr>volName = volumeRealm, volSource = ConfigMapVolume configMapKeycloakRealm\<rparr>]\<rparr>\<rparr>\<rparr>)"

definition applyKeycloakDeployment ::
  "'w reconciler \<Rightarrow> dataplatform \<Rightarrow> string \<Rightarrow> keycloak_spec \<Rightarrow> string \<Rightarrow> ('w st, unit) go" where
  "applyKeycloakDeployment r dp ns spec realmHash =
     applyDeployment r dp (newDeployment nameKeycloak ns)
       (\<lambda>d. Inr (mutateKeycloakDeployment dp ns spec realmHash d))"

section \<open>Reconciling\<close>

definition embeddedOIDCConfig ::
  "'w reconciler \<Rightarrow> dataplatform \<Rightarrow> string \<Rightarrow> string \<Rightarrow> ('w st, oidc_config) go" where
  "embeddedOIDCConfig r dp ns realm =
     bindE (getsR dsKeycloakEndpoint) (\<lambda>endpoint.
     let issuer = oidcIssuer endpoint realm;
         publicURL = kcPublicURL (auKeycloak (spAuth (dpSpec dp)));
         publicIssuer = (if publicURL \<noteq> [] then oidcIssuer publicURL realm else issuer)
     in bindE (getSecretData r secretOIDC ns keyOIDCOperatorClientID) (\<lambda>operatorID.
        bindE (getSecretData r secretOIDC ns keyOIDCOperatorSecret) (\<lambda>operatorSecret.
        bindE (getSecretData r secretOIDC ns keyOIDCTrinoClientID) (\<lambda>trinoID.
        bindE (getSecretData r secretOIDC ns keyOIDCTrinoClientSecret) (\<lambda>trinoSecret.
        bindE (getSecretData r secretOIDC ns keyOIDCClientID) (\<lambda>uiID.
        bindE (getSecretData r secretOIDC ns keyOIDCOpaClientID) (\<lambda>opaID.
        bindE (getSecretData r secretOIDC ns keyOIDCOpaClientSecret) (\<lambda>opaSecret.
        ret \<lparr>ocEnabled = True, ocIssuer = issuer, ocPublicIssuer = publicIssuer,
          ocAudience = DefaultOIDCAudience, ocScope = DefaultOIDCScope, ocUIClientID = uiID,
          ocTrinoClientID = trinoID, ocTrinoSecret = trinoSecret, ocOpaClientID = opaID,
          ocOpaSecret = opaSecret, ocOperatorClientID = operatorID, ocOperatorSecret = operatorSecret,
          ocAdminSubject = DefaultOIDCAdminUserID, ocAdminName = DefaultOIDCAdminUser,
          ocAdminEmail = keycloakAdminEmail,
          ocOpaSubject = keycloakUUID (rLib r) ''service-account'' opaID,
          ocTokenURL = oidcTokenURL issuer, ocProxyNamespace = ns, ocProxyService = nameKeycloak,
          ocProxyPort = keycloakPort, ocProxyTokenPath = oidcTokenPath realm\<rparr>))))))))"

definition reconcileKeycloak :: "'w reconciler \<Rightarrow> dataplatform \<Rightarrow> ('w st, oidc_config \<times> bool) go" where
  "reconcileKeycloak r dp =
     (let spec = auKeycloak (spAuth (dpSpec dp));
          ns = KeycloakSpec_NamespaceOrDefault spec;
          realm = KeycloakSpec_RealmOrDefault spec;
          c = ConditionAuthReady
      in bindE (modifyR (\<lambda>st. st\<lparr>dsKeycloakEndpoint := clusterServiceURL nameKeycloak ns keycloakPort\<rparr>)) (\<lambda>_.
         stage r dp c (ensureNamespace r dp ns componentKeycloak) (\<lambda>_.
         stage r dp c (ensureKeycloakSecrets r dp ns) (\<lambda>_.
         stage r dp c (applyKeycloakRealm r dp ns spec) (\<lambda>realmHash.
         stage r dp c (applyKeycloakService r dp ns) (\<lambda>_.
         stage r dp c (applyKeycloakDeployment r dp ns spec realmHash) (\<lambda>_.
         stage r dp c (embeddedOIDCConfig r dp ns realm) (\<lambda>cfg.
         stage r dp c (deploymentReady r ns nameKeycloak) (\<lambda>ready.
         if \<not> ready then
           bindE (setCondition r dp c ConditionFalse reasonNotReady ''Keycloak Deployment is not ready'') (\<lambda>_.
           ret (cfg, False))
         else
           bindE (setCondition r dp c ConditionTrue reasonReady ''Keycloak is ready'') (\<lambda>_.
           ret (cfg, True)))))))))))"

definition reconcileAuth :: "'w reconciler \<Rightarrow> dataplatform \<Rightarrow> ('w st, oidc_config \<times> bool) go" where
  "reconcileAuth r dp =
     (if \<not> AuthSpec_IsEnabled (spAuth (dpSpec dp)) then
        bindE (setCondition r dp ConditionAuthReady ConditionTrue reasonDisabled ''Authentication is disabled'') (\<lambda>_.
        ret (zeroOIDC, True))
      else if AuthSpec_IsEmbedded (spAuth (dpSpec dp)) then reconcileKeycloak r dp
      else
        bindE (externalOIDC r dp) (\<lambda>cfg.
        bindE (setCondition r dp ConditionAuthReady ConditionTrue reasonReady ''Using external OIDC issuer'') (\<lambda>_.
        ret (cfg, True))))"

section \<open>Contracts\<close>

lemma frame_keycloak_secrets [frame_intro]: "frame t v (ensureKeycloakSecrets r dp ns)"
  unfolding ensureKeycloakSecrets_def ensureKeycloakRealmKey_def generateRealmSigningKey_def
    ensureAdminSecret_def ensureOIDCSecret_def ensureOIDCSecretKeys_def Let_def
  by (intro keeps_intro frame_intro)

lemma frame_keycloak_objects [frame_intro]:
  "frame t v (applyKeycloakRealm r dp ns spec)" "frame t v (applyKeycloakService r dp ns)"
  "frame t v (applyKeycloakDeployment r dp ns spec h)" "frame t v (embeddedOIDCConfig r dp ns realm)"
  unfolding applyKeycloakRealm_def applyKeycloakService_def applyKeycloakDeployment_def
    embeddedOIDCConfig_def Let_def
  by (intro keeps_intro frame_intro)+

lemma frame_reconcileKeycloak [frame_intro]:
  "conditions_ok (rLib r) \<Longrightarrow> t \<noteq> ConditionAuthReady \<Longrightarrow> frame t v (reconcileKeycloak r dp)"
  unfolding reconcileKeycloak_def by (auto intro!: keeps_intro frame_intro)

lemma frame_reconcileAuth:
  "conditions_ok (rLib r) \<Longrightarrow> t \<noteq> ConditionAuthReady \<Longrightarrow> frame t v (reconcileAuth r dp)"
  unfolding reconcileAuth_def by (auto intro!: keeps_intro frame_intro)

lemma reports_reconcileKeycloak [report_intro]:
  "conditions_ok (rLib r) \<Longrightarrow>
     reports dp ConditionAuthReady (reconcileKeycloak r dp) (ready_post r dp ConditionAuthReady snd)"
  unfolding reconcileKeycloak_def by (auto intro!: report_intro)

lemma reports_reconcileAuth:
  "conditions_ok (rLib r) \<Longrightarrow>
     reports dp ConditionAuthReady (reconcileAuth r dp) (ready_post r dp ConditionAuthReady snd)"
  unfolding reconcileAuth_def
  by (intro reports_if reports_bindE reports_externalOIDC reports_reconcileKeycloak reports_ready) auto

interpretation auth: gated_component reconcileAuth ConditionAuthReady snd
  by (rule gated_componentI) (auto intro: reports_reconcileAuth frame_reconcileAuth)

interpretation keycloak_realm: mutation "mutateKeycloakRealm dp raw" for dp raw
  by unfold_locales (simp add: mutateKeycloakRealm_def ensureLabels_def)

interpretation keycloak_service: mutation "mutateKeycloakService dp" for dp
  by unfold_locales (simp add: mutateKeycloakService_def Let_def ensureLabels_def)

interpretation keycloak_deployment: mutation "mutateKeycloakDeployment dp ns spec h" for dp ns spec h
  by unfold_locales (simp add: mutateKeycloakDeployment_def initDeployment_def Let_def ensureLabels_def)

section \<open>Identities and secrets that stay the same\<close>

definition realmUsers :: "json \<Rightarrow> json list" where
  "realmUsers doc = (case jget ''users'' doc of Some (JArr us) \<Rightarrow> us | _ \<Rightarrow> [])"



end
