(* ===== verification/Opa.thy ===== *)
theory Opa
  imports Oidc OpenFGA
begin

text \<open>
  The OPA bridge (internal/controller/opa.go, embed.go): its Secret, the policies it loads from the
  binary's embedded files, the environment that configures row filters and column masks, and its
  Service and Deployment. The embedded file tree is a parameter (\<open>lPolicyWalk\<close>, \<open>lPolicyFile\<close>): the
  entries of a walk of a directory, each a path and whether it is a directory, in the order of the walk.
\<close>

section \<open>Policies\<close>

definition opaPolicyDirs :: "string list" where
  "opaPolicyDirs = [''embed/opapolicies'', ''embed/rowfilters'']"

text \<open>The closure of \<open>WalkDir\<close> over the entries of one directory.\<close>

fun loadEntries :: "lib \<Rightarrow> (string \<times> bool) list \<Rightarrow> smap \<Rightarrow> err + smap" where
  "loadEntries l [] m = Inr m"
| "loadEntries l ((p, isDir) # es) m =
     (if isDir \<or> \<not> HasSuffix p ''.rego'' then loadEntries l es m
      else case lPolicyFile l p of
        Inl e \<Rightarrow> Inl e
      | Inr raw \<Rightarrow> loadEntries l es (fmupd (pathBase p) raw m))"

fun loadPolicies :: "lib \<Rightarrow> string list \<Rightarrow> smap \<Rightarrow> err + smap" where
  "loadPolicies l [] m = Inr m"
| "loadPolicies l (dir # dirs) m = (case lPolicyWalk l dir of
      Inl e \<Rightarrow> Inl e
    | Inr es \<Rightarrow> (case loadEntries l es m of
        Inl e \<Rightarrow> Inl e
      | Inr m' \<Rightarrow> loadPolicies l dirs m'))"

definition mutateOPAPolicies :: "lib \<Rightarrow> dataplatform \<Rightarrow> config_map \<Rightarrow> err + config_map" where
  "mutateOPAPolicies l dp cm =
     (case loadPolicies l opaPolicyDirs fmempty of
        Inl e \<Rightarrow> Inl e
      | Inr data \<Rightarrow> Inr (cm\<lparr>cmMeta := ensureLabels (labelsFor dp componentOPA) (cmMeta cm), cmData := data\<rparr>))"

definition applyOPAPolicies :: "'w reconciler \<Rightarrow> dataplatform \<Rightarrow> string \<Rightarrow> ('w st, unit) go" where
  "applyOPAPolicies r dp ns =
     applyConfigMap r dp (newConfigMap configMapOPAPolicies ns) (mutateOPAPolicies (rLib r) dp)"

section \<open>Row filters and column masks\<close>

definition rowFilterEntry :: "row_filter_spec \<Rightarrow> json" where
  "rowFilterEntry f = JMap [
     (''catalog'', JStr (RowFilterSpec_CatalogOrDefault f)),
     (''schema'', JStr (rfSchema f)),
     (''table'', JStr (rfTable f)),
     (''column'', JStr (rfColumn f)),
     (''type'', JStr (rfsType (rfOpenFGA f))),
     (''relation'', JStr (RowFilterSubjectSpec_RelationOrDefault (rfOpenFGA f))),
     (''numeric'', JBool (RowFilterSpec_IsNumeric f))]"

definition rowFiltersJSON :: "row_filter_spec list \<Rightarrow> string" where
  "rowFiltersJSON filters = marshal (JArr (map rowFilterEntry filters))"

definition columnAccessEntry :: "column_access_spec \<Rightarrow> json" where
  "columnAccessEntry a = JMap [
     (''catalog'', JStr (ColumnAccessSpec_CatalogOrDefault a)),
     (''schema'', JStr (caSchema a)),
     (''table'', JStr (caTable a)),
     (''column'', JStr (caColumn a)),
     (''mask'', JStr (ColumnAccessSpec_MaskOrDefault a)),
     (''type'', JStr (casType (caOpenFGA a))),
     (''relation'', JStr (ColumnAccessSubjectSpec_RelationOrDefault (caOpenFGA a))),
     (''object'', JStr (ColumnAccessSpec_ObjectOrDefault a))]"

definition columnAccessJSON :: "column_access_spec list \<Rightarrow> string" where
  "columnAccessJSON access = marshal (JArr (map columnAccessEntry access))"

definition opaAccessEnv :: "dataplatform \<Rightarrow> openfga_config \<Rightarrow> env_var list" where
  "opaAccessEnv dp fga =
     (let authz = spAuthz (dpSpec dp);
          env = [
            envValue ''OPENFGA_URL'' (fgHttpEndpoint fga),
            envValue ''OPENFGA_STORE_ID'' (fgRowFilterStoreID fga),
            envSecret ''OPENFGA_API_KEY'' secretOpenFGA keyOpenFGAAPIKey]
      in if \<not> AuthzSpec_HasAccessPolicies authz then []
         else env
           @ (if AuthzSpec_HasRowFilters authz
              then [envValue ''TRINO_ROW_FILTERS'' (rowFiltersJSON (azRowFilters authz))] else [])
           @ (if AuthzSpec_HasColumnAccess authz
              then [envValue ''TRINO_COLUMN_ACCESS'' (columnAccessJSON (azColumnAccess authz))] else []))"

section \<open>Objects\<close>

definition mutateOPASecret :: "dataplatform \<Rightarrow> oidc_config \<Rightarrow> secret \<Rightarrow> secret" where
  "mutateOPASecret dp oidc s =
     s\<lparr>secMeta := ensureLabels (labelsFor dp componentOPA) (secMeta s), secType := SecretTypeOpaque,
       secData := fmap_of_list [
         (keyOIDCOpaClientID, ocOpaClientID oidc),
         (keyOIDCOpaClientSecret, ocOpaSecret oidc)]\<rparr>"

definition applyOPASecret :: "'w reconciler \<Rightarrow> dataplatform \<Rightarrow> string \<Rightarrow> oidc_config \<Rightarrow> ('w st, unit) go" where
  "applyOPASecret r dp ns oidc =
     applySecret r dp (newSecret secretOIDC ns) (\<lambda>s. Inr (mutateOPASecret dp oidc s))"

definition mutateOPAService :: "dataplatform \<Rightarrow> service \<Rightarrow> service" where
  "mutateOPAService dp svc =
     (let labels = labelsFor dp componentOPA
      in svc\<lparr>svcMeta := ensureLabels labels (svcMeta svc), svcSelector := labels,
           svcPorts := [\<lparr>spName = portNameHTTP, spPort = opaPort, spTargetPort = opaPort\<rparr>]\<rparr>)"

definition applyOPAService :: "'w reconciler \<Rightarrow> dataplatform \<Rightarrow> string \<Rightarrow> ('w st, unit) go" where
  "applyOPAService r dp ns =
     applyService r dp (newService nameOPA ns) (\<lambda>svc. Inr (mutateOPAService dp svc))"

definition opaContainer :: "dataplatform \<Rightarrow> oidc_config \<Rightarrow> openfga_config \<Rightarrow> container" where
  "opaContainer dp oidc fga =
     (let lkURL = clusterServiceURL nameLakekeeper
            (LakekeeperSpec_NamespaceOrDefault (spLakekeeper (dpSpec dp))) lakekeeperPort
      in zeroContainer\<lparr>
        ctName := nameOPA,
        ctImage := OpenFGASpec_OPAImageOrDefault (azOpenFGA (spAuthz (dpSpec dp))),
        ctArgs := [''run'', ''--server'', ''--addr'', ''0.0.0.0:8181'', ''--ignore'', ''.*'', ''/policies''],
        ctEnv := [
          envValue ''LAKEKEEPER_URL'' lkURL,
          envValue ''LAKEKEEPER_TOKEN_ENDPOINT'' (ocTokenURL oidc),
          envValue ''LAKEKEEPER_CLIENT_ID'' (ocOpaClientID oidc),
          envSecret ''LAKEKEEPER_CLIENT_SECRET'' secretOIDC keyOIDCOpaClientSecret,
          envValue ''LAKEKEEPER_SCOPE'' (ocScope oidc),
          envValue ''TRINO_LAKEKEEPER_CATALOG_NAME'' nameLakekeeper,
          envValue ''LAKEKEEPER_LAKEKEEPER_WAREHOUSE''
            (WarehouseSpec_NameOrDefault (lkWarehouse (spLakekeeper (dpSpec dp)))),
          envValue ''TRINO_ALLOW_UNMANAGED_CATALOGS'' ''true'']
          @ opaAccessEnv dp fga,
        ctPorts := [\<lparr>cpName = portNameHTTP, cpPort = opaPort\<rparr>],
        ctMounts := [(mountAt volumeConfig ''/policies'')\<lparr>vmReadOnly := True\<rparr>],
        ctReadiness := Some \<lparr>prHandler = HTTPGet ''/health'' opaPort, prInitialDelay = 0, prPeriod = 5\<rparr>,
        ctSecurity := Some (restrictedContainerSecurity uidOPA gidOPA)\<rparr>)"

definition mutateOPADeployment ::
  "dataplatform \<Rightarrow> oidc_config \<Rightarrow> openfga_config \<Rightarrow> deployment \<Rightarrow> deployment" where
  "mutateOPADeployment dp oidc fga deploy0 =
     (let labels = labelsFor dp componentOPA;
          deploy = initDeployment labels (deploy0\<lparr>depMeta := ensureLabels labels (depMeta deploy0)\<rparr>);
          template = depTemplate deploy
      in deploy\<lparr>depReplicas := Some 1,
           depTemplate := template\<lparr>
             ptLabels := labels,
             ptSpec := (ptSpec template)\<lparr>
               podSecurity := Some (restrictedPodSecurity uidOPA gidOPA),
               podContainers := [opaContainer dp oidc fga],
               podVolumes := [
                 \<lparr>volName = volumeConfig, volSource = ConfigMapVolume configMapOPAPolicies\<rparr>]\<rparr>\<rparr>\<rparr>)"

definition applyOPADeployment ::
  "'w reconciler \<Rightarrow> dataplatform \<Rightarrow> string \<Rightarrow> oidc_config \<Rightarrow> openfga_config \<Rightarrow> ('w st, unit) go" where
  "applyOPADeployment r dp ns oidc fga =
     applyDeployment r dp (newDeployment nameOPA ns) (\<lambda>d. Inr (mutateOPADeployment dp oidc fga d))"

definition reconcileOPA ::
  "'w reconciler \<Rightarrow> dataplatform \<Rightarrow> oidc_config \<Rightarrow> openfga_config \<Rightarrow> ('w st, bool) go" where
  "reconcileOPA r dp oidc fga =
     (if \<not> fgEnabled fga \<or> \<not> ocEnabled oidc \<or> \<not> TrinoSpec_IsEnabled (spTrino (dpSpec dp)) then ret True
      else
        let ns = OpenFGASpec_NamespaceOrDefault (azOpenFGA (spAuthz (dpSpec dp)))
        in bindE (applyOPASecret r dp ns oidc) (\<lambda>_.
           bindE (applyOPAPolicies r dp ns) (\<lambda>_.
           bindE (applyOPAService r dp ns) (\<lambda>_.
           bindE (applyOPADeployment r dp ns oidc fga) (\<lambda>_.
           deploymentReady r ns nameOPA)))))"

section \<open>Contracts\<close>

lemma frame_reconcileOPA [frame_intro]: "frame t v (reconcileOPA r dp oidc fga)"
  unfolding reconcileOPA_def applyOPASecret_def applyOPAPolicies_def applyOPAService_def
    applyOPADeployment_def Let_def
  by (intro keeps_intro frame_intro)

interpretation opa_secret: mutation "mutateOPASecret dp oidc" for dp oidc
  by unfold_locales (simp add: mutateOPASecret_def ensureLabels_def)

interpretation opa_service: mutation "mutateOPAService dp" for dp
  by unfold_locales (simp add: mutateOPAService_def Let_def ensureLabels_def)

interpretation opa_deployment: mutation "mutateOPADeployment dp oidc fga" for dp oidc fga
  by unfold_locales (simp add: mutateOPADeployment_def initDeployment_def Let_def ensureLabels_def)

section \<open>What OPA is given\<close>

lemma loadEntries_keys:
  "loadEntries l es m = Inr m' \<Longrightarrow> fmlookup m' k \<noteq> None \<longleftrightarrow>
     fmlookup m k \<noteq> None \<or> (\<exists>p. (p, False) \<in> set es \<and> HasSuffix p ''.rego'' \<and> k = pathBase p)"
  by (induction l es m rule: loadEntries.induct) (auto split: if_splits sum.splits)

text \<open>
  C32. OPA gets every policy and nothing else: when the policies load, the ConfigMap's keys are exactly
  the base names of the \<open>.rego\<close> files that the walks of the two embedded directories list.
\<close>

theorem loadPolicies_keys:
  assumes "loadPolicies l dirs fmempty = Inr data"
  shows "fmlookup data k \<noteq> None \<longleftrightarrow> (\<exists>dir \<in> set dirs. \<exists>es p. lPolicyWalk l dir = Inr es \<and>
     (p, False) \<in> set es \<and> HasSuffix p ''.rego'' \<and> k = pathBase p)"
proof -
  have "loadPolicies l dirs m = Inr data \<Longrightarrow> fmlookup data k \<noteq> None \<longleftrightarrow> fmlookup m k \<noteq> None \<or>
     (\<exists>dir \<in> set dirs. \<exists>es p. lPolicyWalk l dir = Inr es \<and> (p, False) \<in> set es \<and> HasSuffix p ''.rego'' \<and> k = pathBase p)" for m
  proof (induction l dirs m rule: loadPolicies.induct)
    case (2 l dir dirs m)
    from "2.prems" obtain es m' where es: "lPolicyWalk l dir = Inr es" and m': "loadEntries l es m = Inr m'"
      and rest: "loadPolicies l dirs m' = Inr data"
      by (auto split: sum.splits)
    show ?case
      using "2.IH" [OF es m' rest] loadEntries_keys [OF m', of k] es by auto
  qed simp
  from this [OF assms] show ?thesis by simp
qed

text \<open>
  No rule reaches the policy with a gap to guess at: every row filter and column restriction is
  rendered with a catalog and a relation, and a restriction also with a mask, whatever the user left out.
\<close>

lemma access_entries_resolved:
  "jget ''catalog'' (rowFilterEntry f) \<noteq> Some (JStr []) \<and> jget ''relation'' (rowFilterEntry f) \<noteq> Some (JStr []) \<and>
   jget ''catalog'' (columnAccessEntry a) \<noteq> Some (JStr []) \<and> jget ''relation'' (columnAccessEntry a) \<noteq> Some (JStr []) \<and>
   jget ''mask'' (columnAccessEntry a) \<noteq> Some (JStr []) \<and> jget ''object'' (columnAccessEntry a) \<noteq> Some (JStr [])"
  by (simp add: rowFilterEntry_def columnAccessEntry_def RowFilterSpec_CatalogOrDefault_def
      RowFilterSubjectSpec_RelationOrDefault_def ColumnAccessSpec_CatalogOrDefault_def
      ColumnAccessSubjectSpec_RelationOrDefault_def ColumnAccessSpec_MaskOrDefault_def
      ColumnAccessSpec_ObjectOrDefault_def stringOrDefault_def)

text \<open>
  C39. Applying the OPA Secret discards whatever else the Secret \<open>oidc\<close> of that namespace held: after the
  mutation it has the OPA client's two keys and no other. In a platform that gives Keycloak and OpenFGA
  the same namespace this is the Secret with the credentials of every client.
\<close>

theorem opa_secret_discards:
  "fmlookup (secData (mutateOPASecret dp oidc s)) k \<noteq> None \<longleftrightarrow> k \<in> {keyOIDCOpaClientID, keyOIDCOpaClientSecret}"
  by (simp add: mutateOPASecret_def fmlookup_of_list)

end
