(* ===== verification/Lakekeeper.thy ===== *)
theory Lakekeeper
  imports Oidc OpenFGA
begin

text \<open>
  LakeKeeper (internal/controller/lakekeeper.go): its encryption key, its Service, and a Deployment whose
  environment follows from Postgres, OIDC and OpenFGA.
\<close>

section \<open>The environment\<close>

definition lakekeeperUIScope :: "string \<Rightarrow> string" where
  "lakekeeperUIScope scope =
     (if scope = [] then ''openid''
      else if Contains scope ''openid'' then scope
      else ''openid '' @ scope)"

definition lakekeeperTrustedEngineEnv :: "oidc_config \<Rightarrow> env_var list" where
  "lakekeeperTrustedEngineEnv oidc =
     (let audiences = (if ocOpaClientID oidc \<noteq> [] \<and> ocOpaClientID oidc \<noteq> ocTrinoClientID oidc
            then ocTrinoClientID oidc @ '','' @ ocOpaClientID oidc else ocTrinoClientID oidc)
      in [envValue ''LAKEKEEPER__TRUSTED_ENGINES__TRINO__TYPE'' ''trino'',
          envValue ''LAKEKEEPER__TRUSTED_ENGINES__TRINO__OWNER_PROPERTY'' ''trino.run-as-owner'',
          envValue ''LAKEKEEPER__TRUSTED_ENGINES__TRINO__IDENTITIES__OIDC__AUDIENCES'' (''['' @ audiences @ '']'')])"

definition lakekeeperEnv ::
  "dataplatform \<Rightarrow> postgres_conn \<Rightarrow> oidc_config \<Rightarrow> openfga_config \<Rightarrow> env_var list" where
  "lakekeeperEnv dp conn oidc fga =
     (let public = trimSlash (lkPublicURL (spLakekeeper (dpSpec dp)))
      in [envSecret keyEncryption secretEncryption keyEncryption,
          envValue ''LAKEKEEPER__PG_HOST_W'' (pnHost conn),
          envValue ''LAKEKEEPER__PG_PORT'' (Itoa (pnPort conn)),
          envValue ''LAKEKEEPER__PG_DATABASE'' (pnDatabase conn)]
         @ (if public \<noteq> [] then [envValue ''LAKEKEEPER__UI__LAKEKEEPER_URL'' public] else [])
         @ (if pnSSLMode conn \<noteq> [] then [envValue ''LAKEKEEPER__PG_SSL_MODE'' (pnSSLMode conn)] else [])
         @ (if fgEnabled fga then
              [envValue ''LAKEKEEPER__AUTHZ_BACKEND'' ''openfga'',
               envValue ''LAKEKEEPER__OPENFGA__ENDPOINT'' (fgEndpoint fga),
               envValue ''LAKEKEEPER__OPENFGA__STORE_NAME'' (fgStore fga),
               envValue ''LAKEKEEPER__OPENFGA__API_KEY'' (fgApiKey fga)]
              @ (if ocEnabled oidc then lakekeeperTrustedEngineEnv oidc else [])
            else if ocEnabled oidc then [envValue ''LAKEKEEPER__AUTHZ_BACKEND'' ''allowall'']
            else [])
         @ (if ocEnabled oidc then
              [envValue ''LAKEKEEPER__OPENID_PROVIDER_URI'' (ocIssuer oidc),
               envValue ''LAKEKEEPER__OPENID_AUDIENCE'' (ocAudience oidc),
               envValue ''LAKEKEEPER__UI__OPENID_CLIENT_ID'' (ocUIClientID oidc),
               envValue ''LAKEKEEPER__UI__OPENID_SCOPE'' (lakekeeperUIScope (ocScope oidc))]
              @ (if ocPublicIssuer oidc \<noteq> [] \<and> ocPublicIssuer oidc \<noteq> ocIssuer oidc then
                   [envValue ''LAKEKEEPER__OPENID_ADDITIONAL_ISSUERS'' (ocPublicIssuer oidc),
                    envValue ''LAKEKEEPER__UI__OPENID_PROVIDER_URI'' (ocPublicIssuer oidc)]
                 else [])
            else [])
         @ (if PostgresSpec_IsEmbedded (lkPostgres (spLakekeeper (dpSpec dp))) then
              [envSecret ''LAKEKEEPER__PG_USER'' secretPostgres keyPostgresUsername,
               envSecret ''LAKEKEEPER__PG_PASSWORD'' secretPostgres keyPostgresPassword]
            else
              [envValue ''LAKEKEEPER__PG_USER'' (pnUsername conn),
               envValue ''LAKEKEEPER__PG_PASSWORD'' (pnPassword conn)]))"

section \<open>Objects\<close>

definition ensureEncryptionSecret :: "'w reconciler \<Rightarrow> dataplatform \<Rightarrow> string \<Rightarrow> ('w st, unit) go" where
  "ensureEncryptionSecret r dp ns =
     handleE (liftL (kGetSecret (rClient r) secretEncryption ns)) (\<lambda>q. case q of
       Inr _ \<Rightarrow> ret ()
     | Inl _ \<Rightarrow>
         bindE (randomHex r 32) (\<lambda>key.
         ensureGeneratedSecret r dp secretEncryption ns componentLakekeeper
           (fmap_of_list [(keyEncryption, key)])))"

definition mutateLakekeeperService :: "dataplatform \<Rightarrow> service \<Rightarrow> service" where
  "mutateLakekeeperService dp svc =
     (let labels = labelsFor dp componentLakekeeper
      in svc\<lparr>svcMeta := ensureLabels labels (svcMeta svc), svcSelector := labels,
           svcPorts := [\<lparr>spName = portNameHTTP, spPort = lakekeeperPort, spTargetPort = lakekeeperPort\<rparr>]\<rparr>)"

definition applyLakekeeperService :: "'w reconciler \<Rightarrow> dataplatform \<Rightarrow> string \<Rightarrow> ('w st, unit) go" where
  "applyLakekeeperService r dp ns =
     applyService r dp (newService nameLakekeeper ns) (\<lambda>svc. Inr (mutateLakekeeperService dp svc))"

definition pgWait :: "postgres_conn \<Rightarrow> string" where
  "pgWait conn = ''until pg_isready -h '' @ pnHost conn @ '' -p '' @ Itoa (pnPort conn) @ '' -U ''
     @ pnUsername conn @ ''; do sleep 2; done''"

definition lakekeeperInit :: "lakekeeper_spec \<Rightarrow> postgres_conn \<Rightarrow> env_var list \<Rightarrow> container list" where
  "lakekeeperInit spec conn env = [
     zeroContainer\<lparr>
       ctName := ''wait-for-postgres'',
       ctImage := PostgresSpec_ImageOrDefault (lkPostgres spec),
       ctCommand := [''sh'', ''-c'', pgWait conn],
       ctSecurity := Some (restrictedContainerSecurity uidPostgres gidPostgres)\<rparr>,
     zeroContainer\<lparr>
       ctName := ''migrate'',
       ctImage := LakekeeperSpec_ImageOrDefault spec,
       ctArgs := [''migrate''],
       ctSecurity := Some (restrictedContainerSecurity uidLakekeeper gidLakekeeper),
       ctEnv := env\<rparr>]"

definition lakekeeperContainer :: "lakekeeper_spec \<Rightarrow> env_var list \<Rightarrow> container" where
  "lakekeeperContainer spec env = zeroContainer\<lparr>
     ctName := nameLakekeeper,
     ctImage := LakekeeperSpec_ImageOrDefault spec,
     ctArgs := [''serve''],
     ctEnv := env,
     ctPorts := [\<lparr>cpName = portNameHTTP, cpPort = lakekeeperPort\<rparr>],
     ctReadiness := Some \<lparr>prHandler = TCPSocket lakekeeperPort, prInitialDelay = 0, prPeriod = 5\<rparr>,
     ctResources := lkResources spec,
     ctSecurity := Some (restrictedContainerSecurity uidLakekeeper gidLakekeeper)\<rparr>"

definition mutateLakekeeperDeployment ::
  "dataplatform \<Rightarrow> postgres_conn \<Rightarrow> env_var list \<Rightarrow> deployment \<Rightarrow> deployment" where
  "mutateLakekeeperDeployment dp conn env deploy0 =
     (let spec = spLakekeeper (dpSpec dp);
          labels = labelsFor dp componentLakekeeper;
          deploy = initDeployment labels (deploy0\<lparr>depMeta := ensureLabels labels (depMeta deploy0)\<rparr>);
          template = depTemplate deploy
      in deploy\<lparr>depReplicas := Some (LakekeeperSpec_ReplicasOrDefault spec),
           depTemplate := template\<lparr>
             ptLabels := labels,
             ptSpec := (ptSpec template)\<lparr>
               podSecurity := Some (restrictedPodSecurity 0 0),
               podInitContainers := lakekeeperInit spec conn env,
               podContainers := [lakekeeperContainer spec env]\<rparr>\<rparr>\<rparr>)"

definition applyLakekeeperDeployment ::
  "'w reconciler \<Rightarrow> dataplatform \<Rightarrow> string \<Rightarrow> postgres_conn \<Rightarrow> oidc_config \<Rightarrow> openfga_config \<Rightarrow> ('w st, unit) go" where
  "applyLakekeeperDeployment r dp ns conn oidc fga =
     (let env = lakekeeperEnv dp conn oidc fga @ lkExtraEnv (spLakekeeper (dpSpec dp))
      in applyDeployment r dp (newDeployment nameLakekeeper ns)
           (\<lambda>d. Inr (mutateLakekeeperDeployment dp conn env d)))"

section \<open>Reconciling\<close>

definition reconcileLakekeeper ::
  "postgres_conn \<Rightarrow> oidc_config \<Rightarrow> openfga_config \<Rightarrow> 'w reconciler \<Rightarrow> dataplatform \<Rightarrow> ('w st, unit) go" where
  "reconcileLakekeeper conn oidc fga r dp =
     (let ns = LakekeeperSpec_NamespaceOrDefault (spLakekeeper (dpSpec dp));
          c = ConditionLakekeeperReady
      in bindE (modifyR (\<lambda>st. st\<lparr>dsLakekeeperEndpoint := clusterServiceURL nameLakekeeper ns lakekeeperPort\<rparr>)) (\<lambda>_.
         stage r dp c (ensureEncryptionSecret r dp ns) (\<lambda>_.
         stage r dp c (applyLakekeeperService r dp ns) (\<lambda>_.
         stage r dp c (applyLakekeeperDeployment r dp ns conn oidc fga) (\<lambda>_.
         stage r dp c (deploymentReady r ns nameLakekeeper) (\<lambda>ready.
         if \<not> ready then
           bindE (setCondition r dp c ConditionFalse reasonNotReady ''LakeKeeper Deployment is not ready'') (\<lambda>_.
           ret ())
         else
           bindE (setCondition r dp c ConditionTrue reasonReady ''LakeKeeper is ready'') (\<lambda>_.
           ret ())))))))"

section \<open>Contracts\<close>

lemma frame_lakekeeper_objects [frame_intro]:
  "frame t v (ensureEncryptionSecret r dp ns)" "frame t v (applyLakekeeperService r dp ns)"
  "frame t v (applyLakekeeperDeployment r dp ns conn oidc fga)"
  unfolding ensureEncryptionSecret_def applyLakekeeperService_def applyLakekeeperDeployment_def Let_def
  by (intro keeps_intro frame_intro)+

lemma frame_reconcileLakekeeper:
  "conditions_ok (rLib r) \<Longrightarrow> t \<noteq> ConditionLakekeeperReady \<Longrightarrow>
     frame t v (reconcileLakekeeper conn oidc fga r dp)"
  unfolding reconcileLakekeeper_def Let_def by (intro keeps_intro frame_intro) auto

lemma reports_reconcileLakekeeper:
  "conditions_ok (rLib r) \<Longrightarrow> reports dp ConditionLakekeeperReady (reconcileLakekeeper conn oidc fga r dp)
     (\<lambda>_ s. settled dp ConditionLakekeeperReady (snd s))"
  unfolding reconcileLakekeeper_def Let_def by (intro report_intro) auto

interpretation lakekeeper: component "reconcileLakekeeper conn oidc fga" ConditionLakekeeperReady
  for conn oidc fga
  by (rule componentI) (auto intro: reports_reconcileLakekeeper frame_reconcileLakekeeper)

interpretation lakekeeper_service: mutation "mutateLakekeeperService dp" for dp
  by unfold_locales (simp add: mutateLakekeeperService_def Let_def ensureLabels_def)

interpretation lakekeeper_deployment: mutation "mutateLakekeeperDeployment dp conn env" for dp conn env
  by unfold_locales (simp add: mutateLakekeeperDeployment_def initDeployment_def Let_def ensureLabels_def)

end
