(* ===== verification/Warehouse.thy ===== *)
theory Warehouse
  imports Minio Keycloak
begin

text \<open>
  The warehouse (internal/controller/warehouse.go): with the operator's token, LakeKeeper is bootstrapped,
  the platform's identities get their grants, and the warehouse is created.
\<close>

section \<open>Principals\<close>

definition catalogPrincipals :: "dataplatform \<Rightarrow> oidc_config \<Rightarrow> catalog_principal list" where
  "catalogPrincipals dp oidc =
     (if ocAdminSubject oidc = [] then []
      else
        \<lparr>cpSubject = oidcSubjectPrefix @ ocAdminSubject oidc, cpPrincipalName = ocAdminName oidc,
         cpEmail = ocAdminEmail oidc, cpType = ''human'', cpServerRelation = ''admin'',
         cpProjectRelation = ''project_admin''\<rparr>
        # (if AuthzSpec_IsEnabled (spAuthz (dpSpec dp)) \<and> ocOpaSubject oidc \<noteq> [] then
             [\<lparr>cpSubject = oidcSubjectPrefix @ ocOpaSubject oidc, cpPrincipalName = ocOpaClientID oidc,
               cpEmail = [], cpType = ''application'', cpServerRelation = [],
               cpProjectRelation = ''security_admin''\<rparr>]
           else []))"

definition warehouseRequest :: "dataplatform \<Rightarrow> object_store \<Rightarrow> warehouse_request" where
  "warehouseRequest dp store =
     (let wh = lkWarehouse (spLakekeeper (dpSpec dp))
      in \<lparr>wrName = WarehouseSpec_NameOrDefault wh, wrBucket = osBucket store, wrRegion = osRegion store,
          wrKeyPrefix = whKeyPrefix wh, wrEndpoint = osEndpoint store,
          wrPathStyleAccess = osPathStyleAccess store, wrFlavor = osFlavor store,
          wrSTSEnabled = osSTSEnabled store, wrSTSRoleARN = osSTSRoleARN store,
          wrAccessKeyID = osAccessKeyID store, wrSecretAccessKey = osSecretAccessKey store\<rparr>)"

section \<open>Reconciling\<close>

definition reconcileWarehouse ::
  "object_store \<Rightarrow> oidc_config \<Rightarrow> 'w reconciler \<Rightarrow> dataplatform \<Rightarrow> ('w st, unit) go" where
  "reconcileWarehouse store oidc r dp =
     (let c = ConditionWarehouseReady
      in case rCatalog r of
        None \<Rightarrow>
          bindE (setCondition r dp c ConditionFalse reasonMissing ''Catalog client is not configured'') (\<lambda>_.
          ret ())
      | Some cat \<Rightarrow>
          stage r dp c (oidcAccessToken r oidc) (\<lambda>token.
          if ocEnabled oidc \<and> token = [] then
            stage r dp c (fail (Errorf ''OIDC token is empty'')) ret
          else
            let ns = LakekeeperSpec_NamespaceOrDefault (spLakekeeper (dpSpec dp));
                principals = catalogPrincipals dp oidc;
                req = warehouseRequest dp store
            in stage r dp c (liftL (cBootstrap cat ns nameLakekeeper lakekeeperPort token)) (\<lambda>_.
               stage r dp c (if length principals > 0
                 then liftL (cEnsureGrants cat ns nameLakekeeper lakekeeperPort token principals)
                 else ret ()) (\<lambda>_.
               stage r dp c (liftL (cEnsureWarehouse cat ns nameLakekeeper lakekeeperPort token req)) (\<lambda>_.
               bindE (setCondition r dp c ConditionTrue reasonReady (''Warehouse '' @ wrName req @ '' is ready'')) (\<lambda>_.
               ret ()))))))"

section \<open>Contracts\<close>

lemma frame_reconcileWarehouse:
  "conditions_ok (rLib r) \<Longrightarrow> t \<noteq> ConditionWarehouseReady \<Longrightarrow>
     frame t v (reconcileWarehouse store oidc r dp)"
  unfolding reconcileWarehouse_def Let_def by (intro keeps_intro frame_intro) auto

lemma stage_fail:
  "stage r dp c (fail e) f =
     bindE (setCondition r dp c ConditionFalse reasonError (err_text e)) (\<lambda>_. fail e)"
  by (rule ext) (simp add: stage_def run_simps)

lemma reports_stage_fail [report_intro]:
  "conditions_ok (rLib r) \<Longrightarrow> reports dp c (stage r dp c (fail e) f) Q"
  unfolding stage_fail by (auto intro!: setCondition_then hoare_fail simp: reported_def)

lemma reports_reconcileWarehouse:
  "conditions_ok (rLib r) \<Longrightarrow> reports dp ConditionWarehouseReady (reconcileWarehouse store oidc r dp)
     (\<lambda>_ s. settled dp ConditionWarehouseReady (snd s))"
  unfolding reconcileWarehouse_def Let_def by (intro report_intro reports_stage_fail) auto

interpretation warehouse: component "reconcileWarehouse store oidc" ConditionWarehouseReady for store oidc
  by (rule componentI) (auto intro: reports_reconcileWarehouse frame_reconcileWarehouse)

section \<open>Grants\<close>

text \<open>
  C35. Grants are few: only the administrator, a human, gets a role on the server; the OPA bridge gets no
  more than \<open>security_admin\<close> on the project, and only while authorization is enabled; every subject
  carries the issuer prefix under which LakeKeeper knows it; and without an administrator nobody is
  granted anything.
\<close>

theorem principals_least_privilege:
  "(catalogPrincipals dp oidc = [] \<longleftrightarrow> ocAdminSubject oidc = []) \<and>
   list_all (\<lambda>p. take (length oidcSubjectPrefix) (cpSubject p) = oidcSubjectPrefix \<and>
     (if cpType p = ''human'' then cpSubject p = oidcSubjectPrefix @ ocAdminSubject oidc
      else cpServerRelation p = [] \<and> cpProjectRelation p = ''security_admin'' \<and>
        AuthzSpec_IsEnabled (spAuthz (dpSpec dp)) \<and> ocOpaSubject oidc \<noteq> []))
     (catalogPrincipals dp oidc)"
  by (simp add: catalogPrincipals_def)

end
