(* ===== verification/Trino.thy ===== *)
theory Trino
  imports Minio Oidc OpenFGA
begin

text \<open>
  Trino (internal/controller/trino.go): the properties files of the coordinator, the workers, access
  control and the catalogs, the Secrets that carry them, and the coordinator's and workers' Deployments.
\<close>

section \<open>Properties files\<close>

definition renderProperties :: "smap \<Rightarrow> string" where
  "renderProperties props =
     concat (map (\<lambda>k. k @ ''='' @ the (fmlookup props k) @ [CHR 0x0A]) (sortedKeys props))"

definition trinoUIAuthEnabled :: "oidc_config \<Rightarrow> string \<Rightarrow> bool" where
  "trinoUIAuthEnabled oidc publicURL = (ocEnabled oidc \<and> trimSlash publicURL \<noteq> [])"

text \<open>\<open>if b { props[k] = v }\<close>.\<close>

definition setIf :: "bool \<Rightarrow> string \<Rightarrow> string \<Rightarrow> smap \<Rightarrow> smap" where
  "setIf b k v props = (if b then fmupd k v props else props)"

definition trinoOAuthProperties :: "oidc_config \<Rightarrow> smap" where
  "trinoOAuthProperties oidc =
     (let issuer = (if ocPublicIssuer oidc \<noteq> [] then ocPublicIssuer oidc else ocIssuer oidc);
          props = fmap_of_list [
            (''http-server.authentication.type'', ''oauth2''),
            (''web-ui.authentication.type'', ''oauth2''),
            (''http-server.authentication.allow-insecure-over-http'', ''true''),
            (''http-server.authentication.oauth2.issuer'', issuer),
            (''http-server.authentication.oauth2.client-id'', ocTrinoClientID oidc),
            (''http-server.authentication.oauth2.client-secret'', ocTrinoSecret oidc),
            (''http-server.authentication.oauth2.scopes'', ''openid''),
            (''http-server.authentication.oauth2.principal-field'', ''preferred_username''),
            (''http-server.authentication.oauth2.additional-audiences'', ocAudience oidc)];
          split = (ocProxyService oidc \<noteq> [] \<and> ocPublicIssuer oidc \<noteq> [] \<and> ocPublicIssuer oidc \<noteq> ocIssuer oidc)
      in setIf split ''http-server.authentication.oauth2.jwks-url'' (oidcJWKSURL (ocIssuer oidc))
         (setIf split ''http-server.authentication.oauth2.token-url'' (ocTokenURL oidc)
         (setIf split ''http-server.authentication.oauth2.auth-url'' (oidcAuthURL (ocPublicIssuer oidc))
         (setIf split ''http-server.authentication.oauth2.oidc.discovery'' ''false'' props))))"

definition trinoConfigMapOf ::
  "bool \<Rightarrow> bool \<Rightarrow> string \<Rightarrow> smap \<Rightarrow> oidc_config \<Rightarrow> string \<Rightarrow> string \<Rightarrow> smap" where
  "trinoConfigMapOf coordinator includeCoordinator ns extra oidc publicURL sharedSecret =
     (let discovery = (if coordinator then ''http://127.0.0.1:'' @ Itoa trinoPort
            else clusterServiceURL nameTrino ns trinoPort);
          props = fmap_of_list [
            (''coordinator'', FormatBool coordinator),
            (''http-server.http.port'', Itoa trinoPort),
            (''http-server.process-forwarded'', ''true''),
            (''discovery.uri'', discovery),
            (''node-scheduler.include-coordinator'', FormatBool includeCoordinator)];
          props' = (if coordinator \<and> trinoUIAuthEnabled oidc publicURL
            then mapsCopy props (trinoOAuthProperties oidc) else props)
      in mapsCopy (setIf (sharedSecret \<noteq> []) ''internal-communication.shared-secret'' sharedSecret props') extra)"

definition trinoConfigProperties ::
  "bool \<Rightarrow> bool \<Rightarrow> string \<Rightarrow> smap \<Rightarrow> oidc_config \<Rightarrow> string \<Rightarrow> string \<Rightarrow> string" where
  "trinoConfigProperties coordinator includeCoordinator ns extra oidc publicURL sharedSecret =
     renderProperties (trinoConfigMapOf coordinator includeCoordinator ns extra oidc publicURL sharedSecret)"

definition trinoAccessControlMap :: "string \<Rightarrow> bool \<Rightarrow> bool \<Rightarrow> smap" where
  "trinoAccessControlMap opaURL rowFilters columnAccess =
     setIf columnAccess ''opa.policy.batch-column-masking-uri'' (opaURL @ ''/v1/data/trino/batch_column_masks'')
     (setIf rowFilters ''opa.policy.row-filters-uri'' (opaURL @ ''/v1/data/trino/row_filters'')
     (fmap_of_list [
       (''access-control.name'', ''opa''),
       (''opa.policy.uri'', opaURL @ ''/v1/data/trino/allow''),
       (''opa.policy.batched-uri'', opaURL @ ''/v1/data/trino/batch'')]))"

definition trinoAccessControlProperties :: "string \<Rightarrow> bool \<Rightarrow> bool \<Rightarrow> string" where
  "trinoAccessControlProperties opaURL rowFilters columnAccess =
     (if opaURL = [] then []
      else renderProperties (trinoAccessControlMap opaURL rowFilters columnAccess))"

section \<open>Catalogs\<close>

definition lakekeeperCatalogMap :: "dataplatform \<Rightarrow> object_store \<Rightarrow> oidc_config \<Rightarrow> smap" where
  "lakekeeperCatalogMap dp store oidc =
     (let lkNS = LakekeeperSpec_NamespaceOrDefault (spLakekeeper (dpSpec dp));
          uri = clusterServiceURL nameLakekeeper lkNS lakekeeperPort @ ''/catalog'';
          props = fmap_of_list [
            (''connector.name'', ''iceberg''),
            (''iceberg.catalog.type'', ''rest''),
            (''iceberg.rest-catalog.uri'', uri),
            (''iceberg.rest-catalog.warehouse'',
              WarehouseSpec_NameOrDefault (lkWarehouse (spLakekeeper (dpSpec dp)))),
            (''iceberg.rest-catalog.nested-namespace-enabled'', FormatBool True),
            (''iceberg.unique-table-location'', FormatBool True),
            (''fs.native-s3.enabled'', FormatBool True),
            (''s3.region'', osRegion store),
            (''iceberg.rest-catalog.vended-credentials-enabled'', FormatBool (osSTSEnabled store))]
      in setIf (osPathStyleAccess store) ''s3.path-style-access'' (FormatBool True)
         (setIf (osEndpoint store \<noteq> []) ''s3.endpoint'' (osEndpoint store)
         (setIf (\<not> osSTSEnabled store) ''s3.aws-secret-key'' (osSecretAccessKey store)
         (setIf (\<not> osSTSEnabled store) ''s3.aws-access-key'' (osAccessKeyID store)
         (setIf (ocEnabled oidc \<and> ocScope oidc \<noteq> []) ''iceberg.rest-catalog.oauth2.scope'' (ocScope oidc)
         (setIf (ocEnabled oidc) ''iceberg.rest-catalog.oauth2.server-uri'' (ocTokenURL oidc)
         (setIf (ocEnabled oidc) ''iceberg.rest-catalog.oauth2.credential''
           (ocTrinoClientID oidc @ '':'' @ ocTrinoSecret oidc)
         (setIf (ocEnabled oidc) ''iceberg.rest-catalog.security'' ''OAUTH2'' props))))))))"

definition lakekeeperCatalogProperties :: "dataplatform \<Rightarrow> object_store \<Rightarrow> oidc_config \<Rightarrow> string" where
  "lakekeeperCatalogProperties dp store oidc = renderProperties (lakekeeperCatalogMap dp store oidc)"

text \<open>
  The loop over \<open>extraCatalogs\<close>, with \<open>order\<close> the order in which Go ranges over the map. It adds to
  the Secret's data and to the parts that are hashed.
\<close>

fun extraCatalogs :: "smap \<Rightarrow> string list \<Rightarrow> smap \<Rightarrow> string list \<Rightarrow> smap \<times> string list" where
  "extraCatalogs m [] data parts = (data, parts)"
| "extraCatalogs m (name # order) data parts =
     (if name = nameLakekeeper then extraCatalogs m order data parts
      else extraCatalogs m order (fmupd (name @ ''.properties'') (the (fmlookup m name)) data)
        (parts @ [name, the (fmlookup m name)]))"

definition trinoCatalogParts ::
  "dataplatform \<Rightarrow> object_store \<Rightarrow> oidc_config \<Rightarrow> string list \<Rightarrow> smap \<times> string list" where
  "trinoCatalogParts dp store oidc order =
     (let props = lakekeeperCatalogProperties dp store oidc;
          (data, parts) = (if LakekeeperSpec_IsEnabled (spLakekeeper (dpSpec dp))
            then (fmupd (nameLakekeeper @ ''.properties'') props fmempty, [props]) else (fmempty, []))
      in extraCatalogs (trExtraCatalogs (spTrino (dpSpec dp))) order data parts)"

definition trinoCatalogData ::
  "'w reconciler \<Rightarrow> dataplatform \<Rightarrow> object_store \<Rightarrow> oidc_config \<Rightarrow> ('w st, smap \<times> string) go" where
  "trinoCatalogData r dp store oidc = (\<lambda>(w, st).
     let (order, w') = sMapOrder (rSys r) (sortedKeys (trExtraCatalogs (spTrino (dpSpec dp)))) w;
         (data, parts) = trinoCatalogParts dp store oidc order
     in Some (Inr (data, hashData (rLib r) parts), (w', st)))"

section \<open>Secrets and Services\<close>

definition trinoSharedSecret :: "'w reconciler \<Rightarrow> dataplatform \<Rightarrow> string \<Rightarrow> oidc_config \<Rightarrow> ('w st, string) go" where
  "trinoSharedSecret r dp ns oidc =
     (if \<not> trinoUIAuthEnabled oidc (trPublicURL (spTrino (dpSpec dp))) then ret []
      else
        bindE (randomHex r 32) (\<lambda>s.
        bindE (ensureGeneratedSecret r dp secretTrinoInternal ns componentTrinoCoordinator
          (fmap_of_list [(keyTrinoSharedSecret, s)])) (\<lambda>_.
        getSecretData r secretTrinoInternal ns keyTrinoSharedSecret)))"

definition mutateTrinoConfig :: "dataplatform \<Rightarrow> string \<Rightarrow> string \<Rightarrow> string \<Rightarrow> secret \<Rightarrow> secret" where
  "mutateTrinoConfig dp coordCfg workerCfg accessControl s =
     s\<lparr>secMeta := ensureLabels (labelsFor dp componentTrinoCoordinator) (secMeta s),
       secType := SecretTypeOpaque,
       secData := setIf (accessControl \<noteq> []) ''access-control.properties'' accessControl (fmap_of_list [
         (''config.properties.coordinator'', coordCfg),
         (''config.properties.worker'', workerCfg)])\<rparr>"

definition applyTrinoConfigMap ::
  "'w reconciler \<Rightarrow> dataplatform \<Rightarrow> string \<Rightarrow> string \<Rightarrow> string \<Rightarrow> string \<Rightarrow> ('w st, unit) go" where
  "applyTrinoConfigMap r dp ns coordCfg workerCfg accessControl =
     handleE (liftL (kDeleteConfigMap (rClient r) secretTrinoConfig ns)) (\<lambda>_.
     applySecret r dp (newSecret secretTrinoConfig ns)
       (\<lambda>s. Inr (mutateTrinoConfig dp coordCfg workerCfg accessControl s)))"

definition mutateTrinoCatalog :: "dataplatform \<Rightarrow> smap \<Rightarrow> secret \<Rightarrow> secret" where
  "mutateTrinoCatalog dp data s =
     s\<lparr>secMeta := ensureLabels (labelsFor dp componentTrinoCoordinator) (secMeta s),
       secType := SecretTypeOpaque, secData := data\<rparr>"

definition applyTrinoCatalogSecret ::
  "'w reconciler \<Rightarrow> dataplatform \<Rightarrow> string \<Rightarrow> smap \<Rightarrow> ('w st, unit) go" where
  "applyTrinoCatalogSecret r dp ns data =
     applySecret r dp (newSecret secretTrinoCatalog ns) (\<lambda>s. Inr (mutateTrinoCatalog dp data s))"

definition mutateTrinoService :: "dataplatform \<Rightarrow> service \<Rightarrow> service" where
  "mutateTrinoService dp svc =
     (let labels = labelsFor dp componentTrinoCoordinator
      in svc\<lparr>svcMeta := ensureLabels labels (svcMeta svc),
           svcType := ServiceSpec_TypeOrDefault (trService (spTrino (dpSpec dp))),
           svcSelector := labels,
           svcPorts := [\<lparr>spName = portNameHTTP, spPort = trinoPort, spTargetPort = trinoPort\<rparr>]\<rparr>)"

definition applyTrinoService :: "'w reconciler \<Rightarrow> dataplatform \<Rightarrow> string \<Rightarrow> ('w st, unit) go" where
  "applyTrinoService r dp ns =
     applyService r dp (newService nameTrino ns) (\<lambda>svc. Inr (mutateTrinoService dp svc))"

section \<open>Deployments\<close>

definition trinoPodSpec ::
  "string \<Rightarrow> string \<Rightarrow> resource_requirements \<Rightarrow> env_var list \<Rightarrow> bool \<Rightarrow> bool \<Rightarrow> pod_spec" where
  "trinoPodSpec img configKey resources env oauth opa =
     (let handler = (if oauth then TCPSocket trinoPort else HTTPGet ''/v1/info'' trinoPort);
          mounts = [
            (mountAt volumeConfig ''/etc/trino/config.properties'')\<lparr>vmSubPath := configKey\<rparr>,
            mountAt ''catalog'' ''/etc/trino/catalog'']
            @ (if opa then [(mountAt volumeConfig ''/etc/trino/access-control.properties'')
                \<lparr>vmSubPath := ''access-control.properties''\<rparr>] else [])
      in zeroPodSpec\<lparr>
        podSecurity := Some (restrictedPodSecurity uidTrino gidTrino),
        podContainers := [zeroContainer\<lparr>
          ctName := nameTrino,
          ctImage := img,
          ctPorts := [\<lparr>cpName = portNameHTTP, cpPort = trinoPort\<rparr>],
          ctEnv := env,
          ctMounts := mounts,
          ctReadiness := Some \<lparr>prHandler = handler, prInitialDelay = 0, prPeriod = 10\<rparr>,
          ctResources := resources,
          ctSecurity := Some (restrictedContainerSecurity uidTrino gidTrino)\<rparr>],
        podVolumes := [
          \<lparr>volName = volumeConfig, volSource = SecretVolume secretTrinoConfig\<rparr>,
          \<lparr>volName = ''catalog'', volSource = SecretVolume secretTrinoCatalog\<rparr>]\<rparr>)"

text \<open>The closures of both Deployments, which differ in component, replicas and pod.\<close>

definition mutateTrinoDeployment ::
  "smap \<Rightarrow> int \<Rightarrow> string \<Rightarrow> pod_spec \<Rightarrow> deployment \<Rightarrow> deployment" where
  "mutateTrinoDeployment labels replicas cfgHash spec deploy0 =
     (let deploy = initDeployment labels (deploy0\<lparr>depMeta := ensureLabels labels (depMeta deploy0)\<rparr>);
          template = depTemplate deploy
      in deploy\<lparr>depReplicas := Some replicas,
           depTemplate := template\<lparr>
             ptAnnotations := fmupd annotationConfigHash cfgHash (ptAnnotations template),
             ptLabels := labels,
             ptSpec := spec\<rparr>\<rparr>)"

definition applyTrinoCoordinator ::
  "'w reconciler \<Rightarrow> dataplatform \<Rightarrow> string \<Rightarrow> string \<Rightarrow> bool \<Rightarrow> bool \<Rightarrow> ('w st, unit) go" where
  "applyTrinoCoordinator r dp ns cfgHash oauth opa =
     (let spec = spTrino (dpSpec dp)
      in applyDeployment r dp (newDeployment nameTrino ns) (\<lambda>d. Inr (mutateTrinoDeployment
           (labelsFor dp componentTrinoCoordinator) 1 cfgHash
           (trinoPodSpec (TrinoSpec_ImageOrDefault spec) ''config.properties.coordinator''
             (tcResources (trCoordinator spec)) (trExtraEnv spec) oauth opa) d)))"

text \<open>\<open>client.IgnoreNotFound\<close> of a call's error.\<close>

definition ignoreNotFound :: "('s, unit) go \<Rightarrow> ('s, unit) go" where
  "ignoreNotFound m = handleE m (\<lambda>q. case q of
      Inl e \<Rightarrow> if IsNotFound e then ret () else fail e
    | Inr _ \<Rightarrow> ret ())"

definition reconcileTrinoWorkers :: "'w reconciler \<Rightarrow> dataplatform \<Rightarrow> string \<Rightarrow> string \<Rightarrow> ('w st, unit) go" where
  "reconcileTrinoWorkers r dp ns cfgHash =
     (let spec = spTrino (dpSpec dp); workers = TrinoSpec_WorkersOrDefault spec
      in if workers = 0 then
           handleE (liftL (kGetDeployment (rClient r) nameTrinoWorker ns)) (\<lambda>q. case q of
             Inl e \<Rightarrow> if IsNotFound e then ret () else fail e
           | Inr deploy \<Rightarrow> ignoreNotFound (liftL (kDeleteDeployment (rClient r)
               (omName (depMeta deploy)) (omNamespace (depMeta deploy)))))
         else applyDeployment r dp (newDeployment nameTrinoWorker ns) (\<lambda>d. Inr (mutateTrinoDeployment
           (labelsFor dp componentTrinoWorker) workers cfgHash
           (trinoPodSpec (TrinoSpec_ImageOrDefault spec) ''config.properties.worker''
             (trResources spec) (trExtraEnv spec) False False) d)))"

section \<open>Reconciling\<close>

definition reconcileTrino ::
  "object_store \<Rightarrow> oidc_config \<Rightarrow> openfga_config \<Rightarrow> 'w reconciler \<Rightarrow> dataplatform \<Rightarrow> ('w st, unit) go" where
  "reconcileTrino store oidc fga r dp =
     (let spec = spTrino (dpSpec dp);
          ns = TrinoSpec_NamespaceOrDefault spec;
          c = ConditionTrinoReady
      in bindE (modifyR (\<lambda>st. st\<lparr>dsTrinoEndpoint := clusterServiceURL nameTrino ns trinoPort\<rparr>)) (\<lambda>_.
         bindE (trinoCatalogData r dp store oidc) (\<lambda>(catalogData, catalogHash).
         stage r dp c (trinoSharedSecret r dp ns oidc) (\<lambda>sharedSecret.
         let coordCfg = trinoConfigProperties True (TrinoSpec_WorkersOrDefault spec = 0) ns
               (trExtraConfig spec) oidc (trPublicURL spec) sharedSecret;
             workerCfg = trinoConfigProperties False False ns (trExtraConfig spec) zeroOIDC [] sharedSecret;
             opaURL = (if fgEnabled fga \<and> ocEnabled oidc then fgOpaURL fga else []);
             accessControl = trinoAccessControlProperties opaURL
               (AuthzSpec_HasRowFilters (spAuthz (dpSpec dp))) (AuthzSpec_HasColumnAccess (spAuthz (dpSpec dp)));
             cfgHash = hashData (rLib r) [coordCfg, workerCfg, catalogHash, accessControl]
         in stage r dp c (applyTrinoConfigMap r dp ns coordCfg workerCfg accessControl) (\<lambda>_.
            stage r dp c (applyTrinoCatalogSecret r dp ns catalogData) (\<lambda>_.
            stage r dp c (applyTrinoService r dp ns) (\<lambda>_.
            stage r dp c (applyTrinoCoordinator r dp ns cfgHash
              (trinoUIAuthEnabled oidc (trPublicURL spec)) (opaURL \<noteq> [])) (\<lambda>_.
            stage r dp c (reconcileTrinoWorkers r dp ns cfgHash) (\<lambda>_.
            stage r dp c (deploymentReady r ns nameTrino) (\<lambda>ready.
            if \<not> ready then
              bindE (setCondition r dp c ConditionFalse reasonNotReady ''Trino coordinator is not ready'') (\<lambda>_.
              ret ())
            else
              bindE (setCondition r dp c ConditionTrue reasonReady ''Trino is ready'') (\<lambda>_.
              ret ()))))))))))) "

section \<open>Contracts\<close>

lemma frame_trinoCatalogData [frame_intro]: "frame t v (trinoCatalogData r dp store oidc)"
  by (rule keepsI) (auto simp: trinoCatalogData_def split: prod.splits)

lemma frame_trino_objects [frame_intro]:
  "frame t v (trinoSharedSecret r dp ns oidc)" "frame t v (applyTrinoConfigMap r dp ns a b ac)"
  "frame t v (applyTrinoCatalogSecret r dp ns data)" "frame t v (applyTrinoService r dp ns)"
  "frame t v (applyTrinoCoordinator r dp ns h oauth opa)" "frame t v (reconcileTrinoWorkers r dp ns h)"
  unfolding trinoSharedSecret_def applyTrinoConfigMap_def applyTrinoCatalogSecret_def applyTrinoService_def
    applyTrinoCoordinator_def reconcileTrinoWorkers_def ignoreNotFound_def Let_def
  by (intro keeps_intro frame_intro)+

lemma frame_reconcileTrino:
  "conditions_ok (rLib r) \<Longrightarrow> t \<noteq> ConditionTrinoReady \<Longrightarrow> frame t v (reconcileTrino store oidc fga r dp)"
  unfolding reconcileTrino_def Let_def by (intro keeps_intro frame_intro) auto

lemma reports_trinoCatalogData [report_intro]:
  "(\<And>x. reports dp c (f x) Q) \<Longrightarrow> reports dp c (bindE (trinoCatalogData r dp store oidc) f) Q"
  by (rule hoare_bindE [where R = "\<lambda>_ _. True"])
    (auto intro!: hoareI simp: trinoCatalogData_def split: prod.splits)

lemma reports_prod_case [report_intro]:
  "(\<And>a b. x = (a, b) \<Longrightarrow> reports dp c (f a b) Q) \<Longrightarrow> reports dp c (case x of (a, b) \<Rightarrow> f a b) Q"
  by (cases x) simp

lemma reports_reconcileTrino:
  "conditions_ok (rLib r) \<Longrightarrow> reports dp ConditionTrinoReady (reconcileTrino store oidc fga r dp)
     (\<lambda>_ s. settled dp ConditionTrinoReady (snd s))"
  unfolding reconcileTrino_def Let_def by (intro report_intro) auto

interpretation trino: component "reconcileTrino store oidc fga" ConditionTrinoReady for store oidc fga
  by (rule componentI) (auto intro: reports_reconcileTrino frame_reconcileTrino)

interpretation trino_config: mutation "mutateTrinoConfig dp a b ac" for dp a b ac
  by unfold_locales (simp add: mutateTrinoConfig_def ensureLabels_def)

interpretation trino_catalog: mutation "mutateTrinoCatalog dp data" for dp data
  by unfold_locales (simp add: mutateTrinoCatalog_def ensureLabels_def)

interpretation trino_service: mutation "mutateTrinoService dp" for dp
  by unfold_locales (simp add: mutateTrinoService_def Let_def ensureLabels_def)

interpretation trino_deployment: mutation "mutateTrinoDeployment labels n h spec" for labels n h spec
  by unfold_locales (simp add: mutateTrinoDeployment_def initDeployment_def Let_def ensureLabels_def)

section \<open>Properties files read back\<close>

text \<open>How a properties file is read: one entry for each line, the key up to the first equals sign.\<close>

fun splitLines :: "string \<Rightarrow> string \<Rightarrow> string list" where
  "splitLines cur [] = (if cur = [] then [] else [cur])"
| "splitLines cur (c # s) = (if c = CHR 0x0A then cur # splitLines [] s else splitLines (cur @ [c]) s)"

definition parseLine :: "string \<Rightarrow> string \<times> string" where
  "parseLine l = (takeWhile (\<lambda>c. c \<noteq> CHR ''='') l, drop 1 (dropWhile (\<lambda>c. c \<noteq> CHR ''='') l))"

definition parseProperties :: "string \<Rightarrow> smap" where
  "parseProperties s = fmap_of_list (map parseLine (splitLines [] s))"

definition plainProperties :: "smap \<Rightarrow> bool" where
  "plainProperties props \<longleftrightarrow> (\<forall>k v. fmlookup props k = Some v \<longrightarrow>
     CHR ''='' \<notin> set k \<and> CHR 0x0A \<notin> set k \<and> CHR 0x0A \<notin> set v)"

lemma splitLines_line: "CHR 0x0A \<notin> set l \<Longrightarrow> splitLines cur (l @ CHR 0x0A # s) = (cur @ l) # splitLines [] s"
  by (induction l arbitrary: cur) auto

lemma splitLines_concat:
  "(\<And>k. k \<in> set ks \<Longrightarrow> CHR 0x0A \<notin> set (f k)) \<Longrightarrow>
     splitLines [] (concat (map (\<lambda>k. f k @ [CHR 0x0A]) ks)) = map f ks"
  by (induction ks) (simp_all add: splitLines_line)

lemma parseLine_entry: "CHR ''='' \<notin> set k \<Longrightarrow> parseLine (k @ CHR ''='' # v) = (k, v)"
  by (induction k) (auto simp: parseLine_def)

lemma sortedKeys_lookup: "k \<in> set (sortedKeys m) \<Longrightarrow> \<exists>v. fmlookup m k = Some v"
  by (auto simp: fmlookup_dom_iff)


section \<open>What the files say\<close>

lemma setIf_lookup: "fmlookup (setIf b k v m) k' = (if b \<and> k' = k then Some v else fmlookup m k')"
  by (simp add: setIf_def)

text \<open>
  C19. Only the coordinator authenticates users, and only when it can: unless the user's own
  \<open>extraConfig\<close> sets it, the configuration names an authentication type exactly for the coordinator of
  a platform with authentication and a public URL, and it is OAuth2. Whatever \<open>extraConfig\<close> sets wins.
\<close>

theorem trinoConfig_authentication:
  "fmlookup (trinoConfigMapOf coordinator ic ns extra oidc publicURL secret) ''http-server.authentication.type'' =
     (case fmlookup extra ''http-server.authentication.type'' of
        Some v \<Rightarrow> Some v
      | None \<Rightarrow> if coordinator \<and> ocEnabled oidc \<and> trimSlash publicURL \<noteq> [] then Some ''oauth2'' else None)"
  by (simp add: trinoConfigMapOf_def trinoOAuthProperties_def trinoUIAuthEnabled_def Let_def setIf_lookup
      fmlookup_of_list split: option.split)


section \<open>Catalogs and their order\<close>

lemma extraCatalogs_lookup:
  "fmlookup (fst (extraCatalogs m order data parts)) (n @ ''.properties'') =
     (if n \<noteq> nameLakekeeper \<and> n \<in> set order then Some (the (fmlookup m n))
      else fmlookup data (n @ ''.properties''))"
  by (induction m order data parts rule: extraCatalogs.induct) auto

lemma extraCatalogs_dom:
  "fmlookup (fst (extraCatalogs m order data parts)) k = Some v \<Longrightarrow> fmlookup data k = None \<Longrightarrow>
     \<exists>n. k = n @ ''.properties''"
proof (induction m order data parts rule: extraCatalogs.induct)
  case (2 m name order data parts)
  then show ?case by (cases "k = name @ ''.properties''") (auto split: if_splits)
qed simp

lemma extraCatalogs_parts:
  "snd (extraCatalogs m order data parts) =
     parts @ concat (map (\<lambda>n. [n, the (fmlookup m n)]) (filter (\<lambda>n. n \<noteq> nameLakekeeper) order))"
  by (induction m order data parts rule: extraCatalogs.induct) auto

lemma trinoCatalogParts_data:
  "fmlookup (fst (trinoCatalogParts dp store oidc order)) (n @ ''.properties'') =
     (if n = nameLakekeeper then
        (if LakekeeperSpec_IsEnabled (spLakekeeper (dpSpec dp))
         then Some (lakekeeperCatalogProperties dp store oidc) else None)
      else if n \<in> set order then Some (the (fmlookup (trExtraCatalogs (spTrino (dpSpec dp))) n)) else None)"
proof (cases "n = nameLakekeeper")
  case True
  then show ?thesis
    using extraCatalogs_lookup [where n = nameLakekeeper]
    by (simp add: trinoCatalogParts_def Let_def)
next
  case False
  then show ?thesis by (simp add: trinoCatalogParts_def Let_def extraCatalogs_lookup)
qed

lemma trinoCatalogParts_keys:
  "fmlookup (fst (trinoCatalogParts dp store oidc order)) k = Some v \<Longrightarrow> \<exists>n. k = n @ ''.properties''"
  by (cases "k = nameLakekeeper @ ''.properties''")
    (auto simp: trinoCatalogParts_def Let_def dest!: extraCatalogs_dom split: prod.splits if_splits)

text \<open>
  C23. The catalogs Trino gets do not depend on the order in which Go ranges over \<open>extraCatalogs\<close>: the
  Secret holds one file for each extra catalog, and the file of the catalog \<open>lakekeeper\<close> is the
  operator's own when LakeKeeper is enabled and absent when it is not, never the user's.
\<close>

theorem trinoCatalogData_any_order:
  assumes "set order = fset (fmdom (trExtraCatalogs (spTrino (dpSpec dp))))"
  shows "fmlookup (fst (trinoCatalogParts dp store oidc order)) (n @ ''.properties'') =
     (if n = nameLakekeeper then
        (if LakekeeperSpec_IsEnabled (spLakekeeper (dpSpec dp))
         then Some (lakekeeperCatalogProperties dp store oidc) else None)
      else fmlookup (trExtraCatalogs (spTrino (dpSpec dp))) n) \<and>
   (fmlookup (fst (trinoCatalogParts dp store oidc order)) k \<noteq> None \<longrightarrow> (\<exists>n. k = n @ ''.properties''))"
  using assms trinoCatalogParts_keys
  by (auto simp: trinoCatalogParts_data fmlookup_dom_iff intro: fmdom_notD)

text \<open>
  C24. The hash that rolls Trino's pods does depend on that order: with two extra catalogs, ranging over
  them one way or the other gives the same catalogs and different bytes to hash, so a reconcile that
  changes nothing may still change the annotation.
\<close>

theorem trinoCatalogHash_order_dependent:
  assumes cats: "trExtraCatalogs (spTrino (dpSpec dp)) = fmap_of_list [(a, x), (b, y)]"
    and "a \<noteq> b" and "a \<noteq> nameLakekeeper" and "b \<noteq> nameLakekeeper"
    and nul: "CHR 0x00 \<notin> set a \<union> set b \<union> set x \<union> set y"
    and off: "\<not> LakekeeperSpec_IsEnabled (spLakekeeper (dpSpec dp))"
  shows "fst (trinoCatalogParts dp store oidc [a, b]) = fst (trinoCatalogParts dp store oidc [b, a]) \<and>
     hashInput (snd (trinoCatalogParts dp store oidc [a, b])) \<noteq>
     hashInput (snd (trinoCatalogParts dp store oidc [b, a]))"
proof
  show "fst (trinoCatalogParts dp store oidc [a, b]) = fst (trinoCatalogParts dp store oidc [b, a])"
    using assms(2-4) off by (simp add: trinoCatalogParts_def Let_def cats fmupd_reorder_neq)
  have parts: "snd (trinoCatalogParts dp store oidc [a, b]) = [a, x, b, y]"
    "snd (trinoCatalogParts dp store oidc [b, a]) = [b, y, a, x]"
    using assms(2-4) off by (simp_all add: trinoCatalogParts_def Let_def cats fmlookup_of_list)
  show "hashInput (snd (trinoCatalogParts dp store oidc [a, b])) \<noteq>
      hashInput (snd (trinoCatalogParts dp store oidc [b, a]))"
  proof
    assume "hashInput (snd (trinoCatalogParts dp store oidc [a, b])) =
      hashInput (snd (trinoCatalogParts dp store oidc [b, a]))"
    then have "hashInput [a, x, b, y] = hashInput [b, y, a, x]" by (simp only: parts)
    then have "a @ CHR 0x00 # hashInput [x, b, y] = b @ CHR 0x00 # hashInput [y, a, x]"
      by (simp add: hashInput_def)
    then have "a = b" using nul append_nul_inj [of a b] by auto
    with \<open>a \<noteq> b\<close> show False ..
  qed
qed

end
