(* ===== verification/Controller.thy ===== *)
theory Controller
  imports Warehouse Opa Lakekeeper Trino
begin

text \<open>
  The reconcile loop (internal/controller/dataplatform\_controller.go): the LakeKeeper stack, then the
  Trino stack, then the platform's Ready condition and when to come back; and what it promises, which
  rests on the contracts that the components' theories interpret.
\<close>

section \<open>The stacks\<close>

definition zeroObjectStore :: object_store where
  "zeroObjectStore = \<lparr>osBucket = [], osRegion = [], osEndpoint = [], osPathStyleAccess = False,
     osFlavor = [], osSTSEnabled = False, osSTSRoleARN = [], osAccessKeyID = [], osSecretAccessKey = []\<rparr>"

type_synonym stack_result = "bool \<times> object_store \<times> oidc_config \<times> openfga_config"

definition disabledLakekeeperStack :: "'w reconciler \<Rightarrow> dataplatform \<Rightarrow> ('w st, stack_result) go" where
  "disabledLakekeeperStack r dp =
     (let off = (\<lambda>c. setCondition r dp c ConditionTrue reasonDisabled ''LakeKeeper is disabled'')
      in bindE (off ConditionMinioReady) (\<lambda>_.
         bindE (off ConditionPostgresReady) (\<lambda>_.
         bindE (off ConditionLakekeeperReady) (\<lambda>_.
         bindE (off ConditionWarehouseReady) (\<lambda>_.
         bindE (off ConditionOpenFGAReady) (\<lambda>_.
         bindE (whenE (\<not> AuthSpec_IsEnabled (spAuth (dpSpec dp))) (off ConditionAuthReady)) (\<lambda>_.
         ret (False, zeroObjectStore, zeroOIDC, zeroOpenFGA))))))))"

text \<open>The step between authorization and the warehouse: deploy LakeKeeper, or say what it waits for.\<close>

definition lakekeeperWhenAllowed ::
  "postgres_conn \<Rightarrow> oidc_config \<Rightarrow> bool \<Rightarrow> openfga_config \<Rightarrow> bool \<Rightarrow> 'w reconciler \<Rightarrow> dataplatform \<Rightarrow> ('w st, unit) go" where
  "lakekeeperWhenAllowed conn oidc authReady fga fgaReady r dp =
     (if authReady \<and> fgaReady then reconcileLakekeeper conn oidc fga r dp
      else if \<not> authReady then setCondition r dp ConditionLakekeeperReady ConditionFalse reasonNotReady
        ''Waiting for identity provider''
      else setCondition r dp ConditionLakekeeperReady ConditionFalse reasonNotReady ''Waiting for OpenFGA'')"

definition warehouseWhenReady ::
  "object_store \<Rightarrow> bool \<Rightarrow> oidc_config \<Rightarrow> bool \<Rightarrow> openfga_config \<Rightarrow> bool \<Rightarrow> 'w reconciler \<Rightarrow> dataplatform \<Rightarrow>
   ('w st, stack_result) go" where
  "warehouseWhenReady store storeReady oidc authReady fga fgaReady r dp =
     bindE (getsR (\<lambda>st. \<not> conditionTrue r ConditionPostgresReady st \<or>
         \<not> conditionTrue r ConditionLakekeeperReady st \<or> \<not> authReady \<or> \<not> fgaReady \<or> \<not> storeReady)) (\<lambda>progressing.
     if progressing then ret (True, store, oidc, fga)
     else
       bindE (reconcileWarehouse store oidc r dp) (\<lambda>_.
       bindE (getsR (\<lambda>st. \<not> conditionTrue r ConditionWarehouseReady st)) (\<lambda>waiting.
       ret (waiting, store, oidc, fga))))"

definition reconcileLakekeeperStack :: "'w reconciler \<Rightarrow> dataplatform \<Rightarrow> ('w st, stack_result) go" where
  "reconcileLakekeeperStack r dp =
     (if \<not> LakekeeperSpec_IsEnabled (spLakekeeper (dpSpec dp)) then disabledLakekeeperStack r dp
      else
        let ns = LakekeeperSpec_NamespaceOrDefault (spLakekeeper (dpSpec dp))
        in bindE (ensureNamespace r dp ns componentLakekeeper) (\<lambda>_.
           bindE (reconcilePostgres r dp) (\<lambda>conn.
           bindE (reconcileObjectStore r dp) (\<lambda>(store, storeReady).
           bindE (reconcileAuth r dp) (\<lambda>(oidc, authReady).
           bindE (reconcileAuthz r dp) (\<lambda>(fga, fgaReady).
           bindE (lakekeeperWhenAllowed conn oidc authReady fga fgaReady r dp) (\<lambda>_.
           warehouseWhenReady store storeReady oidc authReady fga fgaReady r dp)))))))"

definition reconcileTrinoStack ::
  "object_store \<Rightarrow> oidc_config \<Rightarrow> openfga_config \<Rightarrow> 'w reconciler \<Rightarrow> dataplatform \<Rightarrow> ('w st, bool) go" where
  "reconcileTrinoStack store oidc fga r dp =
     (if \<not> TrinoSpec_IsEnabled (spTrino (dpSpec dp)) then
        bindE (setCondition r dp ConditionTrinoReady ConditionTrue reasonDisabled ''Trino is disabled'') (\<lambda>_.
        ret False)
      else
        let ns = TrinoSpec_NamespaceOrDefault (spTrino (dpSpec dp))
        in bindE (ensureNamespace r dp ns componentTrinoCoordinator) (\<lambda>_.
           bindE (reconcileOPA r dp oidc fga) (\<lambda>_.
           bindE (reconcileTrino store oidc fga r dp) (\<lambda>_.
           bindE (getsR (\<lambda>st. \<not> conditionTrue r ConditionTrinoReady st)) ret))))"

section \<open>The loop\<close>

text \<open>\<open>ctrl.Result\<close>: seconds after which to come back, 0 for not at all.\<close>

record ctrl_result =
  rsRequeueAfter :: nat

definition requeueWhileProgressing :: nat where
  "requeueWhileProgressing = 15"

text \<open>\<open>if err != nil { setCondition(Ready, False, Error, err.Error()); return err }\<close> is \<open>stage\<close> at Ready.\<close>

definition reconcile :: "'w reconciler \<Rightarrow> dataplatform \<Rightarrow> ('w st, ctrl_result) go" where
  "reconcile r dp =
     stage r dp ConditionReady (reconcileLakekeeperStack r dp) (\<lambda>(progressing, store, oidc, fga).
     stage r dp ConditionReady (reconcileTrinoStack store oidc fga r dp) (\<lambda>trinoProgressing.
     if progressing \<or> trinoProgressing then
       bindE (setCondition r dp ConditionReady ConditionFalse reasonReconciling
         ''Waiting for enabled components to become ready'') (\<lambda>_.
       ret \<lparr>rsRequeueAfter = requeueWhileProgressing\<rparr>)
     else
       bindE (setCondition r dp ConditionReady ConditionTrue reasonReady ''All enabled components are ready'') (\<lambda>_.
       ret \<lparr>rsRequeueAfter = 0\<rparr>)))"

text \<open>Run on a status of one's own, which is dropped at the end.\<close>

definition withStatus :: "dp_status \<Rightarrow> ('w st, 'a) go \<Rightarrow> ('w, 'a) go" where
  "withStatus st m = (\<lambda>w. case m (w, st) of None \<Rightarrow> None | Some (q, (w', _)) \<Rightarrow> Some (q, w'))"

definition Reconcile :: "'w reconciler \<Rightarrow> string \<Rightarrow> ('w, ctrl_result) go" where
  "Reconcile r name =
     handleE (kGetDataPlatform (rClient r) name) (\<lambda>q. case q of
       Inl e \<Rightarrow> if IsNotFound e then ret \<lparr>rsRequeueAfter = 0\<rparr> else fail e
     | Inr (dp, st) \<Rightarrow>
         withStatus st (
           handleE (reconcile r dp) (\<lambda>result.
           bindE (patchStatus r dp) (\<lambda>_.
           pureE result))))"

section \<open>What the contracts say of one step\<close>

abbreviation T :: "'w reconciler \<Rightarrow> 'w st \<Rightarrow> string \<Rightarrow> bool" where
  "T r s t \<equiv> conditionTrue r t (snd s)"

text \<open>A step keeps what is known of the conditions of the others; \<open>J\<close> may speak of any but \<open>c\<close>'s.\<close>

definition ignores :: "'w reconciler \<Rightarrow> string \<Rightarrow> ('w st \<Rightarrow> bool) \<Rightarrow> bool" where
  "ignores r c J \<longleftrightarrow> (\<forall>s s'. (\<forall>t. t \<noteq> c \<longrightarrow> T r s' t = T r s t) \<longrightarrow> J s \<longrightarrow> J s')"

lemma ignores_true: "ignores r c (\<lambda>_. True)"
  by (simp add: ignores_def)

lemma ignores_conj: "ignores r c J \<Longrightarrow> ignores r c K \<Longrightarrow> ignores r c (\<lambda>s. J s \<and> K s)"
  unfolding ignores_def by blast

lemma ignores_T: "t \<noteq> c \<Longrightarrow> ignores r c (\<lambda>s. T r s t = b)"
  by (simp add: ignores_def)

lemma ignores_all: "c \<notin> A \<Longrightarrow> ignores r c (\<lambda>s. b \<longleftrightarrow> (\<forall>t \<in> A. T r s t))"
  unfolding ignores_def by metis

lemma ignores_iff: "t \<noteq> c \<Longrightarrow> ignores r c (\<lambda>s. b \<longleftrightarrow> T r s t)"
  unfolding ignores_def by simp

lemma keeps_others:
  assumes ok: "conditions_ok (rLib r)" and fr: "\<And>t v. t \<noteq> c \<Longrightarrow> frame t v m"
    and "ignores r c J"
  shows "keeps J m"
proof (rule keepsI)
  fix s q s' assume "J s" and run: "m s = Some (q, s')"
  have "T r s' t = T r s t" if "t \<noteq> c" for t
    using keepsD [OF fr [OF that] run] by (intro conditionTrue_eqI [OF ok]) simp
  with \<open>J s\<close> \<open>ignores r c J\<close> show "J s'" unfolding ignores_def by blast
qed

context component
begin

lemma step:
  assumes ok: "conditions_ok (rLib r)" and "ignores r ctype J"
  shows "hoare J (run r dp) (\<lambda>_. J) (\<lambda>_ _. True)"
  by (rule hoare_weaken [OF hoare_keeps [OF keeps_others [OF ok leaves_others [OF ok] assms(2)]]]) auto

end

context gated_component
begin

lemma gated_step:
  assumes ok: "conditions_ok (rLib r)" and J: "ignores r ctype J"
  shows "hoare J (run r dp) (\<lambda>x s. J s \<and> T r s ctype = is_ready x) (\<lambda>_ _. True)"
proof (rule hoareI)
  fix s x s' assume "J s" and run: "run r dp s = Some (Inr x, s')"
  then show "J s' \<and> T r s' ctype = is_ready x"
    using hoareD_ok [OF step [OF ok J] _ run] ready_iff [OF ok run] by simp
qed simp

end

lemma hoare_any: "hoare P m (\<lambda>_ _. True) (\<lambda>_ _. True)"
  by (rule hoareI) simp_all

lemma hoare_getsR: "hoare P (getsR f) (\<lambda>x s. P s \<and> x = f (snd s)) E"
  by (rule hoareI) (auto simp: getsR_def)

lemma hoare_split: "(\<And>a b. hoare (P (a, b)) (f a b) Q E) \<Longrightarrow> hoare (P x) (case x of (a, b) \<Rightarrow> f a b) Q E"
  by (cases x) simp

section \<open>The LakeKeeper stack\<close>

lemma lakekeeperWhenAllowed_step:
  assumes ok: "conditions_ok (rLib r)" and J: "ignores r ConditionLakekeeperReady J"
  shows "hoare J (lakekeeperWhenAllowed conn oidc a fga f r dp) (\<lambda>_. J) (\<lambda>_ _. True)"
proof -
  have set: "keeps J (setCondition r dp ConditionLakekeeperReady b reason msg)" for b reason msg
    by (rule keeps_others [OF ok _ J]) (auto intro: frame_setCondition [OF ok])
  show ?thesis
    unfolding lakekeeperWhenAllowed_def
    by (intro hoare_if lakekeeper.step [OF ok J] hoare_weaken [OF hoare_keeps [OF set]]) auto
qed

abbreviation lakekeeperConditions :: "string list" where
  "lakekeeperConditions \<equiv> [ConditionPostgresReady, ConditionMinioReady, ConditionAuthReady,
     ConditionOpenFGAReady, ConditionLakekeeperReady, ConditionWarehouseReady]"

lemma warehouseWhenReady_done:
  assumes ok: "conditions_ok (rLib r)"
  shows "hoare (\<lambda>s. (T r s ConditionMinioReady = storeReady \<and> T r s ConditionAuthReady = authReady) \<and>
        T r s ConditionOpenFGAReady = fgaReady)
     (warehouseWhenReady store storeReady oidc authReady fga fgaReady r dp)
     (\<lambda>(progressing, _) s. \<not> progressing \<longleftrightarrow> (\<forall>t \<in> set lakekeeperConditions. T r s t)) (\<lambda>_ _. True)"
proof -
  let ?J = "\<lambda>s. \<forall>t \<in> {ConditionPostgresReady, ConditionMinioReady, ConditionAuthReady,
     ConditionOpenFGAReady, ConditionLakekeeperReady}. T r s t"
  have J: "ignores r ConditionWarehouseReady ?J" by (auto simp: ignores_def)
  show ?thesis
    unfolding warehouseWhenReady_def
  proof (rule hoare_bindE [OF hoare_getsR], rule hoare_if)
    fix progressing assume p: "\<not> progressing"
    have "hoare ?J (bindE (reconcileWarehouse store oidc r dp) (\<lambda>_.
        bindE (getsR (\<lambda>st. \<not> conditionTrue r ConditionWarehouseReady st)) (\<lambda>waiting.
        ret (waiting, store, oidc, fga))))
      (\<lambda>(progressing, _) s. \<not> progressing \<longleftrightarrow> (\<forall>t \<in> set lakekeeperConditions. T r s t)) (\<lambda>_ _. True)"
      by (rule hoare_bindE [OF warehouse.step [OF ok J]], rule hoare_bindE [OF hoare_getsR])
        (auto intro!: hoare_ret)
    then show "hoare (\<lambda>s. ((T r s ConditionMinioReady = storeReady \<and> T r s ConditionAuthReady = authReady) \<and>
          T r s ConditionOpenFGAReady = fgaReady) \<and>
          progressing = (\<not> conditionTrue r ConditionPostgresReady (snd s) \<or>
            \<not> conditionTrue r ConditionLakekeeperReady (snd s) \<or> \<not> authReady \<or> \<not> fgaReady \<or> \<not> storeReady))
        (bindE (reconcileWarehouse store oidc r dp) (\<lambda>_.
          bindE (getsR (\<lambda>st. \<not> conditionTrue r ConditionWarehouseReady st)) (\<lambda>waiting.
          ret (waiting, store, oidc, fga))))
        (\<lambda>(progressing, _) s. \<not> progressing \<longleftrightarrow> (\<forall>t \<in> set lakekeeperConditions. T r s t)) (\<lambda>_ _. True)"
      by (rule hoare_weaken) (use p in auto)
  qed (auto intro: hoare_ret)
qed

lemma lakekeeperStack_done:
  assumes ok: "conditions_ok (rLib r)" and on: "LakekeeperSpec_IsEnabled (spLakekeeper (dpSpec dp))"
  shows "hoare (\<lambda>_. True) (reconcileLakekeeperStack r dp)
     (\<lambda>(progressing, _) s. \<not> progressing \<longleftrightarrow> (\<forall>t \<in> set lakekeeperConditions. T r s t)) (\<lambda>_ _. True)"
  unfolding reconcileLakekeeperStack_def Let_def
proof (rule hoare_if)
  let ?ns = "LakekeeperSpec_NamespaceOrDefault (spLakekeeper (dpSpec dp))"
  show "hoare (\<lambda>_. True) (bindE (ensureNamespace r dp ?ns componentLakekeeper) (\<lambda>_.
      bindE (reconcilePostgres r dp) (\<lambda>conn.
      bindE (reconcileObjectStore r dp) (\<lambda>(store, storeReady).
      bindE (reconcileAuth r dp) (\<lambda>(oidc, authReady).
      bindE (reconcileAuthz r dp) (\<lambda>(fga, fgaReady).
      bindE (lakekeeperWhenAllowed conn oidc authReady fga fgaReady r dp) (\<lambda>_.
      warehouseWhenReady store storeReady oidc authReady fga fgaReady r dp)))))))
    (\<lambda>(progressing, _) s. \<not> progressing \<longleftrightarrow> (\<forall>t \<in> set lakekeeperConditions. T r s t)) (\<lambda>_ _. True)"
    by (rule hoare_bindE [OF hoare_any], rule hoare_bindE [OF hoare_any],
      rule hoare_bindE [OF object_store.gated_step [OF ok ignores_true]], rule hoare_split,
      rule hoare_bindE [OF auth.gated_step [OF ok]], (simp add: ignores_def; fail), rule hoare_split,
      rule hoare_bindE [OF authz.gated_step [OF ok]], (simp add: ignores_def; fail), rule hoare_split,
      rule hoare_bindE [OF lakekeeperWhenAllowed_step [OF ok]], (simp add: ignores_def; fail),
      rule hoare_weaken [OF warehouseWhenReady_done [OF ok]]) auto
qed (use on in simp)

text \<open>Setting a condition decides it and leaves what is known of the others.\<close>

lemma setCondition_step:
  assumes ok: "conditions_ok (rLib r)" and J: "ignores r c J"
  shows "hoare J (setCondition r dp c b reason msg) (\<lambda>_ s. J s \<and> T r s c = (b = ConditionTrue)) E"
proof (rule hoareI)
  fix s s' and x :: unit assume "J s" and run: "setCondition r dp c b reason msg s = Some (Inr x, s')"
  have "keeps J (setCondition r dp c b reason msg)"
    by (rule keeps_others [OF ok _ J]) (auto intro: frame_setCondition [OF ok])
  with run \<open>J s\<close> have "J s'" by (blast dest: keepsD)
  moreover have "T r s' c = (b = ConditionTrue)"
    using run ok by (cases s) (auto simp: setCondition_run conditionTrue_iff condition_of_set)
  ultimately show "J s' \<and> T r s' c = (b = ConditionTrue)" ..
next
  fix s e s' assume "setCondition r dp c b reason msg s = Some (Inl e, s')"
  then show "E e s'" by (cases s) (simp add: setCondition_run)
qed

lemma whenTrue_step:
  assumes ok: "conditions_ok (rLib r)" and J: "ignores r c J"
  shows "hoare J (whenE b (setCondition r dp c ConditionTrue reason msg))
     (\<lambda>_ s. J s \<and> (b \<longrightarrow> T r s c)) E"
  using hoare_weaken [OF setCondition_step [OF ok J]]
  by (cases b) (auto simp: whenE_def intro!: hoare_ret)

lemma disabledLakekeeperStack_done:
  assumes ok: "conditions_ok (rLib r)"
  shows "hoare (\<lambda>_. True) (disabledLakekeeperStack r dp)
     (\<lambda>(progressing, _) s. \<not> progressing \<and> (\<forall>t \<in> set lakekeeperConditions.
        t \<noteq> ConditionAuthReady \<or> \<not> AuthSpec_IsEnabled (spAuth (dpSpec dp)) \<longrightarrow> T r s t)) (\<lambda>_ _. True)"
  unfolding disabledLakekeeperStack_def Let_def
proof (rule hoare_bindE [OF setCondition_step [OF ok ignores_true]],
    (rule hoare_bindE [OF setCondition_step [OF ok]], (simp add: ignores_def; fail))+)
  let ?J = "\<lambda>s. ((((True \<and> T r s ConditionMinioReady = (ConditionTrue = ConditionTrue)) \<and>
    T r s ConditionPostgresReady = (ConditionTrue = ConditionTrue)) \<and>
    T r s ConditionLakekeeperReady = (ConditionTrue = ConditionTrue)) \<and>
    T r s ConditionWarehouseReady = (ConditionTrue = ConditionTrue)) \<and>
    T r s ConditionOpenFGAReady = (ConditionTrue = ConditionTrue)"
  have J: "ignores r ConditionAuthReady ?J" by (simp add: ignores_def)
  show "hoare ?J (bindE (whenE (\<not> AuthSpec_IsEnabled (spAuth (dpSpec dp)))
      (setCondition r dp ConditionAuthReady ConditionTrue reasonDisabled ''LakeKeeper is disabled''))
      (\<lambda>_. ret (False, zeroObjectStore, zeroOIDC, zeroOpenFGA)))
    (\<lambda>(progressing, _) s. \<not> progressing \<and> (\<forall>t \<in> set lakekeeperConditions.
        t \<noteq> ConditionAuthReady \<or> \<not> AuthSpec_IsEnabled (spAuth (dpSpec dp)) \<longrightarrow> T r s t)) (\<lambda>_ _. True)"
    by (rule hoare_bindE [OF whenTrue_step [OF ok J]], rule hoare_ret) auto
qed

lemma trinoStack_step:
  assumes ok: "conditions_ok (rLib r)" and J: "ignores r ConditionTrinoReady J"
  shows "hoare J (reconcileTrinoStack store oidc fga r dp)
     (\<lambda>progressing s. J s \<and> (\<not> progressing \<longleftrightarrow> T r s ConditionTrinoReady)) (\<lambda>_ _. True)"
proof -
  have ns: "hoare J (ensureNamespace r dp n c) (\<lambda>_. J) (\<lambda>_ _. True)" for n c
    by (rule hoare_weaken [OF hoare_keeps [OF keeps_others [OF ok frame_ensureNamespace J]]]) auto
  have opa: "hoare J (reconcileOPA r dp oidc fga) (\<lambda>_. J) (\<lambda>_ _. True)"
    by (rule hoare_weaken [OF hoare_keeps [OF keeps_others [OF ok frame_reconcileOPA J]]]) auto
  have last: "hoare J (bindE (getsR (\<lambda>st. \<not> conditionTrue r ConditionTrinoReady st)) ret)
      (\<lambda>progressing s. J s \<and> (\<not> progressing \<longleftrightarrow> T r s ConditionTrinoReady)) (\<lambda>_ _. True)"
    by (rule hoare_bindE [OF hoare_getsR]) (auto intro: hoare_ret)
  show ?thesis
    unfolding reconcileTrinoStack_def Let_def
    by (rule hoare_if)
      (auto intro!: hoare_bindE [OF setCondition_step [OF ok J]] hoare_ret
        hoare_bindE [OF ns] hoare_bindE [OF opa] hoare_bindE [OF trino.step [OF ok J]] last simp del: bindE_ret_right)
qed

section \<open>What a reconcile promises\<close>

lemma hoare_stage:
  assumes ok: "conditions_ok (rLib r)" and m: "hoare P m R (\<lambda>_ _. True)"
    and f: "\<And>x. hoare (R x) (f x) Q (\<lambda>e s. reported dp c e (snd s))"
  shows "hoare P (stage r dp c m f) Q (\<lambda>e s. reported dp c e (snd s))"
  unfolding stage_def
proof (rule hoare_handleE [where R = "\<lambda>q s. case q of Inl _ \<Rightarrow> True | Inr x \<Rightarrow> R x s"])
  show "hoare P m (\<lambda>x s. case Inr x of Inl _ \<Rightarrow> True | Inr x \<Rightarrow> R x s)
      (\<lambda>e s. case Inl e of Inl _ \<Rightarrow> True | Inr x \<Rightarrow> R x s)"
    using m by simp
  fix q
  show "hoare (\<lambda>s. case q of Inl _ \<Rightarrow> True | Inr x \<Rightarrow> R x s) (case q of
      Inl e \<Rightarrow> bindE (setCondition r dp c ConditionFalse reasonError (err_text e)) (\<lambda>_. fail e)
    | Inr x \<Rightarrow> f x) Q (\<lambda>e s. reported dp c e (snd s))"
    using f ok by (cases q) (auto intro!: setCondition_then hoare_fail simp: reported_def)
qed

text \<open>
  The conditions that stand for the enabled parts of a platform. With LakeKeeper disabled and
  authentication enabled, nothing decides the condition of authentication.
\<close>

definition readyConditions :: "dataplatform \<Rightarrow> string list" where
  "readyConditions dp = ConditionTrinoReady # filter (\<lambda>t. t \<noteq> ConditionAuthReady \<or>
     LakekeeperSpec_IsEnabled (spLakekeeper (dpSpec dp)) \<or> \<not> AuthSpec_IsEnabled (spAuth (dpSpec dp)))
     lakekeeperConditions"

lemma lakekeeperStack_ready:
  assumes ok: "conditions_ok (rLib r)"
  shows "hoare (\<lambda>_. True) (reconcileLakekeeperStack r dp)
     (\<lambda>x s. \<not> fst x \<longleftrightarrow> (\<forall>t \<in> set (readyConditions dp) - {ConditionTrinoReady}. T r s t)) (\<lambda>_ _. True)"
proof (cases "LakekeeperSpec_IsEnabled (spLakekeeper (dpSpec dp))")
  case True
  show ?thesis
    by (rule hoare_weaken [OF lakekeeperStack_done [OF ok True]])
      (use True in \<open>auto simp: readyConditions_def split: if_splits\<close>)
next
  case False
  then have "reconcileLakekeeperStack r dp = disabledLakekeeperStack r dp"
    by (simp add: reconcileLakekeeperStack_def)
  moreover have "hoare (\<lambda>_. True) (disabledLakekeeperStack r dp)
     (\<lambda>x s. \<not> fst x \<longleftrightarrow> (\<forall>t \<in> set (readyConditions dp) - {ConditionTrinoReady}. T r s t)) (\<lambda>_ _. True)"
    by (rule hoare_weaken [OF disabledLakekeeperStack_done [OF ok]])
      (use False in \<open>auto simp: readyConditions_def split: if_splits\<close>)
  ultimately show ?thesis by simp
qed

lemma trinoStack_then_ready:
  assumes ok: "conditions_ok (rLib r)"
  shows "hoare (\<lambda>s. \<not> progressing \<longleftrightarrow> (\<forall>t \<in> set (readyConditions dp) - {ConditionTrinoReady}. T r s t))
      (stage r dp ConditionReady (reconcileTrinoStack store oidc fga r dp) (\<lambda>trinoProgressing.
       if progressing \<or> trinoProgressing then
         bindE (setCondition r dp ConditionReady ConditionFalse reasonReconciling
           ''Waiting for enabled components to become ready'') (\<lambda>_.
         ret \<lparr>rsRequeueAfter = requeueWhileProgressing\<rparr>)
       else
         bindE (setCondition r dp ConditionReady ConditionTrue reasonReady ''All enabled components are ready'') (\<lambda>_.
         ret \<lparr>rsRequeueAfter = 0\<rparr>)))
      (\<lambda>res s. rsRequeueAfter res = (if T r s ConditionReady then 0 else 15) \<and>
        (T r s ConditionReady \<longleftrightarrow> (\<forall>t \<in> set (readyConditions dp). T r s t)))
      (\<lambda>e s. reported dp ConditionReady e (snd s))"
proof (rule hoare_stage [OF ok trinoStack_step [OF ok]])
  show "ignores r ConditionTrinoReady
      (\<lambda>s. \<not> progressing \<longleftrightarrow> (\<forall>t \<in> set (readyConditions dp) - {ConditionTrinoReady}. T r s t))"
    by (auto simp: ignores_def)
  fix trinoProgressing
  let ?J = "\<lambda>s. (\<not> progressing \<longleftrightarrow> (\<forall>t \<in> set (readyConditions dp) - {ConditionTrinoReady}. T r s t)) \<and>
      (\<not> trinoProgressing \<longleftrightarrow> T r s ConditionTrinoReady)"
  have J: "ignores r ConditionReady ?J"
    by (intro ignores_conj ignores_all ignores_iff) (simp_all add: readyConditions_def)
  have ready_split: "(\<forall>t \<in> set (readyConditions dp). T r s t) \<longleftrightarrow> T r s ConditionTrinoReady \<and>
      (\<forall>t \<in> set (readyConditions dp) - {ConditionTrinoReady}. T r s t)" for s :: "'a st"
    by (auto simp: readyConditions_def)
  show "hoare ?J (if progressing \<or> trinoProgressing then
         bindE (setCondition r dp ConditionReady ConditionFalse reasonReconciling
           ''Waiting for enabled components to become ready'') (\<lambda>_.
         ret \<lparr>rsRequeueAfter = requeueWhileProgressing\<rparr>)
       else
         bindE (setCondition r dp ConditionReady ConditionTrue reasonReady ''All enabled components are ready'') (\<lambda>_.
         ret \<lparr>rsRequeueAfter = 0\<rparr>))
      (\<lambda>res s. rsRequeueAfter res = (if T r s ConditionReady then 0 else 15) \<and>
        (T r s ConditionReady \<longleftrightarrow> (\<forall>t \<in> set (readyConditions dp). T r s t)))
      (\<lambda>e s. reported dp ConditionReady e (snd s))"
    using ready_split by (intro hoare_if; intro hoare_bindE [OF setCondition_step [OF ok J]])
      (auto intro!: hoare_ret simp: requeueWhileProgressing_def)
qed

text \<open>
  C1. The Ready condition is exact and drives the requeue: when a reconcile returns without an error, it
  asks to come back (after 15 seconds) exactly when Ready is not True, and Ready is True exactly when
  the condition of every enabled part of the platform is. When it returns an error, Ready is False for this
  generation with the error's text.
\<close>

theorem reconcile_ready_sound:
  assumes ok: "conditions_ok (rLib r)"
  shows "hoare (\<lambda>_. True) (reconcile r dp)
     (\<lambda>res s. rsRequeueAfter res = (if T r s ConditionReady then 0 else 15) \<and>
        (T r s ConditionReady \<longleftrightarrow> (\<forall>t \<in> set (readyConditions dp). T r s t)))
     (\<lambda>e s. reported dp ConditionReady e (snd s))"
  unfolding reconcile_def
  by (rule hoare_stage [OF ok lakekeeperStack_ready [OF ok]], rule hoare_split, rule hoare_split, rule hoare_split)
    (simp only: fst_conv, rule trinoStack_then_ready [OF ok])

end
