(* ===== verification/Contracts.thy ===== *)
theory Contracts
  imports Controller
begin

text \<open>
  What the component contracts give at the level of the whole program: how errors reach the status, what
  stays as it was, and how the loop writes the status back.
\<close>

section \<open>The contracts as one rule each\<close>

context component
begin

lemma reports_run:
  "conditions_ok (rLib r) \<Longrightarrow> reports dp ctype (run r dp) (\<lambda>_ s. settled dp ctype (snd s))"
  by (rule hoareI) (auto dest: reports_error settles)

end

context gated_component
begin

lemma reports_gated:
  "conditions_ok (rLib r) \<Longrightarrow> reports dp ctype (run r dp) (ready_post r dp ctype is_ready)"
  by (rule hoareI) (auto simp: ready_post_def dest: reports_error settles ready_iff)

end

text \<open>
  C6. No component fails silently: each of the seven component reconcilers that returns an error has
  recorded its text, for this generation, in its own condition, which is then False; each that returns
  none has decided its condition; and the three that say whether they are ready say so exactly when
  their condition is True.
\<close>

theorem components_report:
  assumes "conditions_ok (rLib r)"
  shows "reports dp ConditionPostgresReady (reconcilePostgres r dp)
      (\<lambda>_ s. settled dp ConditionPostgresReady (snd s)) \<and>
    reports dp ConditionMinioReady (reconcileObjectStore r dp) (ready_post r dp ConditionMinioReady snd) \<and>
    reports dp ConditionAuthReady (reconcileAuth r dp) (ready_post r dp ConditionAuthReady snd) \<and>
    reports dp ConditionOpenFGAReady (reconcileAuthz r dp) (ready_post r dp ConditionOpenFGAReady snd) \<and>
    reports dp ConditionLakekeeperReady (reconcileLakekeeper conn oidc fga r dp)
      (\<lambda>_ s. settled dp ConditionLakekeeperReady (snd s)) \<and>
    reports dp ConditionWarehouseReady (reconcileWarehouse store oidc r dp)
      (\<lambda>_ s. settled dp ConditionWarehouseReady (snd s)) \<and>
    reports dp ConditionTrinoReady (reconcileTrino store oidc fga r dp)
      (\<lambda>_ s. settled dp ConditionTrinoReady (snd s))"
  by (intro conjI postgres.reports_run object_store.reports_gated auth.reports_gated authz.reports_gated
      lakekeeper.reports_run warehouse.reports_run trino.reports_run assms)

text \<open>
  Components do not talk over each other: none of the seven changes a condition other than its own,
  however it returns, and reconciling the OPA bridge changes none at all.
\<close>

theorem components_leave_others:
  assumes "conditions_ok (rLib r)"
  shows "(t \<noteq> ConditionPostgresReady \<longrightarrow> frame t v (reconcilePostgres r dp)) \<and>
    (t \<noteq> ConditionMinioReady \<longrightarrow> frame t v (reconcileObjectStore r dp)) \<and>
    (t \<noteq> ConditionAuthReady \<longrightarrow> frame t v (reconcileAuth r dp)) \<and>
    (t \<noteq> ConditionOpenFGAReady \<longrightarrow> frame t v (reconcileAuthz r dp)) \<and>
    (t \<noteq> ConditionLakekeeperReady \<longrightarrow> frame t v (reconcileLakekeeper conn oidc fga r dp)) \<and>
    (t \<noteq> ConditionWarehouseReady \<longrightarrow> frame t v (reconcileWarehouse store oidc r dp)) \<and>
    (t \<noteq> ConditionTrinoReady \<longrightarrow> frame t v (reconcileTrino store oidc fga r dp)) \<and>
    frame t v (reconcileOPA r dp oidc fga)"
  by (intro conjI impI frame_reconcileOPA postgres.leaves_others object_store.leaves_others
      auth.leaves_others authz.leaves_others lakekeeper.leaves_others warehouse.leaves_others
      trino.leaves_others assms)

section \<open>The loop and the status\<close>

text \<open>
  C10. The status is written whether or not the reconcile failed: once the platform is read, \<open>Reconcile\<close>
  writes the status that \<open>reconcile\<close> built onto the platform as it is stored by then, and returns what
  \<open>reconcile\<close> returned, its error included, unless that write fails, when it returns that error.
\<close>

theorem Reconcile_writes_status:
  assumes "kGetDataPlatform (rClient r) name w = Some (Inr (dp, st), w1)"
    and "reconcile r dp (w1, st) = Some (q, (w2, st2))"
    and "kGetDataPlatform (rClient r) (dpName dp) w2 = Some (Inr (latest, old), w3)"
  shows "Reconcile r name w = (case kUpdateStatus (rClient r) (latest, st2) w3 of
      None \<Rightarrow> None
    | Some (Inl e, w4) \<Rightarrow> Some (Inl e, w4)
    | Some (Inr _, w4) \<Rightarrow> Some (q, w4))"
  using assms
  by (auto simp: Reconcile_def withStatus_def patchStatus_def run_simps split: option.splits sum.splits)

text \<open>A platform that is gone asks for nothing and calls nothing more.\<close>

lemma Reconcile_absent:
  "kGetDataPlatform (rClient r) name w = Some (Inl (NotFound m), w1) \<Longrightarrow>
     Reconcile r name w = Some (Inr \<lparr>rsRequeueAfter = 0\<rparr>, w1)"
  by (simp add: Reconcile_def run_simps)

section \<open>LakeKeeper disabled\<close>

lemma frame_trinoStack [frame_intro]:
  assumes "conditions_ok (rLib r)" and "t \<noteq> ConditionTrinoReady"
  shows "frame t v (reconcileTrinoStack store oidc fga r dp)"
  using assms unfolding reconcileTrinoStack_def Let_def
  by (auto intro!: keeps_intro frame_intro frame_reconcileTrino)

text \<open>
  A platform with LakeKeeper disabled and authentication enabled keeps whatever its authentication
  condition said: nothing in a reconcile decides it, although the others are set to say that LakeKeeper
  is disabled.
\<close>

theorem disabled_lakekeeper_stale_auth:
  assumes ok: "conditions_ok (rLib r)"
    and "\<not> LakekeeperSpec_IsEnabled (spLakekeeper (dpSpec dp))" and "AuthSpec_IsEnabled (spAuth (dpSpec dp))"
  shows "frame ConditionAuthReady v (reconcile r dp)"
proof -
  have "frame ConditionAuthReady v (reconcileLakekeeperStack r dp)"
    using assms unfolding reconcileLakekeeperStack_def disabledLakekeeperStack_def
    by (auto simp: whenE_def Let_def intro!: keeps_intro frame_intro)
  then show ?thesis
    unfolding reconcile_def by (intro frame_stage [OF ok] keeps_intro frame_intro ok) simp_all
qed

end
