(* ===== verification/Effects.thy ===== *)
theory Effects
  imports Controller
begin

text \<open>
  What a reconcile does to the world, beyond the status: it leaves alone what the calls it makes leave
  alone, it does not touch LakeKeeper's management API before the platform beneath it is ready, and it
  returns whenever the calls it makes return.
\<close>

section \<open>What the calls leave alone, the code leaves alone\<close>

text \<open>
  \<open>I\<close> is any property of the world. \<open>client_keeps\<close> says that no call of the Kubernetes client and no
  use of the host's randomness and clock changes it.
\<close>

definition client_keeps :: "('w \<Rightarrow> bool) \<Rightarrow> 'w reconciler \<Rightarrow> bool" where
  "client_keeps I r \<longleftrightarrow> (let k = rClient r; y = rSys r in
     (\<forall>n. keeps I (kGetNamespace k n)) \<and> (\<forall>n ns. keeps I (kGetSecret k n ns)) \<and>
     (\<forall>n ns. keeps I (kGetDeployment k n ns)) \<and> (\<forall>n ns. keeps I (kGetStatefulSet k n ns)) \<and>
     (\<forall>n ns. keeps I (kGetJob k n ns)) \<and>
     (\<forall>x. keeps I (kCreateNamespace k x)) \<and> (\<forall>x. keeps I (kCreateSecret k x)) \<and>
     (\<forall>x. keeps I (kUpdateSecret k x)) \<and>
     (\<forall>n ns. keeps I (kDeleteConfigMap k n ns)) \<and> (\<forall>n ns. keeps I (kDeleteDeployment k n ns)) \<and>
     (\<forall>n ns. keeps I (kDeleteJob k n ns)) \<and>
     (\<forall>x f. keeps I (kCouService k x f)) \<and> (\<forall>x f. keeps I (kCouSecret k x f)) \<and>
     (\<forall>x f. keeps I (kCouConfigMap k x f)) \<and> (\<forall>x f. keeps I (kCouDeployment k x f)) \<and>
     (\<forall>x f. keeps I (kCouStatefulSet k x f)) \<and> (\<forall>x f. keeps I (kCouJob k x f)) \<and>
     (\<forall>ks w. I w \<longrightarrow> I (snd (sMapOrder y ks w))) \<and>
     (\<forall>n. keeps I (sRandRead y n)) \<and> (\<forall>n. keeps I (sRsaGenerateKey y n)) \<and>
     (\<forall>n. keeps I (sRandInt y n)) \<and> keeps I (sNow y) \<and> (\<forall>t k. keeps I (sCreateCertificate y t k)))"

text \<open>No call to OpenFGA changes it either.\<close>

definition store_keeps :: "('w \<Rightarrow> bool) \<Rightarrow> 'w reconciler \<Rightarrow> bool" where
  "store_keeps I r \<longleftrightarrow> (\<forall>cat. rCatalog r = Some cat \<longrightarrow>
     (\<forall>ns svc port b req. keeps I (cEnsureAuthzStore cat ns svc port b req)))"

abbreviation world :: "('w \<Rightarrow> bool) \<Rightarrow> ('w st, 'a) go \<Rightarrow> bool" where
  "world I m \<equiv> keeps (\<lambda>s. I (fst s)) m"

named_theorems world_intro
  \<open>rules that a function leaves the world's property alone\<close>

lemma client_keeps_calls:
  assumes "client_keeps I r"
  shows "keeps I (kGetNamespace (rClient r) n)" "keeps I (kGetSecret (rClient r) n ns)"
    "keeps I (kGetDeployment (rClient r) n ns)" "keeps I (kGetStatefulSet (rClient r) n ns)"
    "keeps I (kGetJob (rClient r) n ns)" "keeps I (kCreateNamespace (rClient r) nso)"
    "keeps I (kCreateSecret (rClient r) se)" "keeps I (kUpdateSecret (rClient r) se)"
    "keeps I (kDeleteConfigMap (rClient r) n ns)" "keeps I (kDeleteDeployment (rClient r) n ns)"
    "keeps I (kDeleteJob (rClient r) n ns)" "keeps I (kCouService (rClient r) sv f1)"
    "keeps I (kCouSecret (rClient r) se f2)" "keeps I (kCouConfigMap (rClient r) cm f3)"
    "keeps I (kCouDeployment (rClient r) de f4)" "keeps I (kCouStatefulSet (rClient r) ss f5)"
    "keeps I (kCouJob (rClient r) jo f6)" "keeps I (sRandRead (rSys r) k)"
    "keeps I (sRsaGenerateKey (rSys r) k)" "keeps I (sRandInt (rSys r) i)" "keeps I (sNow (rSys r))"
    "keeps I (sCreateCertificate (rSys r) t key)"
  using assms by (simp_all only: client_keeps_def Let_def)

lemma world_setCondition [world_intro]: "world I (setCondition r dp c b reason msg)"
  unfolding setCondition_def by (rule keeps_modifyR) simp

lemma world_modifyR [world_intro]: "world I (modifyR g)"
  by (rule keeps_modifyR) simp

lemma world_stage [world_intro]:
  "world I m \<Longrightarrow> (\<And>x. world I (f x)) \<Longrightarrow> world I (stage r dp c m f)"
  unfolding stage_def by (intro keeps_intro world_setCondition) auto

lemma world_missing [world_intro]: "world I (missing r dp c e)"
  unfolding missing_def by (intro keeps_intro world_setCondition)

lemma world_apply_obj [world_intro]:
  "(\<And>f. keeps I (cou x f)) \<Longrightarrow> world I (apply_obj cou m sm r dp x f)"
  unfolding apply_obj_def by (intro keeps_liftL)

lemma world_apply_helpers [world_intro]:
  assumes "client_keeps I r"
  shows "world I (randomHex r n)" "world I (ensureGeneratedSecret r dp name ns c d)"
    "world I (getSecretData r name ns k)" "world I (ensureNamespace r dp name c)"
    "world I (statefulSetReady r ns name)" "world I (deploymentReady r ns name)"
  unfolding randomHex_def ensureGeneratedSecret_def getSecretData_def ensureNamespace_def
    statefulSetReady_def deploymentReady_def
  by (intro keeps_intro keeps_liftL client_keeps_calls [OF assms])+

lemma world_reconcilePostgres [world_intro]:
  assumes "client_keeps I r"
  shows "world I (reconcilePostgres r dp)"
  unfolding reconcilePostgres_def externalPostgres_def ensurePostgresSecret_def
    applyPostgresService_def applyPostgresStatefulSet_def Let_def
  by (intro keeps_intro world_intro keeps_liftL client_keeps_calls [OF assms] assms)

lemma world_reconcileObjectStore [world_intro]:
  assumes "client_keeps I r"
  shows "world I (reconcileObjectStore r dp)"
  unfolding reconcileObjectStore_def externalObjectStore_def reconcileMinio_def ensureMinioSecret_def
    applyMinioService_def applyMinioStatefulSet_def ensureMinioBucket_def Let_def
  by (intro keeps_intro world_intro keeps_liftL client_keeps_calls [OF assms] assms)

lemma world_reconcileAuth [world_intro]:
  assumes "client_keeps I r"
  shows "world I (reconcileAuth r dp)"
  unfolding reconcileAuth_def reconcileKeycloak_def externalOIDC_def externalConfig_def optionalKey_def
    ensureKeycloakSecrets_def ensureKeycloakRealmKey_def generateRealmSigningKey_def
    ensureAdminSecret_def ensureOIDCSecret_def ensureOIDCSecretKeys_def applyKeycloakRealm_def
    applyKeycloakService_def applyKeycloakDeployment_def embeddedOIDCConfig_def Let_def
  by (intro keeps_intro world_intro keeps_liftL client_keeps_calls [OF assms] assms)

lemma world_reconcileAuthz [world_intro]:
  assumes "client_keeps I r" and "store_keeps I r"
  shows "world I (reconcileAuthz r dp)"
proof -
  have "world I (reconcileAccessStore r dp ns k)" for ns k
    unfolding reconcileAccessStore_def using assms(2)
    by (auto intro!: keeps_intro world_intro keeps_liftL simp: store_keeps_def)
  then show ?thesis
    unfolding reconcileAuthz_def reconcileOpenFGA_def ensureOpenFGASecrets_def applyOpenFGAPostgres_def
      applyOpenFGAService_def applyOpenFGADeployment_def Let_def
    by (intro keeps_intro world_intro keeps_liftL client_keeps_calls [OF assms(1)] assms(1))
qed

lemma world_reconcileLakekeeper [world_intro]:
  assumes "client_keeps I r"
  shows "world I (reconcileLakekeeper conn oidc fga r dp)"
  unfolding reconcileLakekeeper_def ensureEncryptionSecret_def applyLakekeeperService_def
    applyLakekeeperDeployment_def Let_def
  by (intro keeps_intro world_intro keeps_liftL client_keeps_calls [OF assms] assms)

lemma world_trinoCatalogData [world_intro]:
  "client_keeps I r \<Longrightarrow> world I (trinoCatalogData r dp store oidc)"
  by (rule keepsI) (auto simp: trinoCatalogData_def client_keeps_def Let_def split: prod.splits,
    metis snd_conv)

lemma world_reconcileTrinoStack [world_intro]:
  assumes "client_keeps I r"
  shows "world I (reconcileTrinoStack store oidc fga r dp)"
  unfolding reconcileTrinoStack_def reconcileTrino_def reconcileOPA_def applyOPASecret_def
    applyOPAPolicies_def applyOPAService_def applyOPADeployment_def trinoSharedSecret_def
    applyTrinoConfigMap_def applyTrinoCatalogSecret_def applyTrinoService_def applyTrinoCoordinator_def
    reconcileTrinoWorkers_def ignoreNotFound_def Let_def
  by (intro keeps_intro world_intro keeps_liftL client_keeps_calls [OF assms] assms)

section \<open>LakeKeeper's management API is gated\<close>

text \<open>What must be True before the operator talks to LakeKeeper or fetches a token for it.\<close>

definition platformReady :: "'w reconciler \<Rightarrow> 'w st \<Rightarrow> bool" where
  "platformReady r s \<longleftrightarrow> (\<forall>t \<in> {ConditionPostgresReady, ConditionMinioReady, ConditionAuthReady,
     ConditionOpenFGAReady, ConditionLakekeeperReady}. T r s t)"

lemma platformReady_ignores:
  "c \<notin> {ConditionPostgresReady, ConditionMinioReady, ConditionAuthReady, ConditionOpenFGAReady,
     ConditionLakekeeperReady} \<Longrightarrow> ignores r c (platformReady r)"
  unfolding ignores_def platformReady_def by metis

lemma hoare_and_keeps:
  assumes "hoare J m Q (\<lambda>_ _. True)" and "keeps K m"
  shows "hoare (\<lambda>s. K s \<and> J s) m (\<lambda>x s. K s \<and> Q x s) (\<lambda>_. K)"
  using assms by (intro hoareI) (auto dest: hoareD_ok keepsD)

lemma keeps_disj: "keeps I m \<Longrightarrow> keeps J m \<Longrightarrow> keeps (\<lambda>s. I s \<or> J s) m"
  unfolding keeps_def by blast

lemma hoare_weaken_err:
  "hoare P m Q E \<Longrightarrow> (\<And>e s. E e s \<Longrightarrow> E' e s) \<Longrightarrow> hoare P m Q E'"
  by (erule hoare_weaken) auto

lemma hoare_and_true: "hoare (\<lambda>s. P s \<and> True) m Q E \<Longrightarrow> hoare P m Q E"
  by simp

lemma warehouseWhenReady_gated:
  assumes ok: "conditions_ok (rLib r)"
  shows "hoare (\<lambda>s. I (fst s) \<and> (T r s ConditionMinioReady = storeReady \<and>
        T r s ConditionAuthReady = authReady) \<and> T r s ConditionOpenFGAReady = fgaReady)
     (warehouseWhenReady store storeReady oidc authReady fga fgaReady r dp)
     (\<lambda>_ s. I (fst s) \<or> platformReady r s) (\<lambda>_ s. I (fst s) \<or> platformReady r s)"
  unfolding warehouseWhenReady_def
proof (rule hoare_bindE [OF hoare_getsR], rule hoare_if)
  fix progressing assume p: "\<not> progressing"
  have "keeps (platformReady r) (reconcileWarehouse store oidc r dp)"
    by (rule keeps_others [OF ok frame_reconcileWarehouse [OF ok] platformReady_ignores]) auto
  then have "keeps (platformReady r) (bindE (reconcileWarehouse store oidc r dp) (\<lambda>_.
      bindE (getsR (\<lambda>st. \<not> conditionTrue r ConditionWarehouseReady st)) (\<lambda>waiting.
      ret (waiting, store, oidc, fga))))"
    by (intro keeps_intro)
  then show "hoare (\<lambda>s. (I (fst s) \<and> (T r s ConditionMinioReady = storeReady \<and>
        T r s ConditionAuthReady = authReady) \<and> T r s ConditionOpenFGAReady = fgaReady) \<and>
        progressing = (\<not> conditionTrue r ConditionPostgresReady (snd s) \<or>
          \<not> conditionTrue r ConditionLakekeeperReady (snd s) \<or> \<not> authReady \<or> \<not> fgaReady \<or> \<not> storeReady))
      (bindE (reconcileWarehouse store oidc r dp) (\<lambda>_.
        bindE (getsR (\<lambda>st. \<not> conditionTrue r ConditionWarehouseReady st)) (\<lambda>waiting.
        ret (waiting, store, oidc, fga))))
      (\<lambda>_ s. I (fst s) \<or> platformReady r s) (\<lambda>_ s. I (fst s) \<or> platformReady r s)"
    by (rule hoare_weaken [OF hoare_keeps]) (use p in \<open>auto simp: platformReady_def\<close>)
qed (auto intro: hoare_ret)

lemma lakekeeperStack_gated:
  assumes ok: "conditions_ok (rLib r)" and k: "client_keeps I r" and st: "store_keeps I r"
    and on: "LakekeeperSpec_IsEnabled (spLakekeeper (dpSpec dp))"
  shows "hoare (\<lambda>s. I (fst s)) (reconcileLakekeeperStack r dp)
     (\<lambda>_ s. I (fst s) \<or> platformReady r s) (\<lambda>_ s. I (fst s) \<or> platformReady r s)"
proof -
  note any = hoare_weaken_err [OF hoare_keeps]
  note gated = hoare_weaken_err [OF hoare_and_keeps]
  let ?ns = "LakekeeperSpec_NamespaceOrDefault (spLakekeeper (dpSpec dp))"
  have allowed: "world I (lakekeeperWhenAllowed conn oidc a fga f r dp)" for conn oidc a fga f
    unfolding lakekeeperWhenAllowed_def by (intro keeps_intro world_intro k)
  have "hoare (\<lambda>s. I (fst s)) (bindE (ensureNamespace r dp ?ns componentLakekeeper) (\<lambda>_.
      bindE (reconcilePostgres r dp) (\<lambda>conn.
      bindE (reconcileObjectStore r dp) (\<lambda>(store, storeReady).
      bindE (reconcileAuth r dp) (\<lambda>(oidc, authReady).
      bindE (reconcileAuthz r dp) (\<lambda>(fga, fgaReady).
      bindE (lakekeeperWhenAllowed conn oidc authReady fga fgaReady r dp) (\<lambda>_.
      warehouseWhenReady store storeReady oidc authReady fga fgaReady r dp)))))))
    (\<lambda>_ s. I (fst s) \<or> platformReady r s) (\<lambda>_ s. I (fst s) \<or> platformReady r s)"
    by (rule hoare_bindE [OF any [OF world_apply_helpers(4) [OF k]]], simp,
      rule hoare_bindE [OF any [OF world_reconcilePostgres [OF k]]], simp, rule hoare_and_true,
      rule hoare_bindE [OF gated [OF object_store.gated_step [OF ok ignores_true]
        world_reconcileObjectStore [OF k]]], simp, rule hoare_split,
      rule hoare_bindE [OF gated [OF auth.gated_step [OF ok]
        world_reconcileAuth [OF k]]], (simp add: ignores_def; fail), simp, rule hoare_split,
      rule hoare_bindE [OF gated [OF authz.gated_step [OF ok]
        world_reconcileAuthz [OF k st]]], (simp add: ignores_def; fail), simp, rule hoare_split,
      rule hoare_bindE [OF gated [OF lakekeeperWhenAllowed_step [OF ok]
        allowed]], (simp add: ignores_def; fail), simp,
      rule hoare_weaken [OF warehouseWhenReady_gated [OF ok]]) auto
  then show ?thesis using on unfolding reconcileLakekeeperStack_def Let_def by simp
qed

lemma frame_reconcileTrinoStack:
  assumes "conditions_ok (rLib r)" and "t \<noteq> ConditionTrinoReady"
  shows "frame t v (reconcileTrinoStack store oidc fga r dp)"
  using assms unfolding reconcileTrinoStack_def Let_def
  by (auto intro!: keeps_intro frame_intro frame_reconcileTrino)

lemma keeps_stage:
  "keeps I m \<Longrightarrow> (\<And>x. keeps I (f x)) \<Longrightarrow> (\<And>b reason msg. keeps I (setCondition r dp c b reason msg)) \<Longrightarrow>
     keeps I (stage r dp c m f)"
  unfolding stage_def by (intro keeps_intro)

lemma hoare_stage_both:
  assumes m: "hoare P m (\<lambda>_. R) (\<lambda>_. R)" and f: "\<And>x. keeps R (f x)"
    and set: "\<And>b reason msg. keeps R (setCondition r dp c b reason msg)"
  shows "hoare P (stage r dp c m f) (\<lambda>_. R) (\<lambda>_. R)"
  unfolding stage_def
proof (rule hoare_handleE [where R = "\<lambda>_. R", OF m], rule hoare_keeps)
  fix q
  show "keeps R (case q of
      Inl e \<Rightarrow> bindE (setCondition r dp c ConditionFalse reasonError (err_text e)) (\<lambda>_. fail e)
    | Inr x \<Rightarrow> f x)"
    by (intro keeps_intro f set)
qed

text \<open>
  C5. LakeKeeper's management API is out of reach until the platform beneath it is ready. Take any
  property \<open>I\<close> of the world that no Kubernetes call and no call to OpenFGA changes, such as that no
  bootstrap, grant, warehouse or token request was ever sent. However a reconcile ends, \<open>I\<close> still holds
  or Postgres, the object store, authentication, OpenFGA and LakeKeeper are all True in the status.
\<close>

theorem management_api_gated:
  assumes ok: "conditions_ok (rLib r)" and k: "client_keeps I r" and st: "store_keeps I r"
  shows "hoare (\<lambda>s. I (fst s)) (reconcile r dp)
     (\<lambda>_ s. I (fst s) \<or> platformReady r s) (\<lambda>_ s. I (fst s) \<or> platformReady r s)"
proof -
  let ?R = "\<lambda>s. I (fst s) \<or> platformReady r s"
  have stack: "hoare (\<lambda>s. I (fst s)) (reconcileLakekeeperStack r dp) (\<lambda>_. ?R) (\<lambda>_. ?R)"
  proof (cases "LakekeeperSpec_IsEnabled (spLakekeeper (dpSpec dp))")
    case False
    have "world I (disabledLakekeeperStack r dp)"
      unfolding disabledLakekeeperStack_def Let_def by (intro keeps_intro world_intro)
    then have "hoare (\<lambda>s. I (fst s)) (disabledLakekeeperStack r dp) (\<lambda>_. ?R) (\<lambda>_. ?R)"
      by - (rule hoare_weaken, erule hoare_keeps, auto)
    with False show ?thesis by (simp add: reconcileLakekeeperStack_def)
  qed (rule lakekeeperStack_gated [OF ok k st])
  have set: "keeps ?R (setCondition r dp ConditionReady b reason msg)" for b reason msg
    by (intro keeps_disj world_setCondition keeps_others [OF ok frame_setCondition [OF ok] platformReady_ignores]) auto
  have trino: "keeps ?R (reconcileTrinoStack store oidc fga r dp)" for store oidc fga
    by (intro keeps_disj world_reconcileTrinoStack [OF k]
      keeps_others [OF ok frame_reconcileTrinoStack [OF ok] platformReady_ignores]) auto
  show ?thesis
    unfolding reconcile_def
    by (rule hoare_stage_both [OF stack]) (intro keeps_intro keeps_stage set trino)+
qed

section \<open>Coming back\<close>

text \<open>Every call that leaves the program comes back.\<close>

definition calls_return :: "'w reconciler \<Rightarrow> bool" where
  "calls_return r \<longleftrightarrow> (let k = rClient r; y = rSys r in
     (\<forall>n. returns (kGetNamespace k n)) \<and> (\<forall>n ns. returns (kGetSecret k n ns)) \<and>
     (\<forall>n ns. returns (kGetDeployment k n ns)) \<and> (\<forall>n ns. returns (kGetStatefulSet k n ns)) \<and>
     (\<forall>n ns. returns (kGetJob k n ns)) \<and> (\<forall>n. returns (kGetDataPlatform k n)) \<and>
     (\<forall>x. returns (kCreateNamespace k x)) \<and> (\<forall>x. returns (kCreateSecret k x)) \<and>
     (\<forall>x. returns (kUpdateSecret k x)) \<and> (\<forall>x. returns (kUpdateStatus k x)) \<and>
     (\<forall>n ns. returns (kDeleteConfigMap k n ns)) \<and> (\<forall>n ns. returns (kDeleteDeployment k n ns)) \<and>
     (\<forall>n ns. returns (kDeleteJob k n ns)) \<and>
     (\<forall>x f. returns (kCouService k x f)) \<and> (\<forall>x f. returns (kCouSecret k x f)) \<and>
     (\<forall>x f. returns (kCouConfigMap k x f)) \<and> (\<forall>x f. returns (kCouDeployment k x f)) \<and>
     (\<forall>x f. returns (kCouStatefulSet k x f)) \<and> (\<forall>x f. returns (kCouJob k x f)) \<and>
     (\<forall>n. returns (sRandRead y n)) \<and> (\<forall>n. returns (sRsaGenerateKey y n)) \<and>
     (\<forall>n. returns (sRandInt y n)) \<and> returns (sNow y) \<and> (\<forall>t k. returns (sCreateCertificate y t k)) \<and>
     (\<forall>cat. rCatalog r = Some cat \<longrightarrow>
       (\<forall>ns svc port b. returns (cBootstrap cat ns svc port b)) \<and>
       (\<forall>ns svc port b ps. returns (cEnsureGrants cat ns svc port b ps)) \<and>
       (\<forall>ns svc port b rq. returns (cEnsureWarehouse cat ns svc port b rq)) \<and>
       (\<forall>ns svc port b rq. returns (cEnsureAuthzStore cat ns svc port b rq)) \<and>
       (\<forall>ns svc port p form. returns (cFormPost cat ns svc port p form)) \<and>
       (\<forall>u form. returns (cFetchToken cat u form))))"

lemma calls_return_client:
  assumes "calls_return r"
  shows "returns (kGetNamespace (rClient r) n)" "returns (kGetSecret (rClient r) n ns)"
    "returns (kGetDeployment (rClient r) n ns)" "returns (kGetStatefulSet (rClient r) n ns)"
    "returns (kGetJob (rClient r) n ns)" "returns (kGetDataPlatform (rClient r) n)"
    "returns (kCreateNamespace (rClient r) nso)"
    "returns (kCreateSecret (rClient r) se)" "returns (kUpdateSecret (rClient r) se)"
    "returns (kUpdateStatus (rClient r) dps)"
    "returns (kDeleteConfigMap (rClient r) n ns)" "returns (kDeleteDeployment (rClient r) n ns)"
    "returns (kDeleteJob (rClient r) n ns)" "returns (kCouService (rClient r) sv f1)"
    "returns (kCouSecret (rClient r) se f2)" "returns (kCouConfigMap (rClient r) cm f3)"
    "returns (kCouDeployment (rClient r) de f4)" "returns (kCouStatefulSet (rClient r) ss f5)"
    "returns (kCouJob (rClient r) jo f6)" "returns (sRandRead (rSys r) k)"
    "returns (sRsaGenerateKey (rSys r) k)" "returns (sRandInt (rSys r) i)" "returns (sNow (rSys r))"
    "returns (sCreateCertificate (rSys r) t key)"
  using assms by (simp_all only: calls_return_def Let_def)

lemma calls_return_catalog:
  assumes "calls_return r" and "rCatalog r = Some cat"
  shows "returns (cBootstrap cat ns svc port b)" "returns (cEnsureGrants cat ns svc port b ps)"
    "returns (cEnsureWarehouse cat ns svc port b rq)" "returns (cEnsureAuthzStore cat ns svc port b sq)"
    "returns (cFormPost cat ns svc port p form)" "returns (cFetchToken cat u form)"
  using assms by (simp_all add: calls_return_def Let_def)

lemma returns_setCondition [returns_intro]: "returns (setCondition r dp c b reason msg)"
  unfolding setCondition_def by (rule returns_modifyR)

lemma returns_stage [returns_intro]:
  "returns m \<Longrightarrow> (\<And>x. returns (f x)) \<Longrightarrow> returns (stage r dp c m f)"
  unfolding stage_def by (intro returns_intro) auto

lemma returns_missing [returns_intro]: "returns (missing r dp c e)"
  unfolding missing_def by (intro returns_intro)

lemma returns_apply_obj [returns_intro]:
  "(\<And>f. returns (cou x f)) \<Longrightarrow> returns (apply_obj cou m sm r dp x f)"
  unfolding apply_obj_def by (intro returns_intro)

lemma returns_apply_helpers:
  assumes "calls_return r"
  shows "returns (randomHex r n)" "returns (ensureGeneratedSecret r dp name ns c d)"
    "returns (getSecretData r name ns k)" "returns (ensureNamespace r dp name c)"
    "returns (statefulSetReady r ns name)" "returns (deploymentReady r ns name)"
  unfolding randomHex_def ensureGeneratedSecret_def getSecretData_def ensureNamespace_def
    statefulSetReady_def deploymentReady_def
  by (intro returns_intro calls_return_client [OF assms])+

lemma returns_lakekeeper_parts:
  assumes "calls_return r"
  shows "returns (reconcilePostgres r dp)" "returns (reconcileObjectStore r dp)"
    "returns (reconcileLakekeeper conn oidc fga r dp)"
  unfolding reconcilePostgres_def externalPostgres_def ensurePostgresSecret_def
    applyPostgresService_def applyPostgresStatefulSet_def
    reconcileObjectStore_def externalObjectStore_def reconcileMinio_def ensureMinioSecret_def
    applyMinioService_def applyMinioStatefulSet_def ensureMinioBucket_def
    reconcileLakekeeper_def ensureEncryptionSecret_def applyLakekeeperService_def
    applyLakekeeperDeployment_def Let_def
  by (intro returns_intro returns_apply_helpers [OF assms] calls_return_client [OF assms])+

lemma returns_reconcileAuth:
  assumes "calls_return r"
  shows "returns (reconcileAuth r dp)"
  unfolding reconcileAuth_def reconcileKeycloak_def externalOIDC_def externalConfig_def optionalKey_def
    ensureKeycloakSecrets_def ensureKeycloakRealmKey_def generateRealmSigningKey_def
    ensureAdminSecret_def ensureOIDCSecret_def ensureOIDCSecretKeys_def applyKeycloakRealm_def
    applyKeycloakService_def applyKeycloakDeployment_def embeddedOIDCConfig_def Let_def
  by (intro returns_intro returns_apply_helpers [OF assms] calls_return_client [OF assms])

lemma returns_catalog_parts:
  assumes "calls_return r"
  shows "returns (reconcileAuthz r dp)" "returns (reconcileWarehouse store oidc r dp)"
  unfolding reconcileAuthz_def reconcileOpenFGA_def ensureOpenFGASecrets_def applyOpenFGAPostgres_def
    applyOpenFGAService_def applyOpenFGADeployment_def reconcileAccessStore_def
    reconcileWarehouse_def oidcAccessToken_def Let_def
  by (intro returns_intro returns_apply_helpers [OF assms] calls_return_client [OF assms]
      calls_return_catalog [OF assms], assumption?)+

lemma returns_trinoCatalogData [returns_intro]: "returns (trinoCatalogData r dp store oidc)"
  by (auto simp: returns_def trinoCatalogData_def split: prod.splits)

lemma returns_reconcileTrinoStack:
  assumes "calls_return r"
  shows "returns (reconcileTrinoStack store oidc fga r dp)"
  unfolding reconcileTrinoStack_def reconcileTrino_def reconcileOPA_def applyOPASecret_def
    applyOPAPolicies_def applyOPAService_def applyOPADeployment_def trinoSharedSecret_def
    applyTrinoConfigMap_def applyTrinoCatalogSecret_def applyTrinoService_def applyTrinoCoordinator_def
    reconcileTrinoWorkers_def ignoreNotFound_def Let_def
  by (intro returns_intro returns_apply_helpers [OF assms] calls_return_client [OF assms])

lemma returns_reconcile:
  assumes "calls_return r"
  shows "returns (reconcile r dp)"
  unfolding reconcile_def reconcileLakekeeperStack_def disabledLakekeeperStack_def
    lakekeeperWhenAllowed_def warehouseWhenReady_def Let_def
  by (intro returns_intro returns_apply_helpers [OF assms] returns_lakekeeper_parts [OF assms]
    returns_reconcileAuth [OF assms] returns_catalog_parts [OF assms] returns_reconcileTrinoStack [OF assms])

lemma returns_Reconcile:
  assumes "calls_return r"
  shows "returns (Reconcile r name)"
proof -
  have body: "returns (handleE (reconcile r dp) (\<lambda>result. bindE (patchStatus r dp) (\<lambda>_. pureE result)))" for dp
    unfolding patchStatus_def by (intro returns_intro returns_reconcile calls_return_client [OF assms] assms)
  have "returns (withStatus st m)" if "returns m" for st and m :: "('a st, ctrl_result) go"
    using that by (auto simp: returns_def withStatus_def split: option.splits)
  then show ?thesis
    unfolding Reconcile_def using body by (intro returns_intro calls_return_client [OF assms]) auto
qed


end
