(* ===== verification/Secrets.thy ===== *)
theory Secrets
  imports Lakekeeper Keycloak Minio Trino
begin

text \<open>
  The generated Secrets, across components: passwords, keys and certificates are made once. Every
  component makes its own through \<open>ensureGeneratedSecret\<close> (internal/controller/apply.go), and none of
  them replaces a Secret that is stored.
\<close>

section \<open>What the calls do to the cluster\<close>

text \<open>The host's randomness, clock and cryptography do not touch the cluster.\<close>

definition host_keeps :: "('w \<Rightarrow> cluster) \<Rightarrow> 'w sys \<Rightarrow> bool" where
  "host_keeps view y \<longleftrightarrow> (\<forall>v. (\<forall>n. keeps (\<lambda>w. view w = v) (sRandRead y n)) \<and>
     (\<forall>n. keeps (\<lambda>w. view w = v) (sRsaGenerateKey y n)) \<and> (\<forall>n. keeps (\<lambda>w. view w = v) (sRandInt y n)) \<and>
     keeps (\<lambda>w. view w = v) (sNow y) \<and> (\<forall>t k. keeps (\<lambda>w. view w = v) (sCreateCertificate y t k)))"

definition secret_calls_ok :: "('w \<Rightarrow> cluster) \<Rightarrow> 'w reconciler \<Rightarrow> bool" where
  "secret_calls_ok view r \<longleftrightarrow> get_secret_ok view (rClient r) \<and> create_secret_ok view (rClient r) \<and>
     host_keeps view (rSys r)"

lemma secret_calls_okD:
  assumes "secret_calls_ok view r"
  shows "get_secret_ok view (rClient r)" "create_secret_ok view (rClient r)" "host_keeps view (rSys r)"
  using assms by (simp_all add: secret_calls_ok_def)

text \<open>\<open>stored view n ns x\<close>: the Secret \<open>x\<close> is stored under that name.\<close>

abbreviation stored :: "('w \<Rightarrow> cluster) \<Rightarrow> string \<Rightarrow> string \<Rightarrow> secret \<Rightarrow> 'w st \<Rightarrow> bool" where
  "stored view n ns x \<equiv> \<lambda>s. clSecrets (view (fst s)) n ns = Some x"

named_theorems stored_intro
  \<open>rules that a function leaves every stored Secret alone\<close>

lemma keeps_view_stored:
  assumes "\<And>v. keeps (\<lambda>w. view w = v) m"
  shows "keeps (stored view n ns x) (liftL m)"
proof (rule keeps_liftL, rule keepsI)
  fix w q w' assume "clSecrets (view w) n ns = Some x" and run: "m w = Some (q, w')"
  moreover have "view w' = view w" using keepsD [OF assms [of "view w"] run] by simp
  ultimately show "clSecrets (view w') n ns = Some x" by simp
qed

lemma stored_host:
  assumes "host_keeps view (rSys r)"
  shows "keeps (stored view n ns x) (liftL (sRandRead (rSys r) k))"
    "keeps (stored view n ns x) (liftL (sRsaGenerateKey (rSys r) k))"
    "keeps (stored view n ns x) (liftL (sRandInt (rSys r) i))"
    "keeps (stored view n ns x) (liftL (sNow (rSys r)))"
    "keeps (stored view n ns x) (liftL (sCreateCertificate (rSys r) t key))"
  using assms by (auto simp: host_keeps_def intro!: keeps_view_stored)

lemma stored_get [stored_intro]:
  assumes "secret_calls_ok view r"
  shows "keeps (stored view n ns x) (liftL (kGetSecret (rClient r) n' ns'))"
  by (rule keeps_view_stored, rule keepsI) (auto dest: get_secret_view [OF secret_calls_okD(1) [OF assms]])

lemma stored_create [stored_intro]:
  assumes "secret_calls_ok view r"
  shows "keeps (stored view n ns x) (liftL (kCreateSecret (rClient r) y))"
proof (rule keeps_liftL, rule keepsI)
  fix w q w' assume "clSecrets (view w) n ns = Some x" and "kCreateSecret (rClient r) y w = Some (q, w')"
  with secret_calls_okD(2) [OF assms] show "clSecrets (view w') n ns = Some x"
    by (cases q) (fastforce simp: create_secret_ok_def put2_def)+
qed

lemma stored_randomHex [stored_intro]:
  "secret_calls_ok view r \<Longrightarrow> keeps (stored view n ns x) (randomHex r k)"
  unfolding randomHex_def by (intro keeps_intro stored_host secret_calls_okD)

lemma stored_ensureGeneratedSecret [stored_intro]:
  "secret_calls_ok view r \<Longrightarrow> keeps (stored view n ns x) (ensureGeneratedSecret r dp n' ns' c data)"
  unfolding ensureGeneratedSecret_def by (intro keeps_intro stored_intro)

lemma stored_getSecretData [stored_intro]:
  "secret_calls_ok view r \<Longrightarrow> keeps (stored view n ns x) (getSecretData r n' ns' k)"
  unfolding getSecretData_def by (intro keeps_intro stored_intro)

lemma stored_generateRealmSigningKey [stored_intro]:
  "secret_calls_ok view r \<Longrightarrow> keeps (stored view n ns x) (generateRealmSigningKey r realm)"
  unfolding generateRealmSigningKey_def Let_def by (intro keeps_intro stored_host secret_calls_okD)

section \<open>What is stored stays\<close>

text \<open>
  A credential that is stored is never replaced: whichever Secret is stored, under whichever name,
  is the same after any of the functions that make sure of the generated Secrets, however it returns.
\<close>

theorem generated_secrets_kept:
  assumes "secret_calls_ok view r"
  shows "keeps (stored view n ns x) (ensureMinioSecret r dp ns') \<and>
    keeps (stored view n ns x) (ensurePostgresSecret r dp ns') \<and>
    keeps (stored view n ns x) (ensureEncryptionSecret r dp ns') \<and>
    keeps (stored view n ns x) (ensureKeycloakRealmKey r dp ns') \<and>
    keeps (stored view n ns x) (ensureAdminSecret r dp ns') \<and>
    keeps (stored view n ns x) (ensureOpenFGASecrets r dp ns') \<and>
    keeps (stored view n ns x) (trinoSharedSecret r dp ns' oidc)"
  unfolding ensureMinioSecret_def ensurePostgresSecret_def ensureEncryptionSecret_def
    ensureKeycloakRealmKey_def ensureAdminSecret_def ensureOpenFGASecrets_def trinoSharedSecret_def Let_def
  by (intro conjI keeps_intro stored_intro assms)

text \<open>
  C7. What \<open>ensureGeneratedSecret\<close> does to the cluster: if the Secret is stored, nothing; if not, it
  stores an Opaque Secret with the given data, the component's labels and the platform as its owner, and
  changes nothing else; and if it returns an error, the cluster is as it was.
\<close>

theorem ensureGeneratedSecret_effect:
  assumes get: "get_secret_ok view (rClient r)" and create: "create_secret_ok view (rClient r)"
    and owner: "lSetControllerReference (rLib r) dp ((newMeta n ns)\<lparr>omLabels := labelsFor dp c\<rparr>) = Inr m"
    and same: "omName m = n" "omNamespace m = ns"
  shows "hoare (\<lambda>s. view (fst s) = cl) (ensureGeneratedSecret r dp n ns c data)
     (\<lambda>_ s. view (fst s) = (case clSecrets cl n ns of Some _ \<Rightarrow> cl | None \<Rightarrow> cl\<lparr>clSecrets :=
        put2 n ns (Some \<lparr>secMeta = m\<lparr>omCreated := True\<rparr>, secType = SecretTypeOpaque, secData = data\<rparr>)
          (clSecrets cl)\<rparr>))
     (\<lambda>_ s. view (fst s) = cl)"
proof -
  have made: "view w' = (view w)\<lparr>clSecrets := put2 n ns (Some \<lparr>secMeta = m\<lparr>omCreated := True\<rparr>,
        secType = SecretTypeOpaque, secData = data\<rparr>) (clSecrets (view w))\<rparr> \<and> clSecrets (view w) n ns = None"
    if "kCreateSecret (rClient r) \<lparr>secMeta = m, secType = SecretTypeOpaque, secData = data\<rparr> w
      = Some (Inr (), w')" for w w'
    using create that same unfolding create_secret_ok_def by fastforce
  have failed: "view w' = view w" if "kCreateSecret (rClient r) y w = Some (Inl e, w')" for y w e w'
    using create that unfolding create_secret_ok_def by fastforce
  have found: "view w' = view w \<and> clSecrets (view w) n ns = Some y"
    if "kGetSecret (rClient r) n ns w = Some (Inr y, w')" for w y w'
    using get_secret_view [OF get that] get_secret_some [OF get that] by simp
  have absent: "view w' = view w \<and> (IsNotFound e \<longleftrightarrow> clSecrets (view w) n ns = None)"
    if "kGetSecret (rClient r) n ns w = Some (Inl e, w')" for w e w'
    using get_secret_view [OF get that] get_secret_none [OF get that] by simp
  show ?thesis
  proof (rule hoareI)
    fix s s' and u :: unit
    assume "view (fst s) = cl" and "ensureGeneratedSecret r dp n ns c data s = Some (Inr u, s')"
    then show "view (fst s') = (case clSecrets cl n ns of Some _ \<Rightarrow> cl | None \<Rightarrow> cl\<lparr>clSecrets :=
        put2 n ns (Some \<lparr>secMeta = m\<lparr>omCreated := True\<rparr>, secType = SecretTypeOpaque, secData = data\<rparr>)
          (clSecrets cl)\<rparr>)"
      by (cases s) (auto simp: ensureGeneratedSecret_def owner run_simps dest!: found absent made
          split: option.splits sum.splits if_splits)
  next
    fix s e s'
    assume "view (fst s) = cl" and "ensureGeneratedSecret r dp n ns c data s = Some (Inl e, s')"
    then show "view (fst s') = cl"
      by (cases s) (auto simp: ensureGeneratedSecret_def owner run_simps dest!: found absent failed
          split: option.splits sum.splits if_splits)
  qed
qed

end
