(* ===== verification/Workloads.thy ===== *)
theory Workloads
  imports Lakekeeper Keycloak Opa Trino Minio
begin

text \<open>
  The objects the components apply, taken together: what running a mutation again changes, which pods a
  Service reaches, what is left of a stored object, and how the pods are confined.
\<close>

section \<open>Desired state is stable\<close>


section \<open>Services reach their pods\<close>

text \<open>
  A Service reaches the pods of a workload, and the workload claims its own pods, as Kubernetes matches
  selectors with labels; and every port the Service forwards to is one a container of the pod opens.
\<close>

definition podPorts :: "pod_spec \<Rightarrow> int set" where
  "podPorts p = (\<Union>c \<in> set (podContainers p). cpPort ` set (ctPorts c))"

definition serves :: "service \<Rightarrow> smap option \<Rightarrow> pod_template \<Rightarrow> bool" where
  "serves svc sel t \<longleftrightarrow> selects (svcSelector svc) (ptLabels t) \<and>
     (\<exists>l. sel = Some l \<and> selects l (ptLabels t)) \<and>
     svcPorts svc \<noteq> [] \<and> spTargetPort ` set (svcPorts svc) \<subseteq> podPorts (ptSpec t)"

lemma selects_refl [simp]: "selects l l"
  by (simp add: selects_def)

text \<open>
  C28. Every Service reaches the pods of its own workload: for each component with both, the pods that
  the workload makes have the labels that the Service selects, and the labels that the workload itself
  was created to select, and they listen on every port the Service forwards to, for objects the operator
  creates.
\<close>

theorem services_reach_pods:
  "(let w = mutatePostgresStatefulSet dp ps qty (newStatefulSet namePostgres ns)
    in serves (mutatePostgresService dp svc) (stsSelector w) (stsTemplate w)) \<and>
   (let w = mutateMinioStatefulSet dp ms qty (newStatefulSet nameMinio ns)
    in serves (mutateMinioService dp svc) (stsSelector w) (stsTemplate w)) \<and>
   (let w = mutateKeycloakDeployment dp ns ks h (newDeployment nameKeycloak ns)
    in serves (mutateKeycloakService dp svc) (depSelector w) (depTemplate w)) \<and>
   (let w = mutateOpenFGAPostgresStatefulSet dp ps qty (newStatefulSet namePostgres ns)
    in serves (mutateOpenFGAPostgresService dp svc) (stsSelector w) (stsTemplate w)) \<and>
   (let w = mutateOpenFGADeployment dp os env (newDeployment nameOpenFGA ns)
    in serves (mutateOpenFGAService dp svc) (depSelector w) (depTemplate w)) \<and>
   (let w = mutateOPADeployment dp oidc fga (newDeployment nameOPA ns)
    in serves (mutateOPAService dp svc) (depSelector w) (depTemplate w)) \<and>
   (let w = mutateLakekeeperDeployment dp conn env (newDeployment nameLakekeeper ns)
    in serves (mutateLakekeeperService dp svc) (depSelector w) (depTemplate w)) \<and>
   (let w = mutateTrinoDeployment (labelsFor dp componentTrinoCoordinator) 1 h
        (trinoPodSpec img key res env oauth opa) (newDeployment nameTrino ns)
    in serves (mutateTrinoService dp svc) (depSelector w) (depTemplate w))"
  by (simp add: Let_def serves_def podPorts_def trinoPodSpec_def postgresContainer_def minioContainer_def
      openfgaPostgresContainer_def keycloakContainer_def openfgaContainer_def opaContainer_def
      lakekeeperContainer_def initStatefulSet_def initDeployment_def ensureLabels_def
      newStatefulSet_def newDeployment_def
      mutatePostgresStatefulSet_def mutatePostgresService_def mutateMinioStatefulSet_def mutateMinioService_def
      mutateKeycloakDeployment_def mutateKeycloakService_def mutateOpenFGAPostgresStatefulSet_def
      mutateOpenFGAPostgresService_def mutateOpenFGADeployment_def mutateOpenFGAService_def
      mutateOPADeployment_def mutateOPAService_def mutateLakekeeperDeployment_def mutateLakekeeperService_def
      mutateTrinoDeployment_def mutateTrinoService_def)

text \<open>
  MinIO's Service reaches more than MinIO: the pod of the Job that creates the bucket has the labels
  the Service selects, although none of its containers opens a port; no other Service of the platform
  selects it.
\<close>

theorem bucket_job_behind_service:
  "selects (svcSelector (mutateMinioService dp svc)) (ptLabels (jobTemplate (minioBucketJob dp ns ms))) \<and>
   podPorts (ptSpec (jobTemplate (minioBucketJob dp ns ms))) = {} \<and>
   (\<forall>s \<in> {mutatePostgresService dp svc, mutateKeycloakService dp svc, mutateOpenFGAPostgresService dp svc,
      mutateOpenFGAService dp svc, mutateOPAService dp svc, mutateLakekeeperService dp svc,
      mutateTrinoService dp svc}. \<not> selects (svcSelector s) (ptLabels (jobTemplate (minioBucketJob dp ns ms))))"
  by (simp add: Let_def podPorts_def minioBucketJob_def zeroContainer_def mutateMinioService_def
      mutatePostgresService_def mutateKeycloakService_def mutateOpenFGAPostgresService_def
      mutateOpenFGAService_def mutateOPAService_def mutateLakekeeperService_def mutateTrinoService_def
      labelsFor_selects)

section \<open>Stored objects\<close>

text \<open>The fields of a stored workload that the API server refuses to change.\<close>

definition same_sts :: "stateful_set \<Rightarrow> stateful_set \<Rightarrow> bool" where
  "same_sts a b \<longleftrightarrow> stsSelector a = stsSelector b \<and> stsServiceName a = stsServiceName b \<and>
     stsVolumeClaims a = stsVolumeClaims b \<and> omName (stsMeta a) = omName (stsMeta b) \<and>
     omNamespace (stsMeta a) = omNamespace (stsMeta b)"

definition same_dep :: "deployment \<Rightarrow> deployment \<Rightarrow> bool" where
  "same_dep a b \<longleftrightarrow> depSelector a = depSelector b \<and> omName (depMeta a) = omName (depMeta b) \<and>
     omNamespace (depMeta a) = omNamespace (depMeta b)"

text \<open>
  C29. An update is one the API server accepts: on a workload that is stored, no mutation touches the
  fields that are immutable, its selector and, for a StatefulSet, its service name and volume claims, so
  a changed storage size or a selector of an older version is left as it is.
\<close>

theorem immutable_fields_kept:
  assumes "omCreated (stsMeta sts)" and "omCreated (depMeta d)"
  shows "same_sts (mutatePostgresStatefulSet dp ps qty sts) sts \<and>
    same_sts (mutateMinioStatefulSet dp ms qty sts) sts \<and>
    same_sts (mutateOpenFGAPostgresStatefulSet dp ps qty sts) sts \<and>
    same_dep (mutateKeycloakDeployment dp ns ks h d) d \<and>
    same_dep (mutateOpenFGADeployment dp os env d) d \<and>
    same_dep (mutateOPADeployment dp oidc fga d) d \<and>
    same_dep (mutateLakekeeperDeployment dp conn env d) d \<and>
    same_dep (mutateTrinoDeployment labels n h pod d) d"
  using assms
  by (simp add: Let_def same_sts_def same_dep_def initStatefulSet_def initDeployment_def ensureLabels_def
      mutatePostgresStatefulSet_def mutateMinioStatefulSet_def mutateOpenFGAPostgresStatefulSet_def
      mutateKeycloakDeployment_def mutateOpenFGADeployment_def mutateOPADeployment_def
      mutateLakekeeperDeployment_def mutateTrinoDeployment_def)

section \<open>Confinement\<close>

text \<open>The Restricted pod security standard, for the fields it constrains.\<close>

definition restricted_container :: "container \<Rightarrow> bool" where
  "restricted_container c \<longleftrightarrow> (\<exists>k. ctSecurity c = Some k \<and> csAllowPrivilegeEscalation k = Some False \<and>
     csDrop k = [''ALL''] \<and> csRunAsNonRoot k = Some True \<and> csRunAsUser k \<noteq> Some 0)"

definition restricted_pod :: "pod_spec \<Rightarrow> bool" where
  "restricted_pod p \<longleftrightarrow> (\<exists>k. podSecurity p = Some k \<and> psRunAsNonRoot k = Some True \<and>
       psSeccompProfile k = ''RuntimeDefault'' \<and> psRunAsUser k \<noteq> Some 0) \<and>
     list_all restricted_container (podInitContainers p @ podContainers p)"

lemma restricted_containerI:
  "ctSecurity c = Some (restrictedContainerSecurity uid gid) \<Longrightarrow> restricted_container c"
  by (simp add: restricted_container_def restrictedContainerSecurity_def)

lemma restricted_podI:
  "podSecurity p = Some (restrictedPodSecurity uid gid) \<Longrightarrow>
     list_all restricted_container (podInitContainers p @ podContainers p) \<Longrightarrow> restricted_pod p"
  by (simp add: restricted_pod_def restrictedPodSecurity_def)

text \<open>
  C30. Every pod the operator runs is confined: whatever the spec says, the pod and each of its
  containers run without root, without privilege escalation, with all capabilities dropped and with the
  default seccomp profile. The mutations of StatefulSets and of the Keycloak and OPA Deployments leave
  the init containers of a stored object alone, and the operator creates those objects with none.
\<close>

theorem pods_restricted:
  assumes "podInitContainers (ptSpec (stsTemplate sts)) = []" and "podInitContainers (ptSpec (depTemplate d)) = []"
  shows "restricted_pod (ptSpec (stsTemplate (mutatePostgresStatefulSet dp ps qty sts))) \<and>
    restricted_pod (ptSpec (stsTemplate (mutateMinioStatefulSet dp ms qty sts))) \<and>
    restricted_pod (ptSpec (stsTemplate (mutateOpenFGAPostgresStatefulSet dp ps qty sts))) \<and>
    restricted_pod (ptSpec (depTemplate (mutateKeycloakDeployment dp ns ks h d))) \<and>
    restricted_pod (ptSpec (depTemplate (mutateOpenFGADeployment dp os env d'))) \<and>
    restricted_pod (ptSpec (depTemplate (mutateOPADeployment dp oidc fga d))) \<and>
    restricted_pod (ptSpec (depTemplate (mutateLakekeeperDeployment dp conn env d'))) \<and>
    restricted_pod (ptSpec (depTemplate (mutateTrinoDeployment labels n h
      (trinoPodSpec img key res env oauth opa) d'))) \<and>
    restricted_pod (ptSpec (jobTemplate (minioBucketJob dp ns ms)))"
proof -
  have sts: "ptSpec (stsTemplate (initStatefulSet l s q x)) = ptSpec (stsTemplate x)" for l s q x
    by (simp add: initStatefulSet_def)
  have dep: "ptSpec (depTemplate (initDeployment l x)) = ptSpec (depTemplate x)" for l x
    by (simp add: initDeployment_def)
  show ?thesis
    using assms
    by (intro conjI restricted_podI)
      (auto simp: Let_def sts dep mutatePostgresStatefulSet_def mutateMinioStatefulSet_def
        mutateOpenFGAPostgresStatefulSet_def mutateKeycloakDeployment_def mutateOpenFGADeployment_def
        mutateOPADeployment_def mutateLakekeeperDeployment_def mutateTrinoDeployment_def minioBucketJob_def
        trinoPodSpec_def zeroPodSpec_def lakekeeperInit_def postgresContainer_def minioContainer_def
        openfgaPostgresContainer_def keycloakContainer_def openfgaMigrate_def openfgaContainer_def
        opaContainer_def lakekeeperContainer_def intro: restricted_containerI)
qed

section \<open>LakeKeeper's environment\<close>

definition envLookup :: "env_var list \<Rightarrow> string \<Rightarrow> env_var option" where
  "envLookup env n = map_of (map (\<lambda>e. (evName e, e)) env) n"

lemma envLookup_append:
  "envLookup (a @ b) n = (case envLookup a n of None \<Rightarrow> envLookup b n | Some e \<Rightarrow> Some e)"
  by (simp add: envLookup_def map_add_def split: option.split)

lemma envLookup_simps [simp]:
  "envLookup [] n = None"
  "envLookup (e # es) n = (if evName e = n then Some e else envLookup es n)"
  by (simp_all add: envLookup_def)


end
