(* ===== verification/Pods.thy ===== *)
theory Pods
  imports Workloads Secrets
begin

text \<open>
  The pods as the API server and the kubelet check them: a type discipline for pod specs (ports, mounts,
  volumes, probes, names) that every workload of the platform meets, and the Secret keys that containers
  refer to, all of which exist once the component has made sure of its Secrets.
\<close>

section \<open>Well-formed pods\<close>

definition probePort :: "probe \<Rightarrow> int" where
  "probePort p = (case prHandler p of HTTPGet _ port \<Rightarrow> port | TCPSocket port \<Rightarrow> port)"

text \<open>
  What the API server checks of a container with the given volumes at hand, and that a probe asks a port
  the container opens.
\<close>

definition wf_container :: "string set \<Rightarrow> container \<Rightarrow> bool" where
  "wf_container vols c \<longleftrightarrow> ctName c \<noteq> [] \<and>
     list_all (\<lambda>p. 1 \<le> cpPort p \<and> cpPort p \<le> 65535 \<and> cpName p \<noteq> [] \<and> length (cpName p) \<le> 15) (ctPorts c) \<and>
     distinct (map cpName (ctPorts c)) \<and> distinct (map cpPort (ctPorts c)) \<and>
     list_all (\<lambda>m. vmName m \<in> vols) (ctMounts c) \<and> distinct (map vmPath (ctMounts c)) \<and>
     (\<forall>p. ctReadiness c = Some p \<longrightarrow> probePort p \<in> cpPort ` set (ctPorts c))"

definition wf_pod :: "string list \<Rightarrow> pod_spec \<Rightarrow> bool" where
  "wf_pod claims p \<longleftrightarrow> podContainers p \<noteq> [] \<and>
     distinct (map ctName (podInitContainers p @ podContainers p)) \<and>
     distinct (claims @ map volName (podVolumes p)) \<and>
     list_all (wf_container (set claims \<union> volName ` set (podVolumes p))) (podInitContainers p @ podContainers p)"

definition wf_sts :: "stateful_set \<Rightarrow> bool" where
  "wf_sts sts \<longleftrightarrow> wf_pod (map vcName (stsVolumeClaims sts)) (ptSpec (stsTemplate sts))"

definition wf_dep :: "deployment \<Rightarrow> bool" where
  "wf_dep d \<longleftrightarrow> wf_pod [] (ptSpec (depTemplate d))"

text \<open>
  A stored object as the operator left it, or one not stored yet: none of its mutations adds init
  containers or volumes where it does not replace them, and its StatefulSets claim the data volume.
\<close>

definition own_sts :: "stateful_set \<Rightarrow> bool" where
  "own_sts sts \<longleftrightarrow> podInitContainers (ptSpec (stsTemplate sts)) = [] \<and>
     podVolumes (ptSpec (stsTemplate sts)) = [] \<and>
     (omCreated (stsMeta sts) \<longrightarrow> map vcName (stsVolumeClaims sts) = [volumeData])"

definition own_dep :: "deployment \<Rightarrow> bool" where
  "own_dep d \<longleftrightarrow> podInitContainers (ptSpec (depTemplate d)) = []"

definition no_volumes :: "deployment \<Rightarrow> bool" where
  "no_volumes d \<longleftrightarrow> podVolumes (ptSpec (depTemplate d)) = []"

lemma own_new [simp]: "own_sts (newStatefulSet n ns)" "own_dep (newDeployment n ns)" "no_volumes (newDeployment n ns)"
  by (simp_all add: own_sts_def own_dep_def no_volumes_def newStatefulSet_def newDeployment_def
      zeroPodTemplate_def zeroPodSpec_def)

lemmas container_defs = postgresContainer_def openfgaPostgresContainer_def minioContainer_def
  keycloakContainer_def openfgaContainer_def openfgaMigrate_def opaContainer_def lakekeeperContainer_def
  lakekeeperInit_def zeroContainer_def mountAt_def

lemma initStatefulSet_pod [simp]: "stsTemplate (initStatefulSet l s q x) = stsTemplate x"
  by (simp add: initStatefulSet_def)

lemma initDeployment_pod [simp]: "depTemplate (initDeployment l x) = depTemplate x"
  by (simp add: initDeployment_def)

lemma initStatefulSet_claims:
  "own_sts sts \<Longrightarrow> map vcName (stsVolumeClaims (initStatefulSet l s q
     (sts\<lparr>stsMeta := ensureLabels l' (stsMeta sts)\<rparr>))) = [volumeData]"
  by (auto simp: initStatefulSet_def own_sts_def ensureLabels_def)


section \<open>The Secret keys that containers refer to\<close>

definition envRefs :: "env_var list \<Rightarrow> (string \<times> string) set" where
  "envRefs env = {(n, k). \<exists>e \<in> set env. evFrom e = Some (SecretKeyRef n k)}"

definition podRefs :: "pod_spec \<Rightarrow> (string \<times> string) set" where
  "podRefs p = (\<Union>c \<in> set (podInitContainers p @ podContainers p). envRefs (ctEnv c))"

lemma envRefs_simps [simp]:
  "envRefs [] = {}" "envRefs (a @ b) = envRefs a \<union> envRefs b"
  "envRefs (envValue n v # env) = envRefs env"
  "envRefs (envSecret n sc k # env) = insert (sc, k) (envRefs env)"
  by (auto simp: envRefs_def)

text \<open>
  \<open>has\<close>: the Secret is stored and has the key. \<open>intact\<close>: if it is stored, it has the keys. A user may
  have stored a Secret under a generated name before; the operator does not look inside it.
\<close>

definition has :: "('w \<Rightarrow> cluster) \<Rightarrow> string \<Rightarrow> string \<times> string \<Rightarrow> 'w st \<Rightarrow> bool" where
  "has view ns nk s \<longleftrightarrow> (\<exists>x. clSecrets (view (fst s)) (fst nk) ns = Some x \<and> snd nk |\<in>| fmdom (secData x))"

definition intact :: "('w \<Rightarrow> cluster) \<Rightarrow> string \<Rightarrow> string \<Rightarrow> string set \<Rightarrow> 'w st \<Rightarrow> bool" where
  "intact view ns n ks s \<longleftrightarrow>
     (\<forall>x. clSecrets (view (fst s)) n ns = Some x \<longrightarrow> (\<forall>k \<in> ks. k |\<in>| fmdom (secData x)))"

text \<open>\<open>SetControllerReference\<close> sets an owner reference and no more.\<close>

definition owner_ok :: "lib \<Rightarrow> bool" where
  "owner_ok l \<longleftrightarrow> (\<forall>dp m m'. lSetControllerReference l dp m = Inr m' \<longrightarrow>
     omName m' = omName m \<and> omNamespace m' = omNamespace m \<and> omLabels m' = omLabels m)"

lemma keeps_view:
  assumes "\<And>v. keeps (\<lambda>w. view w = v) m"
  shows "keeps (\<lambda>s. Q (view (fst s))) (liftL m)"
proof (rule keeps_liftL, rule keepsI)
  fix w q w' assume "Q (view w)" and run: "m w = Some (q, w')"
  moreover have "view w' = view w" using keepsD [OF assms [of "view w"] run] by simp
  ultimately show "Q (view w')" by simp
qed

lemma view_randomHex:
  assumes "secret_calls_ok view r"
  shows "keeps (\<lambda>s. Q (view (fst s))) (randomHex r n)"
  unfolding randomHex_def using secret_calls_okD(3) [OF assms]
  by (intro keeps_intro keeps_view) (auto simp: host_keeps_def)

lemma keeps_has:
  assumes "\<And>x. keeps (stored view (fst nk) ns x) m"
  shows "keeps (has view ns nk) m"
  using assms unfolding keeps_def has_def by blast

lemma created_secret:
  assumes "create_secret_ok view kc" and "kCreateSecret kc x w = Some (Inr u, w')"
  shows "clSecrets (view w) (omName (secMeta x)) (omNamespace (secMeta x)) = None \<and>
    view w' = (view w)\<lparr>clSecrets := put2 (omName (secMeta x)) (omNamespace (secMeta x))
      (Some (x\<lparr>secMeta := (secMeta x)\<lparr>omCreated := True\<rparr>\<rparr>)) (clSecrets (view w))\<rparr>"
  using assms unfolding create_secret_ok_def by (metis sum.case(2))

lemma ensureGeneratedSecret_run:
  assumes ok: "secret_calls_ok view r" and owner: "owner_ok (rLib r)"
    and run: "ensureGeneratedSecret r dp n ns c data (w, st) = Some (q, (w', st'))"
  shows "view w' = view w \<and> (\<forall>u. q = Inr u \<longrightarrow> clSecrets (view w) n ns \<noteq> None) \<or>
    (\<exists>x. clSecrets (view w) n ns = None \<and> secData x = data \<and>
      view w' = (view w)\<lparr>clSecrets := put2 n ns (Some x) (clSecrets (view w))\<rparr>)"
proof -
  note get = secret_calls_okD(1) [OF ok] and create = secret_calls_okD(2) [OF ok]
  have made: "\<exists>x. clSecrets (view w) n ns = None \<and> secData x = data \<and>
      view w' = (view w)\<lparr>clSecrets := put2 n ns (Some x) (clSecrets (view w))\<rparr>"
    if "kCreateSecret (rClient r) \<lparr>secMeta = m, secType = SecretTypeOpaque, secData = data\<rparr> w
      = Some (Inr u, w')" and "lSetControllerReference (rLib r) dp ((newMeta n ns)\<lparr>omLabels := l\<rparr>) = Inr m"
    for m w w' l u
  proof -
    have "omName m = n" "omNamespace m = ns" using owner that(2) unfolding owner_ok_def by fastforce+
    with created_secret [OF create that(1)] show ?thesis
      by (intro exI [of _ "\<lparr>secMeta = m\<lparr>omCreated := True\<rparr>, secType = SecretTypeOpaque, secData = data\<rparr>"]) simp
  qed
  have failed: "view w' = view w" if "kCreateSecret (rClient r) y w = Some (Inl e, w')" for y w e w'
    using create that unfolding create_secret_ok_def by fastforce
  have found: "view w' = view w \<and> clSecrets (view w) n ns = Some y"
    if "kGetSecret (rClient r) n ns w = Some (Inr y, w')" for w y w'
    using get_secret_view [OF get that] get_secret_some [OF get that] by simp
  have absent: "view w' = view w \<and> (IsNotFound e \<longleftrightarrow> clSecrets (view w) n ns = None)"
    if "kGetSecret (rClient r) n ns w = Some (Inl e, w')" for w e w'
    using get_secret_view [OF get that] get_secret_none [OF get that] by simp
  show ?thesis
    using run by (cases q) (auto simp: ensureGeneratedSecret_def run_simps dest!: found absent made failed
        split: option.splits sum.splits if_splits, blast+)
qed

lemma ensureGeneratedSecret_has:
  assumes "secret_calls_ok view r" and "owner_ok (rLib r)" and "\<forall>k \<in> ks. k |\<in>| fmdom data"
  shows "hoare (intact view ns n ks) (ensureGeneratedSecret r dp n ns c data)
     (\<lambda>_ s. \<forall>k \<in> ks. has view ns (n, k) s) (\<lambda>_ _. True)"
proof (rule hoareI)
  fix s s' and u :: unit
  assume i: "intact view ns n ks s" and run: "ensureGeneratedSecret r dp n ns c data s = Some (Inr u, s')"
  obtain w st w' st' where s: "s = (w, st)" "s' = (w', st')" by (cases s, cases s')
  from ensureGeneratedSecret_run [OF assms(1,2), of dp n ns c data w st "Inr u" w' st'] run s
  show "\<forall>k \<in> ks. has view ns (n, k) s'"
    using i assms(3) by (auto simp: has_def intact_def)
qed simp

lemma ensureGeneratedSecret_intact:
  assumes "secret_calls_ok view r" and "owner_ok (rLib r)" and "n \<noteq> n'"
  shows "keeps (intact view ns n ks) (ensureGeneratedSecret r dp n' ns c data)"
proof (rule keepsI)
  fix s q s' assume i: "intact view ns n ks s" and run: "ensureGeneratedSecret r dp n' ns c data s = Some (q, s')"
  obtain w st w' st' where s: "s = (w, st)" "s' = (w', st')" by (cases s, cases s')
  from ensureGeneratedSecret_run [OF assms(1,2), of dp n' ns c data w st q w' st'] run s
  show "intact view ns n ks s'"
    using i assms(3) by (auto simp: intact_def put2_other)
qed

text \<open>The common shape: read the Secret, and generate it only if that fails.\<close>

lemma read_or_generate:
  assumes ok: "secret_calls_ok view r"
    and gen: "\<And>e. hoare (intact view ns n ks) (f e) (\<lambda>_ s. \<forall>k \<in> ks. has view ns (n, k) s) (\<lambda>_ _. True)"
  shows "hoare (intact view ns n ks)
     (handleE (liftL (kGetSecret (rClient r) n ns)) (\<lambda>q. case q of Inr _ \<Rightarrow> ret () | Inl e \<Rightarrow> f e))
     (\<lambda>_ s. \<forall>k \<in> ks. has view ns (n, k) s) (\<lambda>_ _. True)"
proof (rule hoare_handleE [where R = "\<lambda>q s. case q of Inl _ \<Rightarrow> intact view ns n ks s
    | Inr _ \<Rightarrow> \<forall>k \<in> ks. has view ns (n, k) s"])
  note get = secret_calls_okD(1) [OF ok]
  have found: "view w' = view w \<and> clSecrets (view w) n ns = Some y"
    if "kGetSecret (rClient r) n ns w = Some (Inr y, w')" for w y w'
    using get_secret_view [OF get that] get_secret_some [OF get that] by simp
  have same: "view w' = view w" if "kGetSecret (rClient r) n ns w = Some (Inl e, w')" for w e w'
    by (rule get_secret_view [OF get that])
  show "hoare (intact view ns n ks) (liftL (kGetSecret (rClient r) n ns))
      (\<lambda>x s. case Inr x of Inl _ \<Rightarrow> intact view ns n ks s | Inr _ \<Rightarrow> \<forall>k \<in> ks. has view ns (n, k) s)
      (\<lambda>e s. case Inl e of Inl _ \<Rightarrow> intact view ns n ks s | Inr _ \<Rightarrow> \<forall>k \<in> ks. has view ns (n, k) s)"
    by (rule hoareI) (auto simp: liftL_def has_def intact_def split: option.splits dest!: found same)
  fix q
  show "hoare (\<lambda>s. case q of Inl _ \<Rightarrow> intact view ns n ks s | Inr _ \<Rightarrow> \<forall>k \<in> ks. has view ns (n, k) s)
      (case q of Inr _ \<Rightarrow> ret () | Inl e \<Rightarrow> f e) (\<lambda>_ s. \<forall>k \<in> ks. has view ns (n, k) s) (\<lambda>_ _. True)"
    using gen by (cases q) (auto intro: hoare_ret)
qed

lemma applySecret_has:
  assumes cou: "cou_secret_ok view (rClient r)"
    and data: "\<And>x. k |\<in>| fmdom (secData (g x))"
  shows "hoare P (applySecret r dp (newSecret n ns) (\<lambda>x. Inr (g x))) (\<lambda>_. has view ns (n, k)) (\<lambda>_ _. True)"
proof (rule hoareI)
  fix s s' and u :: unit
  assume run: "applySecret r dp (newSecret n ns) (\<lambda>x. Inr (g x)) s = Some (Inr u, s')"
  obtain w st w' st' where s: "s = (w, st)" "s' = (w', st')" by (cases s, cases s')
  have "kCouSecret (rClient r) (newSecret n ns)
      (withController r dp secMeta (\<lambda>m o'. o'\<lparr>secMeta := m\<rparr>) (\<lambda>x. Inr (g x))) w = Some (Inr u, w')"
    using run s by (auto simp: apply_obj_def liftL_run split: option.splits)
  then obtain x y where y: "withController r dp secMeta (\<lambda>m o'. o'\<lparr>secMeta := m\<rparr>) (\<lambda>x. Inr (g x)) x = Inr y"
    and view: "clSecrets (view w') n ns = Some (y\<lparr>secMeta := (secMeta y)\<lparr>omCreated := True\<rparr>\<rparr>)"
    using cou unfolding cou_secret_ok_def by (fastforce simp: Let_def)
  from y have "secData y = secData (g x)" by (auto simp: withController_def split: sum.splits)
  with view data show "has view ns (n, k) s'" by (simp add: has_def s)
qed simp

lemma stored_applySecret:
  assumes cou: "cou_secret_ok view (rClient r)" and other: "n' \<noteq> n \<or> ns' \<noteq> ns"
  shows "keeps (stored view n' ns' x) (applySecret r dp (newSecret n ns) g)"
  unfolding apply_obj_def
proof (rule keeps_liftL, rule keepsI)
  fix w q w'
  assume "clSecrets (view w) n' ns' = Some x"
    and run: "kCouSecret (rClient r) (newSecret n ns)
      (withController r dp secMeta (\<lambda>m o'. o'\<lparr>secMeta := m\<rparr>) g) w = Some (q, w')"
  moreover have "view w' = view w \<or> (\<exists>y. view w' = (view w)\<lparr>clSecrets := put2 n ns y (clSecrets (view w))\<rparr>)"
    using cou run unfolding cou_secret_ok_def by (fastforce simp: Let_def split: sum.splits)
  ultimately show "clSecrets (view w') n' ns' = Some x" using other by (auto simp: put2_other)
qed

section \<open>Each component makes the keys its pods need\<close>

abbreviation resolves :: "('w \<Rightarrow> cluster) \<Rightarrow> string \<Rightarrow> pod_spec \<Rightarrow> 'w st \<Rightarrow> bool" where
  "resolves view ns p s \<equiv> \<forall>nk \<in> podRefs p. has view ns nk s"

lemma pod_refs:
  "own_sts sts \<Longrightarrow> podRefs (ptSpec (stsTemplate (mutateMinioStatefulSet dp ms qty sts))) =
     {(secretMinio, keyS3Access), (secretMinio, keyS3Secret)}"
  "own_sts sts \<Longrightarrow> podRefs (ptSpec (stsTemplate (mutatePostgresStatefulSet dp ps qty sts))) =
     {(secretPostgres, keyPostgresPassword)}"
  "own_sts sts \<Longrightarrow> podRefs (ptSpec (stsTemplate (mutateOpenFGAPostgresStatefulSet dp ps qty sts))) =
     {(secretPostgres, keyPostgresPassword)}"
  "podRefs (ptSpec (depTemplate (mutateOpenFGADeployment dp os (openfgaEnv uri) d))) =
     {(secretOpenFGA, keyOpenFGAAPIKey)}"
  "own_dep d \<Longrightarrow> podRefs (ptSpec (depTemplate (mutateKeycloakDeployment dp ns ks h d))) =
     {(secretKeycloakAdmin, keyKeycloakAdminUser), (secretKeycloakAdmin, keyKeycloakAdminPassword)}"
  "own_dep d \<Longrightarrow> podRefs (ptSpec (depTemplate (mutateOPADeployment dp oidc fga d))) \<subseteq>
     {(secretOIDC, keyOIDCOpaClientSecret), (secretOpenFGA, keyOpenFGAAPIKey)}"
  "podRefs (ptSpec (depTemplate (mutateLakekeeperDeployment dp conn (lakekeeperEnv dp conn oidc fga) d))) \<subseteq>
     {(secretEncryption, keyEncryption), (secretPostgres, keyPostgresUsername), (secretPostgres, keyPostgresPassword)}"
  "podRefs (ptSpec (jobTemplate (minioBucketJob dp ns ms))) = {(secretMinioMC, keyMCHost)}"
  by (auto simp: podRefs_def mutateMinioStatefulSet_def mutatePostgresStatefulSet_def
      mutateOpenFGAPostgresStatefulSet_def mutateOpenFGADeployment_def mutateKeycloakDeployment_def
      mutateOPADeployment_def mutateLakekeeperDeployment_def minioBucketJob_def container_defs Let_def
      own_sts_def own_dep_def openfgaEnv_def keycloakHostnameEnv_def opaAccessEnv_def lakekeeperEnv_def
      lakekeeperTrustedEngineEnv_def split: if_splits)

text \<open>Generating a Secret from random strings, with its keys counted.\<close>

lemma generate_after_random:
  assumes ok: "secret_calls_ok view r" and owner: "owner_ok (rLib r)"
    and "\<And>p k. k \<in> ks \<Longrightarrow> k |\<in>| fmdom (data p)"
  shows "hoare (intact view ns n ks) (bindE (randomHex r m) (\<lambda>p. ensureGeneratedSecret r dp n ns c (data p)))
     (\<lambda>_ s. \<forall>k \<in> ks. has view ns (n, k) s) (\<lambda>_ _. True)"
proof (rule hoare_bindE)
  show "hoare (intact view ns n ks) (randomHex r m) (\<lambda>_. intact view ns n ks) (\<lambda>_ _. True)"
    by (rule hoare_weaken [OF hoare_keeps
        [OF view_randomHex [OF ok, where Q = "\<lambda>v. \<forall>x. clSecrets v n ns = Some x \<longrightarrow> (\<forall>k \<in> ks. k |\<in>| fmdom (secData x))"]]])
      (simp_all add: intact_def)
  show "hoare (intact view ns n ks) (ensureGeneratedSecret r dp n ns c (data p))
      (\<lambda>_ s. \<forall>k \<in> ks. has view ns (n, k) s) (\<lambda>_ _. True)" for p
    using assms by (intro ensureGeneratedSecret_has) auto
qed

lemma intact_randomHex:
  "secret_calls_ok view r \<Longrightarrow> keeps (intact view ns n ks) (randomHex r m)"
  unfolding intact_def by (rule view_randomHex [where Q = "\<lambda>v. \<forall>x. clSecrets v n ns = Some x \<longrightarrow> (\<forall>k \<in> ks. k |\<in>| fmdom (secData x))"])

lemma ensureMinioSecret_has:
  assumes ok: "secret_calls_ok view r" and owner: "owner_ok (rLib r)"
  shows "hoare (intact view ns secretMinio {keyS3Access, keyS3Secret}) (ensureMinioSecret r dp ns)
     (\<lambda>_ s. \<forall>k \<in> {keyS3Access, keyS3Secret}. has view ns (secretMinio, k) s) (\<lambda>_ _. True)"
  unfolding ensureMinioSecret_def
proof (rule read_or_generate [OF ok], rule hoare_bindE)
  show "hoare (intact view ns secretMinio {keyS3Access, keyS3Secret}) (randomHex r 8)
      (\<lambda>_. intact view ns secretMinio {keyS3Access, keyS3Secret}) (\<lambda>_ _. True)"
    by (rule hoare_weaken [OF hoare_keeps [OF intact_randomHex [OF ok]]]) auto
qed (rule generate_after_random [OF ok owner], auto)

lemma ensurePostgresSecret_has:
  assumes ok: "secret_calls_ok view r" and owner: "owner_ok (rLib r)"
  shows "hoare (intact view ns secretPostgres {keyPostgresUsername, keyPostgresPassword})
     (ensurePostgresSecret r dp ns)
     (\<lambda>_ s. \<forall>k \<in> {keyPostgresUsername, keyPostgresPassword}. has view ns (secretPostgres, k) s) (\<lambda>_ _. True)"
  unfolding ensurePostgresSecret_def Let_def
  by (rule read_or_generate [OF ok], rule generate_after_random [OF ok owner]) auto

lemma ensureEncryptionSecret_has:
  assumes ok: "secret_calls_ok view r" and owner: "owner_ok (rLib r)"
  shows "hoare (intact view ns secretEncryption {keyEncryption}) (ensureEncryptionSecret r dp ns)
     (\<lambda>_ s. \<forall>k \<in> {keyEncryption}. has view ns (secretEncryption, k) s) (\<lambda>_ _. True)"
  unfolding ensureEncryptionSecret_def
  by (rule read_or_generate [OF ok], rule generate_after_random [OF ok owner]) auto

lemma ensureAdminSecret_has:
  assumes ok: "secret_calls_ok view r" and owner: "owner_ok (rLib r)"
  shows "hoare (intact view ns secretKeycloakAdmin {keyKeycloakAdminUser, keyKeycloakAdminPassword})
     (ensureAdminSecret r dp ns)
     (\<lambda>_ s. \<forall>k \<in> {keyKeycloakAdminUser, keyKeycloakAdminPassword}. has view ns (secretKeycloakAdmin, k) s)
     (\<lambda>_ _. True)"
  unfolding ensureAdminSecret_def
  by (rule read_or_generate [OF ok], rule hoare_if, rule generate_after_random [OF ok owner])
    (auto intro: hoare_fail)

lemma keeps_has_generated:
  "secret_calls_ok view r \<Longrightarrow> keeps (has view ns nk) (randomHex r m)"
  "secret_calls_ok view r \<Longrightarrow> keeps (has view ns nk) (ensureGeneratedSecret r dp n' ns' c data)"
  "secret_calls_ok view r \<Longrightarrow> keeps (has view ns nk) (ensureEncryptionSecret r dp ns')"
  unfolding ensureEncryptionSecret_def by (rule keeps_has, intro keeps_intro stored_intro, assumption)+

lemma ensureOpenFGASecrets_has:
  assumes ok: "secret_calls_ok view r" and owner: "owner_ok (rLib r)"
  shows "hoare (\<lambda>s. intact view ns secretOpenFGA {keyOpenFGAAPIKey} s \<and>
       intact view ns secretPostgres {keyPostgresPassword} s) (ensureOpenFGASecrets r dp ns)
     (\<lambda>_ s. has view ns (secretOpenFGA, keyOpenFGAAPIKey) s \<and> has view ns (secretPostgres, keyPostgresPassword) s)
     (\<lambda>_ _. True)"
  unfolding ensureOpenFGASecrets_def
proof (rule hoare_bindE)
  show "hoare (\<lambda>s. intact view ns secretOpenFGA {keyOpenFGAAPIKey} s \<and>
        intact view ns secretPostgres {keyPostgresPassword} s) (randomHex r 32)
      (\<lambda>_ s. intact view ns secretPostgres {keyPostgresPassword} s \<and>
        intact view ns secretOpenFGA {keyOpenFGAAPIKey} s) (\<lambda>_ _. True)"
    using intact_randomHex [OF ok] by (intro hoareI) (blast dest: keepsD)+
  fix key
  show "hoare (\<lambda>s. intact view ns secretPostgres {keyPostgresPassword} s \<and>
        intact view ns secretOpenFGA {keyOpenFGAAPIKey} s)
      (bindE (ensureGeneratedSecret r dp secretOpenFGA ns componentOpenFGA (fmap_of_list [(keyOpenFGAAPIKey, key)]))
        (\<lambda>_. bindE (randomHex r 16) (\<lambda>password. ensureGeneratedSecret r dp secretPostgres ns
          componentOpenFGAPostgres (fmap_of_list [(keyPostgresUsername, namePostgres),
            (keyPostgresPassword, password), (keyPostgresDatabase, ''postgres'')]))))
      (\<lambda>_ s. has view ns (secretOpenFGA, keyOpenFGAAPIKey) s \<and> has view ns (secretPostgres, keyPostgresPassword) s)
      (\<lambda>_ _. True)"
  proof (rule hoare_bindE)
    show "hoare (\<lambda>s. intact view ns secretPostgres {keyPostgresPassword} s \<and>
        intact view ns secretOpenFGA {keyOpenFGAAPIKey} s)
      (ensureGeneratedSecret r dp secretOpenFGA ns componentOpenFGA (fmap_of_list [(keyOpenFGAAPIKey, key)]))
      (\<lambda>_ s. has view ns (secretOpenFGA, keyOpenFGAAPIKey) s \<and> intact view ns secretPostgres {keyPostgresPassword} s)
      (\<lambda>_ _. True)"
      using ensureGeneratedSecret_intact [OF ok owner, of secretPostgres secretOpenFGA]
        ensureGeneratedSecret_has [OF ok owner, of "{keyOpenFGAAPIKey}" "fmap_of_list [(keyOpenFGAAPIKey, key)]" ns secretOpenFGA]
      by (intro hoareI) (fastforce dest: keepsD hoareD_ok)+
    show "hoare (\<lambda>s. has view ns (secretOpenFGA, keyOpenFGAAPIKey) s \<and>
          intact view ns secretPostgres {keyPostgresPassword} s)
        (bindE (randomHex r 16) (\<lambda>password. ensureGeneratedSecret r dp secretPostgres ns
          componentOpenFGAPostgres (fmap_of_list [(keyPostgresUsername, namePostgres),
            (keyPostgresPassword, password), (keyPostgresDatabase, ''postgres'')])))
        (\<lambda>_ s. has view ns (secretOpenFGA, keyOpenFGAAPIKey) s \<and> has view ns (secretPostgres, keyPostgresPassword) s)
        (\<lambda>_ _. True)" (is "hoare _ ?m _ _")
    proof -
      have "hoare (intact view ns secretPostgres {keyPostgresPassword}) ?m
          (\<lambda>_ s. \<forall>k \<in> {keyPostgresPassword}. has view ns (secretPostgres, k) s) (\<lambda>_ _. True)"
        by (rule generate_after_random [OF ok owner]) auto
      moreover have "keeps (has view ns (secretOpenFGA, keyOpenFGAAPIKey)) ?m"
        by (intro keeps_intro keeps_has_generated ok)
      ultimately show ?thesis by (intro hoareI) (fastforce dest: keepsD hoareD_ok)+
    qed
  qed
qed


end
