(* ===== verification/History.thy ===== *)
theory History
  imports Pods Effects
begin

text \<open>
  Many reconciles, of many platforms, between whatever else happens to the cluster. A history of the world
  is a step relation: a step is one run of \<open>Reconcile\<close> or one act of somebody else. The invariant is
  that a credential which is stored stays what it is, and with it what every pod was started with.
\<close>

section \<open>What the calls do to the Secrets\<close>

text \<open>An update stores the Secret under its own name or fails; a Secret that is read has the name it was asked by.\<close>

definition update_secret_ok :: "('w \<Rightarrow> cluster) \<Rightarrow> 'w kube_client \<Rightarrow> bool" where
  "update_secret_ok view kc \<longleftrightarrow> (\<forall>x w r w'. kUpdateSecret kc x w = Some (r, w') \<longrightarrow>
     (case r of Inl e \<Rightarrow> view w' = view w
      | Inr _ \<Rightarrow> \<exists>y. secData y = secData x \<and> view w' = (view w)\<lparr>clSecrets :=
          put2 (omName (secMeta x)) (omNamespace (secMeta x)) (Some y) (clSecrets (view w))\<rparr>))"

definition named_ok :: "'w kube_client \<Rightarrow> bool" where
  "named_ok kc \<longleftrightarrow> (\<forall>n ns w x w'. kGetSecret kc n ns w = Some (Inr x, w') \<longrightarrow>
     omName (secMeta x) = n \<and> omNamespace (secMeta x) = ns)"

text \<open>Every call that is not about Secrets keeps \<open>I\<close>.\<close>

definition others_keep :: "('w \<Rightarrow> bool) \<Rightarrow> 'w reconciler \<Rightarrow> bool" where
  "others_keep I r \<longleftrightarrow> (let k = rClient r in
     (\<forall>n. keeps I (kGetNamespace k n)) \<and> (\<forall>n ns. keeps I (kGetDeployment k n ns)) \<and>
     (\<forall>n ns. keeps I (kGetStatefulSet k n ns)) \<and> (\<forall>n ns. keeps I (kGetJob k n ns)) \<and>
     (\<forall>n. keeps I (kGetDataPlatform k n)) \<and> (\<forall>x. keeps I (kUpdateStatus k x)) \<and>
     (\<forall>x. keeps I (kCreateNamespace k x)) \<and>
     (\<forall>n ns. keeps I (kDeleteConfigMap k n ns)) \<and> (\<forall>n ns. keeps I (kDeleteDeployment k n ns)) \<and>
     (\<forall>n ns. keeps I (kDeleteJob k n ns)) \<and>
     (\<forall>x f. keeps I (kCouService k x f)) \<and> (\<forall>x f. keeps I (kCouConfigMap k x f)) \<and>
     (\<forall>x f. keeps I (kCouDeployment k x f)) \<and> (\<forall>x f. keeps I (kCouStatefulSet k x f)) \<and>
     (\<forall>x f. keeps I (kCouJob k x f)) \<and>
     (\<forall>ks w. I w \<longrightarrow> I (snd (sMapOrder (rSys r) ks w))) \<and>
     (\<forall>cat. rCatalog r = Some cat \<longrightarrow>
       (\<forall>ns svc port b. keeps I (cBootstrap cat ns svc port b)) \<and>
       (\<forall>ns svc port b ps. keeps I (cEnsureGrants cat ns svc port b ps)) \<and>
       (\<forall>ns svc port b rq. keeps I (cEnsureWarehouse cat ns svc port b rq)) \<and>
       (\<forall>ns svc port b rq. keeps I (cEnsureAuthzStore cat ns svc port b rq)) \<and>
       (\<forall>ns svc port p form. keeps I (cFormPost cat ns svc port p form)) \<and>
       (\<forall>u form. keeps I (cFetchToken cat u form))))"

definition cluster_ok :: "('w \<Rightarrow> cluster) \<Rightarrow> 'w reconciler \<Rightarrow> bool" where
  "cluster_ok view r \<longleftrightarrow> secret_calls_ok view r \<and> cou_secret_ok view (rClient r) \<and>
     update_secret_ok view (rClient r) \<and> named_ok (rClient r) \<and>
     (\<forall>v. others_keep (\<lambda>w. clSecrets (view w) = v) r)"

lemma cluster_okD:
  assumes "cluster_ok view r"
  shows "secret_calls_ok view r" "cou_secret_ok view (rClient r)" "update_secret_ok view (rClient r)"
    "named_ok (rClient r)" "others_keep (\<lambda>w. clSecrets (view w) = v) r"
  using assms by (simp_all add: cluster_ok_def)

section \<open>A credential\<close>

text \<open>The entry \<open>k\<close> of the Secret \<open>n\<close> has the value \<open>v\<close>.\<close>

abbreviation holds :: "('w \<Rightarrow> cluster) \<Rightarrow> string \<Rightarrow> string \<Rightarrow> string \<Rightarrow> string \<Rightarrow> 'w \<Rightarrow> bool" where
  "holds view n ns k v w \<equiv> (\<exists>x. clSecrets (view w) n ns = Some x \<and> fmlookup (secData x) k = Some v)"

abbreviation cred :: "('w \<Rightarrow> cluster) \<Rightarrow> string \<Rightarrow> string \<Rightarrow> string \<Rightarrow> string \<Rightarrow> 'w st \<Rightarrow> bool" where
  "cred view n ns k v \<equiv> \<lambda>s. holds view n ns k v (fst s)"

named_theorems cred_intro
  \<open>rules that a function leaves a credential alone\<close>

lemma keeps_holds:
  assumes "\<And>c. keeps (\<lambda>w. clSecrets (view w) = c) m"
  shows "keeps (holds view n ns k v) m"
proof (rule keepsI)
  fix w q w' assume h: "holds view n ns k v w" and run: "m w = Some (q, w')"
  have "clSecrets (view w') = clSecrets (view w)"
    using keepsD [OF assms [of "clSecrets (view w)"] run] by simp
  with h show "holds view n ns k v w'" by simp
qed

lemma cred_calls:
  assumes ok: "cluster_ok view r"
  shows "keeps (holds view n ns k v) (kGetNamespace (rClient r) a)"
    "keeps (holds view n ns k v) (kGetDeployment (rClient r) a b)"
    "keeps (holds view n ns k v) (kGetStatefulSet (rClient r) a b)"
    "keeps (holds view n ns k v) (kGetJob (rClient r) a b)"
    "keeps (holds view n ns k v) (kGetDataPlatform (rClient r) a)"
    "keeps (holds view n ns k v) (kUpdateStatus (rClient r) p)"
    "keeps (holds view n ns k v) (kCreateNamespace (rClient r) nso)"
    "keeps (holds view n ns k v) (kDeleteConfigMap (rClient r) a b)"
    "keeps (holds view n ns k v) (kDeleteDeployment (rClient r) a b)"
    "keeps (holds view n ns k v) (kDeleteJob (rClient r) a b)"
    "keeps (holds view n ns k v) (kCouService (rClient r) sv f1)"
    "keeps (holds view n ns k v) (kCouConfigMap (rClient r) cm f2)"
    "keeps (holds view n ns k v) (kCouDeployment (rClient r) de f3)"
    "keeps (holds view n ns k v) (kCouStatefulSet (rClient r) ss f4)"
    "keeps (holds view n ns k v) (kCouJob (rClient r) jo f5)"
  by (rule keeps_holds, use cluster_okD(5) [OF ok] in \<open>simp only: others_keep_def Let_def\<close>)+

lemma others_keep_catalog:
  assumes "others_keep I r" and "rCatalog r = Some cat"
  shows "keeps I (cBootstrap cat a b port t)" "keeps I (cEnsureGrants cat a b port t ps)"
    "keeps I (cEnsureWarehouse cat a b port t rq)" "keeps I (cEnsureAuthzStore cat a b port t sq)"
    "keeps I (cFormPost cat a b port p form)" "keeps I (cFetchToken cat u form)"
  using assms by (simp_all add: others_keep_def Let_def)

lemma cred_catalog:
  assumes ok: "cluster_ok view r" and "rCatalog r = Some cat"
  shows "keeps (holds view n ns k v) (cBootstrap cat a b port t)"
    "keeps (holds view n ns k v) (cEnsureGrants cat a b port t ps)"
    "keeps (holds view n ns k v) (cEnsureWarehouse cat a b port t rq)"
    "keeps (holds view n ns k v) (cEnsureAuthzStore cat a b port t sq)"
    "keeps (holds view n ns k v) (cFormPost cat a b port p form)"
    "keeps (holds view n ns k v) (cFetchToken cat u form)"
  by (rule keeps_holds, rule others_keep_catalog [OF cluster_okD(5) [OF ok] assms(2)])+

lemma keeps_cred_stored:
  assumes "\<And>x. keeps (stored view n ns x) m"
  shows "keeps (cred view n ns k v) m"
  using assms unfolding keeps_def by blast

lemma cred_host:
  assumes "cluster_ok view r"
  shows "keeps (cred view n ns k v) (liftL (sRandRead (rSys r) a))"
    "keeps (cred view n ns k v) (liftL (sRsaGenerateKey (rSys r) a))"
    "keeps (cred view n ns k v) (liftL (sRandInt (rSys r) i))"
    "keeps (cred view n ns k v) (liftL (sNow (rSys r)))"
    "keeps (cred view n ns k v) (liftL (sCreateCertificate (rSys r) t key))"
    "keeps (cred view n ns k v) (liftL (kGetSecret (rClient r) a' b'))"
  by (rule keeps_cred_stored, intro stored_host stored_get secret_calls_okD cluster_okD(1) [OF assms])+

lemma cred_helpers [cred_intro]:
  assumes "cluster_ok view r"
  shows "keeps (cred view n ns k v) (randomHex r num)"
    "keeps (cred view n ns k v) (ensureGeneratedSecret r dp a b c d)"
    "keeps (cred view n ns k v) (getSecretData r a b key)"
    "keeps (cred view n ns k v) (ensureNamespace r dp a c)"
    "keeps (cred view n ns k v) (statefulSetReady r a b)"
    "keeps (cred view n ns k v) (deploymentReady r a b)"
proof -
  show "keeps (cred view n ns k v) (randomHex r num)"
    "keeps (cred view n ns k v) (ensureGeneratedSecret r dp a b c d)"
    "keeps (cred view n ns k v) (getSecretData r a b key)"
    by (rule keeps_cred_stored, intro stored_intro cluster_okD(1) [OF assms])+
  show "keeps (cred view n ns k v) (ensureNamespace r dp a c)"
    "keeps (cred view n ns k v) (statefulSetReady r a b)"
    "keeps (cred view n ns k v) (deploymentReady r a b)"
    unfolding ensureNamespace_def statefulSetReady_def deploymentReady_def
    by (intro keeps_intro keeps_liftL [where I = "holds view n ns k v"] cred_calls [OF assms])+
qed

lemma cred_setCondition [cred_intro]: "keeps (cred view n ns k v) (setCondition r dp c b reason msg)"
  by (rule world_setCondition)

lemma cred_modifyR [cred_intro]: "keeps (cred view n ns k v) (modifyR g)"
  by (rule world_modifyR)

lemma cred_stage [cred_intro]:
  "keeps (cred view n ns k v) m \<Longrightarrow> (\<And>x. keeps (cred view n ns k v) (f x)) \<Longrightarrow>
     keeps (cred view n ns k v) (stage r dp c m f)"
  by (rule world_stage)

lemma cred_missing [cred_intro]: "keeps (cred view n ns k v) (missing r dp c e)"
  by (rule world_missing)

lemma cred_apply [cred_intro]:
  assumes "cluster_ok view r"
  shows "keeps (cred view n ns k v) (applyService r dp sv f1)"
    "keeps (cred view n ns k v) (applyConfigMap r dp cm f2)"
    "keeps (cred view n ns k v) (applyDeployment r dp de f3)"
    "keeps (cred view n ns k v) (applyStatefulSet r dp ss f4)"
    "keeps (cred view n ns k v) (applyJob r dp jo f5)"
  unfolding apply_obj_def by (intro keeps_liftL [where I = "holds view n ns k v"] cred_calls [OF assms])+

lemma cred_applySecret [cred_intro]:
  "cluster_ok view r \<Longrightarrow> n \<noteq> a \<or> ns \<noteq> b \<Longrightarrow>
     keeps (cred view n ns k v) (applySecret r dp (newSecret a b) g)"
  by (rule keeps_cred_stored, rule stored_applySecret) (auto dest: cluster_okD)

section \<open>The clients' Secret grows\<close>

text \<open>
  An update of a Secret that is read and written back with more entries keeps every credential, its own
  included; \<open>rd\<close> says that the object is what is stored.
\<close>

definition rd :: "('w \<Rightarrow> cluster) \<Rightarrow> secret \<Rightarrow> 'w st \<Rightarrow> bool" where
  "rd view x s \<longleftrightarrow> clSecrets (view (fst s)) (omName (secMeta x)) (omNamespace (secMeta x)) = Some x"

lemma cred_update:
  assumes ok: "cluster_ok view r"
    and more: "\<And>a b. fmlookup (secData x) a = Some b \<Longrightarrow> fmlookup (secData y) a = Some b"
    and same: "secMeta y = secMeta x"
  shows "hoare (\<lambda>s. cred view n ns k v s \<and> rd view x s) (liftL (kUpdateSecret (rClient r) y))
     (\<lambda>_. cred view n ns k v) (\<lambda>_. cred view n ns k v)"
proof -
  have "cred view n ns k v s'"
    if pre: "cred view n ns k v s \<and> rd view x s" and run: "liftL (kUpdateSecret (rClient r) y) s = Some (q, s')"
    for s q s'
  proof -
    obtain w st w' where s: "s = (w, st)" "s' = (w', st)" "kUpdateSecret (rClient r) y w = Some (q, w')"
      using run by (cases s) (auto simp: liftL_def split: option.splits)
    have "view w' = view w \<or> (\<exists>z. secData z = secData y \<and> view w' = (view w)\<lparr>clSecrets :=
        put2 (omName (secMeta x)) (omNamespace (secMeta x)) (Some z) (clSecrets (view w))\<rparr>)"
      using cluster_okD(3) [OF ok] s(3) same unfolding update_secret_ok_def by (cases q) fastforce+
    then show ?thesis
    proof
      assume "view w' = view w"
      with pre s show ?thesis by simp
    next
      assume "\<exists>z. secData z = secData y \<and> view w' = (view w)\<lparr>clSecrets :=
        put2 (omName (secMeta x)) (omNamespace (secMeta x)) (Some z) (clSecrets (view w))\<rparr>"
      then obtain z where z: "secData z = secData y" "view w' = (view w)\<lparr>clSecrets :=
        put2 (omName (secMeta x)) (omNamespace (secMeta x)) (Some z) (clSecrets (view w))\<rparr>" by blast
      with pre s more show ?thesis
        by (cases "n = omName (secMeta x) \<and> ns = omNamespace (secMeta x)")
          (auto simp: rd_def put2_other)
    qed
  qed
  then show ?thesis by (intro hoareI) blast+
qed

lemma keeps_conj: "keeps I m \<Longrightarrow> keeps J m \<Longrightarrow> keeps (\<lambda>s. I s \<and> J s) m"
  unfolding keeps_def by blast

lemma cred_ensureOIDCSecretKeys:
  assumes ok: "cluster_ok view r"
  shows "hoare (\<lambda>s. cred view n ns k v s \<and> rd view x s) (ensureOIDCSecretKeys r x)
     (\<lambda>_. cred view n ns k v) (\<lambda>_. cred view n ns k v)"
proof -
  have "keeps (cred view n ns k v) (randomHex r 16)" by (rule cred_helpers(1) [OF ok])
  moreover have "keeps (rd view x) (randomHex r 16)"
    unfolding rd_def by (rule view_randomHex [OF cluster_okD(1) [OF ok],
      where Q = "\<lambda>c. clSecrets c (omName (secMeta x)) (omNamespace (secMeta x)) = Some x"])
  ultimately have "keeps (\<lambda>s. cred view n ns k v s \<and> rd view x s) (randomHex r 16)" by (rule keeps_conj)
  then have random: "hoare (\<lambda>s. cred view n ns k v s \<and> rd view x s) (randomHex r 16)
      (\<lambda>_ s. cred view n ns k v s \<and> rd view x s) (\<lambda>_. cred view n ns k v)"
    by (rule hoare_weaken [OF hoare_keeps]) auto
  show ?thesis
    unfolding ensureOIDCSecretKeys_def Let_def
    by (intro hoare_if hoare_bindE [OF random] cred_update [OF ok] hoare_ret)
      (auto split: if_splits)
qed

lemma keeps_from_hoare: "hoare I m (\<lambda>_. I) (\<lambda>_. I) \<Longrightarrow> keeps I m"
  unfolding hoare_def keeps_def by (metis (no_types, lifting) sum.case_eq_if)

lemma cred_ensureOIDCSecret [cred_intro]:
  assumes ok: "cluster_ok view r"
  shows "keeps (cred view n ns k v) (ensureOIDCSecret r dp b)"
  unfolding ensureOIDCSecret_def
proof (rule keeps_from_hoare, rule hoare_handleE [where R = "\<lambda>q s. cred view n ns k v s \<and>
    (case q of Inl _ \<Rightarrow> True | Inr x \<Rightarrow> rd view x s)"])
  note get = secret_calls_okD(1) [OF cluster_okD(1) [OF ok]]
  have step: "cred view n ns k v s' \<and> (case q of Inl _ \<Rightarrow> True | Inr x \<Rightarrow> rd view x s')"
    if "cred view n ns k v s" and run: "liftL (kGetSecret (rClient r) secretOIDC b) s = Some (q, s')" for s q s'
  proof -
    obtain w st w' where s: "s = (w, st)" "s' = (w', st)" "kGetSecret (rClient r) secretOIDC b w = Some (q, w')"
      using run by (cases s) (auto simp: liftL_def split: option.splits)
    have "rd view x s'" if "q = Inr x" for x
      using get_secret_view [OF get s(3)] get_secret_some [OF get] s that cluster_okD(4) [OF ok]
      by (fastforce simp: rd_def named_ok_def)
    then show ?thesis using get_secret_view [OF get s(3)] that(1) s by (auto split: sum.split)
  qed
  show "hoare (cred view n ns k v) (liftL (kGetSecret (rClient r) secretOIDC b))
      (\<lambda>x s. cred view n ns k v s \<and> (case Inr x of Inl _ \<Rightarrow> True | Inr x \<Rightarrow> rd view x s))
      (\<lambda>e s. cred view n ns k v s \<and> (case Inl e of Inl _ \<Rightarrow> True | Inr x \<Rightarrow> rd view x s))"
  proof (rule hoareI)
    fix s x s' assume "cred view n ns k v s" and "liftL (kGetSecret (rClient r) secretOIDC b) s = Some (Inr x, s')"
    from step [OF this] show "cred view n ns k v s' \<and> (case Inr x of Inl _ \<Rightarrow> True | Inr x \<Rightarrow> rd view x s')"
      by simp
  next
    fix s e s' assume "cred view n ns k v s" and "liftL (kGetSecret (rClient r) secretOIDC b) s = Some (Inl e, s')"
    from step [OF this] show "cred view n ns k v s' \<and> (case Inl e of Inl _ \<Rightarrow> True | Inr x \<Rightarrow> rd view x s')"
      by simp
  qed
  fix q
  show "hoare (\<lambda>s. cred view n ns k v s \<and> (case q of Inl _ \<Rightarrow> True | Inr x \<Rightarrow> rd view x s))
      (case q of Inr oidc \<Rightarrow> ensureOIDCSecretKeys r oidc
       | Inl e \<Rightarrow> if IsNotFound e then
           bindE (randomHex r 16) (\<lambda>trinoSecret. bindE (randomHex r 16) (\<lambda>operatorSecret.
           bindE (randomHex r 16) (\<lambda>opaSecret. ensureGeneratedSecret r dp secretOIDC b componentKeycloak
             (fmap_of_list [
             (keyOIDCClientID, DefaultOIDCClientID),
             (keyOIDCTrinoClientID, DefaultOIDCTrinoClientID),
             (keyOIDCTrinoClientSecret, trinoSecret),
             (keyOIDCOperatorClientID, DefaultOIDCOperatorClient),
             (keyOIDCOperatorSecret, operatorSecret),
             (keyOIDCOpaClientID, DefaultOIDCOpaClientID),
             (keyOIDCOpaClientSecret, opaSecret)]))))
         else fail e) (\<lambda>_. cred view n ns k v) (\<lambda>_. cred view n ns k v)"
  proof (cases q)
    case (Inl e)
    show ?thesis
      unfolding Inl sum.case
      by (rule hoare_weaken [OF hoare_keeps [where I = "cred view n ns k v"]], intro keeps_intro cred_intro ok) auto
  next
    case (Inr x)
    then show ?thesis using cred_ensureOIDCSecretKeys [OF ok, of n ns k v x] by simp
  qed
qed

section \<open>A reconcile leaves credentials alone\<close>

text \<open>
  The Secrets that are rewritten in every reconcile because they are derived: the bucket Job's URL, Trino's
  configuration and catalogs, and, in OpenFGA's namespace, the OPA bridge's copy of its client.
\<close>

definition derived :: "dataplatform \<Rightarrow> string \<Rightarrow> string \<Rightarrow> bool" where
  "derived dp n ns \<longleftrightarrow> n \<in> {secretMinioMC, secretTrinoConfig, secretTrinoCatalog} \<or>
     n = secretOIDC \<and> ns = OpenFGASpec_NamespaceOrDefault (azOpenFGA (spAuthz (dpSpec dp)))"

lemma not_derived:
  assumes "\<not> derived dp n ns"
  shows "n \<noteq> secretMinioMC" "n \<noteq> secretTrinoConfig" "n \<noteq> secretTrinoCatalog"
    "n \<noteq> secretOIDC \<or> ns \<noteq> OpenFGASpec_NamespaceOrDefault (azOpenFGA (spAuthz (dpSpec dp)))"
  using assms by (auto simp: derived_def)

lemma cred_mc: "cluster_ok view r \<Longrightarrow> \<not> derived dp n ns \<Longrightarrow>
    keeps (cred view n ns k v) (applySecret r dp' (newSecret secretMinioMC b) g)"
  "cluster_ok view r \<Longrightarrow> \<not> derived dp n ns \<Longrightarrow>
    keeps (cred view n ns k v) (applySecret r dp' (newSecret secretTrinoConfig b) g)"
  "cluster_ok view r \<Longrightarrow> \<not> derived dp n ns \<Longrightarrow>
    keeps (cred view n ns k v) (applySecret r dp' (newSecret secretTrinoCatalog b) g)"
  "cluster_ok view r \<Longrightarrow> \<not> derived dp n ns \<Longrightarrow> keeps (cred view n ns k v) (applySecret r dp'
    (newSecret secretOIDC (OpenFGASpec_NamespaceOrDefault (azOpenFGA (spAuthz (dpSpec dp))))) g)"
  by (rule cred_applySecret, assumption, use not_derived in blast)+

lemma cred_reconcilePostgres:
  assumes ok: "cluster_ok view r"
  shows "keeps (cred view n ns k v) (reconcilePostgres r dp)"
  unfolding reconcilePostgres_def externalPostgres_def ensurePostgresSecret_def
    applyPostgresService_def applyPostgresStatefulSet_def Let_def
  by (intro keeps_intro cred_intro cred_host [OF ok] ok)

lemma cred_reconcileObjectStore:
  assumes ok: "cluster_ok view r" and d: "\<not> derived dp n ns"
  shows "keeps (cred view n ns k v) (reconcileObjectStore r dp)"
  unfolding reconcileObjectStore_def externalObjectStore_def reconcileMinio_def ensureMinioSecret_def
    applyMinioService_def applyMinioStatefulSet_def ensureMinioBucket_def Let_def
  by (intro keeps_intro cred_mc(1) [OF ok d] cred_intro cred_host [OF ok] ok
      keeps_liftL [where I = "holds view n ns k v"] cred_calls [OF ok])

lemma cred_reconcileAuth:
  assumes ok: "cluster_ok view r"
  shows "keeps (cred view n ns k v) (reconcileAuth r dp)"
  unfolding reconcileAuth_def reconcileKeycloak_def externalOIDC_def externalConfig_def optionalKey_def
    ensureKeycloakSecrets_def ensureKeycloakRealmKey_def generateRealmSigningKey_def
    ensureAdminSecret_def applyKeycloakRealm_def
    applyKeycloakService_def applyKeycloakDeployment_def embeddedOIDCConfig_def Let_def
  by (intro keeps_intro cred_intro cred_host [OF ok] ok)

lemma cred_reconcileAuthz:
  assumes ok: "cluster_ok view r"
  shows "keeps (cred view n ns k v) (reconcileAuthz r dp)"
proof -
  have "keeps (cred view n ns k v) (reconcileAccessStore r dp b key)" for b key
    unfolding reconcileAccessStore_def
    by (intro keeps_intro cred_intro keeps_liftL [where I = "holds view n ns k v"] cred_catalog [OF ok]) assumption
  then show ?thesis
    unfolding reconcileAuthz_def reconcileOpenFGA_def ensureOpenFGASecrets_def applyOpenFGAPostgres_def
      applyOpenFGAService_def applyOpenFGADeployment_def Let_def
    by (intro keeps_intro cred_intro cred_host [OF ok] ok)
qed

lemma cred_reconcileLakekeeper:
  assumes ok: "cluster_ok view r"
  shows "keeps (cred view n ns k v) (reconcileLakekeeper conn oidc fga r dp)"
  unfolding reconcileLakekeeper_def ensureEncryptionSecret_def applyLakekeeperService_def
    applyLakekeeperDeployment_def Let_def
  by (intro keeps_intro cred_intro cred_host [OF ok] ok)

lemma cred_reconcileWarehouse:
  assumes ok: "cluster_ok view r"
  shows "keeps (cred view n ns k v) (reconcileWarehouse store oidc r dp)"
  unfolding reconcileWarehouse_def oidcAccessToken_def Let_def
  by (intro keeps_intro cred_intro keeps_liftL [where I = "holds view n ns k v"] cred_catalog [OF ok], assumption?)

lemma cred_trinoCatalogData:
  assumes ok: "cluster_ok view r"
  shows "keeps (cred view n ns k v) (trinoCatalogData r dp store oidc)"
proof (rule keepsI)
  fix s q s' assume h: "cred view n ns k v s" and run: "trinoCatalogData r dp store oidc s = Some (q, s')"
  obtain w st where s: "s = (w, st)" by (cases s)
  have "clSecrets (view (snd (sMapOrder (rSys r) ks w))) = clSecrets (view w)" for ks
    using cluster_okD(5) [OF ok, of "clSecrets (view w)"] by (auto simp: others_keep_def Let_def)
  moreover have "fst s' = snd (sMapOrder (rSys r) (sortedKeys (trExtraCatalogs (spTrino (dpSpec dp)))) w)"
    using run s by (auto simp: trinoCatalogData_def split: prod.splits)
  ultimately show "cred view n ns k v s'" using h s by simp
qed

lemma cred_reconcileTrinoStack:
  assumes ok: "cluster_ok view r" and d: "\<not> derived dp n ns"
  shows "keeps (cred view n ns k v) (reconcileTrinoStack store oidc fga r dp)"
  unfolding reconcileTrinoStack_def reconcileTrino_def reconcileOPA_def applyOPASecret_def
    applyOPAPolicies_def applyOPAService_def applyOPADeployment_def trinoSharedSecret_def
    applyTrinoConfigMap_def applyTrinoCatalogSecret_def applyTrinoService_def applyTrinoCoordinator_def
    reconcileTrinoWorkers_def ignoreNotFound_def Let_def
  by (intro keeps_intro cred_mc(2-4) [OF ok d] cred_trinoCatalogData [OF ok] cred_intro cred_host [OF ok] ok
      keeps_liftL [where I = "holds view n ns k v"] cred_calls [OF ok])

lemma cred_reconcile:
  assumes ok: "cluster_ok view r" and d: "\<not> derived dp n ns"
  shows "keeps (cred view n ns k v) (reconcile r dp)"
  unfolding reconcile_def reconcileLakekeeperStack_def disabledLakekeeperStack_def
    lakekeeperWhenAllowed_def warehouseWhenReady_def Let_def
  by (intro keeps_intro cred_reconcilePostgres [OF ok] cred_reconcileObjectStore [OF ok d]
      cred_reconcileAuth [OF ok] cred_reconcileAuthz [OF ok] cred_reconcileLakekeeper [OF ok]
      cred_reconcileWarehouse [OF ok] cred_reconcileTrinoStack [OF ok d] cred_intro ok)

section \<open>Histories\<close>

text \<open>No platform that can be read makes the Secret a derived one.\<close>

definition never_derived :: "'w reconciler \<Rightarrow> string \<Rightarrow> string \<Rightarrow> bool" where
  "never_derived r n ns \<longleftrightarrow> (\<forall>name w dp st w'.
     kGetDataPlatform (rClient r) name w = Some (Inr (dp, st), w') \<longrightarrow> \<not> derived dp n ns)"

lemma cred_Reconcile:
  assumes ok: "cluster_ok view r" and d: "never_derived r n ns"
  shows "keeps (holds view n ns k v) (Reconcile r name)"
proof (rule keepsI)
  fix w q w' assume h: "holds view n ns k v w" and run: "Reconcile r name w = Some (q, w')"
  let ?body = "\<lambda>dp. handleE (reconcile r dp) (\<lambda>result. bindE (patchStatus r dp) (\<lambda>_. pureE result))"
  from run obtain p w1 where get: "kGetDataPlatform (rClient r) name w = Some (p, w1)"
    by (auto simp: Reconcile_def handleE_run split: option.splits)
  have h1: "holds view n ns k v w1" using keepsD [OF cred_calls(5) [OF ok] get] h by blast
  show "holds view n ns k v w'"
  proof (cases p)
    case (Inl e)
    then show ?thesis
      using run get h1 by (auto simp: Reconcile_def run_simps split: if_splits)
  next
    case (Inr ps)
    obtain dp st where ps: "ps = (dp, st)" by (cases ps)
    have "\<not> derived dp n ns" using d get Inr ps unfolding never_derived_def by blast
    then have body: "keeps (cred view n ns k v) (?body dp)"
      unfolding patchStatus_def
      by (intro keeps_intro cred_reconcile [OF ok] keeps_liftL [where I = "holds view n ns k v"] cred_calls [OF ok])
    obtain s' where "?body dp (w1, st) = Some (q, (w', s'))"
      using run get Inr ps by (auto simp: Reconcile_def handleE_run withStatus_def split: option.splits)
    from keepsD [OF body this] h1 show ?thesis by simp
  qed
qed

text \<open>
  One step of the world: a run of \<open>Reconcile\<close> on some platform, to its end, or an act \<open>env\<close> of
  anybody else between two runs. The manager runs one \<open>Reconcile\<close> at a time.
\<close>

inductive world_step :: "'w reconciler \<Rightarrow> ('w \<Rightarrow> 'w \<Rightarrow> bool) \<Rightarrow> 'w \<Rightarrow> 'w \<Rightarrow> bool" for r env where
  reconciled: "Reconcile r name w = Some (q, w') \<Longrightarrow> world_step r env w w'"
| outside: "env w w' \<Longrightarrow> world_step r env w w'"

inductive_cases world_stepE: "world_step r env w w'"

inductive history :: "'w reconciler \<Rightarrow> ('w \<Rightarrow> 'w \<Rightarrow> bool) \<Rightarrow> 'w \<Rightarrow> 'w \<Rightarrow> bool" for r env where
  start: "history r env w w"
| more: "history r env w w' \<Longrightarrow> world_step r env w' w'' \<Longrightarrow> history r env w w''"

lemma history_invariant:
  assumes "history r env w w'" and "\<And>name. keeps I (Reconcile r name)"
    and "\<And>a b. env a b \<Longrightarrow> I a \<Longrightarrow> I b" and "I w"
  shows "I w'"
  using assms(1,4)
proof (induction rule: history.induct)
  case (more w w' w'')
  then have "I w'" by blast
  from more.hyps(2) show ?case
    by (rule world_stepE) (blast intro: keepsD [OF assms(2)] assms(3) \<open>I w'\<close>)+
qed

text \<open>
  C4. Credentials survive. Take an entry of a Secret, generated or given by a user, that is none of those
  rewritten in every reconcile. Whatever is reconciled, how often, with what errors, and whatever others do
  in between without touching that entry, once it is stored it keeps its value. So a password that a
  database was initialised with, a signing key, or a client's secret is never replaced under running pods.
\<close>

theorem credentials_survive:
  assumes ok: "cluster_ok view r" and d: "never_derived r n ns"
    and env: "\<And>a b. env a b \<Longrightarrow> holds view n ns k v a \<Longrightarrow> holds view n ns k v b"
    and run: "history r env w w'"
    and stored: "clSecrets (view w) n ns = Some x" "fmlookup (secData x) k = Some v"
  shows "\<exists>x'. clSecrets (view w') n ns = Some x' \<and> fmlookup (secData x') k = Some v"
proof (rule history_invariant [where I = "holds view n ns k v", OF run])
  show "keeps (holds view n ns k v) (Reconcile r name)" for name by (rule cred_Reconcile [OF ok d])
  show "holds view n ns k v w" using stored by blast
qed (rule env)

end
