(* ===== verification/Refine.thy ===== *)
theory Refine
  imports Contracts
begin

text \<open>
  What a reconcile is to somebody who only sees the status: an abstract machine over a map of conditions
  that decides one condition after the other, in the order of the components, stops at the first error,
  and sums up in Ready. The reconcile loop with all its calls is a refinement of it.
\<close>

section \<open>The abstract machine\<close>

type_synonym cmap = "string \<Rightarrow> condition option"

definition ctrue :: "cmap \<Rightarrow> string \<Rightarrow> bool" where
  "ctrue m t = (case m t of None \<Rightarrow> False | Some c \<Rightarrow> cdStatus c = ConditionTrue)"

text \<open>A component decides its condition for this generation; or it records an error in it.\<close>

definition decided :: "dataplatform \<Rightarrow> string \<Rightarrow> cmap \<Rightarrow> bool" where
  "decided dp c m = (case m c of None \<Rightarrow> False
     | Some d \<Rightarrow> cdObservedGeneration d = dpGeneration dp \<and> cdStatus d \<noteq> ConditionUnknown)"

definition recorded :: "dataplatform \<Rightarrow> string \<Rightarrow> err \<Rightarrow> cmap \<Rightarrow> bool" where
  "recorded dp c e m = (case m c of None \<Rightarrow> False
     | Some d \<Rightarrow> cdObservedGeneration d = dpGeneration dp \<and> cdStatus d = ConditionFalse \<and>
         cdReason d \<in> {reasonError, reasonMissing} \<and> cdMessage d = err_text e)"

text \<open>The warehouse is only worked on when everything beneath it is True.\<close>

abbreviation beneathWarehouse :: "string list" where
  "beneathWarehouse \<equiv> [ConditionPostgresReady, ConditionMinioReady, ConditionAuthReady,
     ConditionOpenFGAReady, ConditionLakekeeperReady]"

definition gate :: "dataplatform \<Rightarrow> string \<Rightarrow> cmap \<Rightarrow> bool" where
  "gate dp c m \<longleftrightarrow> (c = ConditionWarehouseReady \<and> LakekeeperSpec_IsEnabled (spLakekeeper (dpSpec dp)) \<longrightarrow>
     (\<forall>t \<in> set beneathWarehouse. ctrue m t))"

text \<open>
  \<open>phases dp cs m m' e\<close>: the components with the conditions \<open>cs\<close>, in that order, take the map \<open>m\<close> to
  \<open>m'\<close>, all of them (\<open>e = None\<close>) or up to an error. Only a component whose gate is open decides or
  fails; an error may also come from outside all components, as from a namespace, and is then recorded
  in none.
\<close>

inductive phases :: "dataplatform \<Rightarrow> string list \<Rightarrow> cmap \<Rightarrow> cmap \<Rightarrow> err option \<Rightarrow> bool" for dp where
  finished: "phases dp [] m m None"
| decide: "gate dp c m \<Longrightarrow> decided dp c (m(c := d)) \<Longrightarrow> phases dp cs (m(c := d)) m' e \<Longrightarrow>
     phases dp (c # cs) m m' e"
| skip: "\<not> gate dp c m \<Longrightarrow> phases dp cs m m' e \<Longrightarrow> phases dp (c # cs) m m' e"
| fail_in: "gate dp c m \<Longrightarrow> recorded dp c e (m(c := d)) \<Longrightarrow> phases dp (c # cs) m (m(c := d)) (Some e)"
| fail_out: "phases dp cs m m (Some e)"

inductive_cases phases_NilE: "phases dp [] m m' e"
inductive_cases phases_ConsE: "phases dp (c # cs) m m' e"

text \<open>The order of the components, and what is summed up.\<close>

definition componentOrder :: "dataplatform \<Rightarrow> string list" where
  "componentOrder dp =
     (if LakekeeperSpec_IsEnabled (spLakekeeper (dpSpec dp))
      then beneathWarehouse @ [ConditionWarehouseReady]
      else [ConditionMinioReady, ConditionPostgresReady, ConditionLakekeeperReady, ConditionWarehouseReady,
        ConditionOpenFGAReady] @ (if AuthSpec_IsEnabled (spAuth (dpSpec dp)) then [] else [ConditionAuthReady]))
     @ [ConditionTrinoReady]"

definition readyCondition :: "dataplatform \<Rightarrow> bool \<Rightarrow> condition" where
  "readyCondition dp b = \<lparr>cdType = ConditionReady, cdStatus = (if b then ConditionTrue else ConditionFalse),
     cdReason = (if b then reasonReady else reasonReconciling),
     cdMessage = (if b then ''All enabled components are ready''
       else ''Waiting for enabled components to become ready''),
     cdObservedGeneration = dpGeneration dp\<rparr>"

definition failedCondition :: "dataplatform \<Rightarrow> err \<Rightarrow> condition" where
  "failedCondition dp e = \<lparr>cdType = ConditionReady, cdStatus = ConditionFalse, cdReason = reasonError,
     cdMessage = err_text e, cdObservedGeneration = dpGeneration dp\<rparr>"

inductive spec_reconcile :: "dataplatform \<Rightarrow> cmap \<Rightarrow> cmap \<Rightarrow> err + ctrl_result \<Rightarrow> bool" for dp where
  summed_up: "phases dp (componentOrder dp) m m' None \<Longrightarrow>
     b \<longleftrightarrow> (\<forall>t \<in> set (componentOrder dp). ctrue m' t) \<Longrightarrow>
     spec_reconcile dp m (m'(ConditionReady \<mapsto> readyCondition dp b))
       (Inr \<lparr>rsRequeueAfter = (if b then 0 else 15)\<rparr>)"
| stopped: "phases dp (componentOrder dp) m m' (Some e) \<Longrightarrow>
     spec_reconcile dp m (m'(ConditionReady \<mapsto> failedCondition dp e)) (Inl e)"

section \<open>Facts of the machine\<close>

lemma phases_append:
  "phases dp cs m m1 e1 \<Longrightarrow> e1 = None \<Longrightarrow> phases dp ds m1 m2 e \<Longrightarrow> phases dp (cs @ ds) m m2 e"
  by (induction rule: phases.induct) (auto intro: phases.intros)

lemma phases_stop: "phases dp cs m m1 e1 \<Longrightarrow> e1 = Some e \<Longrightarrow> phases dp (cs @ ds) m m1 (Some e)"
  by (induction rule: phases.induct) (auto intro: phases.intros)

text \<open>The machine touches no condition but those it goes through.\<close>

lemma phases_frame: "phases dp cs m m' e \<Longrightarrow> t \<notin> set cs \<Longrightarrow> m' t = m t"
  by (induction rule: phases.induct) auto

section \<open>The simulation\<close>

definition conds :: "dp_status \<Rightarrow> cmap" where
  "conds st = (\<lambda>t. condition_of t st)"

abbreviation error_of :: "err + 'a \<Rightarrow> err option" where
  "error_of q \<equiv> (case q of Inl e \<Rightarrow> Some e | Inr _ \<Rightarrow> None)"

text \<open>
  \<open>sim\<close>: from states with \<open>P\<close>, every run of the function is a run of the machine through \<open>cs\<close>, and
  \<open>Q\<close> holds of what it returns.
\<close>

definition sim ::
  "dataplatform \<Rightarrow> ('w st \<Rightarrow> bool) \<Rightarrow> string list \<Rightarrow> ('w st, 'a) go \<Rightarrow> ('a \<Rightarrow> 'w st \<Rightarrow> bool) \<Rightarrow> bool" where
  "sim dp P cs m Q \<longleftrightarrow> (\<forall>s q s'. P s \<longrightarrow> m s = Some (q, s') \<longrightarrow>
     phases dp cs (conds (snd s)) (conds (snd s')) (error_of q) \<and> (\<forall>x. q = Inr x \<longrightarrow> Q x s'))"

lemma simI:
  assumes "\<And>s q s'. P s \<Longrightarrow> m s = Some (q, s') \<Longrightarrow> phases dp cs (conds (snd s)) (conds (snd s')) (error_of q)"
    and "hoare P m Q (\<lambda>_ _. True)"
  shows "sim dp P cs m Q"
  unfolding sim_def using assms by (blast dest: hoareD_ok)

lemma sim_phases: "sim dp P cs m Q \<Longrightarrow> P s \<Longrightarrow> m s = Some (q, s') \<Longrightarrow>
    phases dp cs (conds (snd s)) (conds (snd s')) (error_of q)"
  unfolding sim_def by blast

lemma sim_post: "sim dp P cs m Q \<Longrightarrow> P s \<Longrightarrow> m s = Some (Inr x, s') \<Longrightarrow> Q x s'"
  unfolding sim_def by blast

lemma sim_weaken:
  "sim dp P' cs m Q' \<Longrightarrow> (\<And>s. P s \<Longrightarrow> P' s) \<Longrightarrow> (\<And>x s. Q' x s \<Longrightarrow> Q x s) \<Longrightarrow> sim dp P cs m Q"
  unfolding sim_def by blast

lemma sim_bindE:
  assumes m: "sim dp P cs m R" and f: "\<And>x. sim dp (R x) ds (f x) Q"
  shows "sim dp P (cs @ ds) (bindE m f) Q"
  unfolding sim_def
proof (intro allI impI)
  fix s q s' assume P: "P s" and run: "bindE m f s = Some (q, s')"
  then consider e where "m s = Some (Inl e, s')" "q = Inl e"
    | x s1 where "m s = Some (Inr x, s1)" "f x s1 = Some (q, s')"
    by (auto simp: bindE_run split: option.splits sum.splits)
  then show "phases dp (cs @ ds) (conds (snd s)) (conds (snd s')) (error_of q) \<and> (\<forall>x. q = Inr x \<longrightarrow> Q x s')"
  proof cases
    case 1
    then show ?thesis using sim_phases [OF m P] by (auto intro: phases_stop)
  next
    case 2
    have "R x s1" by (rule sim_post [OF m P 2(1)])
    with sim_phases [OF m P 2(1)] f 2(2) show ?thesis
      by (auto intro: phases_append sim_phases dest: sim_post)
  qed
qed

lemma sim_ret: "(\<And>s. P s \<Longrightarrow> Q x s) \<Longrightarrow> sim dp P [] (ret x) Q"
  by (simp add: sim_def ret_def phases.finished)

lemma sim_split: "(\<And>a b. sim dp (P (a, b)) cs (f a b) Q) \<Longrightarrow> sim dp (P x) cs (case x of (a, b) \<Rightarrow> f a b) Q"
  by (cases x) simp

lemma sim_if: "(b \<Longrightarrow> sim dp P cs m Q) \<Longrightarrow> (\<not> b \<Longrightarrow> sim dp P cs n Q) \<Longrightarrow> sim dp P cs (if b then m else n) Q"
  by simp

text \<open>A function that touches no condition.\<close>

lemma sim_quiet:
  assumes "\<And>t v. frame t v m" and "hoare P m Q (\<lambda>_ _. True)"
  shows "sim dp P [] m Q"
proof (rule simI [OF _ assms(2)])
  fix s q s' assume run: "m s = Some (q, s')"
  have "conds (snd s') = conds (snd s)"
    using keepsD [OF assms(1) run] by (auto simp: conds_def)
  then show "phases dp [] (conds (snd s)) (conds (snd s')) (error_of q)"
    by (cases q) (auto intro: phases.intros)
qed

text \<open>A function that touches one condition, through its gate.\<close>

lemma conds_upd:
  assumes "\<And>t v. t \<noteq> c \<Longrightarrow> frame t v m" and "m s = Some (q, s')"
  shows "conds (snd s') = (conds (snd s))(c := condition_of c (snd s'))"
  using keepsD [OF assms(1,2)] by (auto simp: conds_def)

lemma settled_decided: "settled dp c st \<longleftrightarrow> decided dp c (conds st)"
  by (simp add: settled_def decided_def conds_def)

lemma reported_recorded: "reported dp c e st \<Longrightarrow> recorded dp c e (conds st)"
  by (auto simp: reported_def recorded_def conds_def)

lemma sim_component:
  assumes fr: "\<And>t v. t \<noteq> c \<Longrightarrow> frame t v m"
    and rep: "reports dp c m (\<lambda>_ s. settled dp c (snd s))"
    and gate: "\<And>s. P s \<Longrightarrow> gate dp c (conds (snd s))" and post: "hoare P m Q (\<lambda>_ _. True)"
  shows "sim dp P [c] m Q"
proof (rule simI [OF _ post])
  fix s q s' assume "P s" and run: "m s = Some (q, s')"
  note upd = conds_upd [OF fr run]
  show "phases dp [c] (conds (snd s)) (conds (snd s')) (error_of q)"
  proof (cases q)
    case (Inl e)
    then have "recorded dp c e (conds (snd s'))"
      using hoareD_err [OF rep] run by (blast intro: reported_recorded)
    then have "phases dp [c] (conds (snd s)) ((conds (snd s))(c := condition_of c (snd s'))) (Some e)"
      using gate [OF \<open>P s\<close>] by (intro phases.fail_in) (simp_all flip: upd)
    then show ?thesis by (simp add: Inl flip: upd)
  next
    case (Inr x)
    then have "decided dp c (conds (snd s'))"
      using hoareD_ok [OF rep] run by (simp add: settled_decided)
    then have "phases dp [c] (conds (snd s)) ((conds (snd s))(c := condition_of c (snd s'))) None"
      using gate [OF \<open>P s\<close>]
      by (intro phases.decide [OF _ _ phases.finished]) (simp_all flip: upd)
    then show ?thesis by (simp add: Inr flip: upd)
  qed
qed

lemma gate_other: "c \<noteq> ConditionWarehouseReady \<Longrightarrow> gate dp c m"
  by (simp add: gate_def)

lemma ctrue_T: "conditions_ok (rLib r) \<Longrightarrow> ctrue (conds (snd s)) t = T r s t"
  by (simp add: ctrue_def conds_def conditionTrue_iff)

text \<open>Setting a condition by hand.\<close>

lemma sim_setCondition:
  assumes ok: "conditions_ok (rLib r)" and b: "b \<noteq> ConditionUnknown"
    and gate: "\<And>s. P s \<Longrightarrow> gate dp c (conds (snd s))"
    and post: "hoare P (setCondition r dp c b reason msg) Q (\<lambda>_ _. True)"
  shows "sim dp P [c] (setCondition r dp c b reason msg) Q"
proof (rule sim_component [OF frame_setCondition [OF ok] _ gate post])
  show "reports dp c (setCondition r dp c b reason msg) (\<lambda>_ s. settled dp c (snd s))"
    using ok b by (intro hoareI) (auto simp: setCondition_run settled_def condition_of_set)
qed auto

context component
begin

lemma sim_run:
  assumes ok: "conditions_ok (rLib r)" and "\<And>s. P s \<Longrightarrow> gate dp ctype (conds (snd s))"
    and "hoare P (run r dp) Q (\<lambda>_ _. True)"
  shows "sim dp P [ctype] (run r dp) Q"
  using leaves_others [OF ok] reports_run [OF ok] assms(2,3) by (rule sim_component)

end

section \<open>The LakeKeeper stack\<close>

text \<open>What is known when the warehouse is reached: the flags agree with the conditions.\<close>

lemma sim_lakekeeperWhenAllowed:
  assumes ok: "conditions_ok (rLib r)" and J: "ignores r ConditionLakekeeperReady J"
  shows "sim dp J [ConditionLakekeeperReady] (lakekeeperWhenAllowed conn oidc a fga f r dp) (\<lambda>_. J)"
proof -
  have set: "sim dp J [ConditionLakekeeperReady]
      (setCondition r dp ConditionLakekeeperReady ConditionFalse reason msg) (\<lambda>_. J)" for reason msg
    by (rule sim_setCondition [OF ok _ gate_other], simp, simp,
      rule hoare_weaken [OF setCondition_step [OF ok J]]) auto
  show ?thesis
    unfolding lakekeeperWhenAllowed_def
    by (intro sim_if set lakekeeper.sim_run [OF ok gate_other] lakekeeper.step [OF ok J]) simp
qed

lemma sim_skip:
  assumes fr: "\<And>t v. frame t v m" and closed: "\<And>s. P s \<Longrightarrow> \<not> gate dp c (conds (snd s))"
    and post: "hoare P m Q (\<lambda>_ _. True)"
  shows "sim dp P [c] m Q"
proof (rule simI [OF _ post])
  fix s q s' assume "P s" and run: "m s = Some (q, s')"
  have "conds (snd s') = conds (snd s)" using keepsD [OF fr run] by (auto simp: conds_def)
  with closed [OF \<open>P s\<close>] show "phases dp [c] (conds (snd s)) (conds (snd s')) (error_of q)"
    by (cases q) (auto intro: phases.intros)
qed

lemma sim_warehouseWhenReady:
  assumes ok: "conditions_ok (rLib r)" and on: "LakekeeperSpec_IsEnabled (spLakekeeper (dpSpec dp))"
  shows "sim dp (\<lambda>s. (T r s ConditionMinioReady = storeReady \<and> T r s ConditionAuthReady = authReady) \<and>
        T r s ConditionOpenFGAReady = fgaReady) [ConditionWarehouseReady]
     (warehouseWhenReady store storeReady oidc authReady fga fgaReady r dp)
     (\<lambda>(progressing, _) s. \<not> progressing \<longleftrightarrow> (\<forall>t \<in> set lakekeeperConditions. T r s t))"
    (is "sim dp ?P _ ?m ?Q")
proof -
  let ?open = "\<lambda>s. \<forall>t \<in> set beneathWarehouse. T r s t"
  have gate: "gate dp ConditionWarehouseReady (conds (snd s)) \<longleftrightarrow> ?open s" for s :: "'a st"
    using on by (simp add: gate_def ctrue_T [OF ok])
  have post: "hoare ?P ?m ?Q (\<lambda>_ _. True)" by (rule warehouseWhenReady_done [OF ok])
  let ?rest = "bindE (reconcileWarehouse store oidc r dp) (\<lambda>_.
       bindE (getsR (\<lambda>st. \<not> conditionTrue r ConditionWarehouseReady st)) (\<lambda>waiting.
       ret (waiting, store, oidc, fga)))"
  have run: "?m s = (if ?open s then ?rest s else Some (Inr (True, store, oidc, fga), s))" if "?P s" for s
    using that by (cases s) (auto simp: warehouseWhenReady_def bindE_run getsR_run ret_run)
  have rest: "sim dp ?open [ConditionWarehouseReady] ?rest (\<lambda>_ _. True)"
  proof -
    have quiet: "sim dp (\<lambda>_. True) [] (bindE (getsR (\<lambda>st. \<not> conditionTrue r ConditionWarehouseReady st))
        (\<lambda>waiting. ret (waiting, store, oidc, fga))) (\<lambda>_ _. True)"
      by (rule sim_quiet) (auto intro!: keeps_intro hoare_any)
    have "sim dp ?open [ConditionWarehouseReady] (reconcileWarehouse store oidc r dp) (\<lambda>_ _. True)"
      by (rule warehouse.sim_run [OF ok _ hoare_any]) (simp add: gate)
    from sim_bindE [OF this quiet] show ?thesis by simp
  qed
  show ?thesis
  proof (rule simI [OF _ post])
    fix s q s' assume P: "?P s" and r: "?m s = Some (q, s')"
    show "phases dp [ConditionWarehouseReady] (conds (snd s)) (conds (snd s')) (error_of q)"
    proof (cases "?open s")
      case True
      then show ?thesis using r run [OF P] by (intro sim_phases [OF rest]) simp_all
    next
      case False
      then have "s' = s" "error_of q = None" using r run [OF P] by auto
      with False gate show ?thesis by (auto intro: phases.intros)
    qed
  qed
qed

lemma sim_ensureNamespace:
  "hoare P (ensureNamespace r dp n c) (\<lambda>_ _. True) (\<lambda>_ _. True) \<Longrightarrow>
     sim dp P [] (ensureNamespace r dp n c) (\<lambda>_ _. True)"
  by (rule sim_quiet [OF frame_ensureNamespace])

lemma sim_enabledStack:
  assumes ok: "conditions_ok (rLib r)" and on: "LakekeeperSpec_IsEnabled (spLakekeeper (dpSpec dp))"
  shows "sim dp (\<lambda>_. True) (beneathWarehouse @ [ConditionWarehouseReady]) (reconcileLakekeeperStack r dp)
     (\<lambda>(progressing, _) s. \<not> progressing \<longleftrightarrow> (\<forall>t \<in> set lakekeeperConditions. T r s t))"
proof -
  let ?ns = "LakekeeperSpec_NamespaceOrDefault (spLakekeeper (dpSpec dp))"
  have "sim dp (\<lambda>_. True) ([] @ [ConditionPostgresReady] @ [ConditionMinioReady] @ [ConditionAuthReady] @
      [ConditionOpenFGAReady] @ [ConditionLakekeeperReady] @ [ConditionWarehouseReady])
    (bindE (ensureNamespace r dp ?ns componentLakekeeper) (\<lambda>_.
      bindE (reconcilePostgres r dp) (\<lambda>conn.
      bindE (reconcileObjectStore r dp) (\<lambda>(store, storeReady).
      bindE (reconcileAuth r dp) (\<lambda>(oidc, authReady).
      bindE (reconcileAuthz r dp) (\<lambda>(fga, fgaReady).
      bindE (lakekeeperWhenAllowed conn oidc authReady fga fgaReady r dp) (\<lambda>_.
      warehouseWhenReady store storeReady oidc authReady fga fgaReady r dp)))))))
    (\<lambda>(progressing, _) s. \<not> progressing \<longleftrightarrow> (\<forall>t \<in> set lakekeeperConditions. T r s t))"
    by (rule sim_bindE [OF sim_quiet [OF frame_ensureNamespace hoare_any]],
      rule sim_bindE [OF postgres.sim_run [OF ok gate_other hoare_any]], simp,
      rule sim_bindE [OF object_store.sim_run [OF ok gate_other object_store.gated_step [OF ok ignores_true]]], simp,
      rule sim_split,
      rule sim_bindE [OF auth.sim_run [OF ok gate_other auth.gated_step [OF ok]]], simp,
      (simp add: ignores_def; fail), rule sim_split,
      rule sim_bindE [OF authz.sim_run [OF ok gate_other authz.gated_step [OF ok]]], simp,
      (simp add: ignores_def; fail), rule sim_split,
      rule sim_bindE [OF sim_lakekeeperWhenAllowed [OF ok]], (simp add: ignores_def; fail),
      rule sim_weaken [OF sim_warehouseWhenReady [OF ok on]]) auto
  then show ?thesis using on by (simp add: reconcileLakekeeperStack_def Let_def)
qed

text \<open>LakeKeeper disabled: the conditions are set one after the other.\<close>

lemma sim_off:
  assumes ok: "conditions_ok (rLib r)" and off: "\<not> LakekeeperSpec_IsEnabled (spLakekeeper (dpSpec dp))"
  shows "sim dp (\<lambda>_. True) [c] (setCondition r dp c ConditionTrue reasonDisabled ''LakeKeeper is disabled'')
     (\<lambda>_ _. True)"
  using off by (intro sim_setCondition [OF ok _ _ hoare_any]) (simp_all add: gate_def)

abbreviation disabledOrder :: "dataplatform \<Rightarrow> string list" where
  "disabledOrder dp \<equiv> [ConditionMinioReady, ConditionPostgresReady, ConditionLakekeeperReady,
     ConditionWarehouseReady, ConditionOpenFGAReady] @
     (if AuthSpec_IsEnabled (spAuth (dpSpec dp)) then [] else [ConditionAuthReady])"

lemma sim_disabledStack:
  assumes ok: "conditions_ok (rLib r)" and off: "\<not> LakekeeperSpec_IsEnabled (spLakekeeper (dpSpec dp))"
  shows "sim dp (\<lambda>_. True) (disabledOrder dp) (disabledLakekeeperStack r dp) (\<lambda>_ _. True)"
proof -
  let ?off = "\<lambda>c. setCondition r dp c ConditionTrue reasonDisabled ''LakeKeeper is disabled''"
  let ?last = "if AuthSpec_IsEnabled (spAuth (dpSpec dp)) then [] else [ConditionAuthReady]"
  have auth: "sim dp (\<lambda>_. True) ?last (whenE (\<not> AuthSpec_IsEnabled (spAuth (dpSpec dp))) (?off ConditionAuthReady))
      (\<lambda>_ _. True)"
    using sim_off [OF ok off] sim_ret [of "\<lambda>_. True" "\<lambda>_ _. True" "()" dp] by (auto simp: whenE_def)
  have "sim dp (\<lambda>_. True) ([ConditionMinioReady] @ [ConditionPostgresReady] @ [ConditionLakekeeperReady] @
      [ConditionWarehouseReady] @ [ConditionOpenFGAReady] @ ?last @ []) (disabledLakekeeperStack r dp) (\<lambda>_ _. True)"
    unfolding disabledLakekeeperStack_def Let_def
    by (intro sim_bindE [where R = "\<lambda>_ _. True"] sim_off [OF ok off] auth sim_ret) auto
  then show ?thesis by simp
qed

abbreviation lakekeeperOrder :: "dataplatform \<Rightarrow> string list" where
  "lakekeeperOrder dp \<equiv> (if LakekeeperSpec_IsEnabled (spLakekeeper (dpSpec dp))
     then beneathWarehouse @ [ConditionWarehouseReady] else disabledOrder dp)"

lemma componentOrder_split: "componentOrder dp = lakekeeperOrder dp @ [ConditionTrinoReady]"
  by (simp add: componentOrder_def)

lemma readyConditions_order: "set (readyConditions dp) - {ConditionTrinoReady} = set (lakekeeperOrder dp)"
  by (auto simp: readyConditions_def)

lemma sim_lakekeeperStack:
  assumes ok: "conditions_ok (rLib r)"
  shows "sim dp (\<lambda>_. True) (lakekeeperOrder dp) (reconcileLakekeeperStack r dp)
     (\<lambda>x s. \<not> fst x \<longleftrightarrow> (\<forall>t \<in> set (lakekeeperOrder dp). T r s t))"
proof (rule simI)
  show "hoare (\<lambda>_. True) (reconcileLakekeeperStack r dp)
      (\<lambda>x s. \<not> fst x \<longleftrightarrow> (\<forall>t \<in> set (lakekeeperOrder dp). T r s t)) (\<lambda>_ _. True)"
    using lakekeeperStack_ready [OF ok, of dp] by (simp only: readyConditions_order)
  fix s q s' assume run: "reconcileLakekeeperStack r dp s = Some (q, s')"
  show "phases dp (lakekeeperOrder dp) (conds (snd s)) (conds (snd s')) (error_of q)"
  proof (cases "LakekeeperSpec_IsEnabled (spLakekeeper (dpSpec dp))")
    case True
    then show ?thesis using sim_phases [OF sim_enabledStack [OF ok True] _ run] by simp
  next
    case False
    then have "reconcileLakekeeperStack r dp = disabledLakekeeperStack r dp"
      by (simp add: reconcileLakekeeperStack_def)
    with False run show ?thesis using sim_phases [OF sim_disabledStack [OF ok False], of s q s'] by simp
  qed
qed

section \<open>The Trino stack\<close>

lemma sim_trinoStack:
  assumes ok: "conditions_ok (rLib r)" and J: "ignores r ConditionTrinoReady J"
  shows "sim dp J [ConditionTrinoReady] (reconcileTrinoStack store oidc fga r dp)
     (\<lambda>progressing s. J s \<and> (\<not> progressing \<longleftrightarrow> T r s ConditionTrinoReady))"
proof (rule simI [OF _ trinoStack_step [OF ok J]])
  let ?ns = "TrinoSpec_NamespaceOrDefault (spTrino (dpSpec dp))"
  have quiet: "sim dp (\<lambda>_. True) [] (bindE (getsR (\<lambda>st. \<not> conditionTrue r ConditionTrinoReady st)) ret) (\<lambda>_ _. True)"
    by (rule sim_quiet) (auto intro!: keeps_intro hoare_any)
  have on: "sim dp (\<lambda>_. True) ([] @ [] @ [ConditionTrinoReady] @ [])
      (bindE (ensureNamespace r dp ?ns componentTrinoCoordinator) (\<lambda>_.
        bindE (reconcileOPA r dp oidc fga) (\<lambda>_.
        bindE (reconcileTrino store oidc fga r dp) (\<lambda>_.
        bindE (getsR (\<lambda>st. \<not> conditionTrue r ConditionTrinoReady st)) ret)))) (\<lambda>_ _. True)"
    by (intro sim_bindE [where R = "\<lambda>_ _. True"] sim_quiet [OF frame_ensureNamespace hoare_any]
        sim_quiet [OF frame_reconcileOPA hoare_any] trino.sim_run [OF ok gate_other hoare_any] quiet) simp
  have off: "sim dp (\<lambda>_. True) ([ConditionTrinoReady] @ [])
      (bindE (setCondition r dp ConditionTrinoReady ConditionTrue reasonDisabled ''Trino is disabled'') (\<lambda>_. ret False))
      (\<lambda>_ _. True)"
    by (intro sim_bindE [where R = "\<lambda>_ _. True"] sim_setCondition [OF ok _ gate_other hoare_any] sim_ret) auto
  fix s q s' assume "reconcileTrinoStack store oidc fga r dp s = Some (q, s')"
  then show "phases dp [ConditionTrinoReady] (conds (snd s)) (conds (snd s')) (error_of q)"
    using sim_phases [OF on, of s q s'] sim_phases [OF off, of s q s']
    by (simp add: reconcileTrinoStack_def Let_def split: if_splits)
qed

section \<open>The loop refines the machine\<close>

lemma conds_set:
  assumes "conditions_ok (rLib r)"
    and "setCondition r dp c b reason msg s = Some (Inr u, s')"
  shows "conds (snd s') = (conds (snd s))(c \<mapsto> \<lparr>cdType = c, cdStatus = b, cdReason = reason, cdMessage = msg,
     cdObservedGeneration = dpGeneration dp\<rparr>)"
  using assms by (cases s) (auto simp: setCondition_run conds_def condition_of_set)

lemma setCondition_total: "\<exists>s'. setCondition r dp c b reason msg s = Some (Inr (), s')"
  by (cases s) (simp add: setCondition_run)

text \<open>A stage at Ready: the machine stops there, with the error in Ready, or the rest follows.\<close>

lemma stage_cases:
  assumes ok: "conditions_ok (rLib r)" and run: "stage r dp ConditionReady m f s = Some (q, s')"
  obtains e s1 where "m s = Some (Inl e, s1)" "q = Inl e"
      "conds (snd s') = (conds (snd s1))(ConditionReady \<mapsto> failedCondition dp e)"
  | x s1 where "m s = Some (Inr x, s1)" "f x s1 = Some (q, s')"
proof -
  from run obtain p s1 where m: "m s = Some (p, s1)"
    by (auto simp: stage_def handleE_run split: option.splits)
  show ?thesis
  proof (cases p)
    case (Inl e)
    obtain s2 where set: "setCondition r dp ConditionReady ConditionFalse reasonError (err_text e) s1 = Some (Inr (), s2)"
      using setCondition_total by blast
    with run m Inl have "q = Inl e" "s' = s2" by (auto simp: stage_def run_simps)
    with m Inl conds_set [OF ok set] show ?thesis by (intro that(1)) (auto simp: failedCondition_def)
  next
    case (Inr x)
    with run m show ?thesis by (intro that(2)) (auto simp: stage_def handleE_run)
  qed
qed

text \<open>
  C2. The reconcile loop refines its abstract machine: every reconcile that returns takes the conditions
  of the status through a run of the machine and returns what the machine says. So components decide in
  order, each through its own condition and for this generation, nothing is decided after an error, the
  warehouse is only worked on over a platform that is True, and Ready with the requeue is a function of
  the conditions.
\<close>

theorem reconcile_refines:
  assumes ok: "conditions_ok (rLib r)" and run: "reconcile r dp (w, st) = Some (q, (w', st'))"
  shows "spec_reconcile dp (conds st) (conds st') q"
proof -
  let ?lk = "reconcileLakekeeperStack r dp"
  note lk = sim_lakekeeperStack [OF ok, of dp]
  have J: "ignores r ConditionTrinoReady (\<lambda>s. \<not> p \<longleftrightarrow> (\<forall>t \<in> set (lakekeeperOrder dp). T r s t))" for p :: bool
    by (auto simp: ignores_def)
  show ?thesis
  proof (cases rule: stage_cases [OF ok run [unfolded reconcile_def]])
    case (1 e s1)
    then have "phases dp (componentOrder dp) (conds st) (conds (snd s1)) (Some e)"
      using phases_stop [OF sim_phases [OF lk _ 1(1)]] unfolding componentOrder_split by (simp only: snd_conv sum.case)
    with 1 show ?thesis by (auto intro: spec_reconcile.stopped)
  next
    case (2 x s1)
    obtain p store oidc fga where x: "x = (p, store, oidc, fga)" by (cases x) auto
    have p: "\<not> p \<longleftrightarrow> (\<forall>t \<in> set (lakekeeperOrder dp). T r s1 t)"
      using sim_post [OF lk _ 2(1)] x by simp
    have first: "phases dp (lakekeeperOrder dp) (conds st) (conds (snd s1)) None"
      using sim_phases [OF lk _ 2(1)] by (simp only: snd_conv sum.case)
    note tr = sim_trinoStack [OF ok J [of p], where dp = dp and store = store and oidc = oidc and fga = fga]
    show ?thesis
    proof (cases rule: stage_cases [OF ok 2(2) [unfolded x prod.case]])
      case (1 e s2)
      have "phases dp (componentOrder dp) (conds st) (conds (snd s2)) (Some e)"
        using phases_append [OF first refl sim_phases [OF tr p 1(1)]] unfolding componentOrder_split
        by (simp only: sum.case)
      with 1 show ?thesis by (auto intro: spec_reconcile.stopped)
    next
      case (2 tp s2)
      have all: "phases dp (componentOrder dp) (conds st) (conds (snd s2)) None"
        using phases_append [OF first refl sim_phases [OF tr p 2(1)]] unfolding componentOrder_split
        by (simp only: sum.case)
      let ?b = "\<not> (p \<or> tp)"
      have b: "?b \<longleftrightarrow> (\<forall>t \<in> set (componentOrder dp). ctrue (conds (snd s2)) t)"
        using sim_post [OF tr p 2(1)] unfolding ctrue_T [OF ok] componentOrder_split by auto
      have "conds st' = (conds (snd s2))(ConditionReady \<mapsto> readyCondition dp ?b) \<and>
          q = Inr \<lparr>rsRequeueAfter = (if ?b then 0 else 15)\<rparr>"
        using 2(2) ok by (cases s2) (auto simp: run_simps readyCondition_def requeueWhileProgressing_def conds_def
            condition_of_set split: if_splits)
      with spec_reconcile.summed_up [OF all b] show ?thesis by simp
    qed
  qed
qed

end
