(* ===== verification/Live.thy ===== *)
theory Live
  imports Contracts
begin

text \<open>
  Progress: on a platform whose objects exist and whose workloads are up, one reconcile finds everything
  ready. The theory has the rules of total correctness, what such a platform is, and the components'
  lemmas; the theorem at the end puts them together with the contracts of the loop.
\<close>

section \<open>Succeeding\<close>

text \<open>\<open>goes P m Q\<close>: from every state with \<open>P\<close>, \<open>m\<close> returns a value and no error, and \<open>Q\<close> holds.\<close>

definition goes :: "('s \<Rightarrow> bool) \<Rightarrow> ('s, 'a) go \<Rightarrow> ('a \<Rightarrow> 's \<Rightarrow> bool) \<Rightarrow> bool" where
  "goes P m Q \<longleftrightarrow> (\<forall>s. P s \<longrightarrow> (\<exists>x s'. m s = Some (Inr x, s') \<and> Q x s'))"

text \<open>A call of the world that succeeds and keeps \<open>I\<close>, with a value in \<open>V\<close>; and a function of the program.\<close>

definition works :: "('w \<Rightarrow> bool) \<Rightarrow> ('w, 'a) go \<Rightarrow> ('a \<Rightarrow> bool) \<Rightarrow> bool" where
  "works I m V \<longleftrightarrow> goes I m (\<lambda>x w. I w \<and> V x)"

definition ends :: "('w \<Rightarrow> bool) \<Rightarrow> ('w st, 'a) go \<Rightarrow> ('a \<Rightarrow> 'w st \<Rightarrow> bool) \<Rightarrow> bool" where
  "ends I m Q \<longleftrightarrow> goes (\<lambda>s. I (fst s)) m (\<lambda>x s. I (fst s) \<and> Q x s)"

abbreviation able :: "('w \<Rightarrow> bool) \<Rightarrow> ('w st, 'a) go \<Rightarrow> ('a \<Rightarrow> bool) \<Rightarrow> bool" where
  "able I m V \<equiv> ends I m (\<lambda>x _. V x)"

lemma goesI: "(\<And>s. P s \<Longrightarrow> \<exists>x s'. m s = Some (Inr x, s') \<and> Q x s') \<Longrightarrow> goes P m Q"
  by (simp add: goes_def)

lemma goesD: "goes P m Q \<Longrightarrow> P s \<Longrightarrow> \<exists>x s'. m s = Some (Inr x, s') \<and> Q x s'"
  by (simp add: goes_def)

lemma goes_weaken: "goes P' m Q' \<Longrightarrow> (\<And>s. P s \<Longrightarrow> P' s) \<Longrightarrow> (\<And>x s. Q' x s \<Longrightarrow> Q x s) \<Longrightarrow> goes P m Q"
  unfolding goes_def by meson

lemma goes_bindE:
  assumes "goes P m R" and "\<And>x. goes (R x) (f x) Q"
  shows "goes P (bindE m f) Q"
proof (rule goesI)
  fix s assume "P s"
  then obtain x t where "m s = Some (Inr x, t)" "R x t" using goesD [OF assms(1)] by blast
  moreover then obtain y u where "f x t = Some (Inr y, u)" "Q y u" using goesD [OF assms(2)] by blast
  ultimately show "\<exists>y s'. bindE m f s = Some (Inr y, s') \<and> Q y s'" by (simp add: bindE_run)
qed

lemma goes_handle:
  assumes "goes P m R" and "\<And>x. goes (R x) (f (Inr x)) Q"
  shows "goes P (handleE m f) Q"
proof (rule goesI)
  fix s assume "P s"
  then obtain x t where "m s = Some (Inr x, t)" "R x t" using goesD [OF assms(1)] by blast
  moreover then obtain y u where "f (Inr x) t = Some (Inr y, u)" "Q y u" using goesD [OF assms(2)] by blast
  ultimately show "\<exists>y s'. handleE m f s = Some (Inr y, s') \<and> Q y s'" by (simp add: handleE_run)
qed

lemma goes_stage:
  assumes "goes P m R" and "\<And>x. goes (R x) (f x) Q"
  shows "goes P (stage r dp c m f) Q"
  unfolding stage_def using assms by (intro goes_handle) simp_all

text \<open>What partial correctness knows of the result is known of a result that is reached.\<close>

lemma goes_hoare: "goes P m Q \<Longrightarrow> hoare P' m Q' E \<Longrightarrow> goes (\<lambda>s. P s \<and> P' s) m (\<lambda>x s. Q x s \<and> Q' x s)"
  unfolding goes_def by (blast dest: hoareD_ok)

text \<open>The same rules where only the value matters between the steps.\<close>

lemma goes_conj: "(b \<Longrightarrow> goes P m Q) \<Longrightarrow> goes (\<lambda>s. P s \<and> b) m Q"
  unfolding goes_def by blast

lemma ends_weaken: "ends I m Q' \<Longrightarrow> (\<And>x s. Q' x s \<Longrightarrow> Q x s) \<Longrightarrow> ends I m Q"
  unfolding ends_def by (erule goes_weaken) auto

lemma able_bind: "able I m V \<Longrightarrow> (\<And>x. V x \<Longrightarrow> ends I (f x) Q) \<Longrightarrow> ends I (bindE m f) Q"
  unfolding ends_def by (erule goes_bindE) (rule goes_conj)

lemma able_stage: "able I m V \<Longrightarrow> (\<And>x. V x \<Longrightarrow> ends I (f x) Q) \<Longrightarrow> ends I (stage r dp c m f) Q"
  unfolding ends_def by (erule goes_stage) (rule goes_conj)

lemma able_handle: "able I m V \<Longrightarrow> (\<And>x. V x \<Longrightarrow> ends I (f (Inr x)) Q) \<Longrightarrow> ends I (handleE m f) Q"
  unfolding ends_def by (erule goes_handle) (rule goes_conj)

lemma able_ret: "V x \<Longrightarrow> able I (ret x) V"
  by (simp add: ends_def goes_def ret_def)

lemma able_pure: "a = Inr x \<Longrightarrow> V x \<Longrightarrow> able I (pureE a) V"
  by (simp add: ends_def goes_def pureE_def)

lemma able_modify: "able I (modifyR g) (\<lambda>_. True)"
  by (simp add: ends_def goes_def modifyR_def split_def)

lemma able_gets: "able I (getsR g) (\<lambda>_. True)"
  by (simp add: ends_def goes_def getsR_def split_def)

lemma able_setCondition: "able I (setCondition r dp c b reason msg) (\<lambda>_. True)"
  unfolding setCondition_def by (rule able_modify)

lemma able_liftL: "works I m V \<Longrightarrow> able I (liftL m) V"
  unfolding works_def ends_def goes_def liftL_def by fastforce

lemma able_when: "(b \<Longrightarrow> able I m (\<lambda>_. True)) \<Longrightarrow> able I (whenE b m) (\<lambda>_. True)"
  by (cases b) (simp_all add: whenE_def able_ret)

lemma able_handle_any:
  "works I (handleE m ret) V \<Longrightarrow> (\<And>q. V q \<Longrightarrow> ends I (f q) Q) \<Longrightarrow> ends I (handleE (liftL m) f) Q"
  unfolding works_def ends_def
proof (rule goesI)
  fix s :: "'a st" assume w: "goes I (handleE m ret) (\<lambda>x w. I w \<and> V x)" and "I (fst s)"
    and f: "\<And>q. V q \<Longrightarrow> goes (\<lambda>s. I (fst s)) (f q) (\<lambda>x s. I (fst s) \<and> Q x s)"
  obtain v t where s: "s = (v, t)" by (cases s)
  with goesD [OF w, of v] \<open>I (fst s)\<close> obtain q v' where "handleE m ret v = Some (Inr q, v')" "V q" "I v'"
    by auto
  moreover from this(1) have "m v = Some (q, v')" by (auto simp: run_simps split: option.splits)
  ultimately have "m v = Some (q, v')" "V q" "I v'" by blast+
  with s goesD [OF f, of q "(v', t)"] show "\<exists>x s'. handleE (liftL m) f s = Some (Inr x, s') \<and> I (fst s') \<and> Q x s'"
    by (simp add: run_simps)
qed

lemma able_until_true:
  assumes "ends I m (\<lambda>_ s. T r s c)"
  shows "able I (bindE m (\<lambda>_. bindE (getsR (\<lambda>st. \<not> conditionTrue r c st)) (\<lambda>b. ret (g b)))) (\<lambda>x. x = g False)"
  using assms unfolding ends_def
  by (rule goes_bindE) (auto simp: goes_def run_simps)

text \<open>A component that ends with its condition True.\<close>

lemma able_finish:
  assumes "conditions_ok (rLib r)" and "V x"
  shows "ends I (bindE (setCondition r dp c ConditionTrue reason msg) (\<lambda>_. ret x))
     (\<lambda>x s. V x \<and> T r s c)"
  using assms by (auto simp: ends_def goes_def run_simps conditionTrue_iff condition_of_set)

section \<open>A settled platform\<close>

text \<open>
  What the operator leaves to others when everything is embedded or off: the Secrets it generated with
  the keys it put there, the workloads that run, and the bucket's Job.
\<close>

definition embedded :: "dataplatform \<Rightarrow> bool" where
  "embedded dp \<longleftrightarrow> PostgresSpec_IsEmbedded (lkPostgres (spLakekeeper (dpSpec dp))) \<and>
     StorageSpec_IsEmbedded (spStorage (dpSpec dp)) \<and>
     (AuthSpec_IsEnabled (spAuth (dpSpec dp)) \<longrightarrow> AuthSpec_IsEmbedded (spAuth (dpSpec dp))) \<and>
     (AuthzSpec_IsEnabled (spAuthz (dpSpec dp)) \<longrightarrow> AuthzSpec_IsEmbedded (spAuthz (dpSpec dp)))"

abbreviation lkOn :: "dataplatform \<Rightarrow> bool" where
  "lkOn dp \<equiv> LakekeeperSpec_IsEnabled (spLakekeeper (dpSpec dp))"

abbreviation authOn :: "dataplatform \<Rightarrow> bool" where
  "authOn dp \<equiv> lkOn dp \<and> AuthSpec_IsEnabled (spAuth (dpSpec dp))"

abbreviation authzOn :: "dataplatform \<Rightarrow> bool" where
  "authzOn dp \<equiv> lkOn dp \<and> AuthzSpec_IsEnabled (spAuthz (dpSpec dp))"

abbreviation trinoOn :: "dataplatform \<Rightarrow> bool" where
  "trinoOn dp \<equiv> TrinoSpec_IsEnabled (spTrino (dpSpec dp))"

abbreviation lkNs :: "dataplatform \<Rightarrow> string" where
  "lkNs dp \<equiv> LakekeeperSpec_NamespaceOrDefault (spLakekeeper (dpSpec dp))"

abbreviation minioNs :: "dataplatform \<Rightarrow> string" where
  "minioNs dp \<equiv> MinioSpec_NamespaceOrDefault (stMinio (spStorage (dpSpec dp)))"

abbreviation keycloakNs :: "dataplatform \<Rightarrow> string" where
  "keycloakNs dp \<equiv> KeycloakSpec_NamespaceOrDefault (auKeycloak (spAuth (dpSpec dp)))"

abbreviation fgaNs :: "dataplatform \<Rightarrow> string" where
  "fgaNs dp \<equiv> OpenFGASpec_NamespaceOrDefault (azOpenFGA (spAuthz (dpSpec dp)))"

abbreviation trinoNs :: "dataplatform \<Rightarrow> string" where
  "trinoNs dp \<equiv> TrinoSpec_NamespaceOrDefault (spTrino (dpSpec dp))"

definition settledSecrets :: "dataplatform \<Rightarrow> (string \<times> string \<times> string list) list" where
  "settledSecrets dp =
     (if lkOn dp then [(secretPostgres, lkNs dp, []), (secretMinio, minioNs dp, [keyS3Access, keyS3Secret]),
        (secretEncryption, lkNs dp, [])] else []) @
     (if authOn dp then [
        (secretKeycloakRealmKey, keycloakNs dp, [keyRealmPrivateKey, keyRealmCertificate]),
        (secretKeycloakAdmin, keycloakNs dp, [keyKeycloakAdminPassword]),
        (secretOIDC, keycloakNs dp, [keyOIDCClientID, keyOIDCTrinoClientID, keyOIDCTrinoClientSecret,
           keyOIDCOperatorClientID, keyOIDCOperatorSecret, keyOIDCOpaClientID, keyOIDCOpaClientSecret])] else []) @
     (if authzOn dp then [(secretOpenFGA, fgaNs dp, [keyOpenFGAAPIKey]),
        (secretPostgres, fgaNs dp, [keyPostgresPassword])] else []) @
     (if authOn dp \<and> trinoOn dp then [(secretTrinoInternal, trinoNs dp, [keyTrinoSharedSecret])] else [])"

definition settledNamespaces :: "dataplatform \<Rightarrow> string list" where
  "settledNamespaces dp =
     (if lkOn dp then [lkNs dp, minioNs dp] else []) @ (if authOn dp then [keycloakNs dp] else []) @
     (if authzOn dp then [fgaNs dp] else []) @ (if trinoOn dp then [trinoNs dp] else [])"

definition runningSets :: "dataplatform \<Rightarrow> (string \<times> string) list" where
  "runningSets dp =
     (if lkOn dp then [(namePostgres, lkNs dp), (nameMinio, minioNs dp)] else []) @
     (if authzOn dp then [(namePostgres, fgaNs dp)] else [])"

definition runningDeployments :: "dataplatform \<Rightarrow> (string \<times> string) list" where
  "runningDeployments dp =
     (if lkOn dp then [(nameLakekeeper, lkNs dp)] else []) @
     (if authOn dp then [(nameKeycloak, keycloakNs dp)] else []) @
     (if authzOn dp then [(nameOpenFGA, fgaNs dp)] else []) @
     (if authOn dp \<and> authzOn dp \<and> trinoOn dp then [(nameOPA, fgaNs dp)] else []) @
     (if trinoOn dp then [(nameTrino, trinoNs dp)] else [])"

text \<open>
  \<open>healthy I r dp\<close>: wherever \<open>I\<close> holds of the world, the reads find those objects, up; a mutation that
  gives an object is written; the host and the libraries do their work; and the catalog answers. \<open>I\<close>
  stays true. Whether a worker Deployment exists is left open.
\<close>

definition kube_healthy :: "('w \<Rightarrow> bool) \<Rightarrow> 'w kube_client \<Rightarrow> dataplatform \<Rightarrow> bool" where
  "kube_healthy I k dp \<longleftrightarrow>
     (\<forall>n \<in> set (settledNamespaces dp). works I (kGetNamespace k n) (\<lambda>_. True)) \<and>
     (\<forall>(n, ns, ks) \<in> set (settledSecrets dp). works I (kGetSecret k n ns)
        (\<lambda>s. \<forall>key \<in> set ks. fmlookup (secData s) key \<noteq> None)) \<and>
     (\<forall>(n, ns) \<in> set (runningSets dp). works I (kGetStatefulSet k n ns) (\<lambda>s. stsReadyReplicas s \<ge> 1)) \<and>
     (\<forall>(n, ns) \<in> set (runningDeployments dp). works I (kGetDeployment k n ns) (\<lambda>d. depReadyReplicas d \<ge> 1)) \<and>
     works I (kGetJob k nameMinioBucketJob (minioNs dp)) (\<lambda>j. \<not> omDeleting (jobMeta j) \<and> jobSucceeded j) \<and>
     (\<forall>ns. works I (handleE (kGetDeployment k nameTrinoWorker ns) ret)
        (\<lambda>q. \<forall>e. q = Inl e \<longrightarrow> IsNotFound e)) \<and>
     (\<forall>n ns. works I (kDeleteDeployment k n ns) (\<lambda>_. True)) \<and>
     (\<forall>n ns. works I (handleE (kDeleteConfigMap k n ns) ret) (\<lambda>_. True)) \<and>
     (\<forall>x f. (\<forall>y. \<exists>z. f y = Inr z) \<longrightarrow> works I (kCouService k x f) (\<lambda>_. True)) \<and>
     (\<forall>x f. (\<forall>y. \<exists>z. f y = Inr z) \<longrightarrow> works I (kCouSecret k x f) (\<lambda>_. True)) \<and>
     (\<forall>x f. (\<forall>y. \<exists>z. f y = Inr z) \<longrightarrow> works I (kCouConfigMap k x f) (\<lambda>_. True)) \<and>
     (\<forall>x f. (\<forall>y. \<exists>z. f y = Inr z) \<longrightarrow> works I (kCouDeployment k x f) (\<lambda>_. True)) \<and>
     (\<forall>x f. (\<forall>y. \<exists>z. f y = Inr z) \<longrightarrow> works I (kCouStatefulSet k x f) (\<lambda>_. True))"

definition host_healthy :: "('w \<Rightarrow> bool) \<Rightarrow> 'w sys \<Rightarrow> bool" where
  "host_healthy I y \<longleftrightarrow> (\<forall>n. works I (sRandRead y n) (\<lambda>_. True)) \<and>
     (\<forall>ks w. I w \<longrightarrow> I (snd (sMapOrder y ks w)))"

definition lib_healthy :: "lib \<Rightarrow> dataplatform \<Rightarrow> bool" where
  "lib_healthy l dp \<longleftrightarrow> conditions_ok l \<and>
     (\<forall>p m. \<exists>m'. lSetControllerReference l p m = Inr m') \<and>
     (\<forall>q \<in> {PostgresSpec_StorageSizeOrDefault (lkPostgres (spLakekeeper (dpSpec dp))),
         PostgresSpec_StorageSizeOrDefault (ofPostgres (azOpenFGA (spAuthz (dpSpec dp)))),
         MinioSpec_StorageSizeOrDefault (stMinio (spStorage (dpSpec dp)))}. \<exists>x. lParseQuantity l q = Inr x) \<and>
     (\<exists>data. loadPolicies l opaPolicyDirs fmempty = Inr data)"

definition catalog_healthy :: "('w \<Rightarrow> bool) \<Rightarrow> 'w reconciler \<Rightarrow> bool" where
  "catalog_healthy I r \<longleftrightarrow> (\<exists>cat. rCatalog r = Some cat \<and>
     (\<forall>ns svc port b. works I (cBootstrap cat ns svc port b) (\<lambda>_. True)) \<and>
     (\<forall>ns svc port b ps. works I (cEnsureGrants cat ns svc port b ps) (\<lambda>_. True)) \<and>
     (\<forall>ns svc port b rq. works I (cEnsureWarehouse cat ns svc port b rq) (\<lambda>_. True)) \<and>
     (\<forall>ns svc port b rq. works I (cEnsureAuthzStore cat ns svc port b rq) (\<lambda>_. True)) \<and>
     (\<forall>ns svc port p form. works I (cFormPost cat ns svc port p form)
        (\<lambda>q. \<exists>t. tokenAnswer r q = Inr t \<and> t \<noteq> [])) \<and>
     (\<forall>u form. works I (cFetchToken cat u form) (\<lambda>q. \<exists>t. tokenAnswer r q = Inr t \<and> t \<noteq> [])))"

definition healthy :: "('w \<Rightarrow> bool) \<Rightarrow> 'w reconciler \<Rightarrow> dataplatform \<Rightarrow> bool" where
  "healthy I r dp \<longleftrightarrow> kube_healthy I (rClient r) dp \<and> host_healthy I (rSys r) \<and>
     lib_healthy (rLib r) dp \<and> catalog_healthy I r"

section \<open>The operations of a settled platform succeed\<close>

named_theorems able_intro
  \<open>operations that succeed in a healthy environment\<close>

lemma able_apply:
  assumes "healthy I r dp"
  shows "able I (applyService r p svc (\<lambda>x. Inr (f1 x))) (\<lambda>_. True)"
    and "able I (applySecret r p sec (\<lambda>x. Inr (f2 x))) (\<lambda>_. True)"
    and "(\<And>y. \<exists>z. f y = Inr z) \<Longrightarrow> able I (applyConfigMap r p cm f) (\<lambda>_. True)"
    and "able I (applyDeployment r p dep (\<lambda>x. Inr (f4 x))) (\<lambda>_. True)"
    and "able I (applyStatefulSet r p sts (\<lambda>x. Inr (f5 x))) (\<lambda>_. True)"
proof -
  have owner: "\<exists>m'. lSetControllerReference (rLib r) p m = Inr m'" for m
    using assms(1) by (simp add: healthy_def lib_healthy_def)
  have "\<exists>z. withController r p meta setMeta g y = Inr z" if "\<And>y. \<exists>z. g y = Inr z"
    for meta setMeta and g :: "'o \<Rightarrow> err + 'o" and y
    using that [of y] owner by (auto simp: withController_def split: sum.splits) (metis sum.simps(4))
  note ok = this
  show "able I (applyService r p svc (\<lambda>x. Inr (f1 x))) (\<lambda>_. True)"
    using assms(1) unfolding apply_obj_def healthy_def kube_healthy_def
    by (intro able_liftL) (simp add: ok)
  show "able I (applySecret r p sec (\<lambda>x. Inr (f2 x))) (\<lambda>_. True)"
    using assms(1) unfolding apply_obj_def healthy_def kube_healthy_def
    by (intro able_liftL) (simp add: ok)
  show "able I (applyConfigMap r p cm f) (\<lambda>_. True)" if "\<And>y. \<exists>z. f y = Inr z"
    using assms(1) that unfolding apply_obj_def healthy_def kube_healthy_def
    by (intro able_liftL) (simp add: ok)
  show "able I (applyDeployment r p dep (\<lambda>x. Inr (f4 x))) (\<lambda>_. True)"
    using assms(1) unfolding apply_obj_def healthy_def kube_healthy_def
    by (intro able_liftL) (simp add: ok)
  show "able I (applyStatefulSet r p sts (\<lambda>x. Inr (f5 x))) (\<lambda>_. True)"
    using assms(1) unfolding apply_obj_def healthy_def kube_healthy_def
    by (intro able_liftL) (simp add: ok)
qed

lemma able_getSecret:
  assumes "healthy I r dp" and "(n, ns, ks) \<in> set (settledSecrets dp)"
  shows "able I (liftL (kGetSecret (rClient r) n ns)) (\<lambda>s. \<forall>key \<in> set ks. fmlookup (secData s) key \<noteq> None)"
  using assms by (intro able_liftL) (auto simp: healthy_def kube_healthy_def)

lemma able_getSecretData:
  assumes "healthy I r dp" and "(n, ns, ks) \<in> set (settledSecrets dp)" and "k \<in> set ks"
  shows "able I (getSecretData r n ns k) (\<lambda>_. True)"
  unfolding getSecretData_def
  by (rule able_bind [OF able_getSecret [OF assms(1,2)]]) (use assms(3) in \<open>auto intro: able_ret split: option.split\<close>)

lemma able_generated:
  assumes "healthy I r dp" and "(n, ns, ks) \<in> set (settledSecrets dp)"
  shows "able I (ensureGeneratedSecret r p n ns c d) (\<lambda>_. True)"
  unfolding ensureGeneratedSecret_def
  by (rule able_handle [OF able_getSecret [OF assms]]) (simp add: able_ret)

lemma able_randomHex: "healthy I r dp \<Longrightarrow> able I (randomHex r n) (\<lambda>_. True)"
  unfolding randomHex_def
  by (rule able_bind [where V = "\<lambda>_. True"])
    (auto intro!: able_liftL able_ret simp: healthy_def host_healthy_def)

lemma able_ensureNamespace:
  assumes "healthy I r dp" and "n \<in> set (settledNamespaces dp)"
  shows "able I (ensureNamespace r p n c) (\<lambda>_. True)"
  unfolding ensureNamespace_def
  by (rule able_handle [where V = "\<lambda>_. True"])
    (use assms in \<open>auto intro!: able_liftL able_ret simp: healthy_def kube_healthy_def\<close>)

lemma able_statefulSetReady:
  assumes "healthy I r dp" and "(n, ns) \<in> set (runningSets dp)"
  shows "able I (statefulSetReady r ns n) (\<lambda>b. b)"
  unfolding statefulSetReady_def
  by (rule able_bind [where V = "\<lambda>s. stsReadyReplicas s \<ge> 1"])
    (use assms in \<open>auto intro!: able_liftL able_ret simp: healthy_def kube_healthy_def\<close>)

lemma able_deploymentReady:
  assumes "healthy I r dp" and "(n, ns) \<in> set (runningDeployments dp)"
  shows "able I (deploymentReady r ns n) (\<lambda>b. b)"
  unfolding deploymentReady_def
  by (rule able_bind [where V = "\<lambda>s. depReadyReplicas s \<ge> 1"])
    (use assms in \<open>auto intro!: able_liftL able_ret simp: healthy_def kube_healthy_def\<close>)

lemma able_quantity:
  assumes "healthy I r dp" and "q = PostgresSpec_StorageSizeOrDefault (lkPostgres (spLakekeeper (dpSpec dp))) \<or>
      q = PostgresSpec_StorageSizeOrDefault (ofPostgres (azOpenFGA (spAuthz (dpSpec dp)))) \<or>
      q = MinioSpec_StorageSizeOrDefault (stMinio (spStorage (dpSpec dp)))"
    and "\<And>x. ends I (f x) Q"
  shows "ends I (case lParseQuantity (rLib r) q of Inl e \<Rightarrow> g e | Inr x \<Rightarrow> f x) Q"
  using assms by (auto simp: healthy_def lib_healthy_def)

section \<open>The components of a settled platform become ready\<close>

lemma ends_reconcilePostgres:
  assumes h: "healthy I r dp" and "embedded dp" and on: "lkOn dp"
  shows "ends I (reconcilePostgres r dp) (\<lambda>_ s. T r s ConditionPostgresReady)"
proof -
  have ok: "conditions_ok (rLib r)" using h by (simp add: healthy_def lib_healthy_def)
  have sec: "(secretPostgres, lkNs dp, []) \<in> set (settledSecrets dp)" and run: "(namePostgres, lkNs dp) \<in> set (runningSets dp)"
    using on by (simp_all add: settledSecrets_def runningSets_def)
  have s1: "able I (ensurePostgresSecret r dp (lkNs dp)) (\<lambda>_. True)"
    unfolding ensurePostgresSecret_def by (rule able_handle [OF able_getSecret [OF h sec]]) (simp add: able_ret)
  have s2: "able I (applyPostgresService r dp (lkNs dp)) (\<lambda>_. True)"
    unfolding applyPostgresService_def by (rule able_apply(1) [OF h])
  have s3: "able I (applyPostgresStatefulSet r dp (lkNs dp) (lkPostgres (spLakekeeper (dpSpec dp)))) (\<lambda>_. True)"
    unfolding applyPostgresStatefulSet_def by (rule able_quantity [OF h], simp, rule able_apply(5) [OF h])
  have emb: "PostgresSpec_IsEmbedded (lkPostgres (spLakekeeper (dpSpec dp)))"
    using assms(2) by (simp add: embedded_def)
  show ?thesis
    unfolding reconcilePostgres_def Let_def
    by (simp only: emb not_True_eq_False if_False)
      (rule able_stage [OF s1], rule able_stage [OF s2], rule able_stage [OF s3],
        rule able_stage [OF able_statefulSetReady [OF h run]], simp only: not_True_eq_False if_False,
        rule ends_weaken [OF able_finish [OF ok, where V = "\<lambda>_. True"]], auto)
qed

lemma ends_reconcileObjectStore:
  assumes h: "healthy I r dp" and "embedded dp" and on: "lkOn dp"
  shows "ends I (reconcileObjectStore r dp) (\<lambda>x _. snd x)"
proof -
  have ok: "conditions_ok (rLib r)" using h by (simp add: healthy_def lib_healthy_def)
  let ?ns = "minioNs dp" and ?spec = "stMinio (spStorage (dpSpec dp))"
  have ns: "?ns \<in> set (settledNamespaces dp)" and run: "(nameMinio, ?ns) \<in> set (runningSets dp)"
    and sec: "(secretMinio, ?ns, [keyS3Access, keyS3Secret]) \<in> set (settledSecrets dp)"
    using on by (simp_all add: settledSecrets_def runningSets_def settledNamespaces_def)
  have s1: "able I (ensureMinioSecret r dp ?ns) (\<lambda>_. True)"
    unfolding ensureMinioSecret_def by (rule able_handle [OF able_getSecret [OF h sec]]) (simp add: able_ret)
  have s2: "able I (applyMinioService r dp ?ns) (\<lambda>_. True)"
    unfolding applyMinioService_def by (rule able_apply(1) [OF h])
  have s3: "able I (applyMinioStatefulSet r dp ?ns ?spec) (\<lambda>_. True)"
    unfolding applyMinioStatefulSet_def by (rule able_quantity [OF h], simp, rule able_apply(5) [OF h])
  have job: "able I (liftL (kGetJob (rClient r) nameMinioBucketJob ?ns)) (\<lambda>j. \<not> omDeleting (jobMeta j) \<and> jobSucceeded j)"
    using h by (intro able_liftL) (simp add: healthy_def kube_healthy_def)
  have s4: "able I (ensureMinioBucket r dp ?ns ?spec a k) (\<lambda>b. b)" for a k
    unfolding ensureMinioBucket_def
    by (rule able_bind [OF able_apply(2) [OF h]], rule able_handle [OF job]) (simp add: able_ret)
  have minio: "ends I (reconcileMinio r dp) (\<lambda>x _. snd x)"
    unfolding reconcileMinio_def Let_def
    by (rule able_bind [OF able_modify], rule able_stage [OF able_ensureNamespace [OF h ns]],
        rule able_stage [OF s1], rule able_stage [OF s2], rule able_stage [OF s3],
        rule able_stage [OF able_getSecretData [OF h sec]], simp,
        rule able_stage [OF able_getSecretData [OF h sec]], simp, rule able_bind [OF able_gets],
        rule able_stage [OF able_statefulSetReady [OF h run]], simp only: not_True_eq_False if_False,
        rule able_stage [OF s4], simp only: not_True_eq_False if_False,
        rule ends_weaken [OF able_finish [OF ok, where V = snd]], auto)
  have emb: "StorageSpec_IsEmbedded (spStorage (dpSpec dp))"
    using assms(2) by (simp add: embedded_def)
  show ?thesis
    unfolding reconcileObjectStore_def
    by (simp only: emb not_True_eq_False if_False, rule able_bind [OF minio])
      (auto intro: able_ret split: prod.split)
qed

lemma able_keycloak_secrets:
  assumes h: "healthy I r dp" and on: "authOn dp"
  shows "able I (ensureKeycloakSecrets r dp (keycloakNs dp)) (\<lambda>_. True)"
    and "able I (applyKeycloakRealm r dp (keycloakNs dp) spec) (\<lambda>_. True)"
    and "able I (embeddedOIDCConfig r dp (keycloakNs dp) realm) (\<lambda>_. True)"
proof -
  let ?ns = "keycloakNs dp"
  have key: "(secretKeycloakRealmKey, ?ns, [keyRealmPrivateKey, keyRealmCertificate]) \<in> set (settledSecrets dp)"
    and admin: "(secretKeycloakAdmin, ?ns, [keyKeycloakAdminPassword]) \<in> set (settledSecrets dp)"
    and oidc: "(secretOIDC, ?ns, [keyOIDCClientID, keyOIDCTrinoClientID, keyOIDCTrinoClientSecret,
           keyOIDCOperatorClientID, keyOIDCOperatorSecret, keyOIDCOpaClientID, keyOIDCOpaClientSecret])
      \<in> set (settledSecrets dp)"
    using on by (simp_all add: settledSecrets_def)
  show "able I (ensureKeycloakSecrets r dp ?ns) (\<lambda>_. True)"
    unfolding ensureKeycloakSecrets_def ensureKeycloakRealmKey_def ensureAdminSecret_def ensureOIDCSecret_def
    by (rule able_bind [where V = "\<lambda>_. True"], rule able_handle [OF able_getSecret [OF h key]], simp add: able_ret,
        rule able_bind [where V = "\<lambda>_. True"], rule able_handle [OF able_getSecret [OF h admin]], simp add: able_ret,
        rule able_handle [OF able_getSecret [OF h oidc]])
      (auto simp: ensureOIDCSecretKeys_def Let_def intro: able_ret)
  note d = able_getSecretData [OF h]
  show "able I (applyKeycloakRealm r dp ?ns spec) (\<lambda>_. True)"
    unfolding applyKeycloakRealm_def Let_def
    by (rule able_bind [OF d [OF admin]], simp, rule able_bind [OF d [OF oidc]], simp,
        rule able_bind [OF d [OF oidc]], simp, rule able_bind [OF d [OF oidc]], simp,
        rule able_bind [OF d [OF key]], simp, rule able_bind [OF d [OF key]], simp,
        rule able_bind [OF able_apply(3) [OF h]], simp, rule able_ret, simp)
  show "able I (embeddedOIDCConfig r dp ?ns realm) (\<lambda>_. True)"
    unfolding embeddedOIDCConfig_def Let_def
    by (rule able_bind [OF able_gets], (rule able_bind [OF d [OF oidc]], simp)+, rule able_ret, simp)
qed

lemma ends_reconcileAuth:
  assumes h: "healthy I r dp" and emb: "embedded dp" and lk: "lkOn dp"
  shows "ends I (reconcileAuth r dp) (\<lambda>x _. snd x \<and> (ocEnabled (fst x) \<longrightarrow> authOn dp))"
proof -
  have ok: "conditions_ok (rLib r)" using h by (simp add: healthy_def lib_healthy_def)
  show ?thesis
  proof (cases "AuthSpec_IsEnabled (spAuth (dpSpec dp))")
    case True
    let ?ns = "keycloakNs dp"
    have ns: "?ns \<in> set (settledNamespaces dp)" and run: "(nameKeycloak, ?ns) \<in> set (runningDeployments dp)"
      using True lk by (simp_all add: settledNamespaces_def runningDeployments_def)
    have s1: "able I (applyKeycloakService r dp ?ns) (\<lambda>_. True)"
      unfolding applyKeycloakService_def by (rule able_apply(1) [OF h])
    have s2: "able I (applyKeycloakDeployment r dp ?ns spec hash) (\<lambda>_. True)" for spec hash
      unfolding applyKeycloakDeployment_def by (rule able_apply(4) [OF h])
    have on: "authOn dp" using True lk by simp
    note sec = able_keycloak_secrets [OF h on]
    have "ends I (reconcileKeycloak r dp) (\<lambda>x _. snd x)"
      unfolding reconcileKeycloak_def Let_def
      by (rule able_bind [OF able_modify], rule able_stage [OF able_ensureNamespace [OF h ns]],
          rule able_stage [OF sec(1)], rule able_stage [OF sec(2)], rule able_stage [OF s1],
          rule able_stage [OF s2], rule able_stage [OF sec(3)],
          rule able_stage [OF able_deploymentReady [OF h run]], simp only: not_True_eq_False if_False,
          rule ends_weaken [OF able_finish [OF ok, where V = snd]], auto)
    then show ?thesis
      using True emb on by (auto simp: reconcileAuth_def embedded_def elim: ends_weaken)
  next
    case False
    then show ?thesis
      unfolding reconcileAuth_def
      by (simp, intro ends_weaken [OF able_finish [OF ok, where V = "\<lambda>x. snd x \<and> \<not> ocEnabled (fst x)"]])
        (auto simp: zeroOIDC_def)
  qed
qed

lemma ends_reconcileAuthz:
  assumes h: "healthy I r dp" and emb: "embedded dp" and lk: "lkOn dp"
  shows "ends I (reconcileAuthz r dp) (\<lambda>x _. snd x \<and> (fgEnabled (fst x) \<longrightarrow> authzOn dp))"
proof -
  have ok: "conditions_ok (rLib r)" using h by (simp add: healthy_def lib_healthy_def)
  show ?thesis
  proof (cases "AuthzSpec_IsEnabled (spAuthz (dpSpec dp))")
    case True
    let ?ns = "fgaNs dp" and ?spec = "azOpenFGA (spAuthz (dpSpec dp))"
    have on: "authzOn dp" using True lk by simp
    have ns: "?ns \<in> set (settledNamespaces dp)" and run: "(nameOpenFGA, ?ns) \<in> set (runningDeployments dp)"
      and pg: "(namePostgres, ?ns) \<in> set (runningSets dp)"
      and key: "(secretOpenFGA, ?ns, [keyOpenFGAAPIKey]) \<in> set (settledSecrets dp)"
      and pass: "(secretPostgres, ?ns, [keyPostgresPassword]) \<in> set (settledSecrets dp)"
      using True lk by (simp_all add: settledNamespaces_def runningDeployments_def runningSets_def settledSecrets_def)
    have s1: "able I (ensureOpenFGASecrets r dp ?ns) (\<lambda>_. True)"
      unfolding ensureOpenFGASecrets_def
      by (rule able_bind [OF able_randomHex [OF h]], rule able_bind [OF able_generated [OF h key]],
          rule able_bind [OF able_randomHex [OF h]], rule able_generated [OF h pass])
    have s2: "able I (applyOpenFGAPostgres r dp ?ns (ofPostgres ?spec)) (\<lambda>_. True)"
      unfolding applyOpenFGAPostgres_def
      by (rule able_quantity [OF h], simp, rule able_bind [OF able_apply(1) [OF h]], rule able_apply(5) [OF h])
    have s3: "able I (applyOpenFGAService r dp ?ns) (\<lambda>_. True)"
      unfolding applyOpenFGAService_def by (rule able_apply(1) [OF h])
    have s4: "able I (applyOpenFGADeployment r dp ?ns ?spec) (\<lambda>_. True)"
      unfolding applyOpenFGADeployment_def
      by (rule able_bind [OF able_getSecretData [OF h pass]], simp, rule able_apply(4) [OF h])
    obtain cat where cat: "rCatalog r = Some cat" "\<And>ns svc port b rq. works I (cEnsureAuthzStore cat ns svc port b rq) (\<lambda>_. True)"
      using h by (auto simp: healthy_def catalog_healthy_def)
    have s5: "able I (reconcileAccessStore r dp ?ns apiKey) (\<lambda>_. True)" for apiKey
      unfolding reconcileAccessStore_def
      by (auto simp: cat(1) intro!: able_bind [OF able_modify] able_bind [OF able_liftL [OF cat(2)]] able_ret)
    have "ends I (reconcileOpenFGA r dp) (\<lambda>x _. snd x)"
      unfolding reconcileOpenFGA_def Let_def
      by (rule able_bind [OF able_modify], rule able_stage [OF able_ensureNamespace [OF h ns]],
          rule able_stage [OF s1], rule able_stage [OF s2], rule able_stage [OF s3],
          rule able_stage [OF able_statefulSetReady [OF h pg]], rule able_bind [OF able_gets],
          simp only: not_True_eq_False if_False, rule able_stage [OF s4],
          rule able_stage [OF able_getSecretData [OF h key]], simp,
          rule able_stage [OF able_deploymentReady [OF h run]], simp only: not_True_eq_False if_False,
          rule able_stage [OF s5], rule ends_weaken [OF able_finish [OF ok, where V = snd]], auto)
    then show ?thesis
      using True emb on by (auto simp: reconcileAuthz_def embedded_def elim: ends_weaken)
  next
    case False
    then show ?thesis
      unfolding reconcileAuthz_def
      by (simp, intro ends_weaken [OF able_finish [OF ok, where V = "\<lambda>x. snd x \<and> \<not> fgEnabled (fst x)"]])
        (auto simp: zeroOpenFGA_def)
  qed
qed

lemma ends_reconcileLakekeeper:
  assumes h: "healthy I r dp" and on: "lkOn dp"
  shows "ends I (reconcileLakekeeper conn oidc fga r dp) (\<lambda>_ s. T r s ConditionLakekeeperReady)"
proof -
  have ok: "conditions_ok (rLib r)" using h by (simp add: healthy_def lib_healthy_def)
  have sec: "(secretEncryption, lkNs dp, []) \<in> set (settledSecrets dp)"
    and run: "(nameLakekeeper, lkNs dp) \<in> set (runningDeployments dp)"
    using on by (simp_all add: settledSecrets_def runningDeployments_def)
  have s1: "able I (ensureEncryptionSecret r dp (lkNs dp)) (\<lambda>_. True)"
    unfolding ensureEncryptionSecret_def by (rule able_handle [OF able_getSecret [OF h sec]]) (simp add: able_ret)
  have s2: "able I (applyLakekeeperService r dp (lkNs dp)) (\<lambda>_. True)"
    unfolding applyLakekeeperService_def by (rule able_apply(1) [OF h])
  have s3: "able I (applyLakekeeperDeployment r dp (lkNs dp) conn oidc fga) (\<lambda>_. True)"
    unfolding applyLakekeeperDeployment_def Let_def by (rule able_apply(4) [OF h])
  show ?thesis
    unfolding reconcileLakekeeper_def Let_def
    by (rule able_bind [OF able_modify], rule able_stage [OF s1], rule able_stage [OF s2], rule able_stage [OF s3],
        rule able_stage [OF able_deploymentReady [OF h run]], simp only: not_True_eq_False if_False,
        rule ends_weaken [OF able_finish [OF ok, where V = "\<lambda>_. True"]], auto)
qed

lemma ends_reconcileWarehouse:
  assumes h: "healthy I r dp"
  shows "ends I (reconcileWarehouse store oidc r dp) (\<lambda>_ s. T r s ConditionWarehouseReady)"
proof -
  have ok: "conditions_ok (rLib r)" using h by (simp add: healthy_def lib_healthy_def)
  obtain cat where cat: "rCatalog r = Some cat"
    and boot: "\<And>ns svc port b. works I (cBootstrap cat ns svc port b) (\<lambda>_. True)"
    and grants: "\<And>ns svc port b ps. works I (cEnsureGrants cat ns svc port b ps) (\<lambda>_. True)"
    and house: "\<And>ns svc port b rq. works I (cEnsureWarehouse cat ns svc port b rq) (\<lambda>_. True)"
    and form: "\<And>ns svc port p form. works I (cFormPost cat ns svc port p form) (\<lambda>q. \<exists>t. tokenAnswer r q = Inr t \<and> t \<noteq> [])"
    and tok: "\<And>u form. works I (cFetchToken cat u form) (\<lambda>q. \<exists>t. tokenAnswer r q = Inr t \<and> t \<noteq> [])"
    using h by (auto simp: healthy_def catalog_healthy_def)
  have answer: "able I (pureE (tokenAnswer r q)) (\<lambda>t. t \<noteq> [])" if "\<exists>t. tokenAnswer r q = Inr t \<and> t \<noteq> []" for q
    using that by (auto intro: able_pure)
  have token: "able I (oidcAccessToken r oidc) (\<lambda>t. ocEnabled oidc \<longrightarrow> t \<noteq> [])"
  proof (cases "ocEnabled oidc")
    case True
    have "able I (if ocProxyService oidc \<noteq> [] then liftL (cFormPost cat (ocProxyNamespace oidc) (ocProxyService oidc)
          (ocProxyPort oidc) (ocProxyTokenPath oidc) (tokenForm oidc))
        else liftL (cFetchToken cat (ocTokenURL oidc) (tokenForm oidc))) (\<lambda>q. \<exists>t. tokenAnswer r q = Inr t \<and> t \<noteq> [])"
      by (simp add: able_liftL [OF form] able_liftL [OF tok])
    then show ?thesis
      unfolding oidcAccessToken_def cat option.case using True
      by (simp only: not_True_eq_False if_False) (erule able_bind, simp add: answer)
  next
    case False
    then show ?thesis by (simp add: oidcAccessToken_def able_ret)
  qed
  show ?thesis
    unfolding reconcileWarehouse_def cat option.case Let_def
  proof (rule able_stage [OF token])
    fix t :: string assume t: "ocEnabled oidc \<longrightarrow> t \<noteq> []"
    let ?ns = "lkNs dp" and ?ps = "catalogPrincipals dp oidc" and ?req = "warehouseRequest dp store"
    have "ends I (stage r dp ConditionWarehouseReady (liftL (cBootstrap cat ?ns nameLakekeeper lakekeeperPort t)) (\<lambda>_.
        stage r dp ConditionWarehouseReady (if length ?ps > 0
          then liftL (cEnsureGrants cat ?ns nameLakekeeper lakekeeperPort t ?ps) else ret ()) (\<lambda>_.
        stage r dp ConditionWarehouseReady (liftL (cEnsureWarehouse cat ?ns nameLakekeeper lakekeeperPort t ?req)) (\<lambda>_.
        bindE (setCondition r dp ConditionWarehouseReady ConditionTrue reasonReady (''Warehouse '' @ wrName ?req @ '' is ready'')) (\<lambda>_.
        ret ()))))) (\<lambda>_ s. T r s ConditionWarehouseReady)"
      by (rule able_stage [OF able_liftL [OF boot]], rule able_stage [where V = "\<lambda>_. True"],
          simp add: able_ret able_liftL [OF grants], rule able_stage [OF able_liftL [OF house]],
          rule ends_weaken [OF able_finish [OF ok, where V = "\<lambda>_. True"]], auto)
    then show "ends I (if ocEnabled oidc \<and> t = [] then stage r dp ConditionWarehouseReady
          (fail (Errorf ''OIDC token is empty'')) ret
        else stage r dp ConditionWarehouseReady (liftL (cBootstrap cat ?ns nameLakekeeper lakekeeperPort t)) (\<lambda>_.
        stage r dp ConditionWarehouseReady (if length ?ps > 0
          then liftL (cEnsureGrants cat ?ns nameLakekeeper lakekeeperPort t ?ps) else ret ()) (\<lambda>_.
        stage r dp ConditionWarehouseReady (liftL (cEnsureWarehouse cat ?ns nameLakekeeper lakekeeperPort t ?req)) (\<lambda>_.
        bindE (setCondition r dp ConditionWarehouseReady ConditionTrue reasonReady (''Warehouse '' @ wrName ?req @ '' is ready'')) (\<lambda>_.
        ret ()))))) (\<lambda>_ s. T r s ConditionWarehouseReady)"
      using t by auto
  qed
qed

lemma able_reconcileOPA:
  assumes h: "healthy I r dp" and "ocEnabled oidc \<longrightarrow> authOn dp" and "fgEnabled fga \<longrightarrow> authzOn dp"
  shows "able I (reconcileOPA r dp oidc fga) (\<lambda>_. True)"
proof (cases "fgEnabled fga \<and> ocEnabled oidc \<and> trinoOn dp")
  case False
  then show ?thesis by (auto simp: reconcileOPA_def able_ret)
next
  case True
  then have run: "(nameOPA, fgaNs dp) \<in> set (runningDeployments dp)"
    using assms(2,3) by (simp add: runningDeployments_def)
  have pol: "\<exists>z. mutateOPAPolicies (rLib r) dp cm = Inr z" for cm
    using h by (auto simp: healthy_def lib_healthy_def mutateOPAPolicies_def)
  show ?thesis
    unfolding reconcileOPA_def applyOPASecret_def applyOPAPolicies_def applyOPAService_def
      applyOPADeployment_def Let_def
    using True
    by (simp only: not_True_eq_False if_False simp_thms)
      (rule able_bind [OF able_apply(2) [OF h]], rule able_bind [OF able_apply(3) [OF h pol]],
        rule able_bind [OF able_apply(1) [OF h]], rule able_bind [OF able_apply(4) [OF h]],
        rule ends_weaken [OF able_deploymentReady [OF h run]], simp)
qed

lemma ends_reconcileTrino:
  assumes h: "healthy I r dp" and on: "trinoOn dp" and oidc: "ocEnabled oidc \<longrightarrow> authOn dp"
  shows "ends I (reconcileTrino store oidc fga r dp) (\<lambda>_ s. T r s ConditionTrinoReady)"
proof -
  have ok: "conditions_ok (rLib r)" using h by (simp add: healthy_def lib_healthy_def)
  let ?ns = "trinoNs dp"
  have run: "(nameTrino, ?ns) \<in> set (runningDeployments dp)" using on by (simp add: runningDeployments_def)
  have data: "able I (trinoCatalogData r dp store oidc) (\<lambda>_. True)"
    using h by (auto simp: ends_def goes_def trinoCatalogData_def healthy_def host_healthy_def Let_def split_def)
  have shared: "able I (trinoSharedSecret r dp ?ns oidc) (\<lambda>_. True)"
  proof (cases "trinoUIAuthEnabled oidc (trPublicURL (spTrino (dpSpec dp)))")
    case False
    then show ?thesis by (simp add: trinoSharedSecret_def able_ret)
  next
    case True
    then have sec: "(secretTrinoInternal, ?ns, [keyTrinoSharedSecret]) \<in> set (settledSecrets dp)"
      using on oidc by (simp add: trinoUIAuthEnabled_def settledSecrets_def)
    show ?thesis
      unfolding trinoSharedSecret_def using True
      by (simp only: not_True_eq_False if_False)
        (rule able_bind [OF able_randomHex [OF h]], rule able_bind [OF able_generated [OF h sec]],
          rule able_getSecretData [OF h sec], simp)
  qed
  have s1: "able I (applyTrinoConfigMap r dp ?ns a b c) (\<lambda>_. True)" for a b c
    unfolding applyTrinoConfigMap_def
    by (rule able_handle_any [where V = "\<lambda>_. True"], (use h in \<open>simp add: healthy_def kube_healthy_def\<close>),
        rule able_apply(2) [OF h])
  have s2: "able I (applyTrinoCatalogSecret r dp ?ns d) (\<lambda>_. True)" for d
    unfolding applyTrinoCatalogSecret_def by (rule able_apply(2) [OF h])
  have s3: "able I (applyTrinoService r dp ?ns) (\<lambda>_. True)"
    unfolding applyTrinoService_def by (rule able_apply(1) [OF h])
  have s4: "able I (applyTrinoCoordinator r dp ?ns a b c) (\<lambda>_. True)" for a b c
    unfolding applyTrinoCoordinator_def Let_def by (rule able_apply(4) [OF h])
  have s5: "able I (reconcileTrinoWorkers r dp ?ns a) (\<lambda>_. True)" for a
  proof (cases "TrinoSpec_WorkersOrDefault (spTrino (dpSpec dp)) = 0")
    case True
    have del: "able I (ignoreNotFound (liftL (kDeleteDeployment (rClient r) n ns))) (\<lambda>_. True)" for n ns
      unfolding ignoreNotFound_def
      by (rule able_handle [where V = "\<lambda>_. True"])
        (use h in \<open>auto intro!: able_liftL able_ret simp: healthy_def kube_healthy_def\<close>)
    show ?thesis
      unfolding reconcileTrinoWorkers_def Let_def if_P [OF True]
      by (rule able_handle_any [where V = "\<lambda>q. \<forall>e. q = Inl e \<longrightarrow> IsNotFound e"],
          (use h in \<open>simp add: healthy_def kube_healthy_def\<close>), auto simp: able_ret del split: sum.split)
  next
    case False
    show ?thesis
      unfolding reconcileTrinoWorkers_def Let_def if_not_P [OF False] by (rule able_apply(4) [OF h])
  qed
  show ?thesis
    unfolding reconcileTrino_def Let_def
    by (rule able_bind [OF able_modify], rule able_bind [OF data], simp only: split_def,
        rule able_stage [OF shared], rule able_stage [OF s1], rule able_stage [OF s2], rule able_stage [OF s3],
        rule able_stage [OF s4], rule able_stage [OF s5], rule able_stage [OF able_deploymentReady [OF h run]],
        simp only: not_True_eq_False if_False,
        rule ends_weaken [OF able_finish [OF ok, where V = "\<lambda>_. True"]], auto)
qed

section \<open>The stacks\<close>

text \<open>What a component keeps of the conditions of others, next to what it does.\<close>

lemma ends_step:
  assumes "ends I m Q" and "hoare J m (\<lambda>_. J) (\<lambda>_ _. True)"
  shows "goes (\<lambda>s. I (fst s) \<and> J s) m (\<lambda>x s. (I (fst s) \<and> J s) \<and> Q x s)"
  using goes_hoare [OF assms(1) [unfolded ends_def] assms(2)] by (rule goes_weaken) auto

lemma goes_bind_conj:
  "goes P m (\<lambda>x s. R s \<and> V x) \<Longrightarrow> (\<And>x. V x \<Longrightarrow> goes R (f x) Q) \<Longrightarrow> goes P (bindE m f) Q"
  by (erule goes_bindE) (rule goes_conj)

lemma goes_bind_ready:
  assumes "goes P m (\<lambda>x s. R s \<and> V x)" and "\<And>x. V x \<Longrightarrow> snd x"
    and "\<And>a. V (a, True) \<Longrightarrow> goes R (f a True) Q"
  shows "goes P (bindE m (\<lambda>(a, b). f a b)) Q"
proof (rule goes_bind_conj [OF assms(1)])
  fix x assume "V x"
  with assms(2) have "x = (fst x, True)" by (metis (full_types) prod.collapse)
  with \<open>V x\<close> assms(3) [of "fst x"] show "goes R (case x of (a, b) \<Rightarrow> f a b) Q" by (metis case_prod_conv)
qed

abbreviation stackDone :: "dataplatform \<Rightarrow> stack_result \<Rightarrow> bool" where
  "stackDone dp x \<equiv> (case x of (progressing, store, oidc, fga) \<Rightarrow>
     \<not> progressing \<and> (ocEnabled oidc \<longrightarrow> authOn dp) \<and> (fgEnabled fga \<longrightarrow> authzOn dp))"

lemma able_enabledStack:
  assumes h: "healthy I r dp" and emb: "embedded dp" and on: "lkOn dp"
  shows "able I (reconcileLakekeeperStack r dp) (stackDone dp)"
proof -
  have ok: "conditions_ok (rLib r)" using h by (simp add: healthy_def lib_healthy_def)
  let ?PG = "\<lambda>s. T r s ConditionPostgresReady"
  have ns: "lkNs dp \<in> set (settledNamespaces dp)" using on by (simp add: settledNamespaces_def)
  have pg: "ignores r c ?PG" if "c \<noteq> ConditionPostgresReady" for c
    using that by (simp add: ignores_def)
  note store = ends_step [OF ends_reconcileObjectStore [OF h emb on] object_store.step [OF ok pg]]
  note auth = ends_step [OF ends_reconcileAuth [OF h emb on] auth.step [OF ok pg]]
  note authz = ends_step [OF ends_reconcileAuthz [OF h emb on] authz.step [OF ok pg]]
  note lk = ends_step [OF ends_reconcileLakekeeper [OF h on] lakekeeper.step [OF ok pg]]
  have house: "goes (\<lambda>s. (I (fst s) \<and> ?PG s) \<and> T r s ConditionLakekeeperReady)
      (warehouseWhenReady st True oidc True fga True r dp)
      (\<lambda>x s. I (fst s) \<and> x = (False, st, oidc, fga))" for st oidc fga
  proof -
    have "able I (bindE (reconcileWarehouse st oidc r dp) (\<lambda>_.
        bindE (getsR (\<lambda>st. \<not> conditionTrue r ConditionWarehouseReady st)) (\<lambda>waiting.
        ret (waiting, st, oidc, fga)))) (\<lambda>x. x = (False, st, oidc, fga))"
      using able_until_true [OF ends_reconcileWarehouse [OF h], where g = "\<lambda>b. (b, st, oidc, fga)"] .
    then show ?thesis
      unfolding warehouseWhenReady_def ends_def
      by (auto simp: goes_def run_simps)
  qed
  have "ends I (bindE (ensureNamespace r dp (lkNs dp) componentLakekeeper) (\<lambda>_.
      bindE (reconcilePostgres r dp) (\<lambda>conn.
      bindE (reconcileObjectStore r dp) (\<lambda>(store, storeReady).
      bindE (reconcileAuth r dp) (\<lambda>(oidc, authReady).
      bindE (reconcileAuthz r dp) (\<lambda>(fga, fgaReady).
      bindE (lakekeeperWhenAllowed conn oidc authReady fga fgaReady r dp) (\<lambda>_.
      warehouseWhenReady store storeReady oidc authReady fga fgaReady r dp))))))) (\<lambda>x _. stackDone dp x)"
    unfolding ends_def
    by (rule goes_bindE [OF able_ensureNamespace [OF h ns, unfolded ends_def]], rule goes_conj,
        rule goes_bindE [OF ends_reconcilePostgres [OF h emb on, unfolded ends_def]],
        rule goes_bind_ready [OF store], simp, simp,
        rule goes_bind_ready [OF auth], simp, simp,
        rule goes_bind_ready [OF authz], simp, simp,
        simp only: lakekeeperWhenAllowed_def simp_thms if_True,
        rule goes_bindE [OF lk], simp, rule goes_weaken [OF house], auto)
  then show ?thesis using on by (simp add: reconcileLakekeeperStack_def Let_def)
qed

lemma able_disabledStack: "able I (disabledLakekeeperStack r dp) (stackDone dp)"
  unfolding disabledLakekeeperStack_def Let_def
  by (rule able_bind [OF able_setCondition], rule able_bind [OF able_setCondition],
      rule able_bind [OF able_setCondition], rule able_bind [OF able_setCondition],
      rule able_bind [OF able_setCondition], rule able_bind [OF able_when [OF able_setCondition]], rule able_ret)
    (simp add: zeroOIDC_def zeroOpenFGA_def)

lemma able_lakekeeperStack:
  assumes "healthy I r dp" and "embedded dp"
  shows "able I (reconcileLakekeeperStack r dp) (stackDone dp)"
  using able_enabledStack [OF assms] able_disabledStack [of I r dp]
  by (cases "lkOn dp") (simp_all add: reconcileLakekeeperStack_def)

lemma able_trinoStack:
  assumes h: "healthy I r dp" and oidc: "ocEnabled oidc \<longrightarrow> authOn dp" and fga: "fgEnabled fga \<longrightarrow> authzOn dp"
  shows "able I (reconcileTrinoStack store oidc fga r dp) (\<lambda>progressing. \<not> progressing)"
proof (cases "trinoOn dp")
  case False
  show ?thesis
    unfolding reconcileTrinoStack_def if_P [OF False] by (rule able_bind [OF able_setCondition], rule able_ret) simp
next
  case True
  have ns: "trinoNs dp \<in> set (settledNamespaces dp)" using True by (simp add: settledNamespaces_def)
  have wait: "able I (bindE (reconcileTrino store oidc fga r dp) (\<lambda>_.
      bindE (getsR (\<lambda>st. \<not> conditionTrue r ConditionTrinoReady st)) ret)) (\<lambda>b. \<not> b)"
    using able_until_true [OF ends_reconcileTrino [OF h True oidc], where g = "\<lambda>b. b"]
    by (rule ends_weaken) simp
  have "able I (bindE (ensureNamespace r dp (trinoNs dp) componentTrinoCoordinator) (\<lambda>_.
      bindE (reconcileOPA r dp oidc fga) (\<lambda>_.
      bindE (reconcileTrino store oidc fga r dp) (\<lambda>_.
      bindE (getsR (\<lambda>st. \<not> conditionTrue r ConditionTrinoReady st)) ret)))) (\<lambda>b. \<not> b)"
    by (rule able_bind [OF able_ensureNamespace [OF h ns]], rule able_bind [OF able_reconcileOPA [OF h oidc fga]],
        rule wait)
  then show ?thesis using True by (simp add: reconcileTrinoStack_def Let_def)
qed

section \<open>The platform becomes ready\<close>


end
