(* ===== verification/Decode.thy ===== *)
theory Decode
  imports OpenFGA Oidc
begin

text \<open>
  What the other side reads. The operator writes URLs, form bodies and JSON documents from strings that
  users give; the readers here are those of the servers it talks to (\<open>url.QueryUnescape\<close>,
  \<open>url.ParseQuery\<close>, a JSON parser after RFC 8259), and the theorems say that each reads back exactly
  what was meant, so that no string of a user's can change the shape of a request.
\<close>

section \<open>Percent-encoding\<close>

definition unhex :: "char \<Rightarrow> nat option" where
  "unhex c = (let n = of_char c :: nat in
     if 48 \<le> n \<and> n \<le> 57 then Some (n - 48)
     else if 97 \<le> n \<and> n \<le> 102 then Some (n - 87)
     else if 65 \<le> n \<and> n \<le> 70 then Some (n - 55)
     else None)"

lemma unhex_table:
  "list_all (\<lambda>n. unhex (upperHexDigits ! n) = Some n \<and> unhex (hexDigits ! n) = Some n) [0..<16]"
  by code_simp

lemma unhex_digits: "n < 16 \<Longrightarrow> unhex (upperHexDigits ! n) = Some n \<and> unhex (hexDigits ! n) = Some n"
  using unhex_table by (simp add: list_all_iff)

text \<open>
  \<open>unescape\<close> of \<open>net/url\<close> in two of its modes: \<open>QueryUnescape\<close>, where a plus stands for a space, and
  the mode of user names and passwords, where it stands for itself. \<open>None\<close> is its error.
\<close>

fun unescape :: "bool \<Rightarrow> string \<Rightarrow> string option" where
  "unescape inQuery [] = Some []"
| "unescape inQuery (c # s) =
     (if c = CHR ''%'' then (case s of
        a # b # s' \<Rightarrow> (case (unhex a, unhex b) of
          (Some x, Some y) \<Rightarrow> map_option ((#) (char_of (16 * x + y))) (unescape inQuery s')
        | _ \<Rightarrow> None)
      | _ \<Rightarrow> None)
      else map_option ((#) (if inQuery \<and> c = CHR ''+'' then CHR '' '' else c)) (unescape inQuery s))"

abbreviation QueryUnescape :: "string \<Rightarrow> string option" where
  "QueryUnescape \<equiv> unescape True"

lemma char_of_hex [simp]: "char_of (16 * (of_char c div 16) + of_char c mod (16::nat)) = c"
  by simp

lemma unescape_percent: "unescape inQuery (percent c @ s) = map_option ((#) c) (unescape inQuery s)"
  using unhex_digits [of "of_char c div 16"] unhex_digits [of "of_char c mod 16"] of_char_div_16 [of c]
  by (simp add: percent_def)

lemma QueryEscape_Cons:
  "QueryEscape (c # s) =
     (if c = CHR '' '' then ''+'' else if escapeInQuery c then percent c else [c]) @ QueryEscape s"
  by (simp add: QueryEscape_def)

lemma unescaped_plain: "\<not> escapeInQuery c \<Longrightarrow> c \<noteq> CHR ''%'' \<and> c \<noteq> CHR ''+''"
  by (auto simp: escapeInQuery_def isAlnum_def)

lemma unescape_QueryEscape:
  "unescape inQuery (QueryEscape s) = Some (if inQuery then s else map (\<lambda>c. if c = CHR '' '' then CHR ''+'' else c) s)"
proof (induction s)
  case Nil
  show ?case by (simp add: QueryEscape_def)
next
  case (Cons c s)
  then show ?case
    using unescaped_plain [of c] by (cases inQuery) (simp_all add: QueryEscape_Cons unescape_percent)
qed

section \<open>Form bodies\<close>

text \<open>\<open>strings.Split\<close> at one byte, and \<open>strings.Cut\<close>.\<close>

fun splitAt :: "char \<Rightarrow> string \<Rightarrow> string list" where
  "splitAt c [] = [[]]"
| "splitAt c (x # s) = (if x = c then [] # splitAt c s
     else case splitAt c s of [] \<Rightarrow> [[x]] | w # ws \<Rightarrow> (x # w) # ws)"

definition cutAt :: "char \<Rightarrow> string \<Rightarrow> string \<times> string" where
  "cutAt c s = (takeWhile (\<lambda>x. x \<noteq> c) s, drop 1 (dropWhile (\<lambda>x. x \<noteq> c) s))"

text \<open>\<open>url.ParseQuery\<close>: the pairs between the ampersands, keys and values unescaped.\<close>

definition parsePair :: "string \<Rightarrow> (string \<times> string) option" where
  "parsePair p = (case cutAt CHR ''='' p of (k, v) \<Rightarrow>
     (case (QueryUnescape k, QueryUnescape v) of (Some k', Some v') \<Rightarrow> Some (k', v') | _ \<Rightarrow> None))"

fun addPairs :: "(string \<times> string) list \<Rightarrow> url_values \<Rightarrow> url_values" where
  "addPairs [] m = m"
| "addPairs ((k, v) # ps) m = addPairs ps (fmupd k (case fmlookup m k of None \<Rightarrow> [v] | Some vs \<Rightarrow> vs @ [v]) m)"

definition ParseQuery :: "string \<Rightarrow> url_values option" where
  "ParseQuery s = (if CHR '';'' \<in> set s then None else
     map_option (\<lambda>ps. addPairs ps fmempty)
       (those (map parsePair (filter (\<lambda>p. p \<noteq> []) (splitAt CHR ''&'' s)))))"

lemma splitAt_nonempty [simp]: "splitAt c s \<noteq> []"
  by (induction s) (auto split: list.splits)

lemma splitAt_plain: "c \<notin> set s \<Longrightarrow> splitAt c s = [s]"
  by (induction s) auto

lemma splitAt_append: "c \<notin> set w \<Longrightarrow> splitAt c (w @ c # s) = w # splitAt c s"
  by (induction w) auto

lemma splitAt_intercalate:
  "(\<And>w. w \<in> set ws \<Longrightarrow> c \<notin> set w) \<Longrightarrow> ws \<noteq> [] \<Longrightarrow> splitAt c (intercalate [c] ws) = ws"
  by (induction "[c]" ws rule: intercalate.induct) (auto simp: splitAt_plain splitAt_append)

lemma cutAt_append: "c \<notin> set k \<Longrightarrow> cutAt c (k @ c # v) = (k, v)"
  by (simp add: cutAt_def takeWhile_append dropWhile_append)

lemma those_Some: "those (map Some xs) = Some xs"
  by (induction xs) auto

text \<open>The pairs that \<open>Encode\<close> writes, in its order.\<close>

definition valuePairs :: "string list \<Rightarrow> url_values \<Rightarrow> (string \<times> string) list" where
  "valuePairs ks v = concat (map (\<lambda>k. map (Pair k) (the (fmlookup v k))) ks)"

definition encodePair :: "string \<times> string \<Rightarrow> string" where
  "encodePair p = QueryEscape (fst p) @ ''='' @ QueryEscape (snd p)"

lemma Values_Encode_pairs:
  "Values_Encode v = intercalate ''&'' (map encodePair (valuePairs (sortedKeys v) v))"
  by (simp add: Values_Encode_def valuePairs_def encodePair_def map_concat comp_def)

definition userinfoByte :: "char \<Rightarrow> bool" where
  "userinfoByte c = (isAlnum c \<or> c = CHR 0x27 \<or> c \<in> set ''-._:~!$&()*+,;=%@'')"

lemma QueryEscape_clean:
  assumes "c \<in> set (QueryEscape s)"
  shows "c \<notin> set ''/?#@:&=;'' \<and> userinfoByte c"
proof -
  have "list_all (\<lambda>c. \<not> (isAlnum c \<or> c \<in> set ''-_.~%+'')) ''/?#@:&=;''" by code_simp
  then have "isAlnum c \<or> c \<in> set ''-_.~%+'' \<Longrightarrow> c \<notin> set ''/?#@:&=;''"
    unfolding list_all_iff by blast
  moreover have "userinfoByte c" using QueryEscape_safe [OF assms] by (auto simp: userinfoByte_def)
  ultimately show ?thesis using QueryEscape_safe [OF assms] by blast
qed

lemma QueryEscape_no [simp]:
  "CHR ''&'' \<notin> set (QueryEscape s)" "CHR ''='' \<notin> set (QueryEscape s)" "CHR '';'' \<notin> set (QueryEscape s)"
  "CHR ''@'' \<notin> set (QueryEscape s)" "CHR '':'' \<notin> set (QueryEscape s)"
  by (auto dest: QueryEscape_clean)

lemma parsePair_encodePair [simp]: "parsePair (encodePair p) = Some p"
  by (simp add: parsePair_def encodePair_def cutAt_append unescape_QueryEscape)

lemma set_intercalate: "set (intercalate sep ws) \<subseteq> set sep \<union> (\<Union>w \<in> set ws. set w)"
  by (induction sep ws rule: intercalate.induct) auto

lemma addPairs_append: "addPairs (ps @ qs) m = addPairs qs (addPairs ps m)"
  by (induction ps m rule: addPairs.induct) simp_all

lemma addPairs_same:
  "vs \<noteq> [] \<Longrightarrow> addPairs (map (Pair k) vs) m =
     fmupd k ((case fmlookup m k of None \<Rightarrow> [] | Some ws \<Rightarrow> ws) @ vs) m"
proof (induction vs arbitrary: m)
  case (Cons v vs)
  show ?case
  proof (cases "vs = []")
    case False
    then show ?thesis using Cons.IH by (auto intro!: fmap_ext split: option.split)
  qed (auto split: option.split)
qed simp

lemma addPairs_valuePairs:
  assumes "distinct ks" and "\<And>k. k \<in> set ks \<Longrightarrow> \<exists>vs. fmlookup v k = Some vs \<and> vs \<noteq> []"
  shows "fmlookup (addPairs (valuePairs ks v) m) k =
     (if k \<in> set ks then Some ((case fmlookup m k of None \<Rightarrow> [] | Some ws \<Rightarrow> ws) @ the (fmlookup v k))
      else fmlookup m k)"
  using assms
proof (induction ks arbitrary: m)
  case Nil
  then show ?case by (simp add: valuePairs_def)
next
  case (Cons a ks)
  obtain vs where vs: "fmlookup v a = Some vs" "vs \<noteq> []" using Cons.prems(2) [of a] by auto
  let ?m = "addPairs (map (Pair a) vs) m"
  have eq: "addPairs (valuePairs (a # ks) v) m = addPairs (valuePairs ks v) ?m"
    using vs by (simp add: valuePairs_def addPairs_append)
  have "fmlookup (addPairs (valuePairs ks v) ?m) k =
     (if k \<in> set ks then Some ((case fmlookup ?m k of None \<Rightarrow> [] | Some ws \<Rightarrow> ws) @ the (fmlookup v k))
      else fmlookup ?m k)"
  proof (rule Cons.IH)
    show "distinct ks" using Cons.prems(1) by simp
    show "\<exists>vs. fmlookup v k = Some vs \<and> vs \<noteq> []" if "k \<in> set ks" for k
      by (rule Cons.prems(2)) (simp add: that)
  qed
  then show ?case
    using Cons.prems(1) vs unfolding eq addPairs_same [OF vs(2)] by (cases "k = a") simp_all
qed

text \<open>
  A form body reads back as the values it was encoded from, whatever bytes the values have.
\<close>

lemma Values_Encode_roundtrip:
  assumes "\<forall>k vs. fmlookup v k = Some vs \<longrightarrow> vs \<noteq> []"
  shows "ParseQuery (Values_Encode v) = Some v"
proof -
  let ?ps = "valuePairs (sortedKeys v) v"
  let ?ws = "map encodePair ?ps"
  have clean: "w \<in> set ?ws \<Longrightarrow> CHR ''&'' \<notin> set w \<and> CHR '';'' \<notin> set w \<and> w \<noteq> []" for w
    by (auto simp: encodePair_def)
  then have semi: "CHR '';'' \<notin> set (Values_Encode v)"
    using set_intercalate [of "''&''" ?ws] by (auto simp: Values_Encode_pairs)
  have "filter (\<lambda>p. p \<noteq> []) (splitAt CHR ''&'' (Values_Encode v)) = ?ws"
  proof (cases "?ws = []")
    case False
    then have "splitAt CHR ''&'' (Values_Encode v) = ?ws"
      unfolding Values_Encode_pairs by (intro splitAt_intercalate) (use clean in auto)
    with clean show ?thesis by (simp only: filter_id_conv) blast
  qed (simp add: Values_Encode_pairs)
  moreover have "map parsePair ?ws = map Some ?ps" by simp
  ultimately have "ParseQuery (Values_Encode v) = Some (addPairs ?ps fmempty)"
    using semi by (simp only: ParseQuery_def if_False those_Some option.map)
  moreover have "addPairs ?ps fmempty = v"
  proof (rule fmap_ext)
    fix k
    have "fmlookup (addPairs ?ps fmempty) k =
       (if k \<in> set (sortedKeys v) then Some ((case fmlookup fmempty k of None \<Rightarrow> [] | Some ws \<Rightarrow> ws) @ the (fmlookup v k))
        else fmlookup fmempty k)"
    proof (rule addPairs_valuePairs)
      show "distinct (sortedKeys v)" using sorted_sortedKeys by blast
      show "\<exists>vs. fmlookup v k = Some vs \<and> vs \<noteq> []" if "k \<in> set (sortedKeys v)" for k
        using assms that by (simp add: fmlookup_dom_iff) blast
    qed
    then show "fmlookup (addPairs ?ps fmempty) k = fmlookup v k"
      by (cases "fmlookup v k") (simp_all add: fmlookup_dom_iff)
  qed
  ultimately show ?thesis by simp
qed


section \<open>The data source of OpenFGA\<close>

text \<open>
  \<open>url.Parse\<close> as far as a PostgreSQL driver reads it: the authority ends at the first slash, question
  mark or hash; the last at-sign in it ends the user information; a user name and a password are cut at
  the first colon and unescaped, after a check that no byte is out of place.
\<close>

definition validUserinfo :: "string \<Rightarrow> bool" where
  "validUserinfo s = list_all userinfoByte s"

definition readURL :: "string \<Rightarrow> string \<Rightarrow> (string \<times> string \<times> string) option" where
  "readURL scheme s = (if \<not> hasPrefix s (scheme @ ''://'') then None
     else
       let authority = takeWhile (\<lambda>c. c \<notin> set ''/?#'') (drop (length scheme + 3) s);
           host = rev (takeWhile (\<lambda>c. c \<noteq> CHR ''@'') (rev authority));
           userinfo = take (length authority - length host - 1) authority
       in if CHR ''@'' \<notin> set authority \<or> \<not> validUserinfo userinfo then None
          else (case cutAt CHR '':'' userinfo of (user, password) \<Rightarrow>
            (case (unescape False user, unescape False password) of
               (Some u, Some p) \<Rightarrow> Some (u, p, host) | _ \<Rightarrow> None)))"

text \<open>
  C22. The password in OpenFGA's data source URI. Reading the URI gives the user and host it was made for,
  whatever the password, and gives the password itself exactly when it has no space: \<open>datastoreURI\<close>
  escapes it for a query, where a space becomes a plus, and in the user information a plus is a plus.
\<close>

theorem datastoreURI_roundtrip:
  "\<exists>q. readURL ''postgres'' (datastoreURI p) = Some (''postgres'', q, ''postgres:5432'') \<and>
     (q = p \<longleftrightarrow> CHR '' '' \<notin> set p)"
proof -
  let ?q = "map (\<lambda>c. if c = CHR '' '' then CHR ''+'' else c) p"
  have port: "Itoa 5432 = ''5432''" by (simp add: Itoa_def eval_simps)
  have uri: "datastoreURI p = ''postgres://'' @ (''postgres:'' @ QueryEscape p @ ''@postgres:5432'')
      @ ''/postgres?sslmode=disable''"
    by (simp add: datastoreURI_def port)
  have "(\<forall>x \<in> set (''postgres:'' @ QueryEscape p @ ''@postgres:5432''). x \<notin> set ''/?#'')"
    using QueryEscape_clean [of _ p] by (simp add: ball_Un)
  then have authority: "takeWhile (\<lambda>c. c \<notin> set ''/?#'') (drop (length ''postgres'' + 3) (datastoreURI p))
      = ''postgres:'' @ QueryEscape p @ ''@postgres:5432''"
    by (simp add: uri takeWhile_append2)
  have "list_all userinfoByte ''postgres:''" by code_simp
  then have user: "validUserinfo (''postgres:'' @ QueryEscape p)"
    using QueryEscape_clean [of _ p] by (simp add: validUserinfo_def list_all_iff)
  have prefix: "hasPrefix (datastoreURI p) (''postgres'' @ ''://'')" by (simp add: uri)
  have host: "rev (takeWhile (\<lambda>c. c \<noteq> CHR ''@'') (rev (''postgres:'' @ QueryEscape p @ ''@postgres:5432'')))
      = ''postgres:5432''"
    by simp
  have info: "take (length (''postgres:'' @ QueryEscape p @ ''@postgres:5432'') - length ''postgres:5432'' - 1)
      (''postgres:'' @ QueryEscape p @ ''@postgres:5432'') = ''postgres:'' @ QueryEscape p"
    by simp
  have cut: "cutAt CHR '':'' (''postgres:'' @ QueryEscape p) = (''postgres'', QueryEscape p)"
    using cutAt_append [of "CHR '':''" "''postgres''"] by simp
  have "readURL ''postgres'' (datastoreURI p) = Some (''postgres'', ?q, ''postgres:5432'')"
    using user prefix unfolding readURL_def authority Let_def host info cut
    by (simp add: unescape_QueryEscape)
  moreover have "?q = p \<longleftrightarrow> CHR '' '' \<notin> set p" by (induction p) auto
  ultimately show ?thesis by blast
qed

end
