(* ===== verification/JsonRead.thy ===== *)
theory JsonRead
  imports Decode Keycloak
begin

text \<open>
  Reading JSON back. A parser for the documents the operator writes (RFC 8259, without white space and
  with integers only), and the theorem that what \<open>json.Marshal\<close> wrote reads back as the document that was
  meant: strings with their escapes undone, and the members of a Go map in the order of their keys.
\<close>

section \<open>Strings\<close>

text \<open>The bytes of a code point below U+10000, in UTF-8.\<close>

definition utf8 :: "nat \<Rightarrow> string" where
  "utf8 n = (if n < 128 then [char_of n]
     else if n < 2048 then [char_of (192 + n div 64), char_of (128 + n mod 64)]
     else [char_of (224 + n div 4096), char_of (128 + n div 64 mod 64), char_of (128 + n mod 64)])"

definition hex4 :: "char \<Rightarrow> char \<Rightarrow> char \<Rightarrow> char \<Rightarrow> nat option" where
  "hex4 a b c d = (case (unhex a, unhex b, unhex c, unhex d) of
      (Some w, Some x, Some y, Some z) \<Rightarrow> Some (4096 * w + 256 * x + 16 * y + z)
    | _ \<Rightarrow> None)"

definition shortEscape :: "char \<Rightarrow> char option" where
  "shortEscape e = map_of [(CHR 0x22, CHR 0x22), (CHR 0x5C, CHR 0x5C), (CHR ''/'', CHR ''/''),
     (CHR ''b'', CHR 0x08), (CHR ''f'', CHR 0x0C), (CHR ''n'', CHR 0x0A), (CHR ''r'', CHR 0x0D),
     (CHR ''t'', CHR 0x09)] e"

text \<open>What is left of a string after its opening quote, and what follows its closing one.\<close>

fun readChars :: "string \<Rightarrow> (string \<times> string) option" where
  "readChars [] = None"
| "readChars (c # s) =
     (if c = CHR 0x22 then Some ([], s)
      else if (of_char c :: nat) < 32 then None
      else if c \<noteq> CHR 0x5C then map_option (apfst ((#) c)) (readChars s)
      else (case s of
          [] \<Rightarrow> None
        | e # s' \<Rightarrow>
            if e = CHR ''u'' then (case s' of
                h1 # h2 # h3 # h4 # s'' \<Rightarrow> (case hex4 h1 h2 h3 h4 of
                    None \<Rightarrow> None | Some n \<Rightarrow> map_option (apfst ((@) (utf8 n))) (readChars s''))
              | _ \<Rightarrow> None)
            else (case shortEscape e of
                None \<Rightarrow> None | Some d \<Rightarrow> map_option (apfst ((#) d)) (readChars s'))))"

section \<open>Values\<close>

definition isDigit :: "char \<Rightarrow> bool" where
  "isDigit c = (let n = of_char c :: nat in 48 \<le> n \<and> n \<le> 57)"

definition decValue :: "string \<Rightarrow> nat" where
  "decValue ds = foldl (\<lambda>a c. 10 * a + (of_char c - 48)) 0 ds"

definition readInt :: "string \<Rightarrow> (json \<times> string) option" where
  "readInt s = (let neg = (s \<noteq> [] \<and> hd s = CHR ''-''); t = (if neg then tl s else s);
       ds = takeWhile isDigit t
     in if ds = [] then None
        else Some (JInt (if neg then - int (decValue ds) else int (decValue ds)), dropWhile isDigit t))"

definition readWord :: "string \<Rightarrow> json \<Rightarrow> string \<Rightarrow> (json \<times> string) option" where
  "readWord w v s = (if hasPrefix s w then Some (v, drop (length w) s) else None)"

text \<open>
  The recursion is bounded by fuel; every call reads at least one byte, so as much fuel as there are bytes
  is enough.
\<close>

fun readValue :: "nat \<Rightarrow> string \<Rightarrow> (json \<times> string) option"
  and readElems :: "nat \<Rightarrow> string \<Rightarrow> (json list \<times> string) option"
  and readMembers :: "nat \<Rightarrow> string \<Rightarrow> ((string \<times> json) list \<times> string) option" where
  "readValue 0 s = None"
| "readValue (Suc n) [] = None"
| "readValue (Suc n) (c # s) =
     (if c = CHR ''n'' then readWord ''null'' JNull (c # s)
      else if c = CHR ''t'' then readWord ''true'' (JBool True) (c # s)
      else if c = CHR ''f'' then readWord ''false'' (JBool False) (c # s)
      else if c = CHR 0x22 then map_option (apfst JStr) (readChars s)
      else if c = CHR ''['' then
        (if s \<noteq> [] \<and> hd s = CHR '']'' then Some (JArr [], tl s)
         else map_option (apfst JArr) (readElems n s))
      else if c = CHR ''{'' then
        (if s \<noteq> [] \<and> hd s = CHR ''}'' then Some (JMap [], tl s)
         else map_option (apfst JMap) (readMembers n s))
      else readInt (c # s))"
| "readElems 0 s = None"
| "readElems (Suc n) s = (case readValue n s of
      Some (v, c # s') \<Rightarrow>
        if c = CHR '','' then map_option (apfst ((#) v)) (readElems n s')
        else if c = CHR '']'' then Some ([v], s') else None
    | _ \<Rightarrow> None)"
| "readMembers 0 s = None"
| "readMembers (Suc n) s = (if s = [] \<or> hd s \<noteq> CHR 0x22 then None
     else (case readChars (tl s) of
      Some (k, c # s') \<Rightarrow>
        if c \<noteq> CHR '':'' then None
        else (case readValue n s' of
            Some (v, d # s'') \<Rightarrow>
              if d = CHR '','' then map_option (apfst ((#) (k, v))) (readMembers n s'')
              else if d = CHR ''}'' then Some ([(k, v)], s'') else None
          | _ \<Rightarrow> None)
    | _ \<Rightarrow> None))"

definition readJSON :: "string \<Rightarrow> json option" where
  "readJSON s = (case readValue (Suc (length s)) s of Some (j, []) \<Rightarrow> Some j | _ \<Rightarrow> None)"

text \<open>A document as its reader sees it: objects only, those from Go maps sorted by key.\<close>

primrec canon :: "json \<Rightarrow> json" where
  "canon JNull = JNull"
| "canon (JBool b) = JBool b"
| "canon (JInt i) = JInt i"
| "canon (JStr s) = JStr s"
| "canon (JArr xs) = JArr (map canon xs)"
| "canon (JMap kvs) = JMap (sort_key fst (map (map_prod id canon) kvs))"
| "canon (JStruct kvs) = JMap (map (map_prod id canon) kvs)"

section \<open>Strings read back\<close>

lemma hexDigit_unhex: "unhex (hexDigits ! (of_char c div 16)) = Some (of_char c div 16)"
  "unhex (hexDigits ! (of_char c mod 16)) = Some (of_char c mod (16::nat))"
  using unhex_digits [of "of_char c div 16"] unhex_digits [of "of_char c mod 16"] of_char_div_16 [of c]
  by simp_all

lemma unhex_zero: "unhex CHR ''0'' = Some 0" "unhex CHR ''2'' = Some 2" "unhex CHR ''8'' = Some 8"
  "unhex CHR ''9'' = Some 9"
  by (simp_all add: unhex_def)

lemma readChars_u00:
  assumes "(of_char c :: nat) < 128"
  shows "readChars (CHR 0x5C # CHR ''u'' # CHR ''0'' # CHR ''0'' # hexDigits ! (of_char c div 16)
      # hexDigits ! (of_char c mod 16) # t) = map_option (apfst ((#) c)) (readChars t)"
proof -
  have "hex4 CHR ''0'' CHR ''0'' (hexDigits ! (of_char c div 16)) (hexDigits ! (of_char c mod 16))
      = Some (of_char c)"
    by (simp add: hex4_def hexDigit_unhex unhex_zero)
  moreover have "utf8 (of_char c) = [c]" using assms by (simp add: utf8_def)
  moreover have "(@) [c] = (#) c" by (rule ext) simp
  ultimately show ?thesis by simp
qed

lemma readChars_short:
  "shortEscape e = Some c \<Longrightarrow> e \<noteq> CHR ''u'' \<Longrightarrow>
     readChars (CHR 0x5C # e # t) = map_option (apfst ((#) c)) (readChars t)"
  by simp

lemma readChars_plain:
  "c \<noteq> CHR 0x22 \<Longrightarrow> c \<noteq> CHR 0x5C \<Longrightarrow> \<not> (of_char c :: nat) < 32 \<Longrightarrow>
     readChars (c # t) = map_option (apfst ((#) c)) (readChars t)"
  by simp

lemma jsonEscapeByte_cases:
  obtains e where "jsonEscapeByte c = [CHR 0x5C, e]" "shortEscape e = Some c" "e \<noteq> CHR ''u''"
  | "(of_char c :: nat) < 128"
      "jsonEscapeByte c = CHR 0x5C # ''u00'' @ [hexDigits ! (of_char c div 16), hexDigits ! (of_char c mod 16)]"
  | "jsonEscapeByte c = [c]" "c \<noteq> CHR 0x22" "c \<noteq> CHR 0x5C" "\<not> (of_char c :: nat) < 32"
proof -
  let ?n = "of_char c :: nat"
  have code: "?n = k \<Longrightarrow> c = char_of k" for k by (metis char_of_char)
  consider "c = CHR 0x22 \<or> c = CHR 0x5C" | "?n = 8" | "?n = 12" | "?n = 10" | "?n = 13" | "?n = 9"
    | "c \<noteq> CHR 0x22" "c \<noteq> CHR 0x5C" "?n \<noteq> 8" "?n \<noteq> 12" "?n \<noteq> 10" "?n \<noteq> 13" "?n \<noteq> 9"
    by blast
  then show ?thesis
  proof cases
    case 1
    then show ?thesis by (intro that(1) [of c]) (auto simp: jsonEscapeByte_def shortEscape_def)
  next
    case 7
    show ?thesis
    proof (cases "?n < 32 \<or> c \<in> set ''<>&''")
      case True
      then have "?n < 128" by auto
      with 7 True show ?thesis by (intro that(2)) (auto simp: jsonEscapeByte_def Let_def)
    next
      case False
      with 7 show ?thesis by (intro that(3)) (auto simp: jsonEscapeByte_def Let_def)
    qed
  qed (drule code, rule that(1), auto simp: jsonEscapeByte_def shortEscape_def char_of_def bit_simps)+
qed

lemma readChars_byte: "readChars (jsonEscapeByte c @ t) = map_option (apfst ((#) c)) (readChars t)"
  by (cases c rule: jsonEscapeByte_cases)
    (simp_all add: readChars_short readChars_u00 readChars_plain del: readChars.simps)

lemma readChars_line:
  "readChars (CHR 0x5C # ''u202'' @ [CHR ''8''] @ t)
     = map_option (apfst ((@) [CHR 0xE2, CHR 0x80, CHR 0xA8])) (readChars t)"
  "readChars (CHR 0x5C # ''u202'' @ [CHR ''9''] @ t)
     = map_option (apfst ((@) [CHR 0xE2, CHR 0x80, CHR 0xA9])) (readChars t)"
  by (simp_all add: hex4_def unhex_zero utf8_def char_of_def bit_simps)

lemma readChars_quote: "readChars (CHR 0x22 # t) = Some ([], t)"
  by simp

lemma readChars_escape: "readChars (jsonEscape s @ CHR 0x22 # t) = Some (s, t)"
  using readChars_line [of "jsonEscape u @ CHR 0x22 # t" for u]
  by (induction s rule: jsonEscape.induct)
    (auto simp: readChars_byte readChars_quote simp del: readChars.simps)

section \<open>Numbers read back\<close>

lemma digitChar_code: "d < 10 \<Longrightarrow> (of_char (digitChar d) :: nat) = 48 + d"
  by (simp add: digitChar_def)

lemma isDigit_natDec: "c \<in> set (natDec n) \<Longrightarrow> isDigit c"
  by (drule natDec_chars) (auto simp: isDigit_def digitChar_code Let_def)

lemma decValue_natDec: "decValue (natDec n) = n"
proof (induction n rule: natDec.induct)
  case (1 n)
  show ?case
  proof (cases "n < 10")
    case True
    then show ?thesis by (subst natDec.simps) (simp add: decValue_def digitChar_code)
  next
    case False
    then have "decValue (natDec n) = 10 * decValue (natDec (n div 10)) + n mod 10"
      by (subst natDec.simps) (simp add: decValue_def digitChar_code)
    then show ?thesis using "1.IH" [OF False] by simp
  qed
qed

definition ends :: "string \<Rightarrow> bool" where
  "ends s \<longleftrightarrow> s = [] \<or> hd s \<in> set '',]}''"

lemma ends_simps [simp]: "ends []" "ends (CHR '','' # s)" "ends (CHR '']'' # s)" "ends (CHR ''}'' # s)"
  by (simp_all add: ends_def)

lemma natDec_span:
  assumes "ends t"
  shows "takeWhile isDigit (natDec n @ t) = natDec n" "dropWhile isDigit (natDec n @ t) = t"
proof -
  have t: "takeWhile isDigit t = []" "dropWhile isDigit t = t"
    using assms by (cases t; auto simp: ends_def isDigit_def)+
  show "takeWhile isDigit (natDec n @ t) = natDec n" "dropWhile isDigit (natDec n @ t) = t"
    using isDigit_natDec [of _ n] t by (simp_all add: takeWhile_append2 dropWhile_append2)
qed

lemma natDec_Cons: obtains c s where "natDec n = c # s" "isDigit c"
  using natDec_nonempty [of n] isDigit_natDec [of _ n] by (cases "natDec n") auto

lemma Itoa_Cons: obtains c s where "Itoa i = c # s" "isDigit c \<or> c = CHR ''-''"
proof (cases "i < 0")
  case True
  then show ?thesis by (intro that [of "CHR ''-''"]) (simp_all add: Itoa_def)
next
  case False
  obtain c s where "natDec (nat i) = c # s" "isDigit c" by (rule natDec_Cons)
  with False show ?thesis by (intro that [of c s]) (simp_all add: Itoa_def)
qed

lemma isDigit_other: "isDigit c \<Longrightarrow> c \<notin> set ''-ntf[]{},'' \<and> c \<noteq> CHR 0x22"
  by (auto simp: isDigit_def)

lemma readInt_Itoa:
  assumes "ends t"
  shows "readInt (Itoa i @ t) = Some (JInt i, t)"
proof (cases "i < 0")
  case True
  then show ?thesis
    using natDec_span [OF assms, of "nat (- i)"] by (simp add: readInt_def Itoa_def Let_def decValue_natDec)
next
  case False
  obtain c s where c: "natDec (nat i) = c # s" "isDigit c" by (rule natDec_Cons)
  have "hd (natDec (nat i) @ t) \<noteq> CHR ''-''" using c isDigit_other [of c] by simp
  then show ?thesis
    using False natDec_span [OF assms, of "nat i"] by (simp add: readInt_def Itoa_def Let_def decValue_natDec)
qed

lemma readValue_Itoa:
  assumes "ends t"
  shows "readValue (Suc n) (Itoa i @ t) = Some (JInt i, t)"
proof -
  obtain c s where c: "Itoa i = c # s" "isDigit c \<or> c = CHR ''-''" by (rule Itoa_Cons)
  have "c \<notin> set ''ntf[{'' \<and> c \<noteq> CHR 0x22" 
    using c(2)
  proof
    assume "isDigit c"
    then show ?thesis using isDigit_other [of c] by simp
  qed simp
  then have "readValue (Suc n) (c # s @ t) = readInt (c # s @ t)" by simp
  also have "\<dots> = Some (JInt i, t)" using readInt_Itoa [OF assms, of i] by (simp only: c append_Cons)
  finally show ?thesis by (simp only: c append_Cons)
qed

section \<open>Values read back\<close>

lemma marshal_start: "\<exists>c s. marshal j = c # s \<and> c \<noteq> CHR '']''"
proof (cases j)
  case (JInt i)
  obtain c s where "Itoa i = c # s" "isDigit c \<or> c = CHR ''-''" by (rule Itoa_Cons)
  with JInt show ?thesis using isDigit_other [of c] by auto
qed (auto simp: FormatBool_def jsonString_def jsonMembers_def)

text \<open>What is to be shown of one document, wherever it stands and whatever fuel is left.\<close>

definition reads_back :: "json \<Rightarrow> bool" where
  "reads_back j \<longleftrightarrow> (\<forall>n t. length (marshal j) \<le> n \<longrightarrow> ends t \<longrightarrow>
     readValue n (marshal j @ t) = Some (canon j, t))"

lemma reads_backD:
  "reads_back j \<Longrightarrow> length (marshal j) \<le> n \<Longrightarrow> ends t \<Longrightarrow> readValue n (marshal j @ t) = Some (canon j, t)"
  by (simp add: reads_back_def)

lemma readElems_marshal:
  assumes "xs \<noteq> []" and "\<And>x. x \<in> set xs \<Longrightarrow> reads_back x"
    and "length (intercalate '','' (map marshal xs)) < n"
  shows "readElems n (intercalate '','' (map marshal xs) @ CHR '']'' # t) = Some (map canon xs, t)"
  using assms
proof (induction xs arbitrary: n)
  case (Cons x xs)
  then obtain m where n: "n = Suc m" by (cases n) auto
  show ?case
  proof (cases xs)
    case Nil
    then show ?thesis
      using Cons.prems n reads_backD [of x m "CHR '']'' # t"] by simp
  next
    case (Cons y ys)
    have "readElems m (intercalate '','' (map marshal xs) @ CHR '']'' # t) = Some (map canon xs, t)"
      by (rule Cons.IH) (use Cons.prems n Cons in auto)
    moreover have "readValue m (marshal x @ CHR '','' # intercalate '','' (map marshal xs) @ CHR '']'' # t)
        = Some (canon x, CHR '','' # intercalate '','' (map marshal xs) @ CHR '']'' # t)"
      by (rule reads_backD) (use Cons.prems n Cons in auto)
    ultimately show ?thesis using n Cons by simp
  qed
qed simp

text \<open>A member as \<open>jsonMembers\<close> writes it.\<close>

definition memberText :: "string \<times> string \<Rightarrow> string" where
  "memberText p = jsonString (fst p) @ '':'' @ snd p"

lemma jsonMembers_text: "jsonMembers kvs = ''{'' @ intercalate '','' (map memberText kvs) @ ''}''"
  by (simp add: jsonMembers_def memberText_def [abs_def] case_prod_unfold)

lemma readMembers_step:
  assumes "readValue m (v @ d # t) = Some (j, d # t)"
  shows "readMembers (Suc m) (memberText (k, v) @ d # t) =
     (if d = CHR '','' then map_option (apfst ((#) (k, j))) (readMembers m t)
      else if d = CHR ''}'' then Some ([(k, j)], t) else None)"
  using assms readChars_escape [of k "CHR '':'' # v @ d # t"]
  by (simp add: memberText_def jsonString_def del: readChars.simps)

lemma readMembers_marshal:
  assumes "kvs \<noteq> []" and "\<And>k x. (k, x) \<in> set kvs \<Longrightarrow> reads_back x"
    and "length (intercalate '','' (map memberText (map (map_prod id marshal) kvs))) < n"
  shows "readMembers n (intercalate '','' (map memberText (map (map_prod id marshal) kvs)) @ CHR ''}'' # t)
     = Some (map (map_prod id canon) kvs, t)"
  using assms
proof (induction kvs arbitrary: n)
  case (Cons kv kvs)
  obtain k x where kv: "kv = (k, x)" by (cases kv)
  obtain m where n: "n = Suc m" using Cons.prems by (cases n) auto
  have x: "reads_back x" using Cons.prems(2) [of k x] kv by simp
  have len: "length (marshal x) < length (memberText (k, marshal x))" by (simp add: memberText_def)
  let ?text = "\<lambda>kvs. intercalate '','' (map memberText (map (map_prod id marshal) kvs))"
  show ?case
  proof (cases kvs)
    case Nil
    have "readValue m (marshal x @ CHR ''}'' # t) = Some (canon x, CHR ''}'' # t)"
      by (rule reads_backD [OF x]) (use Cons.prems n Nil kv len in auto)
    then show ?thesis using readMembers_step [of m "marshal x" "CHR ''}''" t "canon x" k] n Nil kv
      by (simp del: readMembers.simps)
  next
    case (Cons y ys)
    have "readMembers m (?text kvs @ CHR ''}'' # t) = Some (map (map_prod id canon) kvs, t)"
      by (rule Cons.IH) (use Cons.prems n Cons in auto)
    moreover note readMembers_step [of m "marshal x" "CHR '',''" "?text kvs @ CHR ''}'' # t" "canon x" k]
    moreover have "readValue m (marshal x @ CHR '','' # ?text kvs @ CHR ''}'' # t)
        = Some (canon x, CHR '','' # ?text kvs @ CHR ''}'' # t)"
      by (rule reads_backD [OF x]) (use Cons.prems n Cons kv len in auto)
    moreover have "?text (kv # kvs) @ CHR ''}'' # t
        = memberText (k, marshal x) @ CHR '','' # ?text kvs @ CHR ''}'' # t"
      using Cons kv by simp
    ultimately have "readMembers n (?text (kv # kvs) @ CHR ''}'' # t)
        = Some ((k, canon x) # map (map_prod id canon) kvs, t)"
      by (simp only: n simp_thms if_True option.map(2) apfst_conv)
    moreover have "map (map_prod id canon) (kv # kvs) = (k, canon x) # map (map_prod id canon) kvs"
      by (simp add: kv)
    ultimately show ?thesis by (simp only:)
  qed
qed simp

lemma insort_key_map: "insort_key f (g x) (map g xs) = map g (insort_key (\<lambda>x. f (g x)) x xs)"
  by (induction xs) simp_all

lemma sort_key_map: "sort_key f (map g xs) = map g (sort_key (\<lambda>x. f (g x)) xs)"
  by (induction xs) (simp_all add: insort_key_map)

lemma sort_members:
  "sort_key fst (map (map_prod id h) kvs) = map (map_prod id h) (sort_key fst kvs)"
  for kvs :: "(string \<times> json) list"
  by (simp add: sort_key_map)

lemma reads_back_object:
  assumes "\<And>k x. (k, x) \<in> set kvs \<Longrightarrow> reads_back x"
    and "length (jsonMembers (map (map_prod id marshal) kvs)) \<le> n"
  shows "readValue n (jsonMembers (map (map_prod id marshal) kvs) @ t)
     = Some (JMap (map (map_prod id canon) kvs), t)"
proof -
  let ?text = "intercalate '','' (map memberText (map (map_prod id marshal) kvs))"
  obtain m where n: "n = Suc m" using assms(2) by (cases n) (auto simp: jsonMembers_text)
  show ?thesis
  proof (cases "kvs = []")
    case True
    then show ?thesis by (simp add: n jsonMembers_text)
  next
    case False
    have len: "length ?text < m" using assms(2) by (simp add: n jsonMembers_text del: map_map)
    obtain k x ys where "kvs = (k, x) # ys" using False by (cases kvs) auto
    then have "hd (?text @ CHR ''}'' # t) \<noteq> CHR ''}''"
      by (cases ys) (simp_all add: memberText_def jsonString_def)
    with readMembers_marshal [OF False assms(1) len, where t = t] show ?thesis
      by (simp add: n jsonMembers_text del: map_map readMembers.simps)
  qed
qed

lemma reads_back_all: "reads_back j"
proof (induction j)
  case (JStr s)
  show ?case
    unfolding reads_back_def
  proof (intro allI impI)
    fix n t assume "length (marshal (JStr s)) \<le> n"
    then obtain m where "n = Suc m" by (cases n) (auto simp: jsonString_def)
    then show "readValue n (marshal (JStr s) @ t) = Some (canon (JStr s), t)"
      by (simp add: jsonString_def readChars_escape del: readChars.simps)
  qed
next
  case (JInt i)
  show ?case
    unfolding reads_back_def
  proof (intro allI impI)
    fix n t assume len: "length (marshal (JInt i)) \<le> n" and t: "ends t"
    obtain c s where "Itoa i = c # s" by (rule Itoa_Cons)
    with len obtain m where "n = Suc m" by (cases n) auto
    with readValue_Itoa [OF t] show "readValue n (marshal (JInt i) @ t) = Some (canon (JInt i), t)"
      by simp
  qed
next
  case (JArr xs)
  show ?case
    unfolding reads_back_def
  proof (intro allI impI)
    fix n t assume len: "length (marshal (JArr xs)) \<le> n"
    then obtain m where n: "n = Suc m" by (cases n) auto
    let ?text = "intercalate '','' (map marshal xs)"
    show "readValue n (marshal (JArr xs) @ t) = Some (canon (JArr xs), t)"
    proof (cases "xs = []")
      case False
      obtain x ys where xs: "xs = x # ys" using False by (cases xs) auto
      have "hd (?text @ CHR '']'' # t) \<noteq> CHR '']''"
        using marshal_start [of x] xs by (cases ys) auto
      with readElems_marshal [OF False JArr.IH, where n = m and t = t] len n show ?thesis by simp
    qed (simp add: n)
  qed
next
  case (JMap kvs)
  have "(k, x) \<in> set (sort_key fst kvs) \<Longrightarrow> reads_back x" for k x
    using JMap.IH by fastforce
  then have "\<And>n t. length (jsonMembers (map (map_prod id marshal) (sort_key fst kvs))) \<le> n \<Longrightarrow>
      readValue n (jsonMembers (map (map_prod id marshal) (sort_key fst kvs)) @ t)
        = Some (JMap (map (map_prod id canon) (sort_key fst kvs)), t)"
    by (rule reads_back_object)
  then show ?case unfolding reads_back_def marshal.simps canon.simps sort_members by (intro allI impI)
next
  case (JStruct kvs)
  have "(k, x) \<in> set kvs \<Longrightarrow> reads_back x" for k x
    using JStruct.IH by fastforce
  then have "\<And>n t. length (jsonMembers (map (map_prod id marshal) kvs)) \<le> n \<Longrightarrow>
      readValue n (jsonMembers (map (map_prod id marshal) kvs) @ t) = Some (JMap (map (map_prod id canon) kvs), t)"
    by (rule reads_back_object)
  then show ?case unfolding reads_back_def marshal.simps canon.simps by (intro allI impI)
next
  case (JBool b)
  show ?case
    unfolding reads_back_def
  proof (intro allI impI)
    fix n t assume "length (marshal (JBool b)) \<le> n"
    then obtain m where "n = Suc m" by (cases n) (auto simp: FormatBool_def split: if_splits)
    then show "readValue n (marshal (JBool b) @ t) = Some (canon (JBool b), t)"
      by (cases b) (simp_all add: FormatBool_def readWord_def)
  qed
next
  case JNull
  show ?case
    unfolding reads_back_def
  proof (intro allI impI)
    fix n t assume "length (marshal JNull) \<le> n"
    then obtain m where "n = Suc m" by (cases n) auto
    then show "readValue n (marshal JNull @ t) = Some (canon JNull, t)" by (simp add: readWord_def)
  qed
qed

lemma marshal_roundtrip: "readJSON (marshal j) = Some (canon j)"
  using reads_backD [OF reads_back_all, of j "Suc (length (marshal j))" "[]"]
  by (simp add: readJSON_def del: readValue.simps)

section \<open>The operator's documents\<close>

lemma map_of_insort_key: "map_of (insort_key fst p xs) = (map_of xs)(fst p \<mapsto> snd p)"
  for p :: "string \<times> 'v"
  by (induction xs) auto

lemma map_of_sort_key: "map_of (sort_key fst xs) = map_of xs" for xs :: "(string \<times> 'v) list"
  by (induction xs) (simp_all add: map_of_insort_key)

lemma map_of_map_prod: "map_of (map (map_prod id g) xs) k = map_option g (map_of xs k)"
  by (induction xs) auto

lemma jget_canon [simp]: "jget k (canon j) = map_option canon (jget k j)"
  by (cases j) (simp_all add: map_of_sort_key map_of_map_prod)


end
