(* ===== verification/Manager.thy ===== *)
theory Manager
  imports Decode
begin

text \<open>
  The manager's start-up (cmd/main.go, \<open>SetupWithManager\<close> of dataplatform\_controller.go and
  \<open>NewProxyCatalogClient\<close> of catalog.go): the command line, the options of the servers, and the order in
  which the manager is put together before it runs.
\<close>

section \<open>The command line\<close>

text \<open>
  The variables of \<open>main\<close> that the flags set. \<open>mfExt\<close> holds, in order, the values given to the flags
  that libraries register: those of \<open>zap.Options.BindFlags\<close> and controller-runtime's \<open>kubeconfig\<close>.
\<close>

record main_flags =
  mfMetricsAddr :: string
  mfProbeAddr :: string
  mfEnableLeaderElection :: bool
  mfSecureMetrics :: bool
  mfWebhookCertPath :: string
  mfWebhookCertName :: string
  mfWebhookCertKey :: string
  mfMetricsCertPath :: string
  mfMetricsCertName :: string
  mfMetricsCertKey :: string
  mfEnableHTTP2 :: bool
  mfExt :: "(string \<times> string) list"

definition defaultFlags :: main_flags where
  "defaultFlags = \<lparr>mfMetricsAddr = ''0'', mfProbeAddr = '':8081'', mfEnableLeaderElection = False,
     mfSecureMetrics = True, mfWebhookCertPath = [], mfWebhookCertName = ''tls.crt'',
     mfWebhookCertKey = ''tls.key'', mfMetricsCertPath = [], mfMetricsCertName = ''tls.crt'',
     mfMetricsCertKey = ''tls.key'', mfEnableHTTP2 = False, mfExt = []\<rparr>"

text \<open>\<open>strconv.ParseBool\<close>.\<close>

definition ParseBool :: "string \<Rightarrow> bool option" where
  "ParseBool s =
     (if s \<in> {''1'', ''t'', ''T'', ''TRUE'', ''true'', ''True''} then Some True
      else if s \<in> {''0'', ''f'', ''F'', ''FALSE'', ''false'', ''False''} then Some False
      else None)"

text \<open>
  A flag: whether it is a boolean one, which takes no further argument, and its \<open>Set\<close>, which rejects
  some values. \<open>ext\<close> gives the flags of the libraries: boolean or not, and the values they accept.
\<close>

type_synonym ext_flags = "string \<Rightarrow> (bool \<times> (string \<Rightarrow> bool)) option"

type_synonym flag = "bool \<times> (string \<Rightarrow> main_flags \<Rightarrow> main_flags option)"

definition StringVar :: "(string \<Rightarrow> main_flags \<Rightarrow> main_flags) \<Rightarrow> flag" where
  "StringVar put = (False, \<lambda>v fl. Some (put v fl))"

definition BoolVar :: "(bool \<Rightarrow> main_flags \<Rightarrow> main_flags) \<Rightarrow> flag" where
  "BoolVar put = (True, \<lambda>v fl. case ParseBool v of None \<Rightarrow> None | Some b \<Rightarrow> Some (put b fl))"

definition mainFlagTable :: "(string \<times> flag) list" where
  "mainFlagTable = [
     (''metrics-bind-address'', StringVar (\<lambda>v fl. fl\<lparr>mfMetricsAddr := v\<rparr>)),
     (''health-probe-bind-address'', StringVar (\<lambda>v fl. fl\<lparr>mfProbeAddr := v\<rparr>)),
     (''leader-elect'', BoolVar (\<lambda>v fl. fl\<lparr>mfEnableLeaderElection := v\<rparr>)),
     (''metrics-secure'', BoolVar (\<lambda>v fl. fl\<lparr>mfSecureMetrics := v\<rparr>)),
     (''webhook-cert-path'', StringVar (\<lambda>v fl. fl\<lparr>mfWebhookCertPath := v\<rparr>)),
     (''webhook-cert-name'', StringVar (\<lambda>v fl. fl\<lparr>mfWebhookCertName := v\<rparr>)),
     (''webhook-cert-key'', StringVar (\<lambda>v fl. fl\<lparr>mfWebhookCertKey := v\<rparr>)),
     (''metrics-cert-path'', StringVar (\<lambda>v fl. fl\<lparr>mfMetricsCertPath := v\<rparr>)),
     (''metrics-cert-name'', StringVar (\<lambda>v fl. fl\<lparr>mfMetricsCertName := v\<rparr>)),
     (''metrics-cert-key'', StringVar (\<lambda>v fl. fl\<lparr>mfMetricsCertKey := v\<rparr>)),
     (''enable-http2'', BoolVar (\<lambda>v fl. fl\<lparr>mfEnableHTTP2 := v\<rparr>))]"

definition lookupFlag :: "ext_flags \<Rightarrow> string \<Rightarrow> flag option" where
  "lookupFlag ext name = (case map_of mainFlagTable name of
      Some f \<Rightarrow> Some f
    | None \<Rightarrow> (case ext name of
        None \<Rightarrow> None
      | Some (isBool, accepts) \<Rightarrow>
          Some (isBool, \<lambda>v fl. if accepts v then Some (fl\<lparr>mfExt := mfExt fl @ [(name, v)]\<rparr>) else None)))"

text \<open>
  \<open>flag.Parse\<close> on the command line, where a flag set that exits on errors ends the process: with status
  0 after printing the usage for \<open>-h\<close> and \<open>-help\<close>, with status 2 otherwise. \<open>flagName\<close> is the argument
  without its one or two minuses, if it is a flag.
\<close>

datatype flag_token = NotAFlag | Terminator | BadSyntax | FlagToken string

definition flagToken :: "string \<Rightarrow> flag_token" where
  "flagToken s =
     (if length s < 2 \<or> hd s \<noteq> CHR ''-'' then NotAFlag
      else if s = ''--'' then Terminator
      else let name = (if s ! 1 = CHR ''-'' then drop 2 s else drop 1 s)
        in if name = [] \<or> hd name = CHR ''-'' \<or> hd name = CHR ''='' then BadSyntax else FlagToken name)"

datatype exit_status = ExitStatus nat

fun parseFlags :: "ext_flags \<Rightarrow> main_flags \<Rightarrow> string list \<Rightarrow> exit_status + main_flags" where
  "parseFlags ext fl [] = Inr fl"
| "parseFlags ext fl (s # args) = (case flagToken s of
      NotAFlag \<Rightarrow> Inr fl
    | Terminator \<Rightarrow> Inr fl
    | BadSyntax \<Rightarrow> Inl (ExitStatus 2)
    | FlagToken tok \<Rightarrow>
        let hasValue = CHR ''='' \<in> set tok; (name, value) = cutAt CHR ''='' tok
        in case lookupFlag ext name of
          None \<Rightarrow> Inl (ExitStatus (if name = ''help'' \<or> name = ''h'' then 0 else 2))
        | Some (isBool, put) \<Rightarrow>
            if isBool \<or> hasValue then
              (case put (if hasValue then value else ''true'') fl of
                None \<Rightarrow> Inl (ExitStatus 2)
              | Some fl' \<Rightarrow> parseFlags ext fl' args)
            else (case args of
                [] \<Rightarrow> Inl (ExitStatus 2)
              | v # rest \<Rightarrow> (case put v fl of
                  None \<Rightarrow> Inl (ExitStatus 2)
                | Some fl' \<Rightarrow> parseFlags ext fl' rest)))"

declare parseFlags.simps [simp del]

section \<open>The options\<close>

text \<open>
  \<open>tls.Config\<close>, of which the program writes the protocols offered, and the options that \<open>main\<close> builds:
  a list of functions on a TLS configuration each server applies in order to its own, and the directory
  and names of the certificate. An empty \<open>CertDir\<close> leaves the choice to the server.
\<close>

record tls_config =
  tlNextProtos :: "string list"

type_synonym tls_opts = "(tls_config \<Rightarrow> tls_config) list"

definition disableHTTP2 :: "tls_config \<Rightarrow> tls_config" where
  "disableHTTP2 c = c\<lparr>tlNextProtos := [''http/1.1'']\<rparr>"

datatype filter_provider = NoFilter | WithAuthenticationAndAuthorization

record webhook_options =
  woTLSOpts :: tls_opts
  woCertDir :: string
  woCertName :: string
  woKeyName :: string

record metrics_options =
  meBindAddress :: string
  meSecureServing :: bool
  meTLSOpts :: tls_opts
  meFilterProvider :: filter_provider
  meCertDir :: string
  meCertName :: string
  meKeyName :: string

record manager_options =
  moScheme :: "string list"
  moMetrics :: metrics_options
  moWebhookServer :: webhook_options
  moHealthProbeBindAddress :: string
  moLeaderElection :: bool
  moLeaderElectionID :: string

definition tlsOpts :: "main_flags \<Rightarrow> tls_opts" where
  "tlsOpts fl = (if \<not> mfEnableHTTP2 fl then [disableHTTP2] else [])"

definition webhookServerOptions :: "main_flags \<Rightarrow> webhook_options" where
  "webhookServerOptions fl =
     (let o1 = \<lparr>woTLSOpts = tlsOpts fl, woCertDir = [], woCertName = [], woKeyName = []\<rparr>
      in if length (mfWebhookCertPath fl) > 0
         then o1\<lparr>woCertDir := mfWebhookCertPath fl, woCertName := mfWebhookCertName fl,
           woKeyName := mfWebhookCertKey fl\<rparr>
         else o1)"

definition metricsServerOptions :: "main_flags \<Rightarrow> metrics_options" where
  "metricsServerOptions fl =
     (let o1 = \<lparr>meBindAddress = mfMetricsAddr fl, meSecureServing = mfSecureMetrics fl, meTLSOpts = tlsOpts fl,
            meFilterProvider = NoFilter, meCertDir = [], meCertName = [], meKeyName = []\<rparr>;
          o2 = (if mfSecureMetrics fl then o1\<lparr>meFilterProvider := WithAuthenticationAndAuthorization\<rparr> else o1)
      in if length (mfMetricsCertPath fl) > 0
         then o2\<lparr>meCertDir := mfMetricsCertPath fl, meCertName := mfMetricsCertName fl,
           meKeyName := mfMetricsCertKey fl\<rparr>
         else o2)"

definition managerOptions :: "string list \<Rightarrow> main_flags \<Rightarrow> manager_options" where
  "managerOptions scheme fl = \<lparr>moScheme = scheme, moMetrics = metricsServerOptions fl,
     moWebhookServer = webhookServerOptions fl, moHealthProbeBindAddress = mfProbeAddr fl,
     moLeaderElection = mfEnableLeaderElection fl, moLeaderElectionID = ''5005b5e2.opsarray.io''\<rparr>"

section \<open>The controller and its catalog client\<close>

text \<open>What \<open>SetupWithManager\<close> asks the controller builder for: the kinds by group and name.\<close>

record controller_spec =
  csFor :: string
  csOwns :: "string list"
  csNamed :: string

definition controllerSpec :: controller_spec where
  "controllerSpec = \<lparr>csFor = ''DataPlatform'',
     csOwns = [''Namespace'', ''Deployment'', ''StatefulSet'', ''Service'', ''ConfigMap'', ''Secret'', ''Job''],
     csNamed = ''dataplatform''\<rparr>"

text \<open>The catalog client, with its timeout in seconds.\<close>

record ('c, 'k, 'r) proxy_catalog_client =
  pcCfg :: 'c
  pcKube :: 'k
  pcRestClient :: 'r
  pcHTTPTimeout :: nat

text \<open>
  The libraries that \<open>main\<close> calls, over the world \<open>'w\<close>, with configurations \<open>'c\<close>, client sets \<open>'k\<close>,
  REST clients \<open>'r\<close> and managers \<open>'m\<close> of their own. A manager's \<open>Start\<close> returns when it is told to stop,
  or never.
\<close>

record ('w, 'c, 'k, 'r, 'm) runtime =
  rtAddToScheme :: "string \<Rightarrow> bool"
  rtExtFlags :: ext_flags
  rtGetConfig :: "(string \<times> string) list \<Rightarrow> ('w, 'c) go"
  rtNewManager :: "'c \<Rightarrow> manager_options \<Rightarrow> ('w, 'm) go"
  rtManagerConfig :: "'m \<Rightarrow> 'c"
  rtNewForConfig :: "'c \<Rightarrow> err + 'k"
  rtRESTClient :: "'k \<Rightarrow> 'r"
  rtComplete :: "'m \<Rightarrow> controller_spec \<Rightarrow> ('c, 'k, 'r) proxy_catalog_client \<Rightarrow> ('w, unit) go"
  rtAddHealthzCheck :: "'m \<Rightarrow> string \<Rightarrow> ('w, unit) go"
  rtAddReadyzCheck :: "'m \<Rightarrow> string \<Rightarrow> ('w, unit) go"
  rtStart :: "'m \<Rightarrow> ('w, unit) go"

definition NewProxyCatalogClient ::
  "('w, 'c, 'k, 'r, 'm) runtime \<Rightarrow> 'c \<Rightarrow> err + ('c, 'k, 'r) proxy_catalog_client" where
  "NewProxyCatalogClient rt cfg = (case rtNewForConfig rt cfg of
      Inl e \<Rightarrow> Inl e
    | Inr cs \<Rightarrow> Inr \<lparr>pcCfg = cfg, pcKube = cs, pcRestClient = rtRESTClient rt cs, pcHTTPTimeout = 30\<rparr>)"

definition SetupWithManager ::
  "('w, 'c, 'k, 'r, 'm) runtime \<Rightarrow> ('c, 'k, 'r) proxy_catalog_client \<Rightarrow> 'm \<Rightarrow> ('w, unit) go" where
  "SetupWithManager rt catalog mgr = rtComplete rt mgr controllerSpec catalog"

section \<open>main\<close>

text \<open>
  A process: it runs until it exits with a status, or for ever. \<open>orExit\<close> is
  \<open>if err != nil { setupLog.Error(...); os.Exit(1) }\<close>, which is also what \<open>GetConfigOrDie\<close> does inside.
  Registering the types panics when it fails, and a Go program that panics exits with status 2.
\<close>

type_synonym 'w process = "'w \<Rightarrow> (exit_status \<times> 'w) option"

definition exitWith :: "nat \<Rightarrow> 'w process" where
  "exitWith n = (\<lambda>w. Some (ExitStatus n, w))"

definition orExit :: "('w, 'a) go \<Rightarrow> ('a \<Rightarrow> 'w process) \<Rightarrow> 'w process" where
  "orExit m f = (\<lambda>w. case m w of
      None \<Rightarrow> None
    | Some (Inl e, w') \<Rightarrow> exitWith 1 w'
    | Some (Inr x, w') \<Rightarrow> f x w')"

definition schemeGroups :: "string list" where
  "schemeGroups = [''k8s.io/client-go/kubernetes'', ''dataplatform.opsarray.io/v1alpha1'']"

definition runManager ::
  "('w, 'c, 'k, 'r, 'm) runtime \<Rightarrow> main_flags \<Rightarrow> 'w process" where
  "runManager rt fl =
     orExit (rtGetConfig rt (mfExt fl)) (\<lambda>cfg.
     orExit (rtNewManager rt cfg (managerOptions schemeGroups fl)) (\<lambda>mgr.
     orExit (pureE (NewProxyCatalogClient rt (rtManagerConfig rt mgr))) (\<lambda>catalog.
     orExit (SetupWithManager rt catalog mgr) (\<lambda>_.
     orExit (rtAddHealthzCheck rt mgr ''healthz'') (\<lambda>_.
     orExit (rtAddReadyzCheck rt mgr ''readyz'') (\<lambda>_.
     orExit (rtStart rt mgr) (\<lambda>_.
     exitWith 0)))))))"

definition main :: "('w, 'c, 'k, 'r, 'm) runtime \<Rightarrow> string list \<Rightarrow> 'w process" where
  "main rt args =
     (if \<not> (\<forall>g \<in> set schemeGroups. rtAddToScheme rt g) then exitWith 2
      else (case parseFlags (rtExtFlags rt) defaultFlags args of
        Inl (ExitStatus n) \<Rightarrow> exitWith n
      | Inr fl \<Rightarrow> runManager rt fl))"

section \<open>The command line means what it says\<close>

lemma cutAt_eq: "CHR ''='' \<notin> set n \<Longrightarrow> cutAt CHR ''='' (n @ CHR ''='' # v) = (n, v)"
  unfolding cutAt_def by (induction n) auto

lemma flagToken_assign:
  assumes "n \<noteq> []" and "hd n \<noteq> CHR ''-''" and "hd n \<noteq> CHR ''=''"
  shows "flagToken (''--'' @ n @ v) = FlagToken (n @ v)"
  using assms by (cases n) (auto simp: flagToken_def Let_def)

lemma parseFlags_assign:
  assumes "n \<noteq> []" and "hd n \<noteq> CHR ''-''" and "CHR ''='' \<notin> set n"
    and "lookupFlag ext n = Some (b, put)" and "put v fl = Some fl'"
  shows "parseFlags ext fl ((''--'' @ n @ CHR ''='' # v) # args) = parseFlags ext fl' args"
proof -
  have "hd n \<noteq> CHR ''=''" using assms(1,3) by (cases n) auto
  then show ?thesis
    using assms flagToken_assign [of n "CHR ''='' # v"] by (simp add: cutAt_eq parseFlags.simps)
qed

lemma ParseBool_FormatBool [simp]: "ParseBool (FormatBool b) = Some b"
  by (simp add: ParseBool_def FormatBool_def)

lemma lookupFlag_table:
  "lookupFlag ext ''metrics-bind-address'' = Some (StringVar (\<lambda>v fl. fl\<lparr>mfMetricsAddr := v\<rparr>))"
  "lookupFlag ext ''health-probe-bind-address'' = Some (StringVar (\<lambda>v fl. fl\<lparr>mfProbeAddr := v\<rparr>))"
  "lookupFlag ext ''leader-elect'' = Some (BoolVar (\<lambda>v fl. fl\<lparr>mfEnableLeaderElection := v\<rparr>))"
  "lookupFlag ext ''metrics-secure'' = Some (BoolVar (\<lambda>v fl. fl\<lparr>mfSecureMetrics := v\<rparr>))"
  "lookupFlag ext ''webhook-cert-path'' = Some (StringVar (\<lambda>v fl. fl\<lparr>mfWebhookCertPath := v\<rparr>))"
  "lookupFlag ext ''webhook-cert-name'' = Some (StringVar (\<lambda>v fl. fl\<lparr>mfWebhookCertName := v\<rparr>))"
  "lookupFlag ext ''webhook-cert-key'' = Some (StringVar (\<lambda>v fl. fl\<lparr>mfWebhookCertKey := v\<rparr>))"
  "lookupFlag ext ''metrics-cert-path'' = Some (StringVar (\<lambda>v fl. fl\<lparr>mfMetricsCertPath := v\<rparr>))"
  "lookupFlag ext ''metrics-cert-name'' = Some (StringVar (\<lambda>v fl. fl\<lparr>mfMetricsCertName := v\<rparr>))"
  "lookupFlag ext ''metrics-cert-key'' = Some (StringVar (\<lambda>v fl. fl\<lparr>mfMetricsCertKey := v\<rparr>))"
  "lookupFlag ext ''enable-http2'' = Some (BoolVar (\<lambda>v fl. fl\<lparr>mfEnableHTTP2 := v\<rparr>))"
  by (simp_all add: lookupFlag_def mainFlagTable_def)

lemma parse_string:
  assumes "n \<noteq> []" and "hd n \<noteq> CHR ''-''" and "CHR ''='' \<notin> set n"
    and "lookupFlag ext n = Some (StringVar put)"
  shows "parseFlags ext fl ((''--'' @ n @ CHR ''='' # v) # args) = parseFlags ext (put v fl) args"
  by (rule parseFlags_assign [OF assms(1-3) assms(4) [unfolded StringVar_def]]) simp

lemma parse_bool:
  assumes "n \<noteq> []" and "hd n \<noteq> CHR ''-''" and "CHR ''='' \<notin> set n"
    and "lookupFlag ext n = Some (BoolVar put)"
  shows "parseFlags ext fl ((''--'' @ n @ CHR ''='' # FormatBool b) # args) = parseFlags ext (put b fl) args"
  by (rule parseFlags_assign [OF assms(1-3) assms(4) [unfolded BoolVar_def]]) simp

lemmas parse_assignments =
  lookupFlag_table(1,2,5-10) [THEN parse_string [rotated 3], simplified]
  lookupFlag_table(3,4,11) [THEN parse_bool [rotated 3], simplified]

text \<open>The command line that spells every flag of \<open>main\<close> out.\<close>

definition renderFlags :: "main_flags \<Rightarrow> string list" where
  "renderFlags fl = map (\<lambda>(n, v). ''--'' @ n @ CHR ''='' # v) [
     (''metrics-bind-address'', mfMetricsAddr fl),
     (''health-probe-bind-address'', mfProbeAddr fl),
     (''leader-elect'', FormatBool (mfEnableLeaderElection fl)),
     (''metrics-secure'', FormatBool (mfSecureMetrics fl)),
     (''webhook-cert-path'', mfWebhookCertPath fl),
     (''webhook-cert-name'', mfWebhookCertName fl),
     (''webhook-cert-key'', mfWebhookCertKey fl),
     (''metrics-cert-path'', mfMetricsCertPath fl),
     (''metrics-cert-name'', mfMetricsCertName fl),
     (''metrics-cert-key'', mfMetricsCertKey fl),
     (''enable-http2'', FormatBool (mfEnableHTTP2 fl))]"

text \<open>
  C38. The command line says what the manager runs with: spelling out the flags of a configuration and
  parsing them gives that configuration, whatever was set before, values with spaces, minuses or equals
  signs included; what follows on the command line is parsed on top of it, so the last flag wins.
\<close>

theorem flags_roundtrip:
  "parseFlags ext before (renderFlags fl @ args) = parseFlags ext (fl\<lparr>mfExt := mfExt before\<rparr>) args"
  by (cases before; cases fl) (simp add: renderFlags_def parse_assignments)

section \<open>The servers are hardened unless the command line says otherwise\<close>

definition namesFlag :: "string \<Rightarrow> string \<Rightarrow> bool" where
  "namesFlag n s \<longleftrightarrow> s = ''-'' @ n \<or> s = ''--'' @ n \<or> hasPrefix s (''-'' @ n @ ''='') \<or>
     hasPrefix s (''--'' @ n @ ''='')"

lemma cutAt_split:
  "cutAt c s = (n, v) \<Longrightarrow> (c \<in> set s \<longrightarrow> s = n @ c # v) \<and> (c \<notin> set s \<longrightarrow> s = n)"
  unfolding cutAt_def
  by (induction s arbitrary: n v) (auto split: if_splits)

lemma flagToken_names:
  assumes "flagToken s = FlagToken tok" and "cutAt CHR ''='' tok = (n, v)"
  shows "namesFlag n s"
proof -
  from assms(1) have "s = ''-'' @ tok \<or> s = ''--'' @ tok"
    by (cases s; cases "tl s") (auto simp: flagToken_def Let_def split: if_splits)
  with cutAt_split [OF assms(2)] show ?thesis
    by (auto simp: namesFlag_def hasPrefix_iff)
qed

text \<open>What only one flag sets stays as it was on a command line without that flag.\<close>

lemma parseFlags_unnamed:
  assumes "parseFlags ext fl args = Inr fl'" and "\<forall>s \<in> set args. \<not> namesFlag n s" and "P fl"
    and step: "\<And>m b put v g g'. m \<noteq> n \<Longrightarrow> lookupFlag ext m = Some (b, put) \<Longrightarrow> put v g = Some g' \<Longrightarrow> P g \<Longrightarrow> P g'"
  shows "P fl'"
  using assms
proof (induction ext fl args rule: parseFlags.induct)
  case (1 ext fl)
  then show ?case by (simp add: parseFlags.simps)
next
  case (2 ext fl s args)
  show ?case
  proof (cases "flagToken s")
    case (FlagToken tok)
    obtain m v where cut: "cutAt CHR ''='' tok = (m, v)" by fastforce
    have "m \<noteq> n" using flagToken_names [OF FlagToken cut] "2.prems"(2) by auto
    have "P g" if "lookupFlag ext m = Some (b, put)" and "put x fl = Some g" for b put x g
      using "2.prems"(4) [OF \<open>m \<noteq> n\<close> that "2.prems"(3)] .
    note next_state = this
    from "2.prems"(1) FlagToken cut obtain b put where look: "lookupFlag ext m = Some (b, put)"
      by (auto simp: parseFlags.simps Let_def split: option.splits)
    let ?v = "if CHR ''='' \<in> set tok then v else ''true''"
    show ?thesis
    proof (cases "b \<or> CHR ''='' \<in> set tok")
      case True
      with "2.prems"(1) FlagToken cut look obtain g where "put ?v fl = Some g" "parseFlags ext g args = Inr fl'"
        by (auto simp: parseFlags.simps Let_def split: option.splits if_splits)
      with next_state [OF look] "2.prems"(2,4) show ?thesis
        using "2.IH"(1) [OF FlagToken refl cut [symmetric] refl look refl True]
        by auto
    next
      case False
      with "2.prems"(1) FlagToken cut look obtain x rest g where "args = x # rest" "put x fl = Some g"
        "parseFlags ext g rest = Inr fl'"
        by (auto simp: parseFlags.simps Let_def split: option.splits if_splits list.splits)
      with next_state [OF look] "2.prems"(2,4) show ?thesis
        using "2.IH"(2) [OF FlagToken refl cut [symmetric] refl look refl False]
        by auto
    qed
  qed (use "2.prems" in \<open>auto simp: parseFlags.simps\<close>)
qed

lemma lookupFlag_cases:
  assumes "lookupFlag ext m = Some (b, put)"
  obtains f where "map_of mainFlagTable m = Some f" "f = (b, put)"
  | accepts where "map_of mainFlagTable m = None" "ext m = Some (b, accepts)"
      "put = (\<lambda>v fl. if accepts v then Some (fl\<lparr>mfExt := mfExt fl @ [(m, v)]\<rparr>) else None)"
  using assms by (auto simp: lookupFlag_def split: option.splits)

text \<open>Each of the three settings is written by the flag of its name alone.\<close>

lemma put_frames:
  assumes look: "lookupFlag ext m = Some (b, put)" and put: "put v g = Some g'"
  shows "m \<noteq> ''enable-http2'' \<Longrightarrow> mfEnableHTTP2 g' = mfEnableHTTP2 g"
    and "m \<noteq> ''metrics-secure'' \<Longrightarrow> mfSecureMetrics g' = mfSecureMetrics g"
    and "m \<noteq> ''metrics-bind-address'' \<Longrightarrow> mfMetricsAddr g' = mfMetricsAddr g"
proof -
  have "(m \<noteq> ''enable-http2'' \<longrightarrow> mfEnableHTTP2 g' = mfEnableHTTP2 g) \<and>
      (m \<noteq> ''metrics-secure'' \<longrightarrow> mfSecureMetrics g' = mfSecureMetrics g) \<and>
      (m \<noteq> ''metrics-bind-address'' \<longrightarrow> mfMetricsAddr g' = mfMetricsAddr g)"
    using look
  proof (cases rule: lookupFlag_cases)
    case (1 f)
    then show ?thesis
      using put unfolding mainFlagTable_def
      by (auto simp: StringVar_def BoolVar_def split: if_splits option.splits)
  next
    case (2 accepts)
    with put show ?thesis by (auto split: if_splits)
  qed
  then show "m \<noteq> ''enable-http2'' \<Longrightarrow> mfEnableHTTP2 g' = mfEnableHTTP2 g"
    and "m \<noteq> ''metrics-secure'' \<Longrightarrow> mfSecureMetrics g' = mfSecureMetrics g"
    and "m \<noteq> ''metrics-bind-address'' \<Longrightarrow> mfMetricsAddr g' = mfMetricsAddr g"
    by blast+
qed

text \<open>What a server offers over TLS: the options run in order on its own configuration.\<close>

definition offeredProtocols :: "tls_opts \<Rightarrow> tls_config \<Rightarrow> string list" where
  "offeredProtocols opts c = tlNextProtos (fold (\<lambda>f c. f c) opts c)"

lemma offered_http1: "\<not> mfEnableHTTP2 fl \<Longrightarrow> offeredProtocols (tlsOpts fl) c = [''http/1.1'']"
  by (simp add: offeredProtocols_def tlsOpts_def disableHTTP2_def)

lemma server_options:
  "woTLSOpts (webhookServerOptions fl) = tlsOpts fl"
  "meTLSOpts (metricsServerOptions fl) = tlsOpts fl"
  "meSecureServing (metricsServerOptions fl) = mfSecureMetrics fl"
  "meFilterProvider (metricsServerOptions fl) =
     (if mfSecureMetrics fl then WithAuthenticationAndAuthorization else NoFilter)"
  "meBindAddress (metricsServerOptions fl) = mfMetricsAddr fl"
  by (simp_all add: webhookServerOptions_def metricsServerOptions_def Let_def)

definition not_named :: "string \<Rightarrow> string list \<Rightarrow> bool" where
  "not_named n args \<longleftrightarrow> (\<forall>s \<in> set args. \<not> namesFlag n s)"

lemma unnamed_http2:
  assumes "parseFlags ext defaultFlags args = Inr fl" and "not_named ''enable-http2'' args"
  shows "\<not> mfEnableHTTP2 fl"
  by (rule parseFlags_unnamed [OF assms(1) assms(2) [unfolded not_named_def],
        where P = "\<lambda>g. \<not> mfEnableHTTP2 g"]) (simp add: defaultFlags_def, simp add: put_frames(1))

lemma unnamed_secure:
  assumes "parseFlags ext defaultFlags args = Inr fl" and "not_named ''metrics-secure'' args"
  shows "mfSecureMetrics fl"
  by (rule parseFlags_unnamed [OF assms(1) assms(2) [unfolded not_named_def],
        where P = mfSecureMetrics]) (simp add: defaultFlags_def, simp add: put_frames(2))

lemma unnamed_address:
  assumes "parseFlags ext defaultFlags args = Inr fl" and "not_named ''metrics-bind-address'' args"
  shows "mfMetricsAddr fl = ''0''"
  by (rule parseFlags_unnamed [OF assms(1) assms(2) [unfolded not_named_def],
        where P = "\<lambda>g. mfMetricsAddr g = ''0''"]) (simp add: defaultFlags_def, simp add: put_frames(3))

lemmas unnamed_settings = unnamed_http2 unnamed_secure unnamed_address

text \<open>
  C37. The servers are hardened unless the command line names the flag that softens them: with no argument
  of the form \<open>enable-http2\<close>, the webhook server and the metrics server offer HTTP/1.1 alone whatever they
  would offer by themselves; with none of the form \<open>metrics-secure\<close>, metrics are served over TLS to
  authenticated and authorized clients only; and with none of the form \<open>metrics-bind-address\<close> they are not
  served at all.
\<close>

theorem servers_hardened:
  assumes "parseFlags ext defaultFlags args = Inr fl"
  shows "(not_named ''enable-http2'' args \<longrightarrow>
      offeredProtocols (woTLSOpts (moWebhookServer (managerOptions scheme fl))) c = [''http/1.1''] \<and>
      offeredProtocols (meTLSOpts (moMetrics (managerOptions scheme fl))) c = [''http/1.1'']) \<and>
    (not_named ''metrics-secure'' args \<longrightarrow>
      meSecureServing (moMetrics (managerOptions scheme fl)) \<and>
      meFilterProvider (moMetrics (managerOptions scheme fl)) = WithAuthenticationAndAuthorization) \<and>
    (not_named ''metrics-bind-address'' args \<longrightarrow> meBindAddress (moMetrics (managerOptions scheme fl)) = ''0'')"
  by (intro conjI impI)
    (simp_all add: managerOptions_def server_options offered_http1 unnamed_settings [OF assms])

section \<open>The manager runs only when it is complete\<close>

text \<open>A process in which \<open>Start\<close> is reached only from worlds with \<open>P\<close> does not notice another \<open>Start\<close> elsewhere.\<close>

lemma orExit_cong:
  assumes "hoare P m Q E" and "P w" and "\<And>x w'. Q x w' \<Longrightarrow> f x w' = g x w'"
  shows "orExit m f w = orExit m g w"
  using assms(2,3) hoareD_ok [OF assms(1)]
  by (auto simp: orExit_def split: option.splits sum.splits)

lemma orExit_cong_any: "(\<And>x w'. f x w' = g x w') \<Longrightarrow> orExit m f w = orExit m g w"
  by (rule orExit_cong [where P = "\<lambda>_. True" and Q = "\<lambda>_ _. True" and E = "\<lambda>_ _. True"])
    (auto intro: hoareI)

text \<open>
  C36. The manager is started only when it is complete: if completing the builder with the operator's
  controller registers it, adding a check registers that check, and neither of these undoes another, then
  \<open>Start\<close> is called only on a manager with the controller for DataPlatform and both probes registered;
  what \<open>Start\<close> does on any other manager makes no difference to any run of \<open>main\<close>.
\<close>

theorem main_starts_complete_manager:
  assumes "\<And>m cat. hoare (\<lambda>_. True) (rtComplete rt m controllerSpec cat) (\<lambda>_. controller m) (\<lambda>_ _. True)"
    and "\<And>m. hoare (controller m) (rtAddHealthzCheck rt m ''healthz'') (\<lambda>_ w. controller m w \<and> healthz m w) (\<lambda>_ _. True)"
    and "\<And>m. hoare (\<lambda>w. controller m w \<and> healthz m w) (rtAddReadyzCheck rt m ''readyz'')
      (\<lambda>_ w. controller m w \<and> healthz m w \<and> readyz m w) (\<lambda>_ _. True)"
    and same: "\<And>m w. controller m w \<and> healthz m w \<and> readyz m w \<Longrightarrow> rtStart rt m w = start m w"
  shows "main (rt\<lparr>rtStart := start\<rparr>) args w = main rt args w"
proof -
  have "runManager (rt\<lparr>rtStart := start\<rparr>) fl w = runManager rt fl w" for fl
    unfolding runManager_def SetupWithManager_def
    apply (simp add: NewProxyCatalogClient_def cong: sum.case_cong)
    by (rule orExit_cong_any, rule orExit_cong_any, rule orExit_cong_any,
        rule orExit_cong [OF assms(1) TrueI], rule orExit_cong [OF assms(2)], assumption,
        rule orExit_cong [OF assms(3)], assumption) (simp add: orExit_def same)
  then show ?thesis by (simp add: main_def fun_eq_iff split: sum.splits exit_status.splits)
qed

end
