(* ===== verification/StoreServer.thy ===== *)
theory StoreServer
  imports AuthzStore
begin

text \<open>
  What ensuring a store (internal/controller/authzstore.go) means to OpenFGA: an abstract server holds a
  list of stores with their models, latest first, and \<open>EnsureAuthzStore\<close>, with its pages, statuses and
  bodies, refines one operation on that list.
\<close>

section \<open>The server\<close>

record fga_store =
  fsID :: string
  fsName :: string
  fsDeletedAt :: string
  fsModels :: "authz_model list"

definition listed :: "fga_store \<Rightarrow> listed_store" where
  "listed s = \<lparr>lsID = fsID s, lsName = fsName s, lsDeletedAt = fsDeletedAt s\<rparr>"

definition live :: "string \<Rightarrow> fga_store \<Rightarrow> bool" where
  "live name s = (fsName s = name \<and> fsDeletedAt s = [])"

definition pushModel :: "string \<Rightarrow> authz_model \<Rightarrow> fga_store list \<Rightarrow> fga_store list" where
  "pushModel i m = map (\<lambda>s. if fsID s = i then s\<lparr>fsModels := m # fsModels s\<rparr> else s)"

definition latest :: "fga_store \<Rightarrow> authz_model option" where
  "latest s = (case fsModels s of [] \<Rightarrow> None | m # _ \<Rightarrow> Some m)"

text \<open>Stores have ids, and each its own.\<close>

definition proper :: "fga_store list \<Rightarrow> bool" where
  "proper ss \<longleftrightarrow> distinct (map fsID ss) \<and> [] \<notin> set (map fsID ss)"

text \<open>
  What OpenFGA documents of the four requests, over a view of the world, in worlds with \<open>I\<close>: its listing
  gives all stores over its pages and changes nothing; a created store comes last, with an id of its own
  and no model; the latest model is read back as it was written; and a written model becomes the latest.
  The name and the policy are those of the operator's request, and creating and writing are described only
  where there is something to create or to write.
\<close>

definition serves_stores ::
  "('w \<Rightarrow> bool) \<Rightarrow> ('w \<Rightarrow> fga_store list) \<Rightarrow> 'w proxy \<Rightarrow> string \<Rightarrow> string \<Rightarrow> int \<Rightarrow> string \<Rightarrow> authz_store_request \<Rightarrow> bool" where
  "serves_stores I view c ns svc port bearer req \<longleftrightarrow>
     (\<forall>w. I w \<longrightarrow> proper (view w)) \<and>
     (\<forall>w. I w \<longrightarrow> (\<exists>pages. pagesFrom c ns svc port bearer [] pages w \<and>
        concat (map fst pages) = map listed (view w))) \<and>
     (\<forall>token v. keeps (\<lambda>w. I w \<and> view w = v) (storesPage c ns svc port bearer token)) \<and>
     (\<forall>w. I w \<longrightarrow> find (live (asStore req)) (view w) = None \<longrightarrow> (\<exists>status body i w'.
        do_request c MethodPost ns svc port ''stores'' bearer (Some (JStruct [(''name'', JStr (asStore req))])) w
          = Some (Inr (status, body), w') \<and> isSuccess status \<and> pxUnmarshalID c body = Inr i \<and>
        i \<noteq> [] \<and> i \<notin> set (map fsID (view w)) \<and> I w' \<and>
        view w' = view w @ [\<lparr>fsID = i, fsName = asStore req, fsDeletedAt = [], fsModels = []\<rparr>])) \<and>
     (\<forall>w. I w \<longrightarrow> (\<forall>s \<in> set (view w). \<exists>status body w'.
        do_request c MethodGet ns svc port (''stores/'' @ fsID s @ ''/authorization-models?page_size=1'') bearer None w
          = Some (Inr (status, body), w') \<and> isSuccess status \<and>
        pxUnmarshalModels c body = Inr (take 1 (fsModels s)) \<and> I w' \<and> view w' = view w)) \<and>
     (\<forall>w. I w \<longrightarrow> (\<forall>s \<in> set (view w). live (asStore req) s \<longrightarrow>
        \<not> authzModelMatches (latest s) (authzModelJSON (asTypes req)) \<longrightarrow> (\<exists>status body w'.
        do_request c MethodPost ns svc port (''stores/'' @ fsID s @ ''/authorization-models'') bearer
            (Some (modelJSON (authzModelJSON (asTypes req)))) w
          = Some (Inr (status, body), w') \<and> isSuccess status \<and> I w' \<and>
        view w' = pushModel (fsID s) (authzModelJSON (asTypes req)) (view w))))"

section \<open>The abstract operation\<close>

text \<open>
  \<open>ensureModel\<close> writes the model where the store's latest one does not match. \<open>ensured\<close>: the operation's
  id and its list of stores; a new store's id is the server's to choose.
\<close>

definition ensureModel :: "authz_type list \<Rightarrow> fga_store \<Rightarrow> fga_store list \<Rightarrow> fga_store list" where
  "ensureModel types s ss =
     (if authzModelMatches (latest s) (authzModelJSON types) then ss
      else pushModel (fsID s) (authzModelJSON types) ss)"

inductive ensured :: "authz_store_request \<Rightarrow> fga_store list \<Rightarrow> string \<Rightarrow> fga_store list \<Rightarrow> bool" for req where
  found: "find (live (asStore req)) ss = Some s \<Longrightarrow> ensured req ss (fsID s) (ensureModel (asTypes req) s ss)"
| created: "find (live (asStore req)) ss = None \<Longrightarrow> i \<notin> set (map fsID ss) \<Longrightarrow> i \<noteq> [] \<Longrightarrow>
     ensured req ss i (ss @ [\<lparr>fsID = i, fsName = asStore req, fsDeletedAt = [],
       fsModels = [authzModelJSON (asTypes req)]\<rparr>])"

inductive_cases ensuredE: "ensured req ss i ss'"

lemma find_listed: "find (liveStore name) (map listed ss) = map_option listed (find (live name) ss)"
  by (induction ss) (auto simp: liveStore_def live_def listed_def)

lemma find_SomeD: "find P xs = Some x \<Longrightarrow> x \<in> set xs \<and> P x"
  by (induction xs) (auto split: if_splits)

lemma pushModel_ids [simp]: "map fsID (pushModel i m ss) = map fsID ss"
  by (induction ss) (auto simp: pushModel_def)

lemma pushModel_id_set [simp]: "fsID ` set (pushModel i m ss) = fsID ` set ss"
  by (simp flip: set_map)

lemma pushModel_other: "i \<notin> set (map fsID ss) \<Longrightarrow> pushModel i m ss = ss"
  by (induction ss) (auto simp: pushModel_def)

lemma pushModel_append: "pushModel i m (xs @ ys) = pushModel i m xs @ pushModel i m ys"
  by (simp add: pushModel_def)

lemma find_pushModel:
  assumes "\<And>s m. P (s\<lparr>fsModels := m\<rparr>) = P s"
  shows "find P (pushModel i m ss) = map_option (\<lambda>s. if fsID s = i then s\<lparr>fsModels := m # fsModels s\<rparr> else s) (find P ss)"
  using assms by (induction ss) (auto simp: pushModel_def)

text \<open>What the operation gives is settled: it would do nothing again.\<close>

definition settledStore :: "authz_store_request \<Rightarrow> string \<Rightarrow> fga_store list \<Rightarrow> bool" where
  "settledStore req i ss \<longleftrightarrow> (\<exists>s. find (live (asStore req)) ss = Some s \<and> fsID s = i \<and>
     authzModelMatches (latest s) (authzModelJSON (asTypes req)))"

lemma matches_refl [simp]: "authzModelMatches (Some m) m"
  by (simp add: authzModelMatches_def)

lemma ensured_settles:
  assumes "ensured req ss i ss'"
  shows "settledStore req i ss'"
  using assms
proof (cases rule: ensured.cases)
  case (found s)
  have "find (live (asStore req)) (pushModel (fsID s) m ss) = Some (s\<lparr>fsModels := m # fsModels s\<rparr>)" for m
    using found by (subst find_pushModel) (simp_all add: live_def)
  with found show ?thesis by (auto simp: settledStore_def ensureModel_def latest_def)
next
  case created
  have "find P (xs @ ys) = (case find P xs of None \<Rightarrow> find P ys | Some x \<Rightarrow> Some x)" for P and xs ys :: "fga_store list"
    by (induction xs) auto
  with created show ?thesis by (simp add: settledStore_def live_def latest_def)
qed

lemma ensured_settled: "settledStore req i ss \<Longrightarrow> ensured req ss j ss' \<Longrightarrow> j = i \<and> ss' = ss"
  by (erule ensuredE) (auto simp: settledStore_def ensureModel_def)

lemma ensured_others:
  assumes "ensured req ss i ss'" and "s \<in> set ss" and "fsID s \<noteq> i"
  shows "s \<in> set ss'"
  using assms by (cases rule: ensured.cases) (auto simp: ensureModel_def pushModel_def intro: image_eqI [of _ _ s])

section \<open>The refinement\<close>

lemma storesPage_keeps_search:
  assumes keep: "\<And>token. keeps I (storesPage c ns svc port bearer token)"
  shows "keeps I (findAuthzStore c ns svc port bearer name)"
proof -
  let ?P = "\<lambda>c' ns' svc' port' bearer' name' tok w y. c' = c \<and> ns' = ns \<and> svc' = svc \<and> port' = port \<and>
    bearer' = bearer \<longrightarrow> I w \<longrightarrow> I (snd y)"
  have "?P c' ns' svc' port' bearer' name' token w y"
    if "findAuthzStoreFrom c' ns' svc' port' bearer' name' token w = Some y" for c' ns' svc' port' bearer' name' token w y
  proof (rule findAuthzStoreFrom.raw_induct [where P = ?P, rotated, OF that], goal_cases)
    case (1 rec c' ns' svc' port' bearer' name' token w y)
    show ?case
    proof (intro impI)
      assume eq: "c' = c \<and> ns' = ns \<and> svc' = svc \<and> port' = port \<and> bearer' = bearer" and "I w"
      from 1(2) eq obtain r w1 where page: "storesPage c ns svc port bearer token w = Some (r, w1)"
        by (auto split: option.splits)
      then have "I w1" using keepsD [OF keep] \<open>I w\<close> by blast
      then show "I (snd y)"
        using 1 eq page by (auto split: option.splits sum.splits prod.splits if_splits)
    qed
  qed
  then show ?thesis unfolding findAuthzStore_def by (intro keepsI) fastforce
qed

lemma serves_storesD:
  assumes "serves_stores I view c ns svc port bearer req" and "I w"
  shows "proper (view w)"
    and "\<exists>pages. pagesFrom c ns svc port bearer [] pages w \<and> concat (map fst pages) = map listed (view w)"
    and "keeps (\<lambda>w. I w \<and> view w = v) (storesPage c ns svc port bearer token)"
  using assms unfolding serves_stores_def by blast+

lemma createAuthzStore_creates:
  assumes "serves_stores I view c ns svc port bearer req" and "I w" and "find (live (asStore req)) (view w) = None"
  shows "\<exists>i w'. createAuthzStore c ns svc port bearer (asStore req) w = Some (Inr i, w') \<and> i \<noteq> [] \<and>
     i \<notin> set (map fsID (view w)) \<and> I w' \<and>
     view w' = view w @ [\<lparr>fsID = i, fsName = asStore req, fsDeletedAt = [], fsModels = []\<rparr>]"
proof -
  from assms obtain status body i w' where
    "do_request c MethodPost ns svc port ''stores'' bearer (Some (JStruct [(''name'', JStr (asStore req))])) w
        = Some (Inr (status, body), w')" "isSuccess status" "pxUnmarshalID c body = Inr i"
    "i \<noteq> []" "i \<notin> set (map fsID (view w))" "I w'"
    "view w' = view w @ [\<lparr>fsID = i, fsName = asStore req, fsDeletedAt = [], fsModels = []\<rparr>]"
    unfolding serves_stores_def by blast
  then show ?thesis by (simp add: createAuthzStore_def run_simps)
qed

lemma latestAuthzModel_reads:
  assumes "serves_stores I view c ns svc port bearer req" and "I w" and "s \<in> set (view w)"
  shows "\<exists>w'. latestAuthzModel c ns svc port bearer (fsID s) w = Some (Inr (latest s), w') \<and> I w' \<and> view w' = view w"
proof -
  from assms obtain status body w' where
    "do_request c MethodGet ns svc port (''stores/'' @ fsID s @ ''/authorization-models?page_size=1'') bearer None w
        = Some (Inr (status, body), w')" "isSuccess status"
    "pxUnmarshalModels c body = Inr (take 1 (fsModels s))" "I w'" "view w' = view w"
    unfolding serves_stores_def by blast
  then show ?thesis
    by (auto simp: latestAuthzModel_def run_simps latest_def isSuccess_def split: list.split)
qed

lemma writeAuthzModel_ensures:
  assumes server: "serves_stores I view c ns svc port bearer req" and "I w" and "s \<in> set (view w)"
    and "live (asStore req) s"
  shows "\<exists>w'. writeAuthzModel c ns svc port bearer (asTypes req) (fsID s) w = Some (Inr (fsID s), w') \<and>
     I w' \<and> view w' = ensureModel (asTypes req) s (view w)"
proof -
  obtain w1 where read: "latestAuthzModel c ns svc port bearer (fsID s) w = Some (Inr (latest s), w1)"
    "I w1" "view w1 = view w"
    using latestAuthzModel_reads [OF assms(1-3)] by blast
  show ?thesis
  proof (cases "authzModelMatches (latest s) (authzModelJSON (asTypes req))")
    case True
    with read show ?thesis by (simp add: writeAuthzModel_def Let_def run_simps ensureModel_def)
  next
    case False
    have "\<forall>w. I w \<longrightarrow> (\<forall>s \<in> set (view w). live (asStore req) s \<longrightarrow>
        \<not> authzModelMatches (latest s) (authzModelJSON (asTypes req)) \<longrightarrow> (\<exists>status body w'.
        do_request c MethodPost ns svc port (''stores/'' @ fsID s @ ''/authorization-models'') bearer
            (Some (modelJSON (authzModelJSON (asTypes req)))) w
          = Some (Inr (status, body), w') \<and> isSuccess status \<and> I w' \<and>
        view w' = pushModel (fsID s) (authzModelJSON (asTypes req)) (view w)))"
      using server unfolding serves_stores_def by (elim conjE)
    moreover have "s \<in> set (view w1)" using assms read(3) by simp
    ultimately obtain status body w' where "do_request c MethodPost ns svc port
        (''stores/'' @ fsID s @ ''/authorization-models'') bearer (Some (modelJSON (authzModelJSON (asTypes req)))) w1
        = Some (Inr (status, body), w')" "isSuccess status" "I w'"
        "view w' = pushModel (fsID s) (authzModelJSON (asTypes req)) (view w1)"
      using read(2) assms(4) False by meson
    with False read show ?thesis by (simp add: writeAuthzModel_def Let_def run_simps ensureModel_def)
  qed
qed

lemma find_store:
  assumes "serves_stores I view c ns svc port bearer req" and "I w"
  shows "\<exists>w'. findAuthzStore c ns svc port bearer (asStore req) w =
     Some (Inr (case find (live (asStore req)) (view w) of None \<Rightarrow> [] | Some s \<Rightarrow> fsID s), w') \<and> I w' \<and> view w' = view w"
proof -
  obtain pages where pages: "pagesFrom c ns svc port bearer [] pages w"
    "concat (map fst pages) = map listed (view w)"
    using serves_storesD(2) [OF assms] by blast
  obtain w' where run: "findAuthzStore c ns svc port bearer (asStore req) w =
      Some (Inr (case find (liveStore (asStore req)) (concat (map fst pages)) of
        None \<Rightarrow> [] | Some store \<Rightarrow> lsID store), w')"
    using search_pages [OF pages(1)] by blast
  have "I w' \<and> view w' = view w"
    using keepsD [OF storesPage_keeps_search [OF serves_storesD(3) [OF assms]] run] assms(2) by simp
  with run show ?thesis
    by (auto simp: pages(2) find_listed listed_def split: option.split)
qed

lemma EnsureAuthzStore_step:
  assumes server: "serves_stores I view c ns svc port bearer req" and w: "I w"
  shows "\<exists>i w'. EnsureAuthzStore c ns svc port bearer req w = Some (Inr i, w') \<and> I w' \<and>
     ensured req (view w) i (view w')"
proof -
  obtain w1 where find: "findAuthzStore c ns svc port bearer (asStore req) w =
      Some (Inr (case find (live (asStore req)) (view w) of None \<Rightarrow> [] | Some s \<Rightarrow> fsID s), w1)"
    and v1: "I w1" "view w1 = view w"
    using find_store [OF server w] by blast
  show ?thesis
  proof (cases "find (live (asStore req)) (view w)")
    case (Some s)
    then have s: "s \<in> set (view w)" "live (asStore req) s" by (simp_all add: find_SomeD)
    then have "fsID s \<noteq> []" using serves_storesD(1) [OF server w] unfolding proper_def by force
    moreover obtain w2 where "writeAuthzModel c ns svc port bearer (asTypes req) (fsID s) w1 = Some (Inr (fsID s), w2)"
      "I w2" "view w2 = ensureModel (asTypes req) s (view w)"
      using writeAuthzModel_ensures [OF server v1(1), of s] s v1(2) by auto
    ultimately show ?thesis
      using find Some ensured.found [OF Some] by (auto simp: EnsureAuthzStore_def run_simps)
  next
    case None
    obtain i w2 where create: "createAuthzStore c ns svc port bearer (asStore req) w1 = Some (Inr i, w2)"
      "i \<noteq> []" "i \<notin> set (map fsID (view w))" "I w2"
      "view w2 = view w @ [\<lparr>fsID = i, fsName = asStore req, fsDeletedAt = [], fsModels = []\<rparr>]"
      using createAuthzStore_creates [OF server v1(1)] None v1(2) by auto
    let ?new = "\<lparr>fsID = i, fsName = asStore req, fsDeletedAt = [], fsModels = []\<rparr>"
    have "?new \<in> set (view w2)" "live (asStore req) ?new" using create by (auto simp: live_def)
    then obtain w3 where wrote: "writeAuthzModel c ns svc port bearer (asTypes req) i w2 = Some (Inr i, w3)"
      "I w3" "view w3 = ensureModel (asTypes req) ?new (view w2)"
      using writeAuthzModel_ensures [OF server create(4), of ?new] by auto
    have "view w3 = view w @ [?new\<lparr>fsModels := [authzModelJSON (asTypes req)]\<rparr>]"
      using create wrote(3) by (simp add: ensureModel_def latest_def authzModelMatches_def pushModel_append pushModel_other)
        (simp add: pushModel_def)
    then show ?thesis
      using find None create wrote(1,2) ensured.created [OF None create(3,2)]
      by (auto simp: EnsureAuthzStore_def run_simps)
  qed
qed

text \<open>
  C15. Ensuring a store refines one operation on OpenFGA's list of stores. Against a server that keeps what
  OpenFGA documents, whatever its paging, ids and bodies, \<open>EnsureAuthzStore\<close> returns no error; the store
  that bears the name and is not deleted, or a new one, has the policy's model afterwards; the model is
  written only if the latest one differs; every other store is left alone; and doing it again gives the
  same id and changes nothing.
\<close>

theorem EnsureAuthzStore_refines:
  assumes server: "serves_stores I view c ns svc port bearer req" and w: "I w"
  shows "\<exists>i w'. EnsureAuthzStore c ns svc port bearer req w = Some (Inr i, w') \<and>
     ensured req (view w) i (view w') \<and> settledStore req i (view w') \<and>
     (\<forall>s \<in> set (view w). fsID s \<noteq> i \<longrightarrow> s \<in> set (view w')) \<and>
     (\<exists>w''. EnsureAuthzStore c ns svc port bearer req w' = Some (Inr i, w'') \<and> view w'' = view w')"
proof -
  obtain i w' where run: "EnsureAuthzStore c ns svc port bearer req w = Some (Inr i, w')" "I w'"
    and op: "ensured req (view w) i (view w')"
    using EnsureAuthzStore_step [OF assms] by blast
  obtain j w'' where "EnsureAuthzStore c ns svc port bearer req w' = Some (Inr j, w'')"
    and "ensured req (view w') j (view w'')"
    using EnsureAuthzStore_step [OF server run(2)] by blast
  with ensured_settled [OF ensured_settles [OF op]] have
    "EnsureAuthzStore c ns svc port bearer req w' = Some (Inr i, w'')" "view w'' = view w'" by blast+
  with run op ensured_settles [OF op] ensured_others [OF op] show ?thesis by blast
qed

end
