(* ===== verification/GoHeap.thy ===== *)
theory GoHeap
  imports Prelude "HOL-Library.Monad_Syntax"
begin

text \<open>
  Go's memory, where aliasing matters: a heap of cells that only grows, pointers into it, and what it
  means that a function copies deeply. What a value in memory stands for is told by a reader, a function
  of the cells that it can see.
\<close>

section \<open>Cells and pointers\<close>

text \<open>
  A heap is the list of its cells, in the order in which they were allocated; an address is a position.
  A nil pointer, slice or map is \<open>None\<close>. Nothing is ever freed under the program's feet.
\<close>

type_synonym 'c heap = "'c list"

type_synonym addr = nat

type_synonym 'c memory = "addr \<Rightarrow> 'c option"

definition look :: "'c heap \<Rightarrow> 'c memory" where
  "look h a = (if a < length h then Some (h ! a) else None)"

text \<open>What may be in a cell: how to see it there, and how to put it there.\<close>

record ('c, 'a) kind =
  kGet :: "'c \<Rightarrow> 'a option"
  kPut :: "'a \<Rightarrow> 'c"

definition kind_ok :: "('c, 'a) kind \<Rightarrow> bool" where
  "kind_ok k \<longleftrightarrow> (\<forall>x. kGet k (kPut k x) = Some x)"

definition kindOf :: "('c \<Rightarrow> bool) \<Rightarrow> ('c \<Rightarrow> 'a) \<Rightarrow> ('a \<Rightarrow> 'c) \<Rightarrow> ('c, 'a) kind" where
  "kindOf is_cell un mk = \<lparr>kGet = (\<lambda>c. if is_cell c then Some (un c) else None), kPut = mk\<rparr>"

lemma kind_ok_kindOf: "(\<And>x. is_cell (mk x)) \<Longrightarrow> (\<And>x. un (mk x) = x) \<Longrightarrow> kind_ok (kindOf is_cell un mk)"
  by (simp add: kind_ok_def kindOf_def)

text \<open>\<open>*p\<close>; a pointer to no such cell is none that Go has, and the program stops there.\<close>

definition load :: "('c, 'a) kind \<Rightarrow> addr \<Rightarrow> ('c heap, 'a) go" where
  "load k a = (\<lambda>h. case look h a of None \<Rightarrow> None | Some c \<Rightarrow>
     (case kGet k c of None \<Rightarrow> None | Some x \<Rightarrow> Some (Inr x, h)))"

text \<open>\<open>p = new(T); *p = x\<close>, and likewise for slices and maps made anew.\<close>

definition new :: "('c, 'a) kind \<Rightarrow> 'a \<Rightarrow> ('c heap, addr) go" where
  "new k x = (\<lambda>h. Some (Inr (length h), h @ [kPut k x]))"

fun mapE :: "('a \<Rightarrow> ('s, 'b) go) \<Rightarrow> 'a list \<Rightarrow> ('s, 'b list) go" where
  "mapE f [] = ret []"
| "mapE f (x # xs) = bindE (f x) (\<lambda>y. bindE (mapE f xs) (\<lambda>ys. ret (y # ys)))"

text \<open>
  What generated copies do to a field: \<open>if in.F != nil\<close> copy what it points to, with \<open>into\<close>; and the
  same element by element for a slice.
\<close>

definition copyPtr ::
  "('c, 'a) kind \<Rightarrow> ('a \<Rightarrow> ('c heap, 'a) go) \<Rightarrow> addr option \<Rightarrow> ('c heap, addr option) go" where
  "copyPtr k into p = (case p of None \<Rightarrow> ret None
     | Some a \<Rightarrow> bindE (load k a) (\<lambda>x. bindE (into x) (\<lambda>y. bindE (new k y) (\<lambda>b. ret (Some b)))))"

definition copySlice ::
  "('c, 'a list) kind \<Rightarrow> ('a \<Rightarrow> ('c heap, 'a) go) \<Rightarrow> addr option \<Rightarrow> ('c heap, addr option) go" where
  "copySlice k into p = copyPtr k (mapE into) p"

section \<open>Readers\<close>

type_synonym ('c, 'a, 'v) reader = "'c memory \<Rightarrow> 'a \<Rightarrow> 'v option"

definition readPlain :: "('c, 'a, 'a) reader" where
  "readPlain m x = Some x"

definition readPtr :: "('c, 'a) kind \<Rightarrow> ('c, 'a, 'v) reader \<Rightarrow> ('c, addr option, 'v option) reader" where
  "readPtr k rd m p = (case p of None \<Rightarrow> Some None | Some a \<Rightarrow>
     do { c \<leftarrow> m a; x \<leftarrow> kGet k c; v \<leftarrow> rd m x; Some (Some v) })"

fun readList :: "('c, 'a, 'v) reader \<Rightarrow> ('c, 'a list, 'v list) reader" where
  "readList rd m [] = Some []"
| "readList rd m (x # xs) = do { v \<leftarrow> rd m x; vs \<leftarrow> readList rd m xs; Some (v # vs) }"

text \<open>A reader that sees more cells reads the same.\<close>

definition steady :: "('c, 'a, 'v) reader \<Rightarrow> bool" where
  "steady rd \<longleftrightarrow> (\<forall>m m' x v. m \<subseteq>\<^sub>m m' \<longrightarrow> rd m x = Some v \<longrightarrow> rd m' x = Some v)"

named_theorems steady_intro

lemma steadyI: "(\<And>m m' x v. m \<subseteq>\<^sub>m m' \<Longrightarrow> rd m x = Some v \<Longrightarrow> rd m' x = Some v) \<Longrightarrow> steady rd"
  by (simp add: steady_def)

lemma steadyD: "steady rd \<Longrightarrow> m \<subseteq>\<^sub>m m' \<Longrightarrow> rd m x = Some v \<Longrightarrow> rd m' x = Some v"
  by (simp add: steady_def)

lemma map_leD: "m \<subseteq>\<^sub>m m' \<Longrightarrow> m a = Some c \<Longrightarrow> m' a = Some c"
  by (metis domI map_le_def)

lemma steady_plain [steady_intro]: "steady readPlain"
  by (simp add: steady_def readPlain_def)

lemma steady_ptr [steady_intro]: "steady rd \<Longrightarrow> steady (readPtr k rd)"
  by (rule steadyI)
    (auto simp: readPtr_def bind_eq_Some_conv split: option.splits dest: map_leD steadyD)

lemma steady_list [steady_intro]:
  assumes "steady rd"
  shows "steady (readList rd)"
proof (rule steadyI)
  show "readList rd m xs = Some vs \<Longrightarrow> readList rd m' xs = Some vs" if "m \<subseteq>\<^sub>m m'" for m m' xs vs
    using that by (induction xs arbitrary: vs) (auto simp: bind_eq_Some_conv dest: steadyD [OF assms])
qed

lemma steady_Some [steady_intro]: "steady (\<lambda>m s. Some (c s))"
  by (simp add: steady_def)

lemma steady_bind [steady_intro]:
  assumes "steady rd" and "\<And>v. steady (g v)"
  shows "steady (\<lambda>m s. do { v \<leftarrow> rd m (f s); g v m s })"
  by (rule steadyI) (auto simp: bind_eq_Some_conv intro: steadyD [OF assms(1)] steadyD [OF assms(2)])

section \<open>Copying deeply\<close>

text \<open>
  \<open>copies rd f\<close>: what \<open>f\<close> makes of a value that can be read reads the same, and it reads so in the new
  cells alone, all old ones taken away. Old cells are left as they were. The reader is steady.
\<close>

definition copies :: "('c, 'a, 'v) reader \<Rightarrow> ('a \<Rightarrow> ('c heap, 'a) go) \<Rightarrow> bool" where
  "copies rd f \<longleftrightarrow> steady rd \<and> (\<forall>x v h. rd (look h) x = Some v \<longrightarrow>
     (\<exists>y h'. f x h = Some (Inr y, h') \<and> look h \<subseteq>\<^sub>m look h' \<and> rd (look h' |` (- dom (look h))) y = Some v))"

text \<open>
  Running in a heap that has grown out of \<open>m\<close>, with \<open>P\<close> of the cells that are new: \<open>f\<close> returns a value
  with \<open>Q\<close>, again of the new cells.
\<close>

definition grows ::
  "'c memory \<Rightarrow> ('c memory \<Rightarrow> bool) \<Rightarrow> ('c heap, 'a) go \<Rightarrow> ('a \<Rightarrow> 'c memory \<Rightarrow> bool) \<Rightarrow> bool" where
  "grows m P f Q \<longleftrightarrow> (\<forall>h. m \<subseteq>\<^sub>m look h \<longrightarrow> P (look h |` (- dom m)) \<longrightarrow>
     (\<exists>y h'. f h = Some (Inr y, h') \<and> look h \<subseteq>\<^sub>m look h' \<and> Q y (look h' |` (- dom m))))"

definition upward :: "('c memory \<Rightarrow> bool) \<Rightarrow> bool" where
  "upward P \<longleftrightarrow> (\<forall>m m'. m \<subseteq>\<^sub>m m' \<longrightarrow> P m \<longrightarrow> P m')"

lemma copies_steady: "copies rd f \<Longrightarrow> steady rd"
  by (simp add: copies_def)

lemma upward_top: "upward (\<lambda>m. True)"
  by (simp add: upward_def)

lemma upward_reads: "upward P \<Longrightarrow> steady rd \<Longrightarrow> upward (\<lambda>m. P m \<and> rd m x = Some v)"
  unfolding upward_def steady_def by blast

lemma restrict_le: "m \<subseteq>\<^sub>m m' \<Longrightarrow> m |` A \<subseteq>\<^sub>m m' |` A"
  by (auto simp: map_le_def restrict_map_def)

lemma restrict_le_dom: "m \<subseteq>\<^sub>m m1 \<Longrightarrow> m' |` (- dom m1) \<subseteq>\<^sub>m m' |` (- dom m)"
  using map_le_implies_dom_le [of m m1] by (fastforce simp: map_le_def restrict_map_def split: if_splits)

lemma copies_grows:
  assumes "copies rd f" and "rd m x = Some v" and "upward P"
  shows "grows m P (f x) (\<lambda>y m'. P m' \<and> rd m' y = Some v)"
  unfolding grows_def
proof (intro allI impI)
  note steady = copies_steady [OF assms(1)]
  fix h assume h: "m \<subseteq>\<^sub>m look h" "P (look h |` (- dom m))"
  have "rd (look h) x = Some v" using steady h(1) assms(2) by (rule steadyD)
  then obtain y h' where "f x h = Some (Inr y, h')" and le: "look h \<subseteq>\<^sub>m look h'"
    and "rd (look h' |` (- dom (look h))) y = Some v"
    using assms(1) unfolding copies_def by blast
  moreover have "rd (look h' |` (- dom m)) y = Some v"
    using steady restrict_le_dom [OF h(1)] calculation(3) by (rule steadyD)
  moreover have "P (look h' |` (- dom m))"
    using assms(3) h(2) restrict_le [OF le] unfolding upward_def by blast
  ultimately show "\<exists>y h'. f x h = Some (Inr y, h') \<and> look h \<subseteq>\<^sub>m look h' \<and>
      P (look h' |` (- dom m)) \<and> rd (look h' |` (- dom m)) y = Some v" by blast
qed

lemma grows_bind:
  assumes "grows m P f R" and "\<And>y. grows m (R y) (g y) Q"
  shows "grows m P (bindE f g) Q"
  unfolding grows_def
proof (intro allI impI)
  fix h assume h: "m \<subseteq>\<^sub>m look h" "P (look h |` (- dom m))"
  then obtain y h1 where 1: "f h = Some (Inr y, h1)" "look h \<subseteq>\<^sub>m look h1" "R y (look h1 |` (- dom m))"
    using assms(1) unfolding grows_def by blast
  moreover have "m \<subseteq>\<^sub>m look h1" using h(1) 1(2) by (rule map_le_trans)
  ultimately obtain z h2 where "g y h1 = Some (Inr z, h2)" "look h1 \<subseteq>\<^sub>m look h2" "Q z (look h2 |` (- dom m))"
    using assms(2) unfolding grows_def by blast
  with 1 show "\<exists>z h2. bindE f g h = Some (Inr z, h2) \<and> look h \<subseteq>\<^sub>m look h2 \<and> Q z (look h2 |` (- dom m))"
    by (auto simp: bindE_run intro: map_le_trans)
qed

lemma grows_ret: "(\<And>m'. P m' \<Longrightarrow> Q x m') \<Longrightarrow> grows m P (ret x) Q"
  by (auto simp: grows_def run_simps)

lemma grows_copiesI:
  assumes "steady rd" and "\<And>x v m. rd m x = Some v \<Longrightarrow> grows m (\<lambda>m. True) (f x) (\<lambda>y m'. rd m' y = Some v)"
  shows "copies rd f"
  unfolding copies_def
proof (intro conjI allI impI assms(1))
  fix x v h assume "rd (look h) x = Some v"
  from assms(2) [OF this] show "\<exists>y h'. f x h = Some (Inr y, h') \<and> look h \<subseteq>\<^sub>m look h' \<and>
      rd (look h' |` (- dom (look h))) y = Some v"
    unfolding grows_def by simp
qed

text \<open>One field after another.\<close>

lemma grows_field:
  assumes "copies rd f" and "rd m x = Some v" and "upward P"
    and "\<And>y. upward (\<lambda>m'. P m' \<and> rd m' y = Some v) \<Longrightarrow> grows m (\<lambda>m'. P m' \<and> rd m' y = Some v) (g y) Q"
  shows "grows m P (bindE (f x) g) Q"
  using copies_grows [OF assms(1-3)] assms(4) [OF upward_reads [OF assms(3) copies_steady [OF assms(1)]]]
  by (rule grows_bind)

lemmas copy_steps = grows_field upward_top

section \<open>Copies of pointers and slices\<close>

lemma look_snoc: "look (h @ [c]) = (look h)(length h \<mapsto> c)"
  by (auto simp: look_def nth_append fun_eq_iff)

lemma look_end [simp]: "look h (length h) = None"
  by (simp add: look_def)

lemma look_le_snoc: "look h \<subseteq>\<^sub>m look (h @ [c])"
  by (auto simp: look_def map_le_def nth_append)

lemma dom_look: "dom (look h) = {..<length h}"
  by (auto simp: look_def split: if_splits)

named_theorems copies_intro

lemma copies_plain [copies_intro]: "copies readPlain ret"
  by (rule grows_copiesI [OF steady_plain], rule grows_ret) (simp add: readPlain_def)

lemma grows_load:
  assumes "m a = Some c" and "kGet k c = Some x" and "grows m P (g x) Q"
  shows "grows m P (bindE (load k a) g) Q"
  unfolding grows_def
proof (intro allI impI)
  fix h assume h: "m \<subseteq>\<^sub>m look h" "P (look h |` (- dom m))"
  then have "load k a h = Some (Inr x, h)" using assms(1,2) by (simp add: load_def map_leD)
  then show "\<exists>y h'. bindE (load k a) g h = Some (Inr y, h') \<and> look h \<subseteq>\<^sub>m look h' \<and> Q y (look h' |` (- dom m))"
    using assms(3) h unfolding grows_def by (simp add: bindE_run)
qed

lemma grows_new:
  assumes "kind_ok k" and "steady rd" and "\<And>m'. P m' \<Longrightarrow> rd m' x = Some v"
  shows "grows m P (bindE (new k x) (\<lambda>b. ret (Some b))) (\<lambda>p m'. readPtr k rd m' p = Some (Some v))"
  unfolding grows_def
proof (intro allI impI)
  fix h assume h: "m \<subseteq>\<^sub>m look h" "P (look h |` (- dom m))"
  let ?h = "h @ [kPut k x]"
  have "length h \<notin> dom m" using map_le_implies_dom_le [OF h(1)] by (auto simp: dom_look)
  then have "(look ?h |` (- dom m)) (length h) = Some (kPut k x)" by (simp add: look_snoc)
  moreover have "rd (look ?h |` (- dom m)) x = Some v"
    using assms(2) restrict_le [OF look_le_snoc] assms(3) [OF h(2)] by (rule steadyD)
  ultimately have "readPtr k rd (look ?h |` (- dom m)) (Some (length h)) = Some (Some v)"
    using assms(1) by (simp add: readPtr_def kind_ok_def)
  then show "\<exists>p h'. bindE (new k x) (\<lambda>b. ret (Some b)) h = Some (Inr p, h') \<and> look h \<subseteq>\<^sub>m look h' \<and>
      readPtr k rd (look h' |` (- dom m)) p = Some (Some v)"
    by (simp add: new_def run_simps look_le_snoc)
qed

lemma copies_ptr [copies_intro]:
  assumes k: "kind_ok k" and copy: "copies rd into"
  shows "copies (readPtr k rd) (copyPtr k into)"
proof (rule grows_copiesI [OF steady_ptr [OF copies_steady [OF copy]]])
  fix p v m assume read: "readPtr k rd m p = Some v"
  show "grows m (\<lambda>m. True) (copyPtr k into p) (\<lambda>q m'. readPtr k rd m' q = Some v)"
  proof (cases p)
    case None
    with read show ?thesis by (auto simp: copyPtr_def readPtr_def intro: grows_ret)
  next
    case (Some a)
    with read obtain c x u where c: "m a = Some c" "kGet k c = Some x" "rd m x = Some u" "v = Some u"
      by (auto simp: readPtr_def bind_eq_Some_conv)
    have "grows m (\<lambda>m. True) (bindE (into x) (\<lambda>y. bindE (new k y) (\<lambda>b. ret (Some b))))
        (\<lambda>q m'. readPtr k rd m' q = Some (Some u))"
      by (rule grows_field [OF copy c(3) upward_top], rule grows_new [OF k copies_steady [OF copy]]) simp
    then show ?thesis unfolding copyPtr_def Some option.case c(4) by (rule grows_load [of m a c k x, OF c(1,2)])
  qed
qed

lemma copies_list [copies_intro]:
  assumes "copies rd f"
  shows "copies (readList rd) (mapE f)"
proof (rule grows_copiesI [OF steady_list [OF copies_steady [OF assms]]])
  have "grows m P (mapE f xs) (\<lambda>ys m'. P m' \<and> readList rd m' ys = Some vs)"
    if "readList rd m xs = Some vs" and "upward P" for m P xs vs
    using that
  proof (induction xs arbitrary: vs P)
    case Nil
    then show ?case by (auto intro: grows_ret)
  next
    case (Cons x xs)
    from Cons.prems(1) obtain u us where x: "rd m x = Some u" and xs: "readList rd m xs = Some us" and vs: "vs = u # us"
      by (auto simp: bind_eq_Some_conv)
    have "grows m (\<lambda>m'. P m' \<and> rd m' y = Some u) (bindE (mapE f xs) (\<lambda>ys. ret (y # ys)))
        (\<lambda>ys m'. P m' \<and> readList rd m' ys = Some vs)" for y
      by (rule grows_bind [OF Cons.IH [OF xs upward_reads [OF Cons.prems(2) copies_steady [OF assms]]]], rule grows_ret)
        (simp add: vs)
    then show ?case by simp (rule grows_field [OF assms x Cons.prems(2)])
  qed
  from this [OF _ upward_top] show "readList rd m xs = Some vs \<Longrightarrow>
      grows m (\<lambda>m. True) (mapE f xs) (\<lambda>ys m'. readList rd m' ys = Some vs)" for xs vs m
    by simp
qed

text \<open>A slice reads as its elements, a map as what it maps; a nil one is empty.\<close>

definition readSlice ::
  "('c, 'a list) kind \<Rightarrow> ('c, 'a, 'v) reader \<Rightarrow> ('c, addr option, 'v list) reader" where
  "readSlice k rd m p = map_option (\<lambda>v. case v of None \<Rightarrow> [] | Some xs \<Rightarrow> xs) (readPtr k (readList rd) m p)"

lemma steady_map [steady_intro]: "steady rd \<Longrightarrow> steady (\<lambda>m x. map_option g (rd m x))"
  by (rule steadyI) (auto dest: steadyD)

lemma copies_map: "copies rd f \<Longrightarrow> copies (\<lambda>m x. map_option g (rd m x)) f"
  unfolding copies_def by (fastforce intro: steady_map)

lemma steady_slice [steady_intro]: "steady rd \<Longrightarrow> steady (readSlice k rd)"
  unfolding readSlice_def [abs_def] by (intro steady_intro)

lemma copies_slice [copies_intro]:
  "kind_ok k \<Longrightarrow> copies rd f \<Longrightarrow> copies (readSlice k rd) (copySlice k f)"
  unfolding readSlice_def [abs_def] copySlice_def [abs_def]
  by (intro copies_map copies_ptr copies_list)

section \<open>Separation\<close>

text \<open>
  What a deep copy is for: whatever becomes of the cells that were there before, the copy reads as the
  original did; and whatever is written to the cells the copy brought, the original still does.
\<close>

lemma copies_separate:
  assumes "copies rd f" and "rd (look h) x = Some v"
  shows "\<exists>y h'. f x h = Some (Inr y, h') \<and> look h \<subseteq>\<^sub>m look h' \<and>
     (\<forall>m. (\<forall>a. a \<notin> dom (look h) \<longrightarrow> m a = look h' a) \<longrightarrow> rd m y = Some v) \<and>
     (\<forall>m. (\<forall>a \<in> dom (look h). m a = look h a) \<longrightarrow> rd m x = Some v)"
proof -
  obtain y h' where run: "f x h = Some (Inr y, h')" "look h \<subseteq>\<^sub>m look h'"
    and new: "rd (look h' |` (- dom (look h))) y = Some v"
    using assms unfolding copies_def by blast
  note steady = copies_steady [OF assms(1)]
  have "rd m y = Some v" if "\<forall>a. a \<notin> dom (look h) \<longrightarrow> m a = look h' a" for m
    by (rule steadyD [OF steady _ new]) (use that in \<open>auto simp: map_le_def restrict_map_def split: if_splits\<close>)
  moreover have "rd m x = Some v" if "\<forall>a \<in> dom (look h). m a = look h a" for m
    by (rule steadyD [OF steady _ assms(2)]) (use that in \<open>auto simp: map_le_def\<close>)
  ultimately show ?thesis using run by blast
qed

end
