(* ===== verification/DeepCopy.thy ===== *)
theory DeepCopy
  imports GoHeap ApiTypes
begin

text \<open>
  The generated deep copies (api/v1alpha1/zz\_generated.deepcopy.go), over a heap. Clients hand out
  objects from a cache, and the operator writes to what it is given; what keeps the cache intact is that
  a copy shares no memory with its original. Here the API types are as memory has them, pointers, slices
  and maps being addresses.
\<close>

section \<open>The types in memory\<close>

text \<open>
  A struct of a library: its plain fields and its pointers. How libraries copy theirs is not in this
  repository. Structs without pointers are their own representation.
\<close>

datatype lib_struct = Lib string "addr list"

record keycloak_struct =
  mkcNamespace :: string
  mkcImage :: string
  mkcRealm :: string
  mkcPublicURL :: string
  mkcResources :: lib_struct

record oidc_struct =
  moiIssuer :: string
  moiAudience :: string
  moiClientID :: string
  moiTokenEndpoint :: string
  moiScope :: string
  moiCredentialsSecretRef :: "addr option"

record auth_struct =
  mauEnabled :: "addr option"
  mauEmbedded :: "addr option"
  mauKeycloak :: keycloak_struct
  mauOIDC :: "addr option"

record row_filter_struct =
  mrfCatalog :: string
  mrfSchema :: string
  mrfTable :: string
  mrfColumn :: string
  mrfOpenFGA :: row_filter_subject
  mrfNumeric :: "addr option"

record postgres_struct =
  mpgEmbedded :: "addr option"
  mpgImage :: string
  mpgStorageSize :: string
  mpgHost :: string
  mpgPort :: int
  mpgDatabase :: string
  mpgSSLMode :: string
  mpgCredentialsSecretRef :: "addr option"

record openfga_struct =
  mofNamespace :: string
  mofImage :: string
  mofOPAImage :: string
  mofStore :: string
  mofRowFilterStore :: string
  mofPostgres :: postgres_struct
  mofResources :: lib_struct

record authz_struct =
  mazEnabled :: "addr option"
  mazEmbedded :: "addr option"
  mazOpenFGA :: openfga_struct
  mazRowFilters :: "addr option"
  mazColumnAccess :: "addr option"

record minio_struct =
  mmiNamespace :: string
  mmiImage :: string
  mmiMcImage :: string
  mmiStorageSize :: string
  mmiBucket :: string
  mmiResources :: lib_struct

record s3_struct =
  ms3Bucket :: string
  ms3Region :: string
  ms3Endpoint :: string
  ms3PathStyleAccess :: bool
  ms3Flavor :: string
  ms3STSEnabled :: bool
  ms3STSRoleARN :: string
  ms3CredentialsSecretRef :: "addr option"

record storage_struct =
  mstEmbedded :: "addr option"
  mstMinio :: minio_struct
  mstS3 :: "addr option"

record lakekeeper_struct =
  mlkEnabled :: "addr option"
  mlkNamespace :: string
  mlkImage :: string
  mlkReplicas :: "addr option"
  mlkResources :: lib_struct
  mlkExtraEnv :: "addr option"
  mlkPublicURL :: string
  mlkPostgres :: postgres_struct
  mlkWarehouse :: warehouse_spec

record trino_coordinator_struct =
  mtcResources :: lib_struct

record trino_struct =
  mtrEnabled :: "addr option"
  mtrNamespace :: string
  mtrImage :: string
  mtrWorkers :: "addr option"
  mtrCoordinator :: trino_coordinator_struct
  mtrExtraConfig :: "addr option"
  mtrExtraCatalogs :: "addr option"
  mtrExtraEnv :: "addr option"
  mtrPublicURL :: string
  mtrResources :: lib_struct
  mtrService :: service_spec

record platform_spec_struct =
  mspStorage :: storage_struct
  mspAuth :: auth_struct
  mspAuthz :: authz_struct
  mspLakekeeper :: lakekeeper_struct
  mspTrino :: trino_struct

record platform_status_struct =
  mdsConditions :: "addr option"
  mdsMinioEndpoint :: string
  mdsLakekeeperEndpoint :: string
  mdsTrinoEndpoint :: string
  mdsKeycloakEndpoint :: string
  mdsOpenFGAEndpoint :: string
  mdsRowFilterStoreID :: string

record platform_struct =
  mdpTypeMeta :: "string \<times> string"
  mdpObjectMeta :: lib_struct
  mdpSpec :: platform_spec_struct
  mdpStatus :: platform_status_struct

record platform_list_struct =
  mplTypeMeta :: "string \<times> string"
  mplListMeta :: lib_struct
  mplItems :: "addr option"

text \<open>What a cell may hold: what a pointer points to, the elements of a slice, a map, or a library's data.\<close>

datatype cell =
    LibCell string
  | BoolCell (theBool: bool)
  | IntCell (theInt: int)
  | MapCell (theMap: smap)
  | EnvsCell (theEnvs: "lib_struct list")
  | ConditionsCell (theConditions: "lib_struct list")
  | RowsCell (theRows: "row_filter_struct list")
  | ColumnsCell (theColumns: "column_access_spec list")
  | PlatformsCell (thePlatforms: "platform_struct list")
  | OIDCRefCell (theOIDCRef: oidc_credentials_ref)
  | PostgresRefCell (thePostgresRef: postgres_credentials_ref)
  | S3RefCell (theS3Ref: s3_credentials_ref)
  | ColumnSubjectCell (theColumnSubject: column_access_subject)
  | ColumnAccessCell (theColumnAccess: column_access_spec)
  | RowSubjectCell (theRowSubject: row_filter_subject)
  | ServiceSpecCell (theServiceSpec: service_spec)
  | WarehouseCell (theWarehouse: warehouse_spec)
  | KeycloakCell (theKeycloak: keycloak_struct)
  | OIDCCell (theOIDC: oidc_struct)
  | AuthCell (theAuth: auth_struct)
  | RowFilterCell (theRowFilter: row_filter_struct)
  | PostgresCell (thePostgres: postgres_struct)
  | OpenFGACell (theOpenFGA: openfga_struct)
  | AuthzCell (theAuthz: authz_struct)
  | MinioCell (theMinio: minio_struct)
  | S3Cell (theS3: s3_struct)
  | StorageCell (theStorage: storage_struct)
  | LakekeeperCell (theLakekeeper: lakekeeper_struct)
  | CoordinatorCell (theCoordinator: trino_coordinator_struct)
  | TrinoCell (theTrino: trino_struct)
  | PlatformSpecCell (thePlatformSpec: platform_spec_struct)
  | PlatformStatusCell (thePlatformStatus: platform_status_struct)
  | PlatformCell (thePlatform: platform_struct)
  | PlatformListCell (thePlatformList: platform_list_struct)

definition boolK :: "(cell, bool) kind" where
  "boolK = kindOf is_BoolCell theBool BoolCell"

definition intK :: "(cell, int) kind" where
  "intK = kindOf is_IntCell theInt IntCell"

definition mapK :: "(cell, smap) kind" where
  "mapK = kindOf is_MapCell theMap MapCell"

definition envsK :: "(cell, lib_struct list) kind" where
  "envsK = kindOf is_EnvsCell theEnvs EnvsCell"

definition conditionsK :: "(cell, lib_struct list) kind" where
  "conditionsK = kindOf is_ConditionsCell theConditions ConditionsCell"

definition rowsK :: "(cell, row_filter_struct list) kind" where
  "rowsK = kindOf is_RowsCell theRows RowsCell"

definition columnsK :: "(cell, column_access_spec list) kind" where
  "columnsK = kindOf is_ColumnsCell theColumns ColumnsCell"

definition platformsK :: "(cell, platform_struct list) kind" where
  "platformsK = kindOf is_PlatformsCell thePlatforms PlatformsCell"

definition oidcRefK :: "(cell, oidc_credentials_ref) kind" where
  "oidcRefK = kindOf is_OIDCRefCell theOIDCRef OIDCRefCell"

definition postgresRefK :: "(cell, postgres_credentials_ref) kind" where
  "postgresRefK = kindOf is_PostgresRefCell thePostgresRef PostgresRefCell"

definition s3RefK :: "(cell, s3_credentials_ref) kind" where
  "s3RefK = kindOf is_S3RefCell theS3Ref S3RefCell"

definition columnSubjectK :: "(cell, column_access_subject) kind" where
  "columnSubjectK = kindOf is_ColumnSubjectCell theColumnSubject ColumnSubjectCell"

definition columnAccessK :: "(cell, column_access_spec) kind" where
  "columnAccessK = kindOf is_ColumnAccessCell theColumnAccess ColumnAccessCell"

definition rowSubjectK :: "(cell, row_filter_subject) kind" where
  "rowSubjectK = kindOf is_RowSubjectCell theRowSubject RowSubjectCell"

definition serviceK :: "(cell, service_spec) kind" where
  "serviceK = kindOf is_ServiceSpecCell theServiceSpec ServiceSpecCell"

definition warehouseK :: "(cell, warehouse_spec) kind" where
  "warehouseK = kindOf is_WarehouseCell theWarehouse WarehouseCell"

definition keycloakK :: "(cell, keycloak_struct) kind" where
  "keycloakK = kindOf is_KeycloakCell theKeycloak KeycloakCell"

definition oidcK :: "(cell, oidc_struct) kind" where
  "oidcK = kindOf is_OIDCCell theOIDC OIDCCell"

definition authK :: "(cell, auth_struct) kind" where
  "authK = kindOf is_AuthCell theAuth AuthCell"

definition rowFilterK :: "(cell, row_filter_struct) kind" where
  "rowFilterK = kindOf is_RowFilterCell theRowFilter RowFilterCell"

definition postgresK :: "(cell, postgres_struct) kind" where
  "postgresK = kindOf is_PostgresCell thePostgres PostgresCell"

definition openfgaK :: "(cell, openfga_struct) kind" where
  "openfgaK = kindOf is_OpenFGACell theOpenFGA OpenFGACell"

definition authzK :: "(cell, authz_struct) kind" where
  "authzK = kindOf is_AuthzCell theAuthz AuthzCell"

definition minioK :: "(cell, minio_struct) kind" where
  "minioK = kindOf is_MinioCell theMinio MinioCell"

definition s3K :: "(cell, s3_struct) kind" where
  "s3K = kindOf is_S3Cell theS3 S3Cell"

definition storageK :: "(cell, storage_struct) kind" where
  "storageK = kindOf is_StorageCell theStorage StorageCell"

definition lakekeeperK :: "(cell, lakekeeper_struct) kind" where
  "lakekeeperK = kindOf is_LakekeeperCell theLakekeeper LakekeeperCell"

definition coordinatorK :: "(cell, trino_coordinator_struct) kind" where
  "coordinatorK = kindOf is_CoordinatorCell theCoordinator CoordinatorCell"

definition trinoK :: "(cell, trino_struct) kind" where
  "trinoK = kindOf is_TrinoCell theTrino TrinoCell"

definition platformSpecK :: "(cell, platform_spec_struct) kind" where
  "platformSpecK = kindOf is_PlatformSpecCell thePlatformSpec PlatformSpecCell"

definition platformStatusK :: "(cell, platform_status_struct) kind" where
  "platformStatusK = kindOf is_PlatformStatusCell thePlatformStatus PlatformStatusCell"

definition platformK :: "(cell, platform_struct) kind" where
  "platformK = kindOf is_PlatformCell thePlatform PlatformCell"

definition platformListK :: "(cell, platform_list_struct) kind" where
  "platformListK = kindOf is_PlatformListCell thePlatformList PlatformListCell"

lemmas kind_defs =
  boolK_def intK_def mapK_def envsK_def conditionsK_def rowsK_def columnsK_def platformsK_def
  oidcRefK_def postgresRefK_def s3RefK_def columnSubjectK_def columnAccessK_def rowSubjectK_def
  serviceK_def warehouseK_def keycloakK_def oidcK_def authK_def rowFilterK_def postgresK_def
  openfgaK_def authzK_def minioK_def s3K_def storageK_def lakekeeperK_def coordinatorK_def
  trinoK_def platformSpecK_def platformStatusK_def platformK_def platformListK_def

text \<open>The libraries: how each of their structs reads, and its \<open>DeepCopyInto\<close>.\<close>

record library =
  readResources :: "(cell, lib_struct, resource_requirements) reader"
  copyResources :: "lib_struct \<Rightarrow> (cell heap, lib_struct) go"
  readEnvVar :: "(cell, lib_struct, env_var) reader"
  copyEnvVar :: "lib_struct \<Rightarrow> (cell heap, lib_struct) go"
  readCondition :: "(cell, lib_struct, condition) reader"
  copyCondition :: "lib_struct \<Rightarrow> (cell heap, lib_struct) go"
  readObjectMeta :: "(cell, lib_struct, string \<times> int) reader"
  copyObjectMeta :: "lib_struct \<Rightarrow> (cell heap, lib_struct) go"
  readListMeta :: "(cell, lib_struct, string) reader"
  copyListMeta :: "lib_struct \<Rightarrow> (cell heap, lib_struct) go"

type_synonym 'a copying = "'a \<Rightarrow> (cell heap, 'a) go"

section \<open>The copies\<close>

text \<open>
  \<open>*out = *in\<close> is the record that \<open>DeepCopyInto\<close> begins with; a field that is not copied stays the
  original's. \<open>T.DeepCopy\<close> is \<open>copyPtr\<close>: nil gives nil, and otherwise a new \<open>T\<close> is copied into. The cell of a
  new \<open>T\<close> is numbered once its content is known, which no program can tell.
\<close>

definition copyMap :: "addr option copying" where
  "copyMap = copyPtr mapK (\<lambda>m. ret (mapsCopy fmempty m))"

definition OIDCCredentialsSecretRef_DeepCopyInto :: "oidc_credentials_ref copying" where
  "OIDCCredentialsSecretRef_DeepCopyInto s = ret s"

definition OIDCCredentialsSecretRef_DeepCopy :: "addr option copying" where
  "OIDCCredentialsSecretRef_DeepCopy p = copyPtr oidcRefK OIDCCredentialsSecretRef_DeepCopyInto p"

definition PostgresCredentialsSecretRef_DeepCopyInto :: "postgres_credentials_ref copying" where
  "PostgresCredentialsSecretRef_DeepCopyInto s = ret s"

definition PostgresCredentialsSecretRef_DeepCopy :: "addr option copying" where
  "PostgresCredentialsSecretRef_DeepCopy p =
     copyPtr postgresRefK PostgresCredentialsSecretRef_DeepCopyInto p"

definition S3CredentialsSecretRef_DeepCopyInto :: "s3_credentials_ref copying" where
  "S3CredentialsSecretRef_DeepCopyInto s = ret s"

definition S3CredentialsSecretRef_DeepCopy :: "addr option copying" where
  "S3CredentialsSecretRef_DeepCopy p = copyPtr s3RefK S3CredentialsSecretRef_DeepCopyInto p"

definition ColumnAccessSubjectSpec_DeepCopyInto :: "column_access_subject copying" where
  "ColumnAccessSubjectSpec_DeepCopyInto s = ret s"

definition ColumnAccessSubjectSpec_DeepCopy :: "addr option copying" where
  "ColumnAccessSubjectSpec_DeepCopy p = copyPtr columnSubjectK ColumnAccessSubjectSpec_DeepCopyInto p"

definition ColumnAccessSpec_DeepCopyInto :: "column_access_spec copying" where
  "ColumnAccessSpec_DeepCopyInto s = ret (s\<lparr>caOpenFGA := caOpenFGA s\<rparr>)"

definition ColumnAccessSpec_DeepCopy :: "addr option copying" where
  "ColumnAccessSpec_DeepCopy p = copyPtr columnAccessK ColumnAccessSpec_DeepCopyInto p"

definition RowFilterSubjectSpec_DeepCopyInto :: "row_filter_subject copying" where
  "RowFilterSubjectSpec_DeepCopyInto s = ret s"

definition RowFilterSubjectSpec_DeepCopy :: "addr option copying" where
  "RowFilterSubjectSpec_DeepCopy p = copyPtr rowSubjectK RowFilterSubjectSpec_DeepCopyInto p"

definition ServiceSpec_DeepCopyInto :: "service_spec copying" where
  "ServiceSpec_DeepCopyInto s = ret s"

definition ServiceSpec_DeepCopy :: "addr option copying" where
  "ServiceSpec_DeepCopy p = copyPtr serviceK ServiceSpec_DeepCopyInto p"

definition WarehouseSpec_DeepCopyInto :: "warehouse_spec copying" where
  "WarehouseSpec_DeepCopyInto s = ret s"

definition WarehouseSpec_DeepCopy :: "addr option copying" where
  "WarehouseSpec_DeepCopy p = copyPtr warehouseK WarehouseSpec_DeepCopyInto p"

definition KeycloakSpec_DeepCopyInto :: "library \<Rightarrow> keycloak_struct copying" where
  "KeycloakSpec_DeepCopyInto lib s =
     bindE (copyResources lib (mkcResources s)) (\<lambda>resources.
     ret (s\<lparr>mkcResources := resources\<rparr>))"

definition KeycloakSpec_DeepCopy :: "library \<Rightarrow> addr option copying" where
  "KeycloakSpec_DeepCopy lib p = copyPtr keycloakK (KeycloakSpec_DeepCopyInto lib) p"

definition OIDCSpec_DeepCopyInto :: "oidc_struct copying" where
  "OIDCSpec_DeepCopyInto s =
     bindE (copyPtr oidcRefK ret (moiCredentialsSecretRef s)) (\<lambda>credentialsSecretRef.
     ret (s\<lparr>moiCredentialsSecretRef := credentialsSecretRef\<rparr>))"

definition OIDCSpec_DeepCopy :: "addr option copying" where
  "OIDCSpec_DeepCopy p = copyPtr oidcK OIDCSpec_DeepCopyInto p"

definition AuthSpec_DeepCopyInto :: "library \<Rightarrow> auth_struct copying" where
  "AuthSpec_DeepCopyInto lib s =
     bindE (copyPtr boolK ret (mauEnabled s)) (\<lambda>enabled.
     bindE (copyPtr boolK ret (mauEmbedded s)) (\<lambda>embedded.
     bindE (KeycloakSpec_DeepCopyInto lib (mauKeycloak s)) (\<lambda>keycloak.
     bindE (copyPtr oidcK OIDCSpec_DeepCopyInto (mauOIDC s)) (\<lambda>oidc.
     ret (s\<lparr>mauEnabled := enabled, mauEmbedded := embedded, mauKeycloak := keycloak,
        mauOIDC := oidc\<rparr>)))))"

definition AuthSpec_DeepCopy :: "library \<Rightarrow> addr option copying" where
  "AuthSpec_DeepCopy lib p = copyPtr authK (AuthSpec_DeepCopyInto lib) p"

definition RowFilterSpec_DeepCopyInto :: "row_filter_struct copying" where
  "RowFilterSpec_DeepCopyInto s =
     bindE (copyPtr boolK ret (mrfNumeric s)) (\<lambda>numeric.
     ret (s\<lparr>mrfNumeric := numeric, mrfOpenFGA := mrfOpenFGA s\<rparr>))"

definition RowFilterSpec_DeepCopy :: "addr option copying" where
  "RowFilterSpec_DeepCopy p = copyPtr rowFilterK RowFilterSpec_DeepCopyInto p"

definition PostgresSpec_DeepCopyInto :: "postgres_struct copying" where
  "PostgresSpec_DeepCopyInto s =
     bindE (copyPtr boolK ret (mpgEmbedded s)) (\<lambda>embedded.
     bindE (copyPtr postgresRefK ret (mpgCredentialsSecretRef s)) (\<lambda>credentialsSecretRef.
     ret (s\<lparr>mpgEmbedded := embedded, mpgCredentialsSecretRef := credentialsSecretRef\<rparr>)))"

definition PostgresSpec_DeepCopy :: "addr option copying" where
  "PostgresSpec_DeepCopy p = copyPtr postgresK PostgresSpec_DeepCopyInto p"

definition OpenFGASpec_DeepCopyInto :: "library \<Rightarrow> openfga_struct copying" where
  "OpenFGASpec_DeepCopyInto lib s =
     bindE (PostgresSpec_DeepCopyInto (mofPostgres s)) (\<lambda>postgres.
     bindE (copyResources lib (mofResources s)) (\<lambda>resources.
     ret (s\<lparr>mofPostgres := postgres, mofResources := resources\<rparr>)))"

definition OpenFGASpec_DeepCopy :: "library \<Rightarrow> addr option copying" where
  "OpenFGASpec_DeepCopy lib p = copyPtr openfgaK (OpenFGASpec_DeepCopyInto lib) p"

definition AuthzSpec_DeepCopyInto :: "library \<Rightarrow> authz_struct copying" where
  "AuthzSpec_DeepCopyInto lib s =
     bindE (copyPtr boolK ret (mazEnabled s)) (\<lambda>enabled.
     bindE (copyPtr boolK ret (mazEmbedded s)) (\<lambda>embedded.
     bindE (OpenFGASpec_DeepCopyInto lib (mazOpenFGA s)) (\<lambda>openfga.
     bindE (copySlice rowsK RowFilterSpec_DeepCopyInto (mazRowFilters s)) (\<lambda>rowFilters.
     bindE (copySlice columnsK ret (mazColumnAccess s)) (\<lambda>columnAccess.
     ret (s\<lparr>mazEnabled := enabled, mazEmbedded := embedded, mazOpenFGA := openfga,
        mazRowFilters := rowFilters, mazColumnAccess := columnAccess\<rparr>))))))"

definition AuthzSpec_DeepCopy :: "library \<Rightarrow> addr option copying" where
  "AuthzSpec_DeepCopy lib p = copyPtr authzK (AuthzSpec_DeepCopyInto lib) p"

definition MinioSpec_DeepCopyInto :: "library \<Rightarrow> minio_struct copying" where
  "MinioSpec_DeepCopyInto lib s =
     bindE (copyResources lib (mmiResources s)) (\<lambda>resources.
     ret (s\<lparr>mmiResources := resources\<rparr>))"

definition MinioSpec_DeepCopy :: "library \<Rightarrow> addr option copying" where
  "MinioSpec_DeepCopy lib p = copyPtr minioK (MinioSpec_DeepCopyInto lib) p"

definition S3Spec_DeepCopyInto :: "s3_struct copying" where
  "S3Spec_DeepCopyInto s =
     bindE (copyPtr s3RefK ret (ms3CredentialsSecretRef s)) (\<lambda>credentialsSecretRef.
     ret (s\<lparr>ms3CredentialsSecretRef := credentialsSecretRef\<rparr>))"

definition S3Spec_DeepCopy :: "addr option copying" where
  "S3Spec_DeepCopy p = copyPtr s3K S3Spec_DeepCopyInto p"

definition StorageSpec_DeepCopyInto :: "library \<Rightarrow> storage_struct copying" where
  "StorageSpec_DeepCopyInto lib s =
     bindE (copyPtr boolK ret (mstEmbedded s)) (\<lambda>embedded.
     bindE (MinioSpec_DeepCopyInto lib (mstMinio s)) (\<lambda>minio.
     bindE (copyPtr s3K S3Spec_DeepCopyInto (mstS3 s)) (\<lambda>s3.
     ret (s\<lparr>mstEmbedded := embedded, mstMinio := minio, mstS3 := s3\<rparr>))))"

definition StorageSpec_DeepCopy :: "library \<Rightarrow> addr option copying" where
  "StorageSpec_DeepCopy lib p = copyPtr storageK (StorageSpec_DeepCopyInto lib) p"

definition LakekeeperSpec_DeepCopyInto :: "library \<Rightarrow> lakekeeper_struct copying" where
  "LakekeeperSpec_DeepCopyInto lib s =
     bindE (copyPtr boolK ret (mlkEnabled s)) (\<lambda>enabled.
     bindE (copyPtr intK ret (mlkReplicas s)) (\<lambda>replicas.
     bindE (copyResources lib (mlkResources s)) (\<lambda>resources.
     bindE (copySlice envsK (copyEnvVar lib) (mlkExtraEnv s)) (\<lambda>extraEnv.
     bindE (PostgresSpec_DeepCopyInto (mlkPostgres s)) (\<lambda>postgres.
     ret (s\<lparr>mlkEnabled := enabled, mlkReplicas := replicas, mlkResources := resources,
        mlkExtraEnv := extraEnv, mlkPostgres := postgres, mlkWarehouse := mlkWarehouse s\<rparr>))))))"

definition LakekeeperSpec_DeepCopy :: "library \<Rightarrow> addr option copying" where
  "LakekeeperSpec_DeepCopy lib p = copyPtr lakekeeperK (LakekeeperSpec_DeepCopyInto lib) p"

definition TrinoCoordinatorSpec_DeepCopyInto :: "library \<Rightarrow> trino_coordinator_struct copying" where
  "TrinoCoordinatorSpec_DeepCopyInto lib s =
     bindE (copyResources lib (mtcResources s)) (\<lambda>resources.
     ret (s\<lparr>mtcResources := resources\<rparr>))"

definition TrinoCoordinatorSpec_DeepCopy :: "library \<Rightarrow> addr option copying" where
  "TrinoCoordinatorSpec_DeepCopy lib p = copyPtr coordinatorK (TrinoCoordinatorSpec_DeepCopyInto lib) p"

definition TrinoSpec_DeepCopyInto :: "library \<Rightarrow> trino_struct copying" where
  "TrinoSpec_DeepCopyInto lib s =
     bindE (copyPtr boolK ret (mtrEnabled s)) (\<lambda>enabled.
     bindE (copyPtr intK ret (mtrWorkers s)) (\<lambda>workers.
     bindE (TrinoCoordinatorSpec_DeepCopyInto lib (mtrCoordinator s)) (\<lambda>coordinator.
     bindE (copyMap (mtrExtraConfig s)) (\<lambda>extraConfig.
     bindE (copyMap (mtrExtraCatalogs s)) (\<lambda>extraCatalogs.
     bindE (copySlice envsK (copyEnvVar lib) (mtrExtraEnv s)) (\<lambda>extraEnv.
     bindE (copyResources lib (mtrResources s)) (\<lambda>resources.
     ret (s\<lparr>mtrEnabled := enabled, mtrWorkers := workers, mtrCoordinator := coordinator,
        mtrExtraConfig := extraConfig, mtrExtraCatalogs := extraCatalogs, mtrExtraEnv := extraEnv,
        mtrResources := resources, mtrService := mtrService s\<rparr>))))))))"

definition TrinoSpec_DeepCopy :: "library \<Rightarrow> addr option copying" where
  "TrinoSpec_DeepCopy lib p = copyPtr trinoK (TrinoSpec_DeepCopyInto lib) p"

definition DataPlatformSpec_DeepCopyInto :: "library \<Rightarrow> platform_spec_struct copying" where
  "DataPlatformSpec_DeepCopyInto lib s =
     bindE (StorageSpec_DeepCopyInto lib (mspStorage s)) (\<lambda>storage.
     bindE (AuthSpec_DeepCopyInto lib (mspAuth s)) (\<lambda>auth.
     bindE (AuthzSpec_DeepCopyInto lib (mspAuthz s)) (\<lambda>authz.
     bindE (LakekeeperSpec_DeepCopyInto lib (mspLakekeeper s)) (\<lambda>lakekeeper.
     bindE (TrinoSpec_DeepCopyInto lib (mspTrino s)) (\<lambda>trino.
     ret (s\<lparr>mspStorage := storage, mspAuth := auth, mspAuthz := authz, mspLakekeeper := lakekeeper,
        mspTrino := trino\<rparr>))))))"

definition DataPlatformSpec_DeepCopy :: "library \<Rightarrow> addr option copying" where
  "DataPlatformSpec_DeepCopy lib p = copyPtr platformSpecK (DataPlatformSpec_DeepCopyInto lib) p"

definition DataPlatformStatus_DeepCopyInto :: "library \<Rightarrow> platform_status_struct copying" where
  "DataPlatformStatus_DeepCopyInto lib s =
     bindE (copySlice conditionsK (copyCondition lib) (mdsConditions s)) (\<lambda>conditions.
     ret (s\<lparr>mdsConditions := conditions\<rparr>))"

definition DataPlatformStatus_DeepCopy :: "library \<Rightarrow> addr option copying" where
  "DataPlatformStatus_DeepCopy lib p = copyPtr platformStatusK (DataPlatformStatus_DeepCopyInto lib) p"

definition DataPlatform_DeepCopyInto :: "library \<Rightarrow> platform_struct copying" where
  "DataPlatform_DeepCopyInto lib s =
     bindE (copyObjectMeta lib (mdpObjectMeta s)) (\<lambda>objectMeta.
     bindE (DataPlatformSpec_DeepCopyInto lib (mdpSpec s)) (\<lambda>spec.
     bindE (DataPlatformStatus_DeepCopyInto lib (mdpStatus s)) (\<lambda>status.
     ret (s\<lparr>mdpTypeMeta := mdpTypeMeta s, mdpObjectMeta := objectMeta, mdpSpec := spec,
        mdpStatus := status\<rparr>))))"

definition DataPlatform_DeepCopy :: "library \<Rightarrow> addr option copying" where
  "DataPlatform_DeepCopy lib p = copyPtr platformK (DataPlatform_DeepCopyInto lib) p"

definition DataPlatform_DeepCopyObject :: "library \<Rightarrow> addr option copying" where
  "DataPlatform_DeepCopyObject lib p =
     bindE (DataPlatform_DeepCopy lib p) (\<lambda>c. case c of Some a \<Rightarrow> ret (Some a) | None \<Rightarrow> ret None)"

definition DataPlatformList_DeepCopyInto :: "library \<Rightarrow> platform_list_struct copying" where
  "DataPlatformList_DeepCopyInto lib s =
     bindE (copyListMeta lib (mplListMeta s)) (\<lambda>listMeta.
     bindE (copySlice platformsK (DataPlatform_DeepCopyInto lib) (mplItems s)) (\<lambda>items.
     ret (s\<lparr>mplTypeMeta := mplTypeMeta s, mplListMeta := listMeta, mplItems := items\<rparr>)))"

definition DataPlatformList_DeepCopy :: "library \<Rightarrow> addr option copying" where
  "DataPlatformList_DeepCopy lib p = copyPtr platformListK (DataPlatformList_DeepCopyInto lib) p"

definition DataPlatformList_DeepCopyObject :: "library \<Rightarrow> addr option copying" where
  "DataPlatformList_DeepCopyObject lib p =
     bindE (DataPlatformList_DeepCopy lib p) (\<lambda>c. case c of Some a \<Rightarrow> ret (Some a) | None \<Rightarrow> ret None)"

end
