(* ===== verification/CopiesApart.thy ===== *)
theory CopiesApart
  imports DeepCopy
begin

text \<open>
  What the structs of the theory DeepCopy stand for, and that the generated copies are deep: a copy reads
  as its original, and the two share no memory.
\<close>

section \<open>What the types stand for\<close>

text \<open>A nil map reads as an empty one, which is how Go reads it.\<close>

definition readMap :: "(cell, addr option, smap) reader" where
  "readMap m p = map_option (\<lambda>v. case v of None \<Rightarrow> fmempty | Some kvs \<Rightarrow> kvs) (readPtr mapK readPlain m p)"

definition readKeycloak :: "library \<Rightarrow> (cell, keycloak_struct, keycloak_spec) reader" where
  "readKeycloak lib m s = do {
     resources \<leftarrow> readResources lib m (mkcResources s);
     Some \<lparr>kcNamespace = mkcNamespace s, kcImage = mkcImage s, kcRealm = mkcRealm s,
       kcPublicURL = mkcPublicURL s, kcResources = resources\<rparr> }"

definition readOIDC :: "(cell, oidc_struct, oidc_spec) reader" where
  "readOIDC m s = do {
     credentialsSecretRef \<leftarrow> readPtr oidcRefK readPlain m (moiCredentialsSecretRef s);
     Some \<lparr>oiIssuer = moiIssuer s, oiAudience = moiAudience s, oiClientID = moiClientID s,
       oiTokenEndpoint = moiTokenEndpoint s, oiScope = moiScope s,
       oiCredentialsSecretRef = credentialsSecretRef\<rparr> }"

definition readAuth :: "library \<Rightarrow> (cell, auth_struct, auth_spec) reader" where
  "readAuth lib m s = do {
     enabled \<leftarrow> readPtr boolK readPlain m (mauEnabled s);
     embedded \<leftarrow> readPtr boolK readPlain m (mauEmbedded s);
     keycloak \<leftarrow> readKeycloak lib m (mauKeycloak s);
     oidc \<leftarrow> readPtr oidcK readOIDC m (mauOIDC s);
     Some \<lparr>auEnabled = enabled, auEmbedded = embedded, auKeycloak = keycloak, auOIDC = oidc\<rparr> }"

definition readRowFilter :: "(cell, row_filter_struct, row_filter_spec) reader" where
  "readRowFilter m s = do {
     numeric \<leftarrow> readPtr boolK readPlain m (mrfNumeric s);
     Some \<lparr>rfCatalog = mrfCatalog s, rfSchema = mrfSchema s, rfTable = mrfTable s,
       rfColumn = mrfColumn s, rfOpenFGA = mrfOpenFGA s, rfNumeric = numeric\<rparr> }"

definition readPostgres :: "(cell, postgres_struct, postgres_spec) reader" where
  "readPostgres m s = do {
     embedded \<leftarrow> readPtr boolK readPlain m (mpgEmbedded s);
     credentialsSecretRef \<leftarrow> readPtr postgresRefK readPlain m (mpgCredentialsSecretRef s);
     Some \<lparr>pgEmbedded = embedded, pgImage = mpgImage s, pgStorageSize = mpgStorageSize s,
       pgHost = mpgHost s, pgPort = mpgPort s, pgDatabase = mpgDatabase s,
       pgSSLMode = mpgSSLMode s, pgCredentialsSecretRef = credentialsSecretRef\<rparr> }"

definition readOpenFGA :: "library \<Rightarrow> (cell, openfga_struct, openfga_spec) reader" where
  "readOpenFGA lib m s = do {
     postgres \<leftarrow> readPostgres m (mofPostgres s);
     resources \<leftarrow> readResources lib m (mofResources s);
     Some \<lparr>ofNamespace = mofNamespace s, ofImage = mofImage s, ofOPAImage = mofOPAImage s,
       ofStore = mofStore s, ofRowFilterStore = mofRowFilterStore s, ofPostgres = postgres,
       ofResources = resources\<rparr> }"

definition readAuthz :: "library \<Rightarrow> (cell, authz_struct, authz_spec) reader" where
  "readAuthz lib m s = do {
     enabled \<leftarrow> readPtr boolK readPlain m (mazEnabled s);
     embedded \<leftarrow> readPtr boolK readPlain m (mazEmbedded s);
     openfga \<leftarrow> readOpenFGA lib m (mazOpenFGA s);
     rowFilters \<leftarrow> readSlice rowsK readRowFilter m (mazRowFilters s);
     columnAccess \<leftarrow> readSlice columnsK readPlain m (mazColumnAccess s);
     Some \<lparr>azEnabled = enabled, azEmbedded = embedded, azOpenFGA = openfga, azRowFilters = rowFilters,
       azColumnAccess = columnAccess\<rparr> }"

definition readMinio :: "library \<Rightarrow> (cell, minio_struct, minio_spec) reader" where
  "readMinio lib m s = do {
     resources \<leftarrow> readResources lib m (mmiResources s);
     Some \<lparr>miNamespace = mmiNamespace s, miImage = mmiImage s, miMcImage = mmiMcImage s,
       miStorageSize = mmiStorageSize s, miBucket = mmiBucket s, miResources = resources\<rparr> }"

definition readS3 :: "(cell, s3_struct, s3_spec) reader" where
  "readS3 m s = do {
     credentialsSecretRef \<leftarrow> readPtr s3RefK readPlain m (ms3CredentialsSecretRef s);
     Some \<lparr>s3Bucket = ms3Bucket s, s3Region = ms3Region s, s3Endpoint = ms3Endpoint s,
       s3PathStyleAccess = ms3PathStyleAccess s, s3Flavor = ms3Flavor s,
       s3STSEnabled = ms3STSEnabled s, s3STSRoleARN = ms3STSRoleARN s,
       s3CredentialsSecretRef = credentialsSecretRef\<rparr> }"

definition readStorage :: "library \<Rightarrow> (cell, storage_struct, storage_spec) reader" where
  "readStorage lib m s = do {
     embedded \<leftarrow> readPtr boolK readPlain m (mstEmbedded s);
     minio \<leftarrow> readMinio lib m (mstMinio s);
     s3 \<leftarrow> readPtr s3K readS3 m (mstS3 s);
     Some \<lparr>stEmbedded = embedded, stMinio = minio, stS3 = s3\<rparr> }"

definition readLakekeeper :: "library \<Rightarrow> (cell, lakekeeper_struct, lakekeeper_spec) reader" where
  "readLakekeeper lib m s = do {
     enabled \<leftarrow> readPtr boolK readPlain m (mlkEnabled s);
     replicas \<leftarrow> readPtr intK readPlain m (mlkReplicas s);
     resources \<leftarrow> readResources lib m (mlkResources s);
     extraEnv \<leftarrow> readSlice envsK (readEnvVar lib) m (mlkExtraEnv s);
     postgres \<leftarrow> readPostgres m (mlkPostgres s);
     Some \<lparr>lkEnabled = enabled, lkNamespace = mlkNamespace s, lkImage = mlkImage s,
       lkReplicas = replicas, lkResources = resources, lkExtraEnv = extraEnv,
       lkPublicURL = mlkPublicURL s, lkPostgres = postgres, lkWarehouse = mlkWarehouse s\<rparr> }"

definition readCoordinator ::
  "library \<Rightarrow> (cell, trino_coordinator_struct, trino_coordinator_spec) reader" where
  "readCoordinator lib m s = do {
     resources \<leftarrow> readResources lib m (mtcResources s);
     Some \<lparr>tcResources = resources\<rparr> }"

definition readTrino :: "library \<Rightarrow> (cell, trino_struct, trino_spec) reader" where
  "readTrino lib m s = do {
     enabled \<leftarrow> readPtr boolK readPlain m (mtrEnabled s);
     workers \<leftarrow> readPtr intK readPlain m (mtrWorkers s);
     coordinator \<leftarrow> readCoordinator lib m (mtrCoordinator s);
     extraConfig \<leftarrow> readMap m (mtrExtraConfig s);
     extraCatalogs \<leftarrow> readMap m (mtrExtraCatalogs s);
     extraEnv \<leftarrow> readSlice envsK (readEnvVar lib) m (mtrExtraEnv s);
     resources \<leftarrow> readResources lib m (mtrResources s);
     Some \<lparr>trEnabled = enabled, trNamespace = mtrNamespace s, trImage = mtrImage s,
       trWorkers = workers, trCoordinator = coordinator, trExtraConfig = extraConfig,
       trExtraCatalogs = extraCatalogs, trExtraEnv = extraEnv, trPublicURL = mtrPublicURL s,
       trResources = resources, trService = mtrService s\<rparr> }"

definition readPlatformSpec :: "library \<Rightarrow> (cell, platform_spec_struct, dataplatform_spec) reader" where
  "readPlatformSpec lib m s = do {
     storage \<leftarrow> readStorage lib m (mspStorage s);
     auth \<leftarrow> readAuth lib m (mspAuth s);
     authz \<leftarrow> readAuthz lib m (mspAuthz s);
     lakekeeper \<leftarrow> readLakekeeper lib m (mspLakekeeper s);
     trino \<leftarrow> readTrino lib m (mspTrino s);
     Some \<lparr>spStorage = storage, spAuth = auth, spAuthz = authz, spLakekeeper = lakekeeper,
       spTrino = trino\<rparr> }"

definition readPlatformStatus :: "library \<Rightarrow> (cell, platform_status_struct, dp_status) reader" where
  "readPlatformStatus lib m s = do {
     conditions \<leftarrow> readSlice conditionsK (readCondition lib) m (mdsConditions s);
     Some \<lparr>dsConditions = conditions, dsMinioEndpoint = mdsMinioEndpoint s,
       dsLakekeeperEndpoint = mdsLakekeeperEndpoint s, dsTrinoEndpoint = mdsTrinoEndpoint s,
       dsKeycloakEndpoint = mdsKeycloakEndpoint s, dsOpenFGAEndpoint = mdsOpenFGAEndpoint s,
       dsRowFilterStoreID = mdsRowFilterStoreID s\<rparr> }"

definition readPlatform :: "library \<Rightarrow> (cell, platform_struct, dataplatform \<times> dp_status) reader" where
  "readPlatform lib m s = do {
     objectMeta \<leftarrow> readObjectMeta lib m (mdpObjectMeta s);
     spec \<leftarrow> readPlatformSpec lib m (mdpSpec s);
     status \<leftarrow> readPlatformStatus lib m (mdpStatus s);
     Some (\<lparr>dpName = fst objectMeta, dpGeneration = snd objectMeta, dpSpec = spec\<rparr>, status) }"

definition readPlatformList ::
  "library \<Rightarrow> (cell, platform_list_struct, string \<times> (dataplatform \<times> dp_status) list) reader" where
  "readPlatformList lib m s = do {
     listMeta \<leftarrow> readListMeta lib m (mplListMeta s);
     items \<leftarrow> readSlice platformsK (readPlatform lib) m (mplItems s);
     Some (listMeta, items) }"

section \<open>The copies are deep\<close>

text \<open>What libraries document of their \<open>DeepCopyInto\<close>.\<close>

definition library_ok :: "library \<Rightarrow> bool" where
  "library_ok lib \<longleftrightarrow>
     copies (readResources lib) (copyResources lib) \<and>
     copies (readEnvVar lib) (copyEnvVar lib) \<and>
     copies (readCondition lib) (copyCondition lib) \<and>
     copies (readObjectMeta lib) (copyObjectMeta lib) \<and>
     copies (readListMeta lib) (copyListMeta lib)"

lemma library_steady [steady_intro]:
  assumes "library_ok lib"
  shows "steady (readResources lib)" "steady (readEnvVar lib)" "steady (readCondition lib)"
    "steady (readObjectMeta lib)" "steady (readListMeta lib)"
  using assms by (auto simp: library_ok_def dest: copies_steady)

lemma library_copies [copies_intro]:
  assumes "library_ok lib"
  shows "copies (readResources lib) (copyResources lib)" "copies (readEnvVar lib) (copyEnvVar lib)"
    "copies (readCondition lib) (copyCondition lib)" "copies (readObjectMeta lib) (copyObjectMeta lib)"
    "copies (readListMeta lib) (copyListMeta lib)"
  using assms by (simp_all add: library_ok_def)

lemma kinds_ok [copies_intro]:
  "kind_ok boolK"
  "kind_ok intK"
  "kind_ok mapK"
  "kind_ok envsK"
  "kind_ok conditionsK"
  "kind_ok rowsK"
  "kind_ok columnsK"
  "kind_ok platformsK"
  "kind_ok oidcRefK"
  "kind_ok postgresRefK"
  "kind_ok s3RefK"
  "kind_ok columnSubjectK"
  "kind_ok columnAccessK"
  "kind_ok rowSubjectK"
  "kind_ok serviceK"
  "kind_ok warehouseK"
  "kind_ok keycloakK"
  "kind_ok oidcK"
  "kind_ok authK"
  "kind_ok rowFilterK"
  "kind_ok postgresK"
  "kind_ok openfgaK"
  "kind_ok authzK"
  "kind_ok minioK"
  "kind_ok s3K"
  "kind_ok storageK"
  "kind_ok lakekeeperK"
  "kind_ok coordinatorK"
  "kind_ok trinoK"
  "kind_ok platformSpecK"
  "kind_ok platformStatusK"
  "kind_ok platformK"
  "kind_ok platformListK"
  by (simp_all add: kind_defs kind_ok_kindOf)



lemma steady_readMap [steady_intro]: "steady readMap"
  unfolding readMap_def [abs_def] by (intro steady_intro)

lemma copies_copyMap [copies_intro]: "copies readMap copyMap"
proof -
  have "(\<lambda>m. ret (mapsCopy fmempty m)) = (ret :: smap \<Rightarrow> (cell heap, smap) go)"
    by (simp add: mapsCopy_def)
  then show ?thesis
    unfolding readMap_def [abs_def] copyMap_def
    by (simp add: copies_map copies_ptr copies_plain kinds_ok)
qed

lemma steady_readKeycloak [steady_intro]: "library_ok lib \<Longrightarrow> steady (readKeycloak lib)"
  unfolding readKeycloak_def [abs_def] by (intro steady_intro)

lemma copies_KeycloakSpec [copies_intro]:
  "library_ok lib \<Longrightarrow> copies (readKeycloak lib) (KeycloakSpec_DeepCopyInto lib)"
  by (rule grows_copiesI, rule steady_readKeycloak, assumption)
    (clarsimp simp: readKeycloak_def KeycloakSpec_DeepCopyInto_def bind_eq_Some_conv,
      (rule copy_steps copies_intro | assumption)+, rule grows_ret, simp add: readKeycloak_def)

lemma steady_readOIDC [steady_intro]: "steady readOIDC"
  unfolding readOIDC_def [abs_def] by (intro steady_intro)

lemma copies_OIDCSpec [copies_intro]:
  "copies readOIDC OIDCSpec_DeepCopyInto"
  by (rule grows_copiesI, rule steady_readOIDC)
    (clarsimp simp: readOIDC_def OIDCSpec_DeepCopyInto_def bind_eq_Some_conv,
      (rule copy_steps copies_intro | assumption)+, rule grows_ret, simp add: readOIDC_def)

lemma steady_readAuth [steady_intro]: "library_ok lib \<Longrightarrow> steady (readAuth lib)"
  unfolding readAuth_def [abs_def] by (intro steady_intro)

lemma copies_AuthSpec [copies_intro]:
  "library_ok lib \<Longrightarrow> copies (readAuth lib) (AuthSpec_DeepCopyInto lib)"
  by (rule grows_copiesI, rule steady_readAuth, assumption)
    (clarsimp simp: readAuth_def AuthSpec_DeepCopyInto_def bind_eq_Some_conv,
      (rule copy_steps copies_intro | assumption)+, rule grows_ret, simp add: readAuth_def)

lemma steady_readRowFilter [steady_intro]: "steady readRowFilter"
  unfolding readRowFilter_def [abs_def] by (intro steady_intro)

lemma copies_RowFilterSpec [copies_intro]:
  "copies readRowFilter RowFilterSpec_DeepCopyInto"
  by (rule grows_copiesI, rule steady_readRowFilter)
    (clarsimp simp: readRowFilter_def RowFilterSpec_DeepCopyInto_def bind_eq_Some_conv,
      (rule copy_steps copies_intro | assumption)+, rule grows_ret, simp add: readRowFilter_def)

lemma steady_readPostgres [steady_intro]: "steady readPostgres"
  unfolding readPostgres_def [abs_def] by (intro steady_intro)

lemma copies_PostgresSpec [copies_intro]:
  "copies readPostgres PostgresSpec_DeepCopyInto"
  by (rule grows_copiesI, rule steady_readPostgres)
    (clarsimp simp: readPostgres_def PostgresSpec_DeepCopyInto_def bind_eq_Some_conv,
      (rule copy_steps copies_intro | assumption)+, rule grows_ret, simp add: readPostgres_def)

lemma steady_readOpenFGA [steady_intro]: "library_ok lib \<Longrightarrow> steady (readOpenFGA lib)"
  unfolding readOpenFGA_def [abs_def] by (intro steady_intro)

lemma copies_OpenFGASpec [copies_intro]:
  "library_ok lib \<Longrightarrow> copies (readOpenFGA lib) (OpenFGASpec_DeepCopyInto lib)"
  by (rule grows_copiesI, rule steady_readOpenFGA, assumption)
    (clarsimp simp: readOpenFGA_def OpenFGASpec_DeepCopyInto_def bind_eq_Some_conv,
      (rule copy_steps copies_intro | assumption)+, rule grows_ret, simp add: readOpenFGA_def)

lemma steady_readAuthz [steady_intro]: "library_ok lib \<Longrightarrow> steady (readAuthz lib)"
  unfolding readAuthz_def [abs_def] by (intro steady_intro)

lemma copies_AuthzSpec [copies_intro]:
  "library_ok lib \<Longrightarrow> copies (readAuthz lib) (AuthzSpec_DeepCopyInto lib)"
  by (rule grows_copiesI, rule steady_readAuthz, assumption)
    (clarsimp simp: readAuthz_def AuthzSpec_DeepCopyInto_def bind_eq_Some_conv,
      (rule copy_steps copies_intro | assumption)+, rule grows_ret, simp add: readAuthz_def)

lemma steady_readMinio [steady_intro]: "library_ok lib \<Longrightarrow> steady (readMinio lib)"
  unfolding readMinio_def [abs_def] by (intro steady_intro)

lemma copies_MinioSpec [copies_intro]:
  "library_ok lib \<Longrightarrow> copies (readMinio lib) (MinioSpec_DeepCopyInto lib)"
  by (rule grows_copiesI, rule steady_readMinio, assumption)
    (clarsimp simp: readMinio_def MinioSpec_DeepCopyInto_def bind_eq_Some_conv,
      (rule copy_steps copies_intro | assumption)+, rule grows_ret, simp add: readMinio_def)

lemma steady_readS3 [steady_intro]: "steady readS3"
  unfolding readS3_def [abs_def] by (intro steady_intro)

lemma copies_S3Spec [copies_intro]:
  "copies readS3 S3Spec_DeepCopyInto"
  by (rule grows_copiesI, rule steady_readS3)
    (clarsimp simp: readS3_def S3Spec_DeepCopyInto_def bind_eq_Some_conv,
      (rule copy_steps copies_intro | assumption)+, rule grows_ret, simp add: readS3_def)

lemma steady_readStorage [steady_intro]: "library_ok lib \<Longrightarrow> steady (readStorage lib)"
  unfolding readStorage_def [abs_def] by (intro steady_intro)

lemma copies_StorageSpec [copies_intro]:
  "library_ok lib \<Longrightarrow> copies (readStorage lib) (StorageSpec_DeepCopyInto lib)"
  by (rule grows_copiesI, rule steady_readStorage, assumption)
    (clarsimp simp: readStorage_def StorageSpec_DeepCopyInto_def bind_eq_Some_conv,
      (rule copy_steps copies_intro | assumption)+, rule grows_ret, simp add: readStorage_def)

lemma steady_readLakekeeper [steady_intro]: "library_ok lib \<Longrightarrow> steady (readLakekeeper lib)"
  unfolding readLakekeeper_def [abs_def] by (intro steady_intro)

lemma copies_LakekeeperSpec [copies_intro]:
  "library_ok lib \<Longrightarrow> copies (readLakekeeper lib) (LakekeeperSpec_DeepCopyInto lib)"
  by (rule grows_copiesI, rule steady_readLakekeeper, assumption)
    (clarsimp simp: readLakekeeper_def LakekeeperSpec_DeepCopyInto_def bind_eq_Some_conv,
      (rule copy_steps copies_intro | assumption)+, rule grows_ret, simp add: readLakekeeper_def)

lemma steady_readCoordinator [steady_intro]: "library_ok lib \<Longrightarrow> steady (readCoordinator lib)"
  unfolding readCoordinator_def [abs_def] by (intro steady_intro)

lemma copies_TrinoCoordinatorSpec [copies_intro]:
  "library_ok lib \<Longrightarrow> copies (readCoordinator lib) (TrinoCoordinatorSpec_DeepCopyInto lib)"
  by (rule grows_copiesI, rule steady_readCoordinator, assumption)
    (clarsimp simp: readCoordinator_def TrinoCoordinatorSpec_DeepCopyInto_def bind_eq_Some_conv,
      (rule copy_steps copies_intro | assumption)+, rule grows_ret, simp add: readCoordinator_def)

lemma steady_readTrino [steady_intro]: "library_ok lib \<Longrightarrow> steady (readTrino lib)"
  unfolding readTrino_def [abs_def] by (intro steady_intro)

lemma copies_TrinoSpec [copies_intro]:
  "library_ok lib \<Longrightarrow> copies (readTrino lib) (TrinoSpec_DeepCopyInto lib)"
  by (rule grows_copiesI, rule steady_readTrino, assumption)
    (clarsimp simp: readTrino_def TrinoSpec_DeepCopyInto_def bind_eq_Some_conv,
      (rule copy_steps copies_intro | assumption)+, rule grows_ret, simp add: readTrino_def)

lemma steady_readPlatformSpec [steady_intro]: "library_ok lib \<Longrightarrow> steady (readPlatformSpec lib)"
  unfolding readPlatformSpec_def [abs_def] by (intro steady_intro)

lemma copies_DataPlatformSpec [copies_intro]:
  "library_ok lib \<Longrightarrow> copies (readPlatformSpec lib) (DataPlatformSpec_DeepCopyInto lib)"
  by (rule grows_copiesI, rule steady_readPlatformSpec, assumption)
    (clarsimp simp: readPlatformSpec_def DataPlatformSpec_DeepCopyInto_def bind_eq_Some_conv,
      (rule copy_steps copies_intro | assumption)+, rule grows_ret, simp add: readPlatformSpec_def)

lemma steady_readPlatformStatus [steady_intro]: "library_ok lib \<Longrightarrow> steady (readPlatformStatus lib)"
  unfolding readPlatformStatus_def [abs_def] by (intro steady_intro)

lemma copies_DataPlatformStatus [copies_intro]:
  "library_ok lib \<Longrightarrow> copies (readPlatformStatus lib) (DataPlatformStatus_DeepCopyInto lib)"
  by (rule grows_copiesI, rule steady_readPlatformStatus, assumption)
    (clarsimp simp: readPlatformStatus_def DataPlatformStatus_DeepCopyInto_def bind_eq_Some_conv,
      (rule copy_steps copies_intro | assumption)+, rule grows_ret, simp add: readPlatformStatus_def)

lemma steady_readPlatform [steady_intro]: "library_ok lib \<Longrightarrow> steady (readPlatform lib)"
  unfolding readPlatform_def [abs_def] by (intro steady_intro)

lemma copies_DataPlatform [copies_intro]:
  "library_ok lib \<Longrightarrow> copies (readPlatform lib) (DataPlatform_DeepCopyInto lib)"
  by (rule grows_copiesI, rule steady_readPlatform, assumption)
    (clarsimp simp: readPlatform_def DataPlatform_DeepCopyInto_def bind_eq_Some_conv,
      (rule copy_steps copies_intro | assumption)+, rule grows_ret, simp add: readPlatform_def)

lemma steady_readPlatformList [steady_intro]: "library_ok lib \<Longrightarrow> steady (readPlatformList lib)"
  unfolding readPlatformList_def [abs_def] by (intro steady_intro)

lemma copies_DataPlatformList [copies_intro]:
  "library_ok lib \<Longrightarrow> copies (readPlatformList lib) (DataPlatformList_DeepCopyInto lib)"
  by (rule grows_copiesI, rule steady_readPlatformList, assumption)
    (clarsimp simp: readPlatformList_def DataPlatformList_DeepCopyInto_def bind_eq_Some_conv,
      (rule copy_steps copies_intro | assumption)+, rule grows_ret, simp add: readPlatformList_def)

section \<open>Copies and originals\<close>

lemma plain_DeepCopyInto:
  "OIDCCredentialsSecretRef_DeepCopyInto = ret"
  "PostgresCredentialsSecretRef_DeepCopyInto = ret"
  "S3CredentialsSecretRef_DeepCopyInto = ret"
  "ColumnAccessSubjectSpec_DeepCopyInto = ret"
  "ColumnAccessSpec_DeepCopyInto = ret"
  "RowFilterSubjectSpec_DeepCopyInto = ret"
  "ServiceSpec_DeepCopyInto = ret"
  "WarehouseSpec_DeepCopyInto = ret"
  by (simp_all add: fun_eq_iff OIDCCredentialsSecretRef_DeepCopyInto_def
    PostgresCredentialsSecretRef_DeepCopyInto_def S3CredentialsSecretRef_DeepCopyInto_def
    ColumnAccessSubjectSpec_DeepCopyInto_def ColumnAccessSpec_DeepCopyInto_def
    RowFilterSubjectSpec_DeepCopyInto_def ServiceSpec_DeepCopyInto_def WarehouseSpec_DeepCopyInto_def)

text \<open>Every \<open>DeepCopy\<close> of the package, those that nothing else calls included.\<close>

theorem DeepCopy_deep:
  assumes "library_ok lib"
  shows "copies (readPtr oidcRefK readPlain) OIDCCredentialsSecretRef_DeepCopy"
    "copies (readPtr postgresRefK readPlain) PostgresCredentialsSecretRef_DeepCopy"
    "copies (readPtr s3RefK readPlain) S3CredentialsSecretRef_DeepCopy"
    "copies (readPtr columnSubjectK readPlain) ColumnAccessSubjectSpec_DeepCopy"
    "copies (readPtr columnAccessK readPlain) ColumnAccessSpec_DeepCopy"
    "copies (readPtr rowSubjectK readPlain) RowFilterSubjectSpec_DeepCopy"
    "copies (readPtr serviceK readPlain) ServiceSpec_DeepCopy"
    "copies (readPtr warehouseK readPlain) WarehouseSpec_DeepCopy"
    "copies (readPtr keycloakK (readKeycloak lib)) (KeycloakSpec_DeepCopy lib)"
    "copies (readPtr oidcK readOIDC) OIDCSpec_DeepCopy"
    "copies (readPtr authK (readAuth lib)) (AuthSpec_DeepCopy lib)"
    "copies (readPtr rowFilterK readRowFilter) RowFilterSpec_DeepCopy"
    "copies (readPtr postgresK readPostgres) PostgresSpec_DeepCopy"
    "copies (readPtr openfgaK (readOpenFGA lib)) (OpenFGASpec_DeepCopy lib)"
    "copies (readPtr authzK (readAuthz lib)) (AuthzSpec_DeepCopy lib)"
    "copies (readPtr minioK (readMinio lib)) (MinioSpec_DeepCopy lib)"
    "copies (readPtr s3K readS3) S3Spec_DeepCopy"
    "copies (readPtr storageK (readStorage lib)) (StorageSpec_DeepCopy lib)"
    "copies (readPtr lakekeeperK (readLakekeeper lib)) (LakekeeperSpec_DeepCopy lib)"
    "copies (readPtr coordinatorK (readCoordinator lib)) (TrinoCoordinatorSpec_DeepCopy lib)"
    "copies (readPtr trinoK (readTrino lib)) (TrinoSpec_DeepCopy lib)"
    "copies (readPtr platformSpecK (readPlatformSpec lib)) (DataPlatformSpec_DeepCopy lib)"
    "copies (readPtr platformStatusK (readPlatformStatus lib)) (DataPlatformStatus_DeepCopy lib)"
  unfolding OIDCCredentialsSecretRef_DeepCopy_def [abs_def] PostgresCredentialsSecretRef_DeepCopy_def
    [abs_def] S3CredentialsSecretRef_DeepCopy_def [abs_def] ColumnAccessSubjectSpec_DeepCopy_def
    [abs_def] ColumnAccessSpec_DeepCopy_def [abs_def] RowFilterSubjectSpec_DeepCopy_def [abs_def]
    ServiceSpec_DeepCopy_def [abs_def] WarehouseSpec_DeepCopy_def [abs_def] KeycloakSpec_DeepCopy_def
    [abs_def] OIDCSpec_DeepCopy_def [abs_def] AuthSpec_DeepCopy_def [abs_def] RowFilterSpec_DeepCopy_def
    [abs_def] PostgresSpec_DeepCopy_def [abs_def] OpenFGASpec_DeepCopy_def [abs_def]
    AuthzSpec_DeepCopy_def [abs_def] MinioSpec_DeepCopy_def [abs_def] S3Spec_DeepCopy_def [abs_def]
    StorageSpec_DeepCopy_def [abs_def] LakekeeperSpec_DeepCopy_def [abs_def]
    TrinoCoordinatorSpec_DeepCopy_def [abs_def] TrinoSpec_DeepCopy_def [abs_def]
    DataPlatformSpec_DeepCopy_def [abs_def] DataPlatformStatus_DeepCopy_def [abs_def] plain_DeepCopyInto
  using assms by (intro copies_intro; assumption?)+

lemma DeepCopyObject_alt:
  "DataPlatform_DeepCopyObject lib = copyPtr platformK (DataPlatform_DeepCopyInto lib)"
  "DataPlatformList_DeepCopyObject lib = copyPtr platformListK (DataPlatformList_DeepCopyInto lib)"
proof -
  have "bindE m (\<lambda>c. case c of None \<Rightarrow> ret None | Some a \<Rightarrow> ret (Some a)) = m" for m :: "(cell heap, addr option) go"
    by (rule ext) (simp add: run_simps split: option.split sum.split)
  then show "DataPlatform_DeepCopyObject lib = copyPtr platformK (DataPlatform_DeepCopyInto lib)"
    and "DataPlatformList_DeepCopyObject lib = copyPtr platformListK (DataPlatformList_DeepCopyInto lib)"
    by (simp_all add: fun_eq_iff DataPlatform_DeepCopyObject_def DataPlatform_DeepCopy_def
        DataPlatformList_DeepCopyObject_def DataPlatformList_DeepCopy_def)
qed

text \<open>
  C12. The generated copies are deep. A copied platform stands for the same spec and status as its
  original, nil for nil, whatever becomes of the memory that was there before it, and the original
  stands for what it did, whatever is written to the copy: the two share no pointer, slice or map. The
  libraries' copies are taken to be deep.
\<close>

theorem DataPlatform_copies_apart:
  assumes "library_ok lib" and "readPtr platformK (readPlatform lib) (look h) p = Some v"
  shows "\<exists>q h'. DataPlatform_DeepCopyObject lib p h = Some (Inr q, h') \<and>
     (\<forall>m. (\<forall>a. a \<notin> dom (look h) \<longrightarrow> m a = look h' a) \<longrightarrow> readPtr platformK (readPlatform lib) m q = Some v) \<and>
     (\<forall>m. (\<forall>a \<in> dom (look h). m a = look h a) \<longrightarrow> readPtr platformK (readPlatform lib) m p = Some v)"
proof -
  have "copies (readPtr platformK (readPlatform lib)) (DataPlatform_DeepCopyObject lib)"
    unfolding DeepCopyObject_alt using assms(1) by (intro copies_ptr kinds_ok copies_DataPlatform)
  from copies_separate [OF this assms(2)] show ?thesis by blast
qed

text \<open>So are those of a list of platforms, as a cache hands it out.\<close>

theorem DataPlatformList_copies_apart:
  assumes "library_ok lib" and "readPtr platformListK (readPlatformList lib) (look h) p = Some v"
  shows "\<exists>q h'. DataPlatformList_DeepCopyObject lib p h = Some (Inr q, h') \<and>
     (\<forall>m. (\<forall>a. a \<notin> dom (look h) \<longrightarrow> m a = look h' a) \<longrightarrow>
        readPtr platformListK (readPlatformList lib) m q = Some v) \<and>
     (\<forall>m. (\<forall>a \<in> dom (look h). m a = look h a) \<longrightarrow>
        readPtr platformListK (readPlatformList lib) m p = Some v)"
proof -
  have "copies (readPtr platformListK (readPlatformList lib)) (DataPlatformList_DeepCopyObject lib)"
    unfolding DeepCopyObject_alt using assms(1) by (intro copies_ptr kinds_ok copies_DataPlatformList)
  from copies_separate [OF this assms(2)] show ?thesis by blast
qed

end
