(* ===== verification/Memory.thy ===== *)
theory Memory
  imports Effects
begin

text \<open>
  An environment that runs: a cluster, a catalog server and a host kept in memory. It stands for nothing
  under src/. It shows that the contracts which theorems assume of the libraries can be kept, and the
  theory Witnesses applies the theorems to it.
\<close>

section \<open>The world\<close>

record mem =
  mwCluster :: cluster
  mwPlatform :: "(dataplatform \<times> dp_status) option"
  mwForwards :: "nat list"
  mwNext :: nat
  mwLog :: "string list"

definition emptyCluster :: cluster where
  "emptyCluster = \<lparr>clNamespaces = \<lambda>_. None, clSecrets = \<lambda>_ _. None, clServices = \<lambda>_ _. None,
     clConfigMaps = \<lambda>_ _. None, clDeployments = \<lambda>_ _. None, clStatefulSets = \<lambda>_ _. None,
     clJobs = \<lambda>_ _. None\<rparr>"

definition emptyMem :: mem where
  "emptyMem = \<lparr>mwCluster = emptyCluster, mwPlatform = None, mwForwards = [], mwNext = 0, mwLog = []\<rparr>"

definition logged :: "string \<Rightarrow> mem \<Rightarrow> mem" where
  "logged what w = w\<lparr>mwLog := mwLog w @ [what]\<rparr>"

section \<open>The Kubernetes client\<close>

definition memRead :: "(cluster \<Rightarrow> 'o option) \<Rightarrow> (mem, 'o) go" where
  "memRead look = (\<lambda>w. case look (mwCluster w) of
      None \<Rightarrow> Some (Inl (NotFound ''not found''), w)
    | Some x \<Rightarrow> Some (Inr x, w))"

definition memWrite :: "(cluster \<Rightarrow> cluster) \<Rightarrow> (mem, unit) go" where
  "memWrite f = (\<lambda>w. Some (Inr (), w\<lparr>mwCluster := f (mwCluster w)\<rparr>))"

text \<open>\<open>CreateOrUpdate\<close>, for the object that \<open>look\<close> finds and \<open>store\<close> writes.\<close>

definition memCou ::
  "(cluster \<Rightarrow> 'o option) \<Rightarrow> ('o \<Rightarrow> cluster \<Rightarrow> cluster) \<Rightarrow> 'o \<Rightarrow> ('o \<Rightarrow> err + 'o) \<Rightarrow> (mem, unit) go" where
  "memCou look store x f = (\<lambda>w.
     case f (case look (mwCluster w) of None \<Rightarrow> x | Some o' \<Rightarrow> o') of
       Inl e \<Rightarrow> Some (Inl e, w)
     | Inr y \<Rightarrow> memWrite (store y) w)"

definition createdSecret :: "secret \<Rightarrow> secret" where
  "createdSecret x = x\<lparr>secMeta := (secMeta x)\<lparr>omCreated := True\<rparr>\<rparr>"

definition memClient :: "mem kube_client" where
  "memClient = \<lparr>
     kGetNamespace = \<lambda>n. memRead (\<lambda>c. clNamespaces c n),
     kGetSecret = \<lambda>n ns. memRead (\<lambda>c. clSecrets c n ns),
     kGetDeployment = \<lambda>n ns. memRead (\<lambda>c. clDeployments c n ns),
     kGetStatefulSet = \<lambda>n ns. memRead (\<lambda>c. clStatefulSets c n ns),
     kGetJob = \<lambda>n ns. memRead (\<lambda>c. clJobs c n ns),
     kGetDataPlatform = \<lambda>n w. (case mwPlatform w of
        None \<Rightarrow> Some (Inl (NotFound ''not found''), w) | Some p \<Rightarrow> Some (Inr p, w)),
     kCreateNamespace = \<lambda>x. memWrite (\<lambda>c. c\<lparr>clNamespaces := (clNamespaces c)(omName (nsMeta x) := Some x)\<rparr>),
     kCreateSecret = \<lambda>x w.
       (case clSecrets (mwCluster w) (omName (secMeta x)) (omNamespace (secMeta x)) of
          Some _ \<Rightarrow> Some (Inl (OtherErr ''already exists''), w)
        | None \<Rightarrow> memWrite (\<lambda>c. c\<lparr>clSecrets := put2 (omName (secMeta x)) (omNamespace (secMeta x))
            (Some (createdSecret x)) (clSecrets c)\<rparr>) w),
     kUpdateSecret = \<lambda>x. memWrite (\<lambda>c. c\<lparr>clSecrets :=
       put2 (omName (secMeta x)) (omNamespace (secMeta x)) (Some x) (clSecrets c)\<rparr>),
     kDeleteConfigMap = \<lambda>n ns. memWrite (\<lambda>c. c\<lparr>clConfigMaps := put2 n ns None (clConfigMaps c)\<rparr>),
     kDeleteDeployment = \<lambda>n ns. memWrite (\<lambda>c. c\<lparr>clDeployments := put2 n ns None (clDeployments c)\<rparr>),
     kDeleteJob = \<lambda>n ns. memWrite (\<lambda>c. c\<lparr>clJobs := put2 n ns None (clJobs c)\<rparr>),
     kCouService = \<lambda>x. memCou (\<lambda>c. clServices c (omName (svcMeta x)) (omNamespace (svcMeta x)))
       (\<lambda>y c. c\<lparr>clServices := put2 (omName (svcMeta x)) (omNamespace (svcMeta x))
         (Some (y\<lparr>svcMeta := (svcMeta y)\<lparr>omCreated := True\<rparr>\<rparr>)) (clServices c)\<rparr>) x,
     kCouSecret = \<lambda>x. memCou (\<lambda>c. clSecrets c (omName (secMeta x)) (omNamespace (secMeta x)))
       (\<lambda>y c. c\<lparr>clSecrets := put2 (omName (secMeta x)) (omNamespace (secMeta x))
         (Some (createdSecret y)) (clSecrets c)\<rparr>) x,
     kCouConfigMap = \<lambda>x. memCou (\<lambda>c. clConfigMaps c (omName (cmMeta x)) (omNamespace (cmMeta x)))
       (\<lambda>y c. c\<lparr>clConfigMaps := put2 (omName (cmMeta x)) (omNamespace (cmMeta x))
         (Some (y\<lparr>cmMeta := (cmMeta y)\<lparr>omCreated := True\<rparr>\<rparr>)) (clConfigMaps c)\<rparr>) x,
     kCouDeployment = \<lambda>x. memCou (\<lambda>c. clDeployments c (omName (depMeta x)) (omNamespace (depMeta x)))
       (\<lambda>y c. c\<lparr>clDeployments := put2 (omName (depMeta x)) (omNamespace (depMeta x))
         (Some (y\<lparr>depMeta := (depMeta y)\<lparr>omCreated := True\<rparr>\<rparr>)) (clDeployments c)\<rparr>) x,
     kCouStatefulSet = \<lambda>x. memCou (\<lambda>c. clStatefulSets c (omName (stsMeta x)) (omNamespace (stsMeta x)))
       (\<lambda>y c. c\<lparr>clStatefulSets := put2 (omName (stsMeta x)) (omNamespace (stsMeta x))
         (Some (y\<lparr>stsMeta := (stsMeta y)\<lparr>omCreated := True\<rparr>\<rparr>)) (clStatefulSets c)\<rparr>) x,
     kCouJob = \<lambda>x. memCou (\<lambda>c. clJobs c (omName (jobMeta x)) (omNamespace (jobMeta x)))
       (\<lambda>y c. c\<lparr>clJobs := put2 (omName (jobMeta x)) (omNamespace (jobMeta x))
         (Some (y\<lparr>jobMeta := (jobMeta y)\<lparr>omCreated := True\<rparr>\<rparr>)) (clJobs c)\<rparr>) x,
     kUpdateStatus = \<lambda>p w. Some (Inr (), w\<lparr>mwPlatform := Some p\<rparr>)\<rparr>"

section \<open>The libraries, the host and the catalog\<close>

definition memLib :: lib where
  "memLib = \<lparr>
     lSetControllerReference = \<lambda>dp m. Inr (m\<lparr>omOwners := [dpName dp]\<rparr>),
     lSetStatusCondition = \<lambda>c cs. c # filter (\<lambda>d. cdType d \<noteq> cdType c) cs,
     lIsStatusConditionTrue = \<lambda>cs t. (case findCondition t cs of
        None \<Rightarrow> False | Some c \<Rightarrow> cdStatus c = ConditionTrue),
     lParseQuantity = Inr,
     lSha256 = \<lambda>s. take 32 (s @ replicate 32 CHR ''0''),
     lUuidSHA1URL = \<lambda>s. s,
     lUnmarshalToken = Inr,
     lPolicyWalk = \<lambda>dir. Inr [(dir, True), (dir @ ''/trino.rego'', False), (dir @ ''/README.md'', False)],
     lPolicyFile = Inr\<rparr>"

definition memSys :: "mem sys" where
  "memSys = \<lparr>
     sMapOrder = \<lambda>ks w. (ks, w),
     sRandRead = \<lambda>n. ret (replicate n CHR ''x''),
     sRsaGenerateKey = \<lambda>_. ret ''key'',
     sMarshalPKCS8 = Inr,
     sRandInt = \<lambda>_. ret 4,
     sNow = ret 0,
     sAddYears = \<lambda>t y. t + y * 31556952,
     sCreateCertificate = \<lambda>_ k. ret k\<rparr>"

text \<open>Every operation of the catalog succeeds and leaves a line in the log.\<close>

definition memCall :: "string \<Rightarrow> 'a \<Rightarrow> (mem, 'a) go" where
  "memCall what x = (\<lambda>w. Some (Inr x, logged what w))"

definition memCatalog :: "mem catalog_client" where
  "memCatalog = \<lparr>
     cBootstrap = \<lambda>_ _ _ _. memCall ''bootstrap'' (),
     cEnsureGrants = \<lambda>_ _ _ _ _. memCall ''grants'' (),
     cEnsureWarehouse = \<lambda>_ _ _ _ _. memCall ''warehouse'' (),
     cEnsureAuthzStore = \<lambda>_ _ _ _ _. memCall ''store'' ''S1'',
     cFormPost = \<lambda>_ _ _ _ _. memCall ''token'' (200, ''T1''),
     cFetchToken = \<lambda>_ _. memCall ''token'' (200, ''T1'')\<rparr>"

definition memReconciler :: "mem reconciler" where
  "memReconciler = \<lparr>rClient = memClient, rCatalog = Some memCatalog, rLib = memLib, rSys = memSys\<rparr>"

lemma memReconciler_sel [simp]:
  "rClient memReconciler = memClient" "rCatalog memReconciler = Some memCatalog"
  "rLib memReconciler = memLib" "rSys memReconciler = memSys"
  by (simp_all add: memReconciler_def)

section \<open>A server behind the catalog client\<close>

text \<open>
  What catalog.go calls: a server that answers every request with 200 and a body as long as the number of
  requests before it, its stores on two pages. \<open>b\<close> says whether the operator runs in the cluster; if
  not, it reaches the server through port-forwards.
\<close>

definition sampleTypes :: "authz_type list" where
  "sampleTypes = [\<lparr>atName = ''region'', atRelations = [''viewer'']\<rparr>]"

definition memProxy :: "bool \<Rightarrow> mem proxy" where
  "memProxy b = \<lparr>
     pxStat = \<lambda>_. if b then ret () else fail (NotFound ''no token''),
     pxGetService = \<lambda>ns n. ret ((newService n ns)\<lparr>svcSelector := fmap_of_list [(''app'', n)]\<rparr>),
     pxListPods = \<lambda>_ _. ret [\<lparr>podName = ''pod-0'', podPhase = ''Running'',
       podConditions = [\<lparr>pcondType = ''Ready'', pcondStatus = ''True''\<rparr>]\<rparr>],
     pxLabelsString = \<lambda>_. ''app'',
     pxRoundTripperFor = ret (),
     pxNewForwarder = \<lambda>_ _ _ w. Some (Inr (Suc (sum_list (mwForwards w))), w),
     pxSelect = \<lambda>fw w. Some (Inr ReadyCh, w\<lparr>mwForwards := fw # mwForwards w\<rparr>),
     pxGetPorts = \<lambda>_. ret [40001],
     pxCloseStop = \<lambda>fw w. Some (Inr (), w\<lparr>mwForwards := removeAll fw (mwForwards w)\<rparr>),
     pxNewRequest = \<lambda>m url body. Inr \<lparr>rqMethod = m, rqURL = url, rqHeader = fmempty, rqBody = body\<rparr>,
     pxHttpDo = \<lambda>rq w. Some (Inr \<lparr>rsStatusCode = 200, rsBody = length (mwLog w)\<rparr>, logged (rqURL rq) w),
     pxDefaultDo = \<lambda>rq w. Some (Inr \<lparr>rsStatusCode = 200, rsBody = length (mwLog w)\<rparr>, logged (rqURL rq) w),
     pxReadAll = \<lambda>n. ret (replicate n CHR ''x''),
     pxBodyClose = \<lambda>_. ret (),
     pxRestPost = \<lambda>_ _ _ _. ret (500, None, Some (OtherErr ''refused'')),
     pxUnmarshalWarehouses = \<lambda>_. Inr [(''W1'', ''default'')],
     pxUnmarshalStores = \<lambda>body. if body = []
       then Inr ([\<lparr>lsID = ''S0'', lsName = ''rowfilters'', lsDeletedAt = ''2024''\<rparr>], ''t1'')
       else Inr ([\<lparr>lsID = ''S1'', lsName = ''rowfilters'', lsDeletedAt = []\<rparr>], []),
     pxUnmarshalID = Inr,
     pxUnmarshalModels = \<lambda>_. Inr [authzModelJSON sampleTypes]\<rparr>"

lemma memProxy_decodes [simp]:
  "pxUnmarshalWarehouses (memProxy b) body = Inr [(''W1'', ''default'')]"
  "pxUnmarshalStores (memProxy b) [] = Inr ([\<lparr>lsID = ''S0'', lsName = ''rowfilters'', lsDeletedAt = ''2024''\<rparr>], ''t1'')"
  "pxUnmarshalStores (memProxy b) (c # cs) = Inr ([\<lparr>lsID = ''S1'', lsName = ''rowfilters'', lsDeletedAt = []\<rparr>], [])"
  "pxUnmarshalModels (memProxy b) body = Inr [authzModelJSON sampleTypes]"
  by (simp_all add: memProxy_def)

lemma do_request_mem:
  "do_request (memProxy True) m ns svc port p bearer payload w =
     Some (Inr (200, take (2 ^ 20) (replicate (length (mwLog w)) CHR ''x'')),
       logged (''http://'' @ svc @ ''.'' @ ns @ ''.svc:'' @ Itoa port @ ''/'' @ p) w)"
proof -
  have trim: "trimSlash (a @ Itoa port) = a @ Itoa port" for a
  proof -
    obtain d where d: "Itoa port = butlast (Itoa port) @ [digitChar d]" "d < 10"
      using natDec_chars [OF last_in_set [OF natDec_nonempty]]
      by (metis Itoa_def append_butlast_last_id append_is_Nil_conv last_appendR natDec_nonempty)
    then have "d = 0 \<or> d = 1 \<or> d = 2 \<or> d = 3 \<or> d = 4 \<or> d = 5 \<or> d = 6 \<or> d = 7 \<or> d = 8 \<or> d = 9"
      by arith
    then have "digitChar d \<noteq> CHR ''/''" by (elim disjE) (simp_all add: digitChar_eval)
    with d(1) show ?thesis by (metis TrimRight_snoc append.assoc)
  qed
  show ?thesis
    using trim [of "''http://'' @ svc @ ''.'' @ ns @ ''.svc:''"]
    by (simp add: do_request_def serviceBaseURL_def runningInCluster_def deferE_def sendRequest_def
        readBody_def memProxy_def run_simps logged_def Let_def)
qed

lemma mem_forwards_ok [simp]: "forwards_ok (\<lambda>w. set (mwForwards w)) (memProxy b)"
  by (auto simp: forwards_ok_def memProxy_def keeps_def hoare_def ret_def fail_def logged_def
      dest: member_le_sum_list split: if_splits)

section \<open>A platform\<close>

definition samplePostgres :: postgres_spec where
  "samplePostgres = \<lparr>pgEmbedded = None, pgImage = [], pgStorageSize = [], pgHost = [], pgPort = 0,
     pgDatabase = [], pgSSLMode = [], pgCredentialsSecretRef = None\<rparr>"

definition sampleMinio :: minio_spec where
  "sampleMinio = \<lparr>miNamespace = [], miImage = [], miMcImage = [], miStorageSize = [], miBucket = [],
     miResources = noResources\<rparr>"

definition sampleKeycloak :: keycloak_spec where
  "sampleKeycloak = \<lparr>kcNamespace = [], kcImage = [], kcRealm = [], kcPublicURL = [], kcResources = noResources\<rparr>"

definition sampleOpenFGA :: openfga_spec where
  "sampleOpenFGA = \<lparr>ofNamespace = [], ofImage = [], ofOPAImage = [], ofStore = [], ofRowFilterStore = [],
     ofPostgres = samplePostgres, ofResources = noResources\<rparr>"

definition sampleFilter :: row_filter_spec where
  "sampleFilter = \<lparr>rfCatalog = [], rfSchema = ''sales'', rfTable = ''orders'', rfColumn = ''region'',
     rfOpenFGA = \<lparr>rfsType = ''region'', rfsRelation = []\<rparr>, rfNumeric = None\<rparr>"

definition sampleAuthz :: authz_spec where
  "sampleAuthz = \<lparr>azEnabled = None, azEmbedded = None, azOpenFGA = sampleOpenFGA,
     azRowFilters = [sampleFilter], azColumnAccess = []\<rparr>"

definition sampleLakekeeper :: lakekeeper_spec where
  "sampleLakekeeper = \<lparr>lkEnabled = None, lkNamespace = [], lkImage = [], lkReplicas = None,
     lkResources = noResources, lkExtraEnv = [], lkPublicURL = [], lkPostgres = samplePostgres,
     lkWarehouse = \<lparr>whName = [], whKeyPrefix = []\<rparr>\<rparr>"

definition sampleTrino :: trino_spec where
  "sampleTrino = \<lparr>trEnabled = None, trNamespace = [], trImage = [], trWorkers = Some 2,
     trCoordinator = \<lparr>tcResources = noResources\<rparr>, trExtraConfig = fmempty,
     trExtraCatalogs = fmap_of_list [(''tpch'', ''connector.name=tpch''), (''jmx'', ''connector.name=jmx'')],
     trExtraEnv = [], trPublicURL = [], trResources = noResources, trService = \<lparr>seType = []\<rparr>\<rparr>"

text \<open>Every field that has a default is left to it.\<close>

definition samplePlatform :: dataplatform where
  "samplePlatform = \<lparr>dpName = ''demo'', dpGeneration = 3, dpSpec = \<lparr>
     spStorage = \<lparr>stEmbedded = None, stMinio = sampleMinio, stS3 = None\<rparr>,
     spAuth = \<lparr>auEnabled = None, auEmbedded = None, auKeycloak = sampleKeycloak, auOIDC = None\<rparr>,
     spAuthz = sampleAuthz, spLakekeeper = sampleLakekeeper, spTrino = sampleTrino\<rparr>\<rparr>"

text \<open>The same with LakeKeeper disabled.\<close>

definition trinoOnly :: dataplatform where
  "trinoOnly = samplePlatform\<lparr>dpSpec := (dpSpec samplePlatform)
     \<lparr>spLakekeeper := sampleLakekeeper\<lparr>lkEnabled := Some False\<rparr>\<rparr>\<rparr>"

text \<open>With both stacks disabled.\<close>

definition allOff :: dataplatform where
  "allOff = trinoOnly\<lparr>dpSpec := (dpSpec trinoOnly)\<lparr>spTrino := sampleTrino\<lparr>trEnabled := Some False\<rparr>\<rparr>\<rparr>"

definition emptyStatus :: dp_status where
  "emptyStatus = \<lparr>dsConditions = [], dsMinioEndpoint = [], dsLakekeeperEndpoint = [], dsTrinoEndpoint = [],
     dsKeycloakEndpoint = [], dsOpenFGAEndpoint = [], dsRowFilterStoreID = []\<rparr>"

section \<open>It keeps the contracts\<close>

lemma find_filter_other: "t \<noteq> u \<Longrightarrow> find (\<lambda>c. cdType c = t) (filter (\<lambda>d. cdType d \<noteq> u) cs) = find (\<lambda>c. cdType c = t) cs"
  by (induction cs) auto

lemma mem_conditions_ok [simp]: "conditions_ok memLib"
  by (auto simp: conditions_ok_def memLib_def findCondition_def find_filter_other split: option.splits)

lemma reads_memRead: "reads_ok mwCluster look (memRead look)"
  by (auto simp: reads_ok_def memRead_def split: option.splits)

lemma mem_reads_ok [simp]:
  "get_secret_ok mwCluster memClient" "get_job_ok mwCluster memClient"
  by (simp_all add: get_secret_ok_def get_job_ok_def memClient_def reads_memRead)

lemma mem_create_secret_ok [simp]: "create_secret_ok mwCluster memClient"
  by (auto simp: create_secret_ok_def memClient_def memWrite_def createdSecret_def split: option.splits)

lemma mem_cou_secret_ok [simp]: "cou_secret_ok mwCluster memClient"
  by (auto simp: cou_secret_ok_def memClient_def memCou_def memWrite_def createdSecret_def Let_def
      split: option.splits sum.splits)

text \<open>No Kubernetes call and no use of the host writes to the log of catalog calls.\<close>

lemma keeps_mem:
  "keeps (\<lambda>w. P (mwLog w)) (memRead look)" "keeps (\<lambda>w. P (mwLog w)) (memWrite f)"
  "keeps (\<lambda>w. P (mwLog w)) (memCou look store x g)"
  by (auto simp: keeps_def memRead_def memWrite_def memCou_def split: option.splits sum.splits)

lemma mem_client_keeps [simp]: "client_keeps (\<lambda>w. P (mwLog w)) memReconciler"
proof -
  have "keeps (\<lambda>w. P (mwLog w)) (kCreateSecret memClient x)" for x
    by (auto simp: keeps_def memClient_def memWrite_def split: option.splits)
  moreover have "client_keeps (\<lambda>w. P (mwLog w)) memReconciler \<longleftrightarrow>
      (\<forall>x. keeps (\<lambda>w. P (mwLog w)) (kCreateSecret memClient x))"
    by (simp add: client_keeps_def memClient_def memSys_def keeps_mem keeps_ret)
  ultimately show ?thesis by blast
qed

lemma mem_store_keeps [simp]: "store_keeps (\<lambda>w. ''bootstrap'' \<notin> set (mwLog w)) memReconciler"
  by (simp add: store_keeps_def memCatalog_def memCall_def logged_def keeps_def)

lemma returns_mem: "returns (memRead look)" "returns (memWrite f)" "returns (memCou look store x g)"
  "returns (memCall what y)"
  by (auto simp: returns_def memRead_def memWrite_def memCou_def memCall_def split: option.splits sum.splits)

lemma mem_calls_return [simp]: "calls_return memReconciler"
proof -
  have "returns (kCreateSecret memClient x)" "returns (kGetDataPlatform memClient n)"
    "returns (kUpdateStatus memClient p)" for x n p
    by (auto simp: returns_def memClient_def memWrite_def split: option.splits)
  moreover have "calls_return memReconciler \<longleftrightarrow> (\<forall>x. returns (kCreateSecret memClient x)) \<and>
      (\<forall>n. returns (kGetDataPlatform memClient n)) \<and> (\<forall>p. returns (kUpdateStatus memClient p))"
    by (auto simp: calls_return_def memClient_def memSys_def memCatalog_def returns_mem returns_ret)
  ultimately show ?thesis by blast
qed

end
