(* ===== verification/Witnesses.thy ===== *)
theory Witnesses
  imports Contracts Secrets Workloads Memory
begin

text \<open>
  Each property that has hypotheses, applied to the environment of the theory Memory or to a concrete
  input, where they hold.
\<close>

section \<open>Helpers\<close>

theorem hashInput_injective_witness:
  "[''a'', ''bc''] = take 2 [''a'', ''bc'', ''d'']"
  using hashInput_injective [of "[''a'', ''bc'']" "take 2 [''a'', ''bc'', ''d'']"] by simp

section \<open>The catalog client\<close>

theorem do_request_no_forward_left_witness:
  "set (mwForwards (snd (the (do_request (memProxy False) MethodGet ''lakekeeper'' ''lakekeeper'' 8181
     ''management/v1/warehouse'' ''T1'' None (emptyMem\<lparr>mwForwards := [7]\<rparr>))))) = {7}"
proof -
  let ?m = "do_request (memProxy False) MethodGet ''lakekeeper'' ''lakekeeper'' 8181
     ''management/v1/warehouse'' ''T1'' None (emptyMem\<lparr>mwForwards := [7]\<rparr>)"
  have "\<exists>q w'. ?m = Some (q, w')"
    by (simp add: do_request_def serviceBaseURL_def runningInCluster_def readyPodForService_def podReady_def
        portForward_def awaitForward_def localPort_def deferE_def sendRequest_def readBody_def memProxy_def
        run_simps Let_def split: option.split)
  then obtain q w' where run: "?m = Some (q, w')" by blast
  from do_request_no_forward_left [OF mem_forwards_ok run] run show ?thesis by simp
qed

definition sampleWarehouse :: warehouse_request where
  "sampleWarehouse = \<lparr>wrName = ''default'', wrBucket = ''warehouse'', wrRegion = ''us-east-1'', wrKeyPrefix = [],
     wrEndpoint = [], wrPathStyleAccess = True, wrFlavor = ''s3-compat'', wrSTSEnabled = False,
     wrSTSRoleARN = [], wrAccessKeyID = ''a'', wrSecretAccessKey = ''s''\<rparr>"


theorem FormPost_status_witness:
  "FormPost (memProxy True) ''keycloak'' ''keycloak'' 8080 ''token'' fmempty emptyMem
     = Some (Inr (500, ''refused''), emptyMem)"
  using FormPost_status [of "memProxy True" "''keycloak''" "''keycloak''" 8080 "''token''" fmempty emptyMem
      500 None "Some (OtherErr ''refused'')" emptyMem]
  by (simp add: memProxy_def ret_def)

section \<open>OpenFGA stores\<close>


text \<open>The two pages of the server.\<close>

lemma mem_pages:
  "pagesFrom (memProxy True) ''openfga'' ''openfga'' 8080 ''k'' []
     [([\<lparr>lsID = ''S0'', lsName = ''rowfilters'', lsDeletedAt = ''2024''\<rparr>], ''t1''),
      ([\<lparr>lsID = ''S1'', lsName = ''rowfilters'', lsDeletedAt = []\<rparr>], [])] emptyMem"
  by (simp add: storesPage_def do_request_mem run_simps isSuccess_def logged_def emptyMem_def)

theorem findAuthzStore_finds_witness:
  "\<exists>w'. findAuthzStore (memProxy True) ''openfga'' ''openfga'' 8080 ''k'' ''rowfilters'' emptyMem
     = Some (Inr ''S1'', w')"
  using findAuthzStore_finds [OF mem_pages, of "''rowfilters''"] by (simp add: liveStore_def)

definition stuckProxy :: "mem proxy" where
  "stuckProxy = (memProxy True)\<lparr>pxHttpDo := \<lambda>_. ret \<lparr>rsStatusCode = 200, rsBody = 0\<rparr>,
     pxUnmarshalStores := \<lambda>_. Inr ([], ''t'')\<rparr>"

theorem findAuthzStore_may_not_return_witness:
  "findAuthzStore stuckProxy ''openfga'' ''openfga'' 8080 ''k'' ''rowfilters'' emptyMem = None"
proof (rule findAuthzStore_may_not_return [where token = "''t''" and stores = "[]"])
  have "storesPage stuckProxy ''openfga'' ''openfga'' 8080 ''k'' token w = Some (Inr ([], ''t''), w)" for token w
    by (simp add: storesPage_def do_request_def serviceBaseURL_def runningInCluster_def deferE_def sendRequest_def
        readBody_def memProxy_def stuckProxy_def run_simps isSuccess_def Let_def)
  then show "storesPage stuckProxy ''openfga'' ''openfga'' 8080 ''k'' [] w = Some (Inr ([], ''t''), w)"
    "storesPage stuckProxy ''openfga'' ''openfga'' 8080 ''k'' ''t'' w = Some (Inr ([], ''t''), w)" for w
    by blast+
qed simp_all

theorem EnsureAuthzStore_unchanged_witness:
  "\<exists>w'. EnsureAuthzStore (memProxy True) ''openfga'' ''openfga'' 8080 ''k''
     \<lparr>asStore = ''rowfilters'', asTypes = sampleTypes\<rparr> emptyMem = Some (Inr ''S1'', w')"
proof -
  obtain w1 where find: "findAuthzStore (memProxy True) ''openfga'' ''openfga'' 8080 ''k'' ''rowfilters'' emptyMem
      = Some (Inr ''S1'', w1)"
    by (simp add: findAuthzStore_def findAuthzStoreFrom.simps storesPage_def do_request_mem run_simps isSuccess_def
        liveStore_def logged_def emptyMem_def)
  have "\<exists>w2. latestAuthzModel (memProxy True) ''openfga'' ''openfga'' 8080 ''k'' ''S1'' w1
      = Some (Inr (Some (authzModelJSON sampleTypes)), w2)"
    by (simp add: latestAuthzModel_def do_request_mem run_simps isSuccess_def)
  then obtain w2 where latest: "latestAuthzModel (memProxy True) ''openfga'' ''openfga'' 8080 ''k'' ''S1'' w1
      = Some (Inr (Some (authzModelJSON sampleTypes)), w2)" by blast
  show ?thesis
    using EnsureAuthzStore_unchanged [of "memProxy True" _ _ _ _ "\<lparr>asStore = ''rowfilters'', asTypes = sampleTypes\<rparr>",
        OF _ _ latest] find
    by (simp add: sampleTypes_def)
qed


section \<open>Components\<close>

theorem ensureMinioBucket_ready_iff_witness:
  "hoare (\<lambda>s. clJobs (mwCluster (fst s)) nameMinioBucketJob ''minio'' = None)
     (ensureMinioBucket memReconciler samplePlatform ''minio'' sampleMinio ''a'' ''s'')
     (\<lambda>ready _. \<not> ready) (\<lambda>_ _. True)"
  using ensureMinioBucket_ready_iff [of mwCluster memReconciler "''minio''" None samplePlatform sampleMinio "''a''" "''s''"]
  by simp

theorem accessAuthzTypes_exact_witness:
  "accessAuthzTypes (sampleAuthz\<lparr>azRowFilters := [sampleFilter, sampleFilter]\<rparr>) = accessAuthzTypes sampleAuthz"
  using accessAuthzTypes_exact [of "sampleAuthz\<lparr>azRowFilters := [sampleFilter, sampleFilter]\<rparr>" sampleAuthz]
  by (simp add: accessPairs_def sampleAuthz_def)

theorem access_store_recorded_witness:
  "hoare (\<lambda>_. True) (reconcileAccessStore (memReconciler\<lparr>rCatalog := Some (proxyCatalogClient (memProxy True))\<rparr>)
       samplePlatform ''openfga'' ''k'')
     (\<lambda>i s. dsRowFilterStoreID (snd s) = i \<and> i \<noteq> []) (\<lambda>_ _. True)"
  by (rule hoare_weaken, rule access_store_recorded [of _ "memProxy True"])
    (auto simp: samplePlatform_def sampleAuthz_def sampleTrino_def HasAccessPolicies_iff enabled_defs)

theorem openfga_without_opa_witness:
  "reports samplePlatform ConditionOpenFGAReady (reconcileOpenFGA memReconciler samplePlatform) (\<lambda>(cfg, ready) s.
     fgEnabled cfg \<and> (fgOpaURL cfg = [] \<longleftrightarrow> (\<exists>c. condition_of ConditionOpenFGAReady (snd s) = Some c \<and>
       cdMessage c = ''OpenFGA Postgres is not ready'')))"
  by (rule openfga_without_opa) simp

definition sampleRealm :: realm_options where
  "sampleRealm = \<lparr>roSpec = sampleKeycloak, roAdminPassword = ''p'', roTrinoSecret = ''t'', roOperatorSecret = ''o'',
     roOpaSecret = ''q'', roSigningKey = ''k'', roSigningCertificate = ''c'', roLakekeeperNamespace = ''lakekeeper'',
     roLakekeeperPublicURL = [], roTrinoPublicURL = []\<rparr>"



theorem loadPolicies_keys_witness:
  "fmlookup (case loadPolicies memLib opaPolicyDirs fmempty of Inl _ \<Rightarrow> fmempty | Inr m \<Rightarrow> m) ''trino.rego'' \<noteq> None"
proof -
  have "\<exists>m. loadPolicies memLib opaPolicyDirs fmempty = Inr m"
    by (simp add: opaPolicyDirs_def memLib_def)
  then obtain m where m: "loadPolicies memLib opaPolicyDirs fmempty = Inr m" by blast
  have "''trino.rego'' = pathBase ''embed/rowfilters/trino.rego''" "HasSuffix ''embed/rowfilters/trino.rego'' ''.rego''"
    by (simp_all add: pathBase_def TrimRight_def HasSuffix_def)
  moreover have "lPolicyWalk memLib ''embed/rowfilters'' = Inr [(''embed/rowfilters'', True),
      (''embed/rowfilters/trino.rego'', False), (''embed/rowfilters/README.md'', False)]"
    by (simp add: memLib_def)
  moreover have "''embed/rowfilters'' \<in> set opaPolicyDirs" by (simp add: opaPolicyDirs_def)
  ultimately have "fmlookup m ''trino.rego'' \<noteq> None"
    unfolding loadPolicies_keys [OF m] by (metis list.set_intros)
  with m show ?thesis by simp
qed

section \<open>Trino\<close>


theorem trinoCatalogData_any_order_witness:
  "fmlookup (fst (trinoCatalogParts trinoOnly zeroObjectStore zeroOIDC [''jmx'', ''tpch''])) ''tpch.properties''
     = Some ''connector.name=tpch''"
  using trinoCatalogData_any_order [of "[''jmx'', ''tpch'']" trinoOnly zeroObjectStore zeroOIDC "''tpch''"]
  by (auto simp: trinoOnly_def samplePlatform_def sampleTrino_def)

theorem trinoCatalogHash_order_dependent_witness:
  "hashInput (snd (trinoCatalogParts trinoOnly zeroObjectStore zeroOIDC [''tpch'', ''jmx''])) \<noteq>
   hashInput (snd (trinoCatalogParts trinoOnly zeroObjectStore zeroOIDC [''jmx'', ''tpch'']))"
  using trinoCatalogHash_order_dependent [of trinoOnly "''tpch''" "''connector.name=tpch''" "''jmx''"
      "''connector.name=jmx''" zeroObjectStore zeroOIDC]
  by (simp add: trinoOnly_def samplePlatform_def sampleTrino_def sampleLakekeeper_def enabled_defs)


section \<open>The loop\<close>

theorem reconcile_ready_sound_witness:
  "hoare (\<lambda>_. True) (reconcile memReconciler samplePlatform)
     (\<lambda>res s. T memReconciler s ConditionReady \<longrightarrow> rsRequeueAfter res = 0 \<and> T memReconciler s ConditionAuthReady)
     (\<lambda>e s. reported samplePlatform ConditionReady e (snd s))"
  by (rule hoare_weaken, rule reconcile_ready_sound)
    (auto simp: readyConditions_def samplePlatform_def sampleLakekeeper_def enabled_defs)

theorem management_api_gated_witness:
  "hoare (\<lambda>s. ''bootstrap'' \<notin> set (mwLog (fst s))) (reconcile memReconciler samplePlatform)
     (\<lambda>_ s. ''bootstrap'' \<notin> set (mwLog (fst s)) \<or> platformReady memReconciler s)
     (\<lambda>_ s. ''bootstrap'' \<notin> set (mwLog (fst s)) \<or> platformReady memReconciler s)"
  by (rule management_api_gated) (simp_all add: mem_client_keeps [of "\<lambda>l. ''bootstrap'' \<notin> set l"])


theorem components_report_witness:
  "reports samplePlatform ConditionPostgresReady (reconcilePostgres memReconciler samplePlatform)
     (\<lambda>_ s. settled samplePlatform ConditionPostgresReady (snd s))"
  using components_report [of memReconciler samplePlatform] by simp

theorem components_leave_others_witness:
  "frame ConditionTrinoReady None (reconcilePostgres memReconciler samplePlatform)"
  using components_leave_others [of memReconciler ConditionTrinoReady] by simp

theorem disabled_lakekeeper_stale_auth_witness:
  "frame ConditionAuthReady None (reconcile memReconciler trinoOnly)"
  by (rule disabled_lakekeeper_stale_auth)
    (simp_all add: trinoOnly_def samplePlatform_def sampleLakekeeper_def enabled_defs)

text \<open>With both stacks disabled the written status is Ready.\<close>

theorem Reconcile_writes_status_witness:
  "\<exists>st w'. Reconcile memReconciler ''demo'' (emptyMem\<lparr>mwPlatform := Some (allOff, emptyStatus)\<rparr>)
       = Some (Inr \<lparr>rsRequeueAfter = 0\<rparr>, w') \<and>
     mwPlatform w' = Some (allOff, st) \<and> conditionTrue memReconciler ConditionReady st"
proof -
  let ?w = "emptyMem\<lparr>mwPlatform := Some (allOff, emptyStatus)\<rparr>"
  have read: "kGetDataPlatform memClient n ?w = Some (Inr (allOff, emptyStatus), ?w)" for n
    by (simp add: memClient_def)
  have off: "\<not> LakekeeperSpec_IsEnabled (spLakekeeper (dpSpec allOff))" "\<not> TrinoSpec_IsEnabled (spTrino (dpSpec allOff))"
    by (simp_all add: allOff_def trinoOnly_def samplePlatform_def sampleLakekeeper_def sampleTrino_def enabled_defs)
  have "\<exists>st. reconcile memReconciler allOff (?w, emptyStatus) = Some (Inr \<lparr>rsRequeueAfter = 0\<rparr>, (?w, st)) \<and>
      conditionTrue memReconciler ConditionReady st"
    using off by (simp add: reconcile_def stage_def reconcileLakekeeperStack_def disabledLakekeeperStack_def
        reconcileTrinoStack_def setCondition_run run_simps conditionTrue_def memLib_def findCondition_def Let_def)
  then obtain st where st: "reconcile memReconciler allOff (?w, emptyStatus) = Some (Inr \<lparr>rsRequeueAfter = 0\<rparr>, (?w, st))"
    and ready: "conditionTrue memReconciler ConditionReady st" by blast
  show ?thesis
    using Reconcile_writes_status [of memReconciler "''demo''" ?w, OF _ st, of allOff emptyStatus ?w] read ready
    by (simp add: memClient_def)
qed

section \<open>Secrets and workloads\<close>

lemma mem_secret_calls_ok: "secret_calls_ok mwCluster memReconciler"
  by (simp add: secret_calls_ok_def host_keeps_def memSys_def keeps_ret)

theorem generated_secrets_kept_witness:
  "keeps (stored mwCluster ''minio'' ''minio'' (newSecret ''minio'' ''minio''))
     (ensureMinioSecret memReconciler samplePlatform ''minio'')"
  using generated_secrets_kept [OF mem_secret_calls_ok] by blast

theorem ensureGeneratedSecret_effect_witness:
  "hoare (\<lambda>s. mwCluster (fst s) = emptyCluster)
     (ensureGeneratedSecret memReconciler samplePlatform ''minio'' ''minio'' componentMinio fmempty)
     (\<lambda>_ s. clSecrets (mwCluster (fst s)) ''minio'' ''minio'' \<noteq> None) (\<lambda>_ s. mwCluster (fst s) = emptyCluster)"
  by (rule hoare_weaken, rule ensureGeneratedSecret_effect [where view = mwCluster])
    (auto simp: memLib_def emptyCluster_def)

theorem immutable_fields_kept_witness:
  "same_dep (mutateOPADeployment samplePlatform zeroOIDC zeroOpenFGA
     ((newDeployment nameOPA ''openfga'')\<lparr>depMeta := (newMeta nameOPA ''openfga'')\<lparr>omCreated := True\<rparr>\<rparr>))
     ((newDeployment nameOPA ''openfga'')\<lparr>depMeta := (newMeta nameOPA ''openfga'')\<lparr>omCreated := True\<rparr>\<rparr>)"
  using immutable_fields_kept
    [of "(newStatefulSet namePostgres ''openfga'')\<lparr>stsMeta := (newMeta namePostgres ''openfga'')\<lparr>omCreated := True\<rparr>\<rparr>"
      "(newDeployment nameOPA ''openfga'')\<lparr>depMeta := (newMeta nameOPA ''openfga'')\<lparr>omCreated := True\<rparr>\<rparr>"]
  by simp

theorem pods_restricted_witness:
  "restricted_pod (ptSpec (stsTemplate (mutateMinioStatefulSet samplePlatform sampleMinio ''20Gi''
     (newStatefulSet nameMinio ''minio''))))"
  using pods_restricted [of "newStatefulSet nameMinio ''minio''" "newDeployment nameOPA ''openfga''"]
  by (simp add: newStatefulSet_def newDeployment_def zeroPodTemplate_def zeroPodSpec_def)

end
