(* ===== verification/Scenarios.thy ===== *)
theory Scenarios
  imports Pods History Refine Live Manager Decode JsonRead Witnesses
begin

text \<open>
  More properties applied where their hypotheses hold: to the environment of the theory Memory, to a
  cluster in which everything is up, and to a manager that logs how it is put together.
\<close>

section \<open>Documents, pods and Secrets\<close>


lemma mem_owner_ok [simp]: "owner_ok memLib"
  by (auto simp: owner_ok_def memLib_def)


section \<open>A history\<close>

text \<open>The cluster in memory, where a Secret can be read only if it is stored under its own name.\<close>

definition namedClient :: "mem kube_client" where
  "namedClient = memClient\<lparr>kGetSecret := \<lambda>n ns w. (case clSecrets (mwCluster w) n ns of
       None \<Rightarrow> Some (Inl (NotFound ''not found''), w)
     | Some x \<Rightarrow> if omName (secMeta x) = n \<and> omNamespace (secMeta x) = ns then Some (Inr x, w)
         else Some (Inl (OtherErr ''corrupt''), w))\<rparr>"

definition namedReconciler :: "mem reconciler" where
  "namedReconciler = memReconciler\<lparr>rClient := namedClient\<rparr>"

lemma namedReconciler_sel [simp]:
  "rClient namedReconciler = namedClient" "rCatalog namedReconciler = Some memCatalog"
  "rLib namedReconciler = memLib" "rSys namedReconciler = memSys"
  by (simp_all add: namedReconciler_def)

lemma named_client_sel:
  "kCreateSecret namedClient = kCreateSecret memClient" "kCouSecret namedClient = kCouSecret memClient"
  "kUpdateSecret namedClient = kUpdateSecret memClient" "kGetDataPlatform namedClient = kGetDataPlatform memClient"
  "kGetNamespace namedClient = kGetNamespace memClient" "kGetDeployment namedClient = kGetDeployment memClient"
  "kGetStatefulSet namedClient = kGetStatefulSet memClient" "kGetJob namedClient = kGetJob memClient"
  "kCreateNamespace namedClient = kCreateNamespace memClient" "kDeleteConfigMap namedClient = kDeleteConfigMap memClient"
  "kDeleteDeployment namedClient = kDeleteDeployment memClient" "kDeleteJob namedClient = kDeleteJob memClient"
  "kCouService namedClient = kCouService memClient" "kCouConfigMap namedClient = kCouConfigMap memClient"
  "kCouDeployment namedClient = kCouDeployment memClient" "kCouStatefulSet namedClient = kCouStatefulSet memClient"
  "kCouJob namedClient = kCouJob memClient" "kUpdateStatus namedClient = kUpdateStatus memClient"
  by (simp_all add: namedClient_def)

lemma named_secret_calls: "secret_calls_ok mwCluster namedReconciler"
proof -
  have "get_secret_ok mwCluster namedClient"
    by (auto simp: get_secret_ok_def reads_ok_def namedClient_def split: option.splits if_splits)
  moreover have "create_secret_ok mwCluster namedClient"
    using mem_create_secret_ok unfolding create_secret_ok_def named_client_sel .
  moreover have "host_keeps mwCluster memSys" using mem_secret_calls_ok by (simp add: secret_calls_ok_def)
  ultimately show ?thesis by (simp add: secret_calls_ok_def)
qed

lemma keeps_mem_secrets:
  "keeps (\<lambda>w. clSecrets (mwCluster w) = v) (memRead look)"
  "(\<And>c. clSecrets (f c) = clSecrets c) \<Longrightarrow> keeps (\<lambda>w. clSecrets (mwCluster w) = v) (memWrite f)"
  "(\<And>y c. clSecrets (put y c) = clSecrets c) \<Longrightarrow> keeps (\<lambda>w. clSecrets (mwCluster w) = v) (memCou look put x g)"
  "keeps (\<lambda>w. clSecrets (mwCluster w) = v) (memCall what z)"
  by (auto simp: keeps_def memRead_def memWrite_def memCou_def memCall_def logged_def split: option.splits sum.splits)

lemma named_cluster_ok: "cluster_ok mwCluster namedReconciler"
proof -
  have "cou_secret_ok mwCluster namedClient"
    using mem_cou_secret_ok unfolding cou_secret_ok_def named_client_sel .
  moreover have "update_secret_ok mwCluster namedClient"
    by (auto simp: update_secret_ok_def named_client_sel memClient_def memWrite_def)
  moreover have "named_ok namedClient"
    by (auto simp: named_ok_def namedClient_def split: option.splits if_splits)
  moreover have "others_keep (\<lambda>w. clSecrets (mwCluster w) = v) namedReconciler" for v
  proof -
    have "keeps (\<lambda>w. clSecrets (mwCluster w) = v) (kGetDataPlatform memClient n)"
      "keeps (\<lambda>w. clSecrets (mwCluster w) = v) (kUpdateStatus memClient p)" for n p
      by (auto simp: keeps_def memClient_def split: option.splits)
    then show ?thesis
      by (simp add: others_keep_def namedClient_def memClient_def memSys_def memCatalog_def keeps_mem_secrets)
  qed
  ultimately show ?thesis using named_secret_calls by (simp add: cluster_ok_def)
qed

lemma returnsD: "returns m \<Longrightarrow> \<exists>q s'. m s = Some (q, s')"
  by (simp add: returns_def)

lemma named_calls_return: "calls_return namedReconciler"
proof -
  have get: "\<forall>n ns. returns (kGetSecret namedClient n ns)"
    by (auto simp: returns_def namedClient_def split: option.splits)
  show ?thesis
    using mem_calls_return get unfolding calls_return_def Let_def memReconciler_sel namedReconciler_sel named_client_sel
    by (elim conjE) (intro conjI; assumption)
qed

definition adminSecret :: secret where
  "adminSecret = (newSecret secretKeycloakAdmin ''keycloak'')\<lparr>secData :=
     fmap_of_list [(keyKeycloakAdminPassword, ''pw'')]\<rparr>"

definition startedMem :: mem where
  "startedMem = emptyMem\<lparr>mwPlatform := Some (samplePlatform, emptyStatus),
     mwCluster := emptyCluster\<lparr>clSecrets := put2 secretKeycloakAdmin ''keycloak'' (Some adminSecret) (\<lambda>_ _. None)\<rparr>\<rparr>"

text \<open>One reconcile of the whole platform, then somebody removes every Service.\<close>

theorem credentials_survive_witness:
  "\<exists>x. clSecrets ((mwCluster (snd (the (Reconcile namedReconciler ''demo'' startedMem))))\<lparr>clServices := \<lambda>_ _. None\<rparr>)
       secretKeycloakAdmin ''keycloak'' = Some x \<and> fmlookup (secData x) keyKeycloakAdminPassword = Some ''pw''"
proof -
  obtain q w1 where run: "Reconcile namedReconciler ''demo'' startedMem = Some (q, w1)"
    using returnsD [OF returns_Reconcile [OF named_calls_return]] by blast
  let ?env = "\<lambda>a b. b = a\<lparr>mwCluster := (mwCluster a)\<lparr>clServices := \<lambda>_ _. None\<rparr>\<rparr>"
  let ?w2 = "w1\<lparr>mwCluster := (mwCluster w1)\<lparr>clServices := \<lambda>_ _. None\<rparr>\<rparr>"
  have h: "history namedReconciler ?env startedMem ?w2"
    by (rule history.more [OF history.more [OF history.start world_step.reconciled [OF run]] world_step.outside]) simp
  have d: "never_derived namedReconciler secretKeycloakAdmin ''keycloak''"
    by (simp add: never_derived_def derived_def)
  have "\<exists>x. clSecrets (mwCluster ?w2) secretKeycloakAdmin ''keycloak'' = Some x \<and>
      fmlookup (secData x) keyKeycloakAdminPassword = Some ''pw''"
    by (rule credentials_survive [OF named_cluster_ok d _ h])
      (auto simp: startedMem_def adminSecret_def fmlookup_of_list)
  then show ?thesis using run by simp
qed

section \<open>The abstract machine\<close>

theorem reconcile_refines_witness:
  "spec_reconcile samplePlatform (conds emptyStatus)
     (conds (snd (snd (the (reconcile memReconciler samplePlatform (emptyMem, emptyStatus))))))
     (fst (the (reconcile memReconciler samplePlatform (emptyMem, emptyStatus))))"
proof -
  obtain q w st where run: "reconcile memReconciler samplePlatform (emptyMem, emptyStatus) = Some (q, (w, st))"
    using returnsD [OF returns_reconcile [OF mem_calls_return]] by (metis surj_pair)
  have "conditions_ok (rLib memReconciler)" by simp
  from reconcile_refines [OF this run] show ?thesis by (simp add: run)
qed

section \<open>A platform that is up\<close>

text \<open>Every object exists and every workload runs; a write is accepted when its mutation succeeds.\<close>

definition upSecret :: secret where
  "upSecret = (newSecret [] [])\<lparr>secData := fmap_of_list (map (\<lambda>k. (k, ''x'')) [keyS3Access, keyS3Secret,
     keyRealmPrivateKey, keyRealmCertificate, keyKeycloakAdminPassword, keyOIDCClientID, keyOIDCTrinoClientID,
     keyOIDCTrinoClientSecret, keyOIDCOperatorClientID, keyOIDCOperatorSecret, keyOIDCOpaClientID,
     keyOIDCOpaClientSecret, keyOpenFGAAPIKey, keyPostgresPassword, keyTrinoSharedSecret])\<rparr>"

definition upWrite :: "'o \<Rightarrow> ('o \<Rightarrow> err + 'o) \<Rightarrow> (mem, unit) go" where
  "upWrite x f = (case f x of Inl e \<Rightarrow> fail e | Inr _ \<Rightarrow> ret ())"

definition upClient :: "mem kube_client" where
  "upClient = memClient\<lparr>
     kGetNamespace := \<lambda>n. ret \<lparr>nsMeta = newMeta n []\<rparr>,
     kGetSecret := \<lambda>n ns. ret (upSecret\<lparr>secMeta := newMeta n ns\<rparr>),
     kGetDeployment := \<lambda>n ns. ret ((newDeployment n ns)\<lparr>depReadyReplicas := 1\<rparr>),
     kGetStatefulSet := \<lambda>n ns. ret ((newStatefulSet n ns)\<lparr>stsReadyReplicas := 1\<rparr>),
     kGetJob := \<lambda>n ns. ret ((minioBucketJob samplePlatform ns sampleMinio)\<lparr>jobConditions :=
       [\<lparr>jcType = ''Complete'', jcStatus = ''True''\<rparr>]\<rparr>),
     kCouService := upWrite, kCouSecret := upWrite, kCouConfigMap := upWrite, kCouDeployment := upWrite,
     kCouStatefulSet := upWrite\<rparr>"

definition upReconciler :: "mem reconciler" where
  "upReconciler = memReconciler\<lparr>rClient := upClient\<rparr>"

lemma works_ret: "V x \<Longrightarrow> works I (ret x) V"
  by (simp add: works_def goes_def ret_def)

lemma works_upWrite: "(\<And>y. \<exists>z. f y = Inr z) \<Longrightarrow> works (\<lambda>_. True) (upWrite x f) (\<lambda>_. True)"
  by (simp add: works_def goes_def upWrite_def ret_def split: sum.split) (metis sum.distinct(1))

lemma up_secret_keys:
  assumes "(n, ns, ks) \<in> set (settledSecrets dp)" and "k \<in> set ks"
  shows "fmlookup (secData upSecret) k \<noteq> None"
  using assms unfolding settledSecrets_def
  by (auto simp: upSecret_def fmlookup_of_list split: if_splits)

lemma up_kube_healthy: "kube_healthy (\<lambda>_. True) upClient samplePlatform"
  unfolding kube_healthy_def
proof (intro conjI)
  show "\<forall>(n, ns, ks) \<in> set (settledSecrets samplePlatform). works (\<lambda>_. True) (kGetSecret upClient n ns)
      (\<lambda>s. \<forall>key \<in> set ks. fmlookup (secData s) key \<noteq> None)"
    by (auto simp: upClient_def intro!: works_ret dest: up_secret_keys)
  show "\<forall>n ns. works (\<lambda>_. True) (kDeleteDeployment upClient n ns) (\<lambda>_. True)"
    "\<forall>n ns. works (\<lambda>_. True) (handleE (kDeleteConfigMap upClient n ns) ret) (\<lambda>_. True)"
    by (simp_all add: upClient_def memClient_def memWrite_def works_def goes_def handleE_def ret_def)
  show "\<forall>ns. works (\<lambda>_. True) (handleE (kGetDeployment upClient nameTrinoWorker ns) ret)
      (\<lambda>q. \<forall>e. q = Inl e \<longrightarrow> IsNotFound e)"
    by (simp add: upClient_def works_def goes_def handleE_def ret_def)
qed (auto simp: upClient_def minioBucketJob_def newMeta_def jobSucceeded_def Let_def intro!: works_ret works_upWrite)

lemma up_healthy: "healthy (\<lambda>_. True) upReconciler samplePlatform"
proof -
  have "host_healthy (\<lambda>_. True) memSys"
    by (simp add: host_healthy_def memSys_def works_ret)
  moreover have "lib_healthy memLib samplePlatform"
    unfolding lib_healthy_def by (simp add: opaPolicyDirs_def) (simp add: memLib_def)
  moreover have "catalog_healthy (\<lambda>_. True) upReconciler"
    by (simp add: catalog_healthy_def upReconciler_def memCatalog_def memCall_def works_def goes_def
        tokenAnswer_def parseAccessToken_def memLib_def)
  ultimately show ?thesis
    using up_kube_healthy by (simp add: healthy_def) (simp add: upReconciler_def)
qed


section \<open>A manager that logs\<close>

definition logStep :: "string \<Rightarrow> (string list, unit) go" where
  "logStep what = (\<lambda>w. Some (Inr (), what # w))"

definition logRuntime :: "(string list, unit, unit, unit, unit) runtime" where
  "logRuntime = \<lparr>rtAddToScheme = \<lambda>_. True, rtExtFlags = \<lambda>n. if n = ''zap-devel'' then Some (True, \<lambda>_. True) else None,
     rtGetConfig = \<lambda>_. ret (), rtNewManager = \<lambda>_ _. ret (), rtManagerConfig = id, rtNewForConfig = Inr,
     rtRESTClient = id, rtComplete = \<lambda>_ spec _. logStep (csFor spec), rtAddHealthzCheck = \<lambda>_. logStep,
     rtAddReadyzCheck = \<lambda>_. logStep, rtStart = \<lambda>_. logStep ''started''\<rparr>"

text \<open>A manager that refuses to start unless it is complete.\<close>

definition strictStart :: "unit \<Rightarrow> (string list, unit) go" where
  "strictStart m = (\<lambda>w. if {''DataPlatform'', ''healthz'', ''readyz''} \<subseteq> set w then logStep ''started'' w
     else Some (Inl (OtherErr ''incomplete''), w))"

theorem main_starts_complete_manager_witness:
  "main (logRuntime\<lparr>rtStart := strictStart\<rparr>) [''--leader-elect'', ''-zap-devel''] [] =
     Some (ExitStatus 0, [''started'', ''readyz'', ''healthz'', ''DataPlatform''])"
proof -
  have "main (logRuntime\<lparr>rtStart := strictStart\<rparr>) [''--leader-elect'', ''-zap-devel''] [] =
      main logRuntime [''--leader-elect'', ''-zap-devel''] []"
    by (rule main_starts_complete_manager [where controller = "\<lambda>_ w. ''DataPlatform'' \<in> set w"
          and healthz = "\<lambda>_ w. ''healthz'' \<in> set w" and readyz = "\<lambda>_ w. ''readyz'' \<in> set w"])
      (auto simp: hoare_def logRuntime_def logStep_def controllerSpec_def strictStart_def)
  also have "\<dots> = Some (ExitStatus 0, [''started'', ''readyz'', ''healthz'', ''DataPlatform''])"
    by code_simp
  finally show ?thesis .
qed

theorem servers_hardened_witness:
  "offeredProtocols (meTLSOpts (moMetrics (managerOptions schemeGroups
     (case parseFlags (\<lambda>_. None) defaultFlags [''--metrics-bind-address'', '':8443''] of
        Inl _ \<Rightarrow> defaultFlags | Inr fl \<Rightarrow> fl)))) \<lparr>tlNextProtos = [''h2'']\<rparr> = [''http/1.1'']"
proof -
  let ?args = "[''--metrics-bind-address'', '':8443'']"
  have fl: "parseFlags (\<lambda>_. None) defaultFlags ?args = Inr (defaultFlags\<lparr>mfMetricsAddr := '':8443''\<rparr>)"
    by code_simp
  have "not_named ''enable-http2'' ?args" by (simp add: not_named_def namesFlag_def)
  with servers_hardened [OF fl, of schemeGroups "\<lparr>tlNextProtos = [''h2'']\<rparr>"] fl show ?thesis by simp
qed

end
