(* ===== verification/StoreScenario.thy ===== *)
theory StoreScenario
  imports StoreServer Witnesses
begin

text \<open>
  A concrete OpenFGA for the theory StoreServer: it keeps the contract, and the refinement is applied to it.
\<close>

section \<open>A server of stores\<close>

text \<open>
  OpenFGA with one deleted store. Its world is how far it has come: 0 at first, 1 with the operator's store,
  2 with its model; 3 and 4 are the same store with an outdated model and with a new one. The listing has
  two pages, told apart by the continuation token. A body is a number that says which document it is, and
  the document has that many characters.
\<close>

definition oldModel :: authz_model where
  "oldModel = authzModelJSON []"

definition newModel :: authz_model where
  "newModel = authzModelJSON sampleTypes"

definition serverModels :: "nat \<Rightarrow> authz_model list" where
  "serverModels n = (if n = 2 then [newModel] else if n = 3 then [oldModel] else if n = 4 then [newModel, oldModel] else [])"

definition serverView :: "nat \<Rightarrow> fga_store list" where
  "serverView n = \<lparr>fsID = ''S0'', fsName = ''rowfilters'', fsDeletedAt = ''2024'', fsModels = []\<rparr> #
     (if n = 0 then [] else [\<lparr>fsID = ''S1'', fsName = ''rowfilters'', fsDeletedAt = [], fsModels = serverModels n\<rparr>])"

definition serverRequest :: authz_store_request where
  "serverRequest = \<lparr>asStore = ''rowfilters'', asTypes = sampleTypes\<rparr>"

text \<open>The document and the next world.\<close>

definition serverAnswer :: "http_method \<Rightarrow> string \<Rightarrow> nat \<Rightarrow> nat \<times> nat" where
  "serverAnswer m url n =
     (if m = MethodPost then (if n = 0 then (2, 1) else if n = 1 then (6, 2) else (6, 4))
      else if HasSuffix url ''stores/S1/authorization-models?page_size=1''
        then (if n = 2 \<or> n = 4 then 4 else if n = 3 then 5 else 3, n)
      else if HasSuffix url ''stores/S0/authorization-models?page_size=1'' then (3, n)
      else if HasSuffix url ''stores?page_size=100'' then (0, n)
      else (if n = 0 then 7 else 1, n))"

definition serverDo :: "http_request \<Rightarrow> (nat, http_response) go" where
  "serverDo rq n = Some (Inr \<lparr>rsStatusCode = 200, rsBody = fst (serverAnswer (rqMethod rq) (rqURL rq) n)\<rparr>,
     snd (serverAnswer (rqMethod rq) (rqURL rq) n))"

definition serverDoc :: "nat \<Rightarrow> string" where
  "serverDoc b = replicate b (CHR ''x'')"

definition readStores :: "string \<Rightarrow> listed_store list \<times> string" where
  "readStores d =
     (if length d = 0 then ([\<lparr>lsID = ''S0'', lsName = ''rowfilters'', lsDeletedAt = ''2024''\<rparr>], ''t'')
      else if length d = 1 then ([\<lparr>lsID = ''S1'', lsName = ''rowfilters'', lsDeletedAt = []\<rparr>], [])
      else ([], []))"

definition readModels :: "string \<Rightarrow> authz_model list" where
  "readModels d = (if length d = 4 then [newModel] else if length d = 5 then [oldModel] else [])"

definition serverProxy :: "nat proxy" where
  "serverProxy = \<lparr>
     pxStat = \<lambda>_. ret (),
     pxGetService = \<lambda>ns n. ret (newService n ns),
     pxListPods = \<lambda>_ _. ret [],
     pxLabelsString = \<lambda>_. [],
     pxRoundTripperFor = ret (),
     pxNewForwarder = \<lambda>_ _ _. ret 0,
     pxSelect = \<lambda>_. ret ReadyCh,
     pxGetPorts = \<lambda>_. ret [],
     pxCloseStop = \<lambda>_. ret (),
     pxNewRequest = \<lambda>m url body. Inr \<lparr>rqMethod = m, rqURL = url, rqHeader = fmempty, rqBody = body\<rparr>,
     pxHttpDo = serverDo,
     pxDefaultDo = serverDo,
     pxReadAll = \<lambda>b. ret (serverDoc b),
     pxBodyClose = \<lambda>_. ret (),
     pxRestPost = \<lambda>_ _ _ _. ret (500, None, None),
     pxUnmarshalWarehouses = \<lambda>_. Inr [],
     pxUnmarshalStores = \<lambda>d. Inr (readStores d),
     pxUnmarshalID = \<lambda>_. Inr ''S1'',
     pxUnmarshalModels = \<lambda>d. Inr (readModels d)\<rparr>"

lemma server_fields:
  "pxStat serverProxy = (\<lambda>_. ret ())"
  "pxNewRequest serverProxy m url body = Inr \<lparr>rqMethod = m, rqURL = url, rqHeader = fmempty, rqBody = body\<rparr>"
  "pxHttpDo serverProxy = serverDo" "pxReadAll serverProxy = (\<lambda>b. ret (serverDoc b))"
  "pxBodyClose serverProxy = (\<lambda>_. ret ())" "pxUnmarshalStores serverProxy = (\<lambda>d. Inr (readStores d))"
  "pxUnmarshalID serverProxy = (\<lambda>_. Inr ''S1'')" "pxUnmarshalModels serverProxy = (\<lambda>d. Inr (readModels d))"
  by (simp_all add: serverProxy_def)

definition serverURL :: "string \<Rightarrow> string" where
  "serverURL p = trimSlash (''http://'' @ ''openfga'' @ ''.'' @ ''openfga'' @ ''.svc:'' @ Itoa 8080) @ ''/'' @ p"

lemma serverAnswer_small: "fst (serverAnswer m url n) \<le> 7"
  by (simp add: serverAnswer_def)

lemma serverDoc_short: "take (2 ^ 20) (serverDoc (fst (serverAnswer m url n))) = serverDoc (fst (serverAnswer m url n))"
  by (rule take_all) (use serverAnswer_small [of m url n] in \<open>simp add: serverDoc_def\<close>)

lemma serverBase:
  "serviceBaseURL serverProxy ''openfga'' ''openfga'' 8080 =
     ret (''http://'' @ ''openfga'' @ ''.'' @ ''openfga'' @ ''.svc:'' @ Itoa 8080, ret ())"
  by (simp add: serviceBaseURL_def runningInCluster_def server_fields run_simps fun_eq_iff del: append.simps)

lemma do_request_server:
  "do_request serverProxy m ''openfga'' ''openfga'' 8080 p k payload n =
     Some (Inr (200, serverDoc (fst (serverAnswer m (serverURL p) n))), snd (serverAnswer m (serverURL p) n))"
  unfolding do_request_def serverBase sendRequest_def readBody_def deferE_def serverURL_def [symmetric]
  by (simp only: run_simps bindE_ret server_fields Let_def prod.case serverURL_def [symmetric] serverDo_def
      http_request.select_convs http_request.simps http_response.select_convs option.case sum.case serverDoc_short)

lemma storesQuery_pages:
  "storesQuery [] = ''stores?page_size=100''" "storesQuery ''t'' = ''stores?continuation_token=t&page_size=100''"
  by code_simp+

text \<open>The addresses the server tells apart, by what each ends with.\<close>

lemma suffix_own: "HasSuffix (serverURL p) p"
  by (simp add: HasSuffix_def serverURL_def hasPrefix_append del: append.simps)

lemma suffix_other:
  "\<not> HasSuffix (serverURL ''stores/S0/authorization-models?page_size=1'') ''stores/S1/authorization-models?page_size=1''"
  "\<not> HasSuffix (serverURL ''stores?page_size=100'') ''stores/S1/authorization-models?page_size=1''"
  "\<not> HasSuffix (serverURL ''stores?page_size=100'') ''stores/S0/authorization-models?page_size=1''"
  "\<not> HasSuffix (serverURL ''stores?continuation_token=t&page_size=100'') ''stores?page_size=100''"
  "\<not> HasSuffix (serverURL ''stores?continuation_token=t&page_size=100'') ''stores/S1/authorization-models?page_size=1''"
  "\<not> HasSuffix (serverURL ''stores?continuation_token=t&page_size=100'') ''stores/S0/authorization-models?page_size=1''"
  by (simp_all add: HasSuffix_def serverURL_def)

lemma server_answers:
  "serverAnswer MethodGet (serverURL ''stores/S1/authorization-models?page_size=1'') n =
     (if n = 2 \<or> n = 4 then 4 else if n = 3 then 5 else 3, n)"
  "serverAnswer MethodGet (serverURL ''stores/S0/authorization-models?page_size=1'') n = (3, n)"
  "serverAnswer MethodGet (serverURL ''stores?page_size=100'') n = (0, n)"
  "serverAnswer MethodGet (serverURL ''stores?continuation_token=t&page_size=100'') n = (if n = 0 then 7 else 1, n)"
  by (simp_all only: serverAnswer_def suffix_own suffix_other if_True if_False http_method.simps)

lemma server_gets: "snd (serverAnswer MethodGet url n) = n"
  by (simp add: serverAnswer_def)

lemma server_posts: "serverAnswer MethodPost url n = (if n = 0 then (2, 1) else if n = 1 then (6, 2) else (6, 4))"
  by (simp add: serverAnswer_def)

lemma storesPage_server:
  "storesPage serverProxy ''openfga'' ''openfga'' 8080 k token n = Some (Inr (readStores
     (serverDoc (fst (serverAnswer MethodGet (serverURL (storesQuery token)) n)))), n)"
  unfolding storesPage_def
  by (simp add: run_simps do_request_server server_gets server_fields isSuccess_def)

section \<open>The contract\<close>

abbreviation oldStore :: fga_store where
  "oldStore \<equiv> \<lparr>fsID = ''S0'', fsName = ''rowfilters'', fsDeletedAt = ''2024'', fsModels = []\<rparr>"

abbreviation ownStore :: "nat \<Rightarrow> fga_store" where
  "ownStore n \<equiv> \<lparr>fsID = ''S1'', fsName = ''rowfilters'', fsDeletedAt = [], fsModels = serverModels n\<rparr>"

lemma serverView_alt: "serverView n = oldStore # (if n = 0 then [] else [ownStore n])"
  by (simp add: serverView_def)

lemma server_proper: "proper (serverView n)"
  by (simp add: proper_def serverView_def)

lemma readStores_doc: "readStores (serverDoc b) = (if b = 0 then ([listed oldStore], ''t'')
    else if b = 1 then ([listed (ownStore n)], []) else ([], []))"
  by (simp add: readStores_def serverDoc_def listed_def)

lemma readModels_doc:
  "readModels (serverDoc b) = (if b = 4 then [newModel] else if b = 5 then [oldModel] else [])"
  by (simp add: readModels_def serverDoc_def)

lemma server_pages:
  "pagesFrom serverProxy ''openfga'' ''openfga'' 8080 k []
     [([listed oldStore], ''t''), (if n = 0 then [] else [listed (ownStore n)], [])] n"
  unfolding pagesFrom.simps storesPage_server storesQuery_pages server_answers readStores_doc [where n = n]
  by (simp add: storesPage_server storesQuery_pages server_answers readStores_doc [where n = n] del: append.simps)

lemma server_listing_keeps: "keeps I (storesPage serverProxy ''openfga'' ''openfga'' 8080 k token)"
  by (rule keepsI) (simp add: storesPage_server)

lemma server_store: "find (live (asStore serverRequest)) (serverView n) = (if n = 0 then None else Some (ownStore n))"
  by (simp add: serverView_def live_def serverRequest_def)

lemma server_matches:
  "authzModelMatches (latest (ownStore n)) (authzModelJSON (asTypes serverRequest)) = (n = 2 \<or> n = 4)"
proof -
  have "\<not> authzModelMatches (Some oldModel) newModel"
  proof
    assume "authzModelMatches (Some oldModel) newModel"
    then have "fmlookup (authzModelShape oldModel) ''region'' = fmlookup (authzModelShape newModel) ''region''"
      by (simp add: authzModelMatches_def)
    then show False
      by (simp add: oldModel_def newModel_def shape_authzModelJSON relationsOf_def sampleTypes_def)
  qed
  then show ?thesis
    by (simp add: latest_def serverModels_def serverRequest_def newModel_def [symmetric])
      (simp add: authzModelMatches_def)
qed

lemma success_200: "isSuccess 200"
  by (simp add: isSuccess_def)

lemma server_creates:
  assumes "find (live (asStore serverRequest)) (serverView n) = None"
  shows "\<exists>status body i n'.
     do_request serverProxy MethodPost ''openfga'' ''openfga'' 8080 ''stores'' k payload n = Some (Inr (status, body), n') \<and>
     isSuccess status \<and> pxUnmarshalID serverProxy body = Inr i \<and> i \<noteq> [] \<and> i \<notin> set (map fsID (serverView n)) \<and>
     n' \<le> 4 \<and> serverView n' = serverView n @
       [\<lparr>fsID = i, fsName = asStore serverRequest, fsDeletedAt = [], fsModels = []\<rparr>]"
proof -
  have "n = 0" using assms by (simp add: server_store split: if_splits)
  then show ?thesis
    by (simp add: do_request_server server_posts server_fields success_200)
      (simp add: serverView_def serverModels_def serverRequest_def)
qed

lemma server_reads:
  assumes "n \<le> 4" and "s \<in> set (serverView n)"
  shows "\<exists>status body n'. do_request serverProxy MethodGet ''openfga'' ''openfga'' 8080
       (''stores/'' @ fsID s @ ''/authorization-models?page_size=1'') k None n = Some (Inr (status, body), n') \<and>
     isSuccess status \<and> pxUnmarshalModels serverProxy body = Inr (take 1 (fsModels s)) \<and> n' \<le> 4 \<and>
     serverView n' = serverView n"
proof -
  have paths: "''stores/'' @ ''S0'' @ ''/authorization-models?page_size=1'' = ''stores/S0/authorization-models?page_size=1''"
    "''stores/'' @ ''S1'' @ ''/authorization-models?page_size=1'' = ''stores/S1/authorization-models?page_size=1''"
    by simp_all
  from assms(2) consider "s = oldStore" | "s = ownStore n"
    by (auto simp: serverView_def split: if_splits)
  then show ?thesis
  proof cases
    case 1
    show ?thesis
      unfolding 1 fga_store.select_convs paths do_request_server server_answers server_fields readModels_doc fst_conv snd_conv
      using assms(1) by (simp add: success_200 readModels_doc)
  next
    case 2
    show ?thesis
      unfolding 2 fga_store.select_convs paths do_request_server server_answers server_fields readModels_doc fst_conv snd_conv
      using assms(1) by (simp add: success_200 serverModels_def readModels_doc)
  qed
qed

lemma server_writes:
  assumes "s \<in> set (serverView n)" and "live (asStore serverRequest) s"
    and "\<not> authzModelMatches (latest s) (authzModelJSON (asTypes serverRequest))" and "n \<le> 4"
  shows "\<exists>status body n'. do_request serverProxy MethodPost ''openfga'' ''openfga'' 8080
       (''stores/'' @ fsID s @ ''/authorization-models'') k payload n = Some (Inr (status, body), n') \<and>
     isSuccess status \<and> n' \<le> 4 \<and>
     serverView n' = pushModel (fsID s) (authzModelJSON (asTypes serverRequest)) (serverView n)"
proof -
  have "s = ownStore n" "n \<noteq> 0" using assms(1,2) by (auto simp: serverView_def live_def split: if_splits)
  moreover have "n = 1 \<or> n = 3"
    using assms(3,4) \<open>n \<noteq> 0\<close> by (auto simp: \<open>s = ownStore n\<close> server_matches)
  moreover have "authzModelJSON (asTypes serverRequest) = newModel"
    by (simp add: serverRequest_def newModel_def)
  ultimately show ?thesis
    by (auto simp: do_request_server server_posts success_200 serverView_def serverModels_def pushModel_def
        simp del: append.simps)
qed

lemma server_keeps_contract:
  "serves_stores (\<lambda>n. n \<le> 4) serverView serverProxy ''openfga'' ''openfga'' 8080 k serverRequest"
  unfolding serves_stores_def
proof (intro conjI allI impI ballI)
  fix n :: nat
  show "\<exists>pages. pagesFrom serverProxy ''openfga'' ''openfga'' 8080 k [] pages n \<and>
      concat (map fst pages) = map listed (serverView n)"
    by (intro exI conjI) (rule server_pages, simp add: serverView_alt)
qed (rule server_proper server_listing_keeps server_creates server_reads server_writes; assumption)+

theorem EnsureAuthzStore_refines_witness:
  "\<exists>i n. EnsureAuthzStore serverProxy ''openfga'' ''openfga'' 8080 ''key'' serverRequest 3 = Some (Inr i, n) \<and>
     settledStore serverRequest i (serverView n)"
  using EnsureAuthzStore_refines [OF server_keeps_contract, of 3 "''key''"] by auto

end
