(* ===== verification/CopyScenario.thy ===== *)
theory CopyScenario
  imports CopiesApart
begin

text \<open>
  A heap with a platform, two of whose fields share a cell, and libraries that copy deeply; the theorem on
  deep copies is applied to them.
\<close>

section \<open>Libraries\<close>

text \<open>
  Resources are a pointer to a map of limits, and the metadata is a name and a pointer to the generation;
  the other structs have no pointers.
\<close>

fun libPtr :: "lib_struct \<Rightarrow> addr option" where
  "libPtr (Lib s []) = None"
| "libPtr (Lib s (a # as)) = Some a"

fun libText :: "lib_struct \<Rightarrow> string" where
  "libText (Lib s as) = s"

definition libStruct :: "string \<Rightarrow> addr option \<Rightarrow> lib_struct" where
  "libStruct s p = Lib s (case p of None \<Rightarrow> [] | Some a \<Rightarrow> [a])"

lemma libStruct_sel [simp]: "libPtr (libStruct s p) = p" "libText (libStruct s p) = s"
  by (auto simp: libStruct_def split: option.split)

definition resourcesAt :: "(cell, lib_struct, resource_requirements) reader" where
  "resourcesAt m l = do { limits \<leftarrow> readMap m (libPtr l); Some \<lparr>rrLimits = limits, rrRequests = fmempty\<rparr> }"

definition resourcesCopy :: "lib_struct copying" where
  "resourcesCopy l = bindE (copyMap (libPtr l)) (\<lambda>p. ret (libStruct (libText l) p))"

definition metaAt :: "(cell, lib_struct, string \<times> int) reader" where
  "metaAt m l = do { g \<leftarrow> readPtr intK readPlain m (libPtr l); Some (libText l, case g of None \<Rightarrow> 0 | Some n \<Rightarrow> n) }"

definition metaCopy :: "lib_struct copying" where
  "metaCopy l = bindE (copyPtr intK ret (libPtr l)) (\<lambda>p. ret (libStruct (libText l) p))"

definition sampleLibrary :: library where
  "sampleLibrary = \<lparr>
     readResources = resourcesAt, copyResources = resourcesCopy,
     readEnvVar = \<lambda>m l. Some (envValue (libText l) []), copyEnvVar = ret,
     readCondition = \<lambda>m l. Some \<lparr>cdType = libText l, cdStatus = ConditionTrue, cdReason = [], cdMessage = [],
       cdObservedGeneration = 0\<rparr>, copyCondition = ret,
     readObjectMeta = metaAt, copyObjectMeta = metaCopy,
     readListMeta = \<lambda>m l. Some (libText l), copyListMeta = ret\<rparr>"

lemma copies_resources: "copies resourcesAt resourcesCopy"
proof (rule grows_copiesI)
  show "steady resourcesAt" unfolding resourcesAt_def [abs_def] by (intro steady_intro)
qed (clarsimp simp: resourcesAt_def resourcesCopy_def bind_eq_Some_conv,
    (rule copy_steps copies_intro | assumption)+, rule grows_ret, simp)

lemma copies_meta: "copies metaAt metaCopy"
proof (rule grows_copiesI)
  show "steady metaAt" unfolding metaAt_def [abs_def] by (intro steady_intro)
qed (clarsimp simp: metaAt_def metaCopy_def bind_eq_Some_conv,
    (rule copy_steps copies_intro | assumption)+, rule grows_ret, simp)

lemma copies_fixed: "copies (\<lambda>m l. Some (f l)) ret"
  by (rule grows_copiesI [OF steady_Some], rule grows_ret) simp

lemma sampleLibrary_ok: "library_ok sampleLibrary"
  by (simp add: library_ok_def sampleLibrary_def copies_resources copies_meta copies_fixed)

section \<open>A platform in memory\<close>

abbreviation noResources :: lib_struct where
  "noResources \<equiv> Lib [] []"

definition postgresInMemory :: postgres_struct where
  "postgresInMemory = \<lparr>mpgEmbedded = Some 1, mpgImage = [], mpgStorageSize = [], mpgHost = [], mpgPort = 0,
     mpgDatabase = [], mpgSSLMode = [], mpgCredentialsSecretRef = None\<rparr>"

definition specInMemory :: platform_spec_struct where
  "specInMemory = \<lparr>
     mspStorage = \<lparr>mstEmbedded = Some 1,
       mstMinio = \<lparr>mmiNamespace = [], mmiImage = [], mmiMcImage = [], mmiStorageSize = [], mmiBucket = [],
         mmiResources = Lib [] [3]\<rparr>, mstS3 = None\<rparr>,
     mspAuth = \<lparr>mauEnabled = Some 1, mauEmbedded = None,
       mauKeycloak = \<lparr>mkcNamespace = [], mkcImage = [], mkcRealm = [], mkcPublicURL = [],
         mkcResources = noResources\<rparr>, mauOIDC = None\<rparr>,
     mspAuthz = \<lparr>mazEnabled = None, mazEmbedded = None,
       mazOpenFGA = \<lparr>mofNamespace = [], mofImage = [], mofOPAImage = [], mofStore = [], mofRowFilterStore = [],
         mofPostgres = postgresInMemory, mofResources = noResources\<rparr>,
       mazRowFilters = Some 4, mazColumnAccess = None\<rparr>,
     mspLakekeeper = \<lparr>mlkEnabled = None, mlkNamespace = [], mlkImage = [], mlkReplicas = None,
       mlkResources = noResources, mlkExtraEnv = None, mlkPublicURL = [], mlkPostgres = postgresInMemory,
       mlkWarehouse = \<lparr>whName = [], whKeyPrefix = []\<rparr>\<rparr>,
     mspTrino = \<lparr>mtrEnabled = None, mtrNamespace = [], mtrImage = [], mtrWorkers = Some 2,
       mtrCoordinator = \<lparr>mtcResources = noResources\<rparr>, mtrExtraConfig = Some 3, mtrExtraCatalogs = None,
       mtrExtraEnv = None, mtrPublicURL = [], mtrResources = noResources, mtrService = \<lparr>seType = []\<rparr>\<rparr>\<rparr>"

definition platformInMemory :: platform_struct where
  "platformInMemory = \<lparr>mdpTypeMeta = (''DataPlatform'', ''v1alpha1''), mdpObjectMeta = Lib ''lake'' [2],
     mdpSpec = specInMemory,
     mdpStatus = \<lparr>mdsConditions = Some 5, mdsMinioEndpoint = [], mdsLakekeeperEndpoint = [],
       mdsTrinoEndpoint = [], mdsKeycloakEndpoint = [], mdsOpenFGAEndpoint = [], mdsRowFilterStoreID = []\<rparr>\<rparr>"

definition filterInMemory :: row_filter_struct where
  "filterInMemory = \<lparr>mrfCatalog = [], mrfSchema = ''s'', mrfTable = ''t'', mrfColumn = ''c'',
     mrfOpenFGA = \<lparr>rfsType = ''region'', rfsRelation = []\<rparr>, mrfNumeric = Some 1\<rparr>"

definition sampleHeap :: "cell heap" where
  "sampleHeap = [PlatformCell platformInMemory, BoolCell True, IntCell 2,
     MapCell (fmupd ''memory'' ''1Gi'' fmempty), RowsCell [filterInMemory], ConditionsCell [Lib ''up'' []]]"

lemma sampleHeap_cells:
  "look sampleHeap 0 = Some (PlatformCell platformInMemory)" "look sampleHeap (Suc 0) = Some (BoolCell True)"
  "look sampleHeap 2 = Some (IntCell 2)" "look sampleHeap 3 = Some (MapCell (fmupd ''memory'' ''1Gi'' fmempty))"
  "look sampleHeap 4 = Some (RowsCell [filterInMemory])" "look sampleHeap 5 = Some (ConditionsCell [Lib ''up'' []])"
  by (simp_all add: look_def sampleHeap_def)

text \<open>What each pointer of the sample reads as.\<close>

lemma sample_pointers:
  "readPtr k rd m None = Some None" "readMap m None = Some fmempty" "readSlice sk rd m None = Some []"
  "readPtr boolK readPlain (look sampleHeap) (Some (Suc 0)) = Some (Some True)"
  "readPtr intK readPlain (look sampleHeap) (Some 2) = Some (Some 2)"
  "readMap (look sampleHeap) (Some 3) = Some (fmupd ''memory'' ''1Gi'' fmempty)"
  "readSlice conditionsK (readCondition sampleLibrary) (look sampleHeap) (Some 5) =
     Some [\<lparr>cdType = ''up'', cdStatus = ConditionTrue, cdReason = [], cdMessage = [], cdObservedGeneration = 0\<rparr>]"
  by (simp_all add: readMap_def readSlice_def readPtr_def sampleHeap_cells kind_defs kindOf_def readPlain_def
      sampleLibrary_def)

lemma sample_filters:
  "readSlice rowsK readRowFilter (look sampleHeap) (Some 4) = Some [\<lparr>rfCatalog = [], rfSchema = ''s'',
     rfTable = ''t'', rfColumn = ''c'', rfOpenFGA = \<lparr>rfsType = ''region'', rfsRelation = []\<rparr>, rfNumeric = Some True\<rparr>]"
proof -
  have "readRowFilter (look sampleHeap) filterInMemory = Some \<lparr>rfCatalog = [], rfSchema = ''s'',
      rfTable = ''t'', rfColumn = ''c'', rfOpenFGA = \<lparr>rfsType = ''region'', rfsRelation = []\<rparr>, rfNumeric = Some True\<rparr>"
    by (simp add: readRowFilter_def filterInMemory_def sample_pointers)
  then show ?thesis
    by (simp add: readSlice_def readPtr_def sampleHeap_cells kind_defs kindOf_def)
qed

lemma sample_library:
  "readResources sampleLibrary = resourcesAt" "readObjectMeta sampleLibrary = metaAt"
  by (simp_all add: sampleLibrary_def)

lemma sample_postgres: "\<exists>v. readPostgres (look sampleHeap) postgresInMemory = Some v"
  by (simp add: readPostgres_def postgresInMemory_def sample_pointers)

lemma sample_spec: "\<exists>v. readPlatformSpec sampleLibrary (look sampleHeap) specInMemory = Some v"
proof -
  obtain v where "readPostgres (look sampleHeap) postgresInMemory = Some v" using sample_postgres by blast
  then show ?thesis
    by (simp add: readPlatformSpec_def specInMemory_def readStorage_def readMinio_def readAuth_def readKeycloak_def
        readAuthz_def readOpenFGA_def readLakekeeper_def readTrino_def readCoordinator_def sample_library
        resourcesAt_def sample_pointers sample_filters)
qed

lemma samplePlatform_reads:
  "\<exists>v. readPtr platformK (readPlatform sampleLibrary) (look sampleHeap) (Some 0) = Some (Some v)"
proof -
  obtain spec where "readPlatformSpec sampleLibrary (look sampleHeap) specInMemory = Some spec"
    using sample_spec by blast
  then have "\<exists>v. readPlatform sampleLibrary (look sampleHeap) platformInMemory = Some v"
    by (simp add: readPlatform_def platformInMemory_def readPlatformStatus_def sample_library metaAt_def
        sample_pointers)
  then show ?thesis
    by (auto simp: readPtr_def sampleHeap_cells kind_defs kindOf_def)
qed

text \<open>The sample's copy still reads when its original's memory is gone.\<close>

theorem DataPlatform_copies_apart_witness:
  "\<exists>v q h'. DataPlatform_DeepCopyObject sampleLibrary (Some 0) sampleHeap = Some (Inr q, h') \<and>
     readPtr platformK (readPlatform sampleLibrary) (\<lambda>a. if a < 6 then None else look h' a) q = Some (Some v)"
proof -
  have "dom (look sampleHeap) = {..<6}" by (simp add: dom_look sampleHeap_def)
  moreover obtain v where "readPtr platformK (readPlatform sampleLibrary) (look sampleHeap) (Some 0) = Some (Some v)"
    using samplePlatform_reads by blast
  ultimately show ?thesis
    using DataPlatform_copies_apart [OF sampleLibrary_ok, of sampleHeap "Some 0" "Some v"] by fastforce
qed

end
