(* ===== verification/Spec2Isabelle.thy ===== *)
theory Spec2Isabelle
  imports Prelude GoStd Json KubeTypes ApiTypes Client Apply Component Catalog AuthzStore Postgres Minio Oidc
    OpenFGA Keycloak Opa Lakekeeper Warehouse Trino Controller Contracts Effects Secrets Workloads Pods History
    Refine Live Decode JsonRead Manager StoreServer GoHeap DeepCopy CopiesApart
    Memory Witnesses Scenarios StoreScenario CopyScenario
begin

text \<open>
  The data platform operator, a Kubernetes operator in Go that reconciles one cluster-scoped
  \<open>DataPlatform\<close> into an Iceberg lakehouse: MinIO or S3, Postgres, Keycloak or another OIDC issuer,
  OpenFGA with an OPA bridge, LakeKeeper with its warehouse, and Trino. This development models the
  operator's own Go code, api/v1alpha1, internal/controller and cmd/main.go, function by function, and
  proves what makes it correct.

  How the program is put together. \<open>main\<close> (cmd/main.go) parses the command line, builds a manager with its
  servers' options, registers the controller and the probes, and starts it; the manager then calls
  \<open>Reconcile\<close> for every change. \<open>Reconcile\<close> (dataplatform\_controller.go) reads the platform, runs
  \<open>reconcile\<close>, and writes the status back. \<open>reconcile\<close> runs two stacks: LakeKeeper's (Postgres, object
  store, authentication, authorization, LakeKeeper, warehouse) and Trino's (OPA, Trino). Each component
  has a reconciler that makes sure of its Secrets, applies its objects through \<open>apply\<close>, reads whether
  its workload is ready, and sets one condition of the status. Later components take what earlier ones
  return: connection, object store, OIDC and OpenFGA configuration. The warehouse and the access store
  talk HTTP to LakeKeeper and OpenFGA through the \<open>CatalogClient\<close> interface.

  How Go is modelled (theory Prelude). A function with effects has type \<open>('s, 'a) go\<close>: from a state it
  gives \<open>None\<close> if it does not return, or the new state with the error it returned or its value. The
  state of a reconciler is a pair of the outside world, an opaque type \<open>'w\<close>, and the status under
  construction; helpers of catalog.go have the world alone. Every early return is a branch. Strings are
  lists of bytes; maps with string keys are finite maps; where Go ranges over a map without sorting, the
  order is asked of the environment. Integers are only compared, printed and passed on, never computed
  with, so \<open>int32\<close> is \<^typ>\<open>int\<close>.

  What is a parameter (theory Client, record \<open>proxy\<close> of theory Catalog): the Kubernetes client with
  \<open>CreateOrUpdate\<close>, owner references and conditions of the API machinery, quantities, SHA-256, RSA, X.509
  and UUIDs, the clock and randomness, HTTP and port-forwarding, decoding of JSON answers, the embedded
  policy files. A theorem that relies on one says so by a named contract (\<open>conditions_ok\<close>,
  \<open>get_secret_ok\<close>, \<open>create_secret_ok\<close>, \<open>cou_secret_ok\<close>, \<open>get_job_ok\<close>, \<open>forwards_ok\<close>, \<open>client_keeps\<close>,
  \<open>store_keeps\<close>, \<open>host_keeps\<close>, \<open>calls_return\<close>, \<open>cluster_ok\<close>,
  \<open>owner_ok\<close>, \<open>serves_stores\<close>, \<open>library_ok\<close>), which states what the library or server documents; that
  a platform becomes ready rests on \<open>healthy\<close>, which says that the calls succeed and what they find. The theory
  Memory has an environment that keeps them, StoreScenario an OpenFGA server, CopyScenario a heap; the theories Witnesses and
  Scenarios apply each theorem with hypotheses to that environment or a variant of it.

  Where to find what:
  \<^item> Prelude: errors, effects, triples with two postconditions (\<open>hoare\<close>), invariants (\<open>keeps\<close>), return
    (\<open>returns\<close>), and their rule collections. GoStd: strings, strconv, hex, base64, url, path, slices.
    Json: documents and \<open>json.Marshal\<close>.
  \<^item> KubeTypes: the API objects' fields that the code reads or writes. ApiTypes: dataplatform\_types.go
    and defaults.go. Client: the external interfaces.
  \<^item> Apply: apply.go and namespace.go. Component: the locales \<open>component\<close> and \<open>gated_component\<close>, the
    contract of a component reconciler with the loop, and \<open>mutation\<close>, the contract of what is given to
    \<open>apply\<close>; every component below interprets them on its own functions.
  \<^item> Catalog and AuthzStore: catalog.go and authzstore.go, with the locale \<open>catalog_contract\<close> of the
    interface, interpreted on the model of its implementation.
  \<^item> Postgres, Minio, Oidc, Keycloak, OpenFGA, Opa, Lakekeeper, Warehouse, Trino: the file of the same
    name. A function whose argument to \<open>apply\<close> is a closure is split: \<open>mutateX\<close> is the closure, pure,
    and \<open>applyX\<close> the call. \<open>initStatefulSet\<close> and \<open>initDeployment\<close> are the block under
    \<open>CreationTimestamp.IsZero()\<close> that every workload's closure has, and \<open>stage\<close> is the statement
    that records an error in a condition and returns it.
  \<^item> Controller: dataplatform\_controller.go. Contracts, Effects, Secrets, Workloads: properties of the
    whole, on errors and conditions, on effects and return, on stored Secrets, and on the applied objects.
  \<^item> Refine: an abstract machine over the map of conditions, \<open>spec_reconcile\<close>, and the simulation by which
    \<open>reconcile\<close> refines it. Live: rules of total correctness, the settled platform (\<open>healthy\<close>,
    \<open>embedded\<close>), and that it becomes ready. History: histories of reconciles and acts of others as a step
    relation, and the invariant that stored credentials keep their value. Pods: well-formed workloads, and
    the Secret keys that pods refer to.
  \<^item> StoreServer: OpenFGA as a list of stores with their models, and the refinement by which
    \<open>EnsureAuthzStore\<close>, with its requests and pages, is one operation on that list.
  \<^item> Decode and JsonRead: readers for query strings, URLs and JSON, written from the standards, in which
    what the operator writes is read back. A reader is part of the statement of a round trip, not of the
    program.
  \<^item> GoHeap, DeepCopy, CopiesApart: zz\_generated.deepcopy.go over an explicit heap. The API types are given
    as memory has them, a reader says for which value of ApiTypes a struct stands, and \<open>copies\<close> is that a
    copy reads the same in new cells alone. Elsewhere pointers are options and slices lists, which is
    right as long as nothing is shared; this is the part of the program that sees to it.
  \<^item> Manager: cmd/main.go, \<open>SetupWithManager\<close> and \<open>NewProxyCatalogClient\<close>. A process is a function of the
    world to an exit status; \<open>parseFlags\<close> is the flag package on \<open>main\<close>'s flags, and the flags that
    libraries register are a parameter.

  What the theorems show. The Ready condition is exact, no component fails silently or overwrites
  another's condition, and the loop as a whole is a run of a small machine over conditions. A platform
  that is up becomes ready in one reconcile from any status. The management API is not touched before
  the platform beneath it is ready. No stored credential is ever replaced, whatever the history; pods are
  well formed and confined, the Secret keys they refer to are there, immutable fields are left alone, and
  every Service reaches its own workload at ports it has. The search for an OpenFGA store finds what its
  pages hold, and a model is rewritten only when it differs; ensuring a store leaves every other store
  alone and is idempotent. Requests leave no port-forward behind. What
  is written in JSON, as a form or as properties reads back as it was meant. Reconciling returns whenever
  the calls it makes do. The manager is started only when complete, with hardened servers unless the
  command line says otherwise. A copied platform shares no memory with its original. Some theorems state where the code falls short of what it means to do: the
  order of a map range in the hash of Trino's catalogs, an OpenFGA configuration without an OPA, a stale
  authentication condition, a Secret that is overwritten, a Job's pod behind the MinIO Service
  (\<open>bucket_job_behind_service\<close>), a password with a space in the datastore URI, and a paged search that a
  server can keep going for ever.

  Loops. All are recursions over lists, except the search over pages, \<open>findAuthzStoreFrom\<close>, which is a
  partial function: \<open>None\<close> is that it does not return. The only fuel is that of the JSON reader, the length
  of its input, which \<open>marshal_roundtrip\<close> shows to be enough for every document.

  Not modelled: validation markers, scheme registration, logging and zap's options, contexts and their
  cancellation other than in the wait for a port-forward, fields of API objects that the code neither reads nor writes, and the Rego policies
  and manifests, which the operator handles as text.
\<close>

end
